(* ===== verification/Prelude.thy ===== *)
theory Prelude
  imports Main "HOL-Library.Char_ord" "HOL-Library.List_Lexorder" "HOL-Library.Product_Lexorder"
begin

text \<open>
  Shared vocabulary of the development: the fact collections the component theories fill, the
  shape of effectful Go code (a function of the world that returns a result and the next world),
  and generic lemmas on lists and maps that several components use.
\<close>

named_theorems go_defs \<open>definitions of Go helper functions, unfolded by evaluation proofs\<close>
named_theorems call_simps \<open>what a call does to the recorded trace\<close>

section \<open>Effects\<close>

text \<open>
  A Go function that talks to the outside (the Kubernetes API, the cloud) takes the world and
  returns its result with the next world. \<open>'w\<close> is never inspected by the model: every theorem
  quantifies over it and over the functions that act on it, unless it names a contract.
  A Go result \<open>(T, error)\<close> is a sum whose left side is the error; a Go result \<open>error\<close> is an option.
\<close>

type_synonym ('w, 'a) io = "'w \<Rightarrow> 'a \<times> 'w"
type_synonym ('e, 'a) result = "'e + 'a"

section \<open>Lists\<close>

definition dropWhileEnd :: "('a \<Rightarrow> bool) \<Rightarrow> 'a list \<Rightarrow> 'a list" where
  [go_defs]: "dropWhileEnd P xs = rev (dropWhile P (rev xs))"

definition trimBoth :: "('a \<Rightarrow> bool) \<Rightarrow> 'a list \<Rightarrow> 'a list" where
  [go_defs]: "trimBoth P xs = dropWhileEnd P (dropWhile P xs)"

lemma set_dropWhileEnd_subset: "set (dropWhileEnd P xs) \<subseteq> set xs"
  using set_dropWhileD[of _ P "rev xs"] by (auto simp: dropWhileEnd_def)

lemma set_trimBoth_subset: "set (trimBoth P xs) \<subseteq> set xs"
  using set_dropWhileEnd_subset[of P "dropWhile P xs"] set_dropWhileD[of _ P xs]
  by (auto simp: trimBoth_def)

lemma length_dropWhileEnd_le: "length (dropWhileEnd P xs) \<le> length xs"
  using length_dropWhile_le[of P "rev xs"] by (simp add: dropWhileEnd_def)

lemma dropWhileEnd_last: "dropWhileEnd P xs \<noteq> [] \<Longrightarrow> \<not> P (last (dropWhileEnd P xs))"
  using hd_dropWhile[of P "rev xs"] by (auto simp: dropWhileEnd_def last_rev)

lemma dropWhileEnd_id: "xs \<noteq> [] \<Longrightarrow> \<not> P (last xs) \<Longrightarrow> dropWhileEnd P xs = xs"
  by (cases xs rule: rev_cases) (auto simp: dropWhileEnd_def)

lemma dropWhileEnd_prefix: "\<exists>zs. xs = dropWhileEnd P xs @ zs \<and> (\<forall>z\<in>set zs. P z)"
proof -
  have "rev xs = takeWhile P (rev xs) @ dropWhile P (rev xs)" by simp
  then have "xs = rev (dropWhile P (rev xs)) @ rev (takeWhile P (rev xs))"
    by (metis rev_append rev_rev_ident)
  moreover have "\<forall>z\<in>set (rev (takeWhile P (rev xs))). P z"
    by (auto dest: set_takeWhileD)
  ultimately show ?thesis unfolding dropWhileEnd_def by blast
qed

lemma dropWhileEnd_hd: "dropWhileEnd P xs \<noteq> [] \<Longrightarrow> hd (dropWhileEnd P xs) = hd xs"
proof -
  assume ne: "dropWhileEnd P xs \<noteq> []"
  obtain zs where "xs = dropWhileEnd P xs @ zs" using dropWhileEnd_prefix[of xs P] by blast
  then have "hd xs = hd (dropWhileEnd P xs @ zs)" by simp
  with ne show ?thesis by simp
qed

lemma dropWhileEnd_ne_iff: "dropWhileEnd P xs = [] \<longleftrightarrow> (\<forall>x\<in>set xs. P x)"
  by (auto simp: dropWhileEnd_def)

lemma trimBoth_hd: "trimBoth P xs \<noteq> [] \<Longrightarrow> \<not> P (hd (trimBoth P xs))"
proof -
  assume ne: "trimBoth P xs \<noteq> []"
  then have d: "dropWhile P xs \<noteq> []"
    unfolding trimBoth_def by (metis dropWhileEnd_ne_iff empty_iff list.set(1))
  have "hd (trimBoth P xs) = hd (dropWhile P xs)"
    using ne unfolding trimBoth_def by (rule dropWhileEnd_hd)
  with hd_dropWhile[OF d] show ?thesis by simp
qed

lemma trimBoth_last: "trimBoth P xs \<noteq> [] \<Longrightarrow> \<not> P (last (trimBoth P xs))"
  unfolding trimBoth_def by (rule dropWhileEnd_last)

lemma trimBoth_map: "trimBoth P (map f xs) = map f (trimBoth (P \<circ> f) xs)"
  by (simp add: trimBoth_def dropWhileEnd_def dropWhile_map rev_map)

lemma trimBoth_padded:
  assumes "\<forall>x\<in>set a \<union> set b. P x" and "q \<noteq> [] \<Longrightarrow> \<not> P (hd q) \<and> \<not> P (last q)"
  shows "trimBoth P (a @ q @ b) = q"
proof (cases q rule: rev_cases)
  case Nil
  then have "dropWhile P (a @ q @ b) = []"
    using assms(1) unfolding dropWhile_eq_Nil_conv by auto
  then show ?thesis unfolding trimBoth_def dropWhileEnd_def by (metis dropWhile.simps(1) rev.simps(1) Nil)
next
  case (snoc ys y)
  then have "q \<noteq> []" by simp
  then obtain x xs where q: "q = x # xs" by (meson neq_Nil_conv)
  have "dropWhile P (a @ q @ b) = dropWhile P (q @ b)"
    using assms(1) by (intro dropWhile_append2) simp
  moreover have "dropWhile P (q @ b) = q @ b" using assms(2) q by simp
  moreover have "dropWhile P (rev b @ rev q) = dropWhile P (rev q)"
    using assms(1) by (intro dropWhile_append2) simp
  moreover have "dropWhile P (rev q) = rev q" using assms(2) snoc by simp
  ultimately show ?thesis by (simp add: trimBoth_def dropWhileEnd_def)
qed

lemma first_split_unique:
  "a @ x # b = c @ x # d \<Longrightarrow> x \<notin> set a \<Longrightarrow> x \<notin> set c \<Longrightarrow> a = c \<and> b = d"
proof (induction a arbitrary: c)
  case Nil
  then show ?case by (cases c) auto
next
  case (Cons y a)
  then show ?case by (cases c) auto
qed

section \<open>Go maps\<close>

text \<open>Reading a missing key of a Go \<open>map[string]string\<close> gives the zero value, the empty string.\<close>

definition mget :: "(string \<rightharpoonup> string) \<Rightarrow> string \<Rightarrow> string" where
  [go_defs]: "mget m k = (case m k of None \<Rightarrow> '''' | Some v \<Rightarrow> v)"

lemma mget_upd [simp]: "mget (m(k \<mapsto> v)) k' = (if k' = k then v else mget m k')"
  by (simp add: mget_def)

lemma mget_empty [simp]: "mget Map.empty k = ''''"
  by (simp add: mget_def)

end
