(* ===== verification/GoStrings.thy ===== *)
theory GoStrings
  imports Prelude
begin

text \<open>
  The part of Go's \<open>strings\<close>, \<open>unicode/utf8\<close> and \<open>path/filepath\<close> packages the controller uses.
  A Go string is a sequence of bytes, here a \<open>string\<close> (a \<open>char\<close> is one byte); a rune is a code
  point. Ranging over a string decodes UTF-8 as Go does, an invalid byte giving U+FFFD. The case
  tables of package \<open>unicode\<close> beyond ASCII are arguments of the functions that consult them, so
  that nothing proved here depends on a Unicode version.
\<close>

type_synonym rune = int

section \<open>UTF-8\<close>

definition runeError :: rune where
  [go_defs]: "runeError = 65533"

definition isCont :: "char \<Rightarrow> bool" where
  [go_defs]: "isCont c = (128 \<le> (of_char c :: int) \<and> (of_char c :: int) \<le> 191)"

text \<open>
  The accepted range of the second byte depends on the first one: this excludes overlong
  encodings, surrogates and code points above U+10FFFF.
\<close>

definition acceptSecond :: "int \<Rightarrow> int \<Rightarrow> bool" where
  [go_defs]: "acceptSecond b0 b1 =
     ((if b0 = 224 then 160 else if b0 = 240 then 144 else 128) \<le> b1 \<and>
      b1 \<le> (if b0 = 237 then 159 else if b0 = 244 then 143 else 191))"

text \<open>
  \<open>utf8.DecodeRuneInString\<close>: the first rune of a string and the number of bytes it takes; an
  invalid encoding is U+FFFD of width 1.
\<close>

definition decodeRune :: "string \<Rightarrow> rune \<times> nat" where
  [go_defs]: "decodeRune s =
     (case s of [] \<Rightarrow> (runeError, 0) | c0 # cs \<Rightarrow>
      (let b0 = of_char c0 :: int in
      if b0 < 128 then (b0, 1)
      else if 194 \<le> b0 \<and> b0 \<le> 223 then
        (case cs of
           c1 # _ \<Rightarrow>
             if isCont c1 then ((b0 - 192) * 64 + (of_char c1 - 128), 2) else (runeError, 1)
         | _ \<Rightarrow> (runeError, 1))
      else if 224 \<le> b0 \<and> b0 \<le> 239 then
        (case cs of
           c1 # c2 # _ \<Rightarrow>
             if acceptSecond b0 (of_char c1) \<and> isCont c2
             then ((b0 - 224) * 4096 + (of_char c1 - 128) * 64 + (of_char c2 - 128), 3)
             else (runeError, 1)
         | _ \<Rightarrow> (runeError, 1))
      else if 240 \<le> b0 \<and> b0 \<le> 244 then
        (case cs of
           c1 # c2 # c3 # _ \<Rightarrow>
             if acceptSecond b0 (of_char c1) \<and> isCont c2 \<and> isCont c3
             then ((b0 - 240) * 262144 + (of_char c1 - 128) * 4096 + (of_char c2 - 128) * 64
                     + (of_char c3 - 128), 4)
             else (runeError, 1)
         | _ \<Rightarrow> (runeError, 1))
      else (runeError, 1)))"

text \<open>Ranging over a string: its runes, each with the bytes it was read from.\<close>

fun utf8_chunks :: "string \<Rightarrow> (rune \<times> string) list" where
  "utf8_chunks [] = []"
| "utf8_chunks (c # cs) =
     (case decodeRune (c # cs) of (r, w) \<Rightarrow>
        (r, c # take (w - 1) cs) # utf8_chunks (drop (w - 1) cs))"

definition utf8_decode :: "string \<Rightarrow> rune list" where
  [go_defs]: "utf8_decode s = map fst (utf8_chunks s)"

definition validRune :: "rune \<Rightarrow> bool" where
  [go_defs]: "validRune r = (0 \<le> r \<and> r < 55296 \<or> 57343 < r \<and> r \<le> 1114111)"

definition utf8_encode_rune :: "rune \<Rightarrow> string" where
  [go_defs]: "utf8_encode_rune r0 =
     (let r = (if validRune r0 then r0 else runeError) in
      if r < 128 then [char_of r]
      else if r < 2048 then [char_of (192 + r div 64), char_of (128 + r mod 64)]
      else if r < 65536 then
        [char_of (224 + r div 4096), char_of (128 + r div 64 mod 64), char_of (128 + r mod 64)]
      else
        [char_of (240 + r div 262144), char_of (128 + r div 4096 mod 64),
         char_of (128 + r div 64 mod 64), char_of (128 + r mod 64)])"

definition utf8_encode :: "rune list \<Rightarrow> string" where
  [go_defs]: "utf8_encode rs = concat (map utf8_encode_rune rs)"

abbreviation asciiString :: "string \<Rightarrow> bool" where
  "asciiString s \<equiv> (\<forall>c\<in>set s. (of_char c :: int) < 128)"

lemma decodeRune_ascii [simp]:
  "(of_char c :: int) < 128 \<Longrightarrow> decodeRune (c # cs) = (of_char c, 1)"
  by (simp add: decodeRune_def)

lemma utf8_chunks_ascii: "asciiString s \<Longrightarrow> utf8_chunks s = map (\<lambda>c. (of_char c, [c])) s"
  by (induction s) auto

lemma utf8_decode_ascii: "asciiString s \<Longrightarrow> utf8_decode s = map of_char s"
  by (simp add: utf8_decode_def utf8_chunks_ascii)

lemma utf8_encode_ascii: "\<forall>r\<in>set rs. 0 \<le> r \<and> r < 128 \<Longrightarrow> utf8_encode rs = map char_of rs"
  by (induction rs) (auto simp: utf8_encode_def utf8_encode_rune_def validRune_def)

text \<open>The bytes of the chunks are the bytes of the string: decoding loses no input.\<close>

lemma utf8_chunks_bytes: "concat (map snd (utf8_chunks s)) = s"
  by (induction s rule: utf8_chunks.induct) (auto split: prod.split)

section \<open>Package strings\<close>

text \<open>\<open>unicode.ToLower\<close>: ASCII by arithmetic, every other rune by the table \<open>tab\<close>.\<close>

definition unicode_ToLower :: "(rune \<Rightarrow> rune) \<Rightarrow> rune \<Rightarrow> rune" where
  [go_defs]: "unicode_ToLower tab r =
     (if r < 128 then (if 65 \<le> r \<and> r \<le> 90 then r + 32 else r) else tab r)"

definition strings_Map :: "(rune \<Rightarrow> rune) \<Rightarrow> string \<Rightarrow> string" where
  [go_defs]: "strings_Map f s = utf8_encode (map f (utf8_decode s))"

definition ToLower :: "(rune \<Rightarrow> rune) \<Rightarrow> string \<Rightarrow> string" where
  [go_defs]: "ToLower tab s = strings_Map (unicode_ToLower tab) s"

definition Trim :: "string \<Rightarrow> char \<Rightarrow> string" where
  [go_defs]: "Trim s c = trimBoth (\<lambda>x. x = c) s"

definition TrimRight :: "string \<Rightarrow> char \<Rightarrow> string" where
  [go_defs]: "TrimRight s c = dropWhileEnd (\<lambda>x. x = c) s"

text \<open>
  The slice expression \<open>s[:n]\<close> of a string: \<open>None\<close> is the run-time panic of a bound that is
  negative or beyond the length of the string.
\<close>

definition sliceTo :: "string \<Rightarrow> int \<Rightarrow> string option" where
  "sliceTo s n = (if 0 \<le> n \<and> n \<le> int (length s) then Some (take (nat n) s) else None)"

text \<open>\<open>unicode.IsSpace\<close>: the runes with Unicode's White_Space property.\<close>

definition IsSpace :: "rune \<Rightarrow> bool" where
  [go_defs]: "IsSpace r =
     (9 \<le> r \<and> r \<le> 13 \<or> r = 32 \<or> r = 133 \<or> r = 160 \<or> r = 5760 \<or> 8192 \<le> r \<and> r \<le> 8202
      \<or> r = 8232 \<or> r = 8233 \<or> r = 8239 \<or> r = 8287 \<or> r = 12288)"

definition TrimSpace :: "string \<Rightarrow> string" where
  [go_defs]: "TrimSpace s = concat (map snd (trimBoth (\<lambda>(r, _). IsSpace r) (utf8_chunks s)))"

text \<open>\<open>strings.Split\<close> and \<open>strings.SplitN(_, _, 2)\<close> with a one-byte separator.\<close>

fun Split :: "string \<Rightarrow> char \<Rightarrow> string list" where
  "Split [] sep = [[]]"
| "Split (c # cs) sep =
     (if c = sep then [] # Split cs sep
      else (case Split cs sep of [] \<Rightarrow> [[c]] | p # ps \<Rightarrow> (c # p) # ps))"

definition SplitN2 :: "string \<Rightarrow> char \<Rightarrow> string list" where
  [go_defs]: "SplitN2 s sep =
     (if sep \<in> set s then [takeWhile (\<lambda>c. c \<noteq> sep) s, tl (dropWhile (\<lambda>c. c \<noteq> sep) s)] else [s])"

fun Join :: "string list \<Rightarrow> string \<Rightarrow> string" where
  "Join [] sep = []"
| "Join [p] sep = p"
| "Join (p # q # ps) sep = p @ sep @ Join (q # ps) sep"

fun HasPrefix :: "string \<Rightarrow> string \<Rightarrow> bool" where
  "HasPrefix s [] = True"
| "HasPrefix [] (p # ps) = False"
| "HasPrefix (c # cs) (p # ps) = (c = p \<and> HasPrefix cs ps)"

text \<open>\<open>strings.ReplaceAll(s, "-", "")\<close>-style deletion of every occurrence of a byte.\<close>

definition ReplaceAllDel :: "string \<Rightarrow> char \<Rightarrow> string" where
  [go_defs]: "ReplaceAllDel s c = filter (\<lambda>x. x \<noteq> c) s"

text \<open>
  \<open>strings.EqualFold\<close>: rune by rune, equal up to simple case folding. The folding orbits that
  hold an ASCII rune are the letter pairs and the orbits of k (with U+212A) and s (with U+017F);
  orbits of other runes are those of the table \<open>orbit\<close>.
\<close>

definition asciiFold :: "rune \<Rightarrow> rune" where
  [go_defs]: "asciiFold r =
     (if 65 \<le> r \<and> r \<le> 90 then r + 32 else if r = 8490 then 107 else if r = 383 then 115 else r)"

definition foldEq :: "(rune \<Rightarrow> rune \<Rightarrow> bool) \<Rightarrow> rune \<Rightarrow> rune \<Rightarrow> bool" where
  [go_defs]: "foldEq orbit a b =
     (asciiFold a = asciiFold b \<or> 128 \<le> asciiFold a \<and> 128 \<le> asciiFold b \<and> orbit a b)"

definition EqualFold :: "(rune \<Rightarrow> rune \<Rightarrow> bool) \<Rightarrow> string \<Rightarrow> string \<Rightarrow> bool" where
  [go_defs]: "EqualFold orbit s t = list_all2 (foldEq orbit) (utf8_decode s) (utf8_decode t)"

lemma EqualFold_refl [simp]: "EqualFold orbit s s"
  by (simp add: EqualFold_def list_all2_same foldEq_def)

lemma HasPrefix_iff: "HasPrefix s p \<longleftrightarrow> (\<exists>t. s = p @ t)"
  by (induction s p rule: HasPrefix.induct) auto

lemma Split_not_Nil [simp]: "Split s sep \<noteq> []"
  by (cases s) (auto split: list.splits)

lemma Join_Cons: "ps \<noteq> [] \<Longrightarrow> Join (p # ps) sep = p @ sep @ Join ps sep"
  by (cases ps) auto

lemma Join_Split: "Join (Split s sep) [sep] = s"
proof (induction s sep rule: Split.induct)
  case (2 c cs sep)
  then show ?case
    by (cases "Split cs sep"; cases "tl (Split cs sep)") (auto simp: Join_Cons)
qed simp

lemma Split_no_sep: "p \<in> set (Split s sep) \<Longrightarrow> sep \<notin> set p"
proof (induction s sep arbitrary: p rule: Split.induct)
  case (2 c cs sep)
  then show ?case by (cases "Split cs sep") (auto split: if_splits)
qed simp

lemma Split_single: "sep \<notin> set p \<Longrightarrow> Split p sep = [p]"
  by (induction p) auto

lemma Split_append_sep: "sep \<notin> set p \<Longrightarrow> Split (p @ sep # s) sep = p # Split s sep"
  by (induction p) auto

lemma Split_Join:
  "ps \<noteq> [] \<Longrightarrow> \<forall>p\<in>set ps. sep \<notin> set p \<Longrightarrow> Split (Join ps [sep]) sep = ps"
proof (induction ps)
  case (Cons p ps)
  then show ?case
    by (cases ps) (auto simp: Split_single Split_append_sep)
qed simp

lemma TrimSpace_ascii:
  "asciiString s \<Longrightarrow> TrimSpace s = trimBoth (\<lambda>c. IsSpace (of_char c)) s"
  by (simp add: TrimSpace_def utf8_chunks_ascii trimBoth_map o_def)

text \<open>White space around an ASCII string that has none at its ends is removed, and nothing else.\<close>

lemma whitespace_IsSpace:
  "c \<in> {CHR '' '', CHR 0x09, CHR 0x0A, CHR 0x0D} \<Longrightarrow> IsSpace (of_char c) \<and> (of_char c :: int) < 128"
  by (auto simp: IsSpace_def)

lemma TrimSpace_padded:
  assumes "set a \<union> set b \<subseteq> {CHR '' '', CHR 0x09, CHR 0x0A, CHR 0x0D}" and "asciiString q"
    and "q \<noteq> '''' \<longrightarrow> \<not> IsSpace (of_char (hd q)) \<and> \<not> IsSpace (of_char (last q))"
  shows "TrimSpace (a @ q @ b) = q"
proof -
  let ?P = "\<lambda>c. IsSpace (of_char c)"
  have ab: "\<forall>c\<in>set a \<union> set b. ?P c \<and> (of_char c :: int) < 128"
    using assms(1) whitespace_IsSpace by blast
  then have "TrimSpace (a @ q @ b) = trimBoth ?P (a @ q @ b)"
    using assms(2) by (intro TrimSpace_ascii) auto
  also have "\<dots> = q"
    using ab assms(3) by (intro trimBoth_padded) auto
  finally show ?thesis .
qed

section \<open>Package filepath\<close>

text \<open>\<open>filepath.Base\<close> on a Unix system.\<close>

definition filepath_Base :: "string \<Rightarrow> string" where
  [go_defs]: "filepath_Base p =
     (if p = '''' then ''.''
      else let q = TrimRight p (CHR ''/'') in
           if q = '''' then ''/'' else rev (takeWhile (\<lambda>c. c \<noteq> CHR ''/'') (rev q)))"

lemma filepath_Base_dir:
  assumes "CHR ''/'' \<notin> set f" "f \<noteq> []"
  shows "filepath_Base (d @ ''/'' @ f) = f"
proof -
  have "last f \<noteq> CHR ''/''" using assms last_in_set[of f] by metis
  then have l: "last (d @ ''/'' @ f) \<noteq> CHR ''/''" using assms by simp
  have t: "TrimRight (d @ ''/'' @ f) (CHR ''/'') = d @ ''/'' @ f"
    unfolding TrimRight_def using l by (intro dropWhileEnd_id) auto
  have "takeWhile (\<lambda>c. c \<noteq> CHR ''/'') (rev f @ ''/'' @ rev d) = rev f"
    using assms by (subst takeWhile_append2) auto
  with t assms show ?thesis by (simp add: filepath_Base_def)
qed

end
