(* ===== verification/Api.thy ===== *)
theory Api
  imports GoStrings
begin

text \<open>
  The API types of \<^verbatim>\<open>src/api/v1alpha1\<close>: the \<open>TCloudClusterNetwork\<close> custom resource, its spec
  and status, and the constants. Beside them, the parts of
  the Kubernetes object model the controller reads or writes (object metadata, conditions, owner
  references), and Go error values.
\<close>

section \<open>Errors and formatted text\<close>

text \<open>
  An error is represented by what the program can learn of it: how it classifies it, and how it
  was made. \<open>KubeErr\<close> is an error of the Kubernetes client with the reason that
  \<open>apierrors.IsNotFound\<close>, \<open>IsAlreadyExists\<close> and \<open>meta.IsNoMatchError\<close> test; \<open>Sdk404\<close> is the cloud
  SDK's \<open>ErrDefault404\<close>; \<open>LibErr\<close> any other library error; \<open>Errorf\<close> and \<open>Wrapf\<close> the results of
  \<open>fmt.Errorf\<close> without and with \<open>%w\<close>, with the format and its other arguments; \<open>JoinErr\<close> is
  \<open>errors.Join\<close>. Formatted text is kept as its format and arguments.
\<close>

datatype fmtarg = ArgS string | ArgD int

datatype kube_reason = NotFound | AlreadyExists | NoMatch | OtherReason

datatype error =
    KubeErr kube_reason string
  | Sdk404 string
  | LibErr string
  | Errorf string "fmtarg list"
  | Wrapf string "fmtarg list" error
  | JoinErr error error

datatype message = Text string | Sprintf string "fmtarg list" | ErrorText error

text \<open>
  The classification helpers look through wrapping, as \<open>errors.As\<close> does: depth first, an error
  before the errors it wraps.
\<close>

fun apierrors_reason :: "error \<Rightarrow> kube_reason" where
  "apierrors_reason (KubeErr r _) = r"
| "apierrors_reason (Wrapf _ _ e) = apierrors_reason e"
| "apierrors_reason (JoinErr a b) =
     (if apierrors_reason a \<noteq> OtherReason then apierrors_reason a else apierrors_reason b)"
| "apierrors_reason _ = OtherReason"

definition apierrors_IsNotFound :: "error \<Rightarrow> bool" where
  [go_defs]: "apierrors_IsNotFound e = (apierrors_reason e = NotFound)"

definition apierrors_IsAlreadyExists :: "error \<Rightarrow> bool" where
  [go_defs]: "apierrors_IsAlreadyExists e = (apierrors_reason e = AlreadyExists)"

definition meta_IsNoMatchError :: "error \<Rightarrow> bool" where
  [go_defs]: "meta_IsNoMatchError e = (apierrors_reason e = NoMatch)"

text \<open>\<open>client.IgnoreNotFound\<close>: nil for a NotFound error, the error itself otherwise.\<close>

definition IgnoreNotFound :: "error \<Rightarrow> error option" where
  [go_defs]: "IgnoreNotFound e = (if apierrors_IsNotFound e then None else Some e)"

section \<open>Object metadata\<close>

type_synonym time = int
type_synonym duration = int

definition Second :: duration where [go_defs]: "Second = 1000000000"
definition Minute :: duration where [go_defs]: "Minute = 60 * Second"
definition Hour :: duration where [go_defs]: "Hour = 60 * Minute"

record OwnerReference =
  or_APIVersion :: string
  or_Kind :: string
  or_Name :: string
  or_UID :: string

record ObjectMeta =
  om_Name :: string
  om_Namespace :: string
  om_UID :: string
  om_Generation :: int
  om_CreationTimestamp :: time
  om_DeletionTimestamp :: "time option"
  om_Finalizers :: "string list"
  om_OwnerReferences :: "OwnerReference list"
  om_Labels :: "string \<rightharpoonup> string"
  om_Annotations :: "string \<rightharpoonup> string"

text \<open>
  A \<open>metav1.Condition\<close>. Its \<open>LastTransitionTime\<close> is set by the library and never read by the
  program; it is left out.
\<close>

datatype condition_status = ConditionTrue | ConditionFalse | ConditionUnknown

record Condition =
  cn_Type :: string
  cn_Status :: condition_status
  cn_Reason :: string
  cn_Message :: message
  cn_ObservedGeneration :: int

section \<open>Constants\<close>

definition NetworkFinalizer :: string where
  [go_defs]: "NetworkFinalizer = ''infrastructure.otc.t-systems.com/network-cleanup''"
definition ClusterAnnotation :: string where
  [go_defs]: "ClusterAnnotation = ''infrastructure.otc.t-systems.com/cluster-network''"
definition NetworkPolicyAnnotation :: string where
  [go_defs]: "NetworkPolicyAnnotation = ''infrastructure.otc.t-systems.com/network-policy''"
definition UIProviderAnnotation :: string where
  [go_defs]: "UIProviderAnnotation = ''ui.rancher/provider''"
definition TCloudProviderID :: string where
  [go_defs]: "TCloudProviderID = ''opentelekomcloud''"
definition SSHAllowedCIDRsAnnotation :: string where
  [go_defs]: "SSHAllowedCIDRsAnnotation = ''infrastructure.otc.t-systems.com/ssh-allowed-cidrs''"
definition SecurityGroupPolicyAnnotation :: string where
  [go_defs]: "SecurityGroupPolicyAnnotation = ''infrastructure.otc.t-systems.com/security-group-policy''"
definition SecurityGroupNameAnnotation :: string where
  [go_defs]: "SecurityGroupNameAnnotation = ''infrastructure.otc.t-systems.com/security-group-name''"

definition ConditionReady :: string where
  [go_defs]: "ConditionReady = ''Ready''"
definition ConditionCredentials :: string where
  [go_defs]: "ConditionCredentials = ''CredentialsReady''"
definition ConditionNetwork :: string where
  [go_defs]: "ConditionNetwork = ''NetworkReady''"
definition ConditionDeleting :: string where
  [go_defs]: "ConditionDeleting = ''Deleting''"
definition ConditionOwnerBound :: string where
  [go_defs]: "ConditionOwnerBound = ''OwnerBound''"
definition ConditionOwnership :: string where
  [go_defs]: "ConditionOwnership = ''OwnershipVerified''"

lemmas condition_type_defs =
  ConditionReady_def ConditionCredentials_def ConditionNetwork_def ConditionDeleting_def
  ConditionOwnerBound_def ConditionOwnership_def

text \<open>A management policy is a string type in the source: the empty string and unknown values occur.\<close>

type_synonym ManagementPolicy = string

definition ManagementPolicyManaged :: ManagementPolicy where
  [go_defs]: "ManagementPolicyManaged = ''Managed''"
definition ManagementPolicyObserve :: ManagementPolicy where
  [go_defs]: "ManagementPolicyObserve = ''Observe''"
definition ManagementPolicyAdopt :: ManagementPolicy where
  [go_defs]: "ManagementPolicyAdopt = ''Adopt''"
definition ManagementPolicyAbandon :: ManagementPolicy where
  [go_defs]: "ManagementPolicyAbandon = ''Abandon''"

lemmas policy_defs =
  ManagementPolicyManaged_def ManagementPolicyObserve_def ManagementPolicyAdopt_def
  ManagementPolicyAbandon_def

section \<open>Spec\<close>

record NamespacedReference =
  nr_Name :: string
  nr_Namespace :: string

record VPCSpec =
  vs_ID :: string
  vs_Name :: string
  vs_CIDR :: string

record SubnetSpec =
  ss_ID :: string
  ss_Name :: string
  ss_CIDR :: string
  ss_GatewayIP :: string
  ss_DNSNameservers :: "string list"
  ss_AvailabilityZone :: string

record SecurityGroupSpec =
  gs_ID :: string
  gs_Name :: string
  gs_ManagementPolicy :: ManagementPolicy
  gs_SSHAllowedCIDRs :: "string list"
  gs_CNI :: string

record NetworkSpec =
  ns_VPC :: VPCSpec
  ns_Subnet :: SubnetSpec
  ns_SecurityGroup :: SecurityGroupSpec

record TCloudClusterNetworkSpec =
  sp_ClusterRef :: NamespacedReference
  sp_CredentialSecretRef :: NamespacedReference
  sp_ManagementPolicy :: ManagementPolicy
  sp_Region :: string
  sp_ProjectName :: string
  sp_EndpointType :: string
  sp_Network :: NetworkSpec
  sp_OrphanCleanupAfter :: "duration option"

section \<open>Status\<close>

record ResourceStatus =
  rs_ID :: string
  rs_Name :: string
  rs_ControllerManaged :: bool

definition noResource :: ResourceStatus where
  [go_defs]: "noResource = \<lparr>rs_ID = '''', rs_Name = '''', rs_ControllerManaged = False\<rparr>"

record NetworkResourceStatus =
  nrs_VPC :: ResourceStatus
  nrs_Subnet :: ResourceStatus
  nrs_SecurityGroup :: ResourceStatus

record TCloudClusterNetworkStatus =
  st_ObservedGeneration :: int
  st_ClusterUID :: string
  st_OwnershipToken :: string
  st_Resources :: NetworkResourceStatus
  st_AppliedSSHAllowedCIDRs :: "string list"
  st_Conditions :: "Condition list"

record TCloudClusterNetwork =
  Meta :: ObjectMeta
  Spec :: TCloudClusterNetworkSpec
  Status :: TCloudClusterNetworkStatus

abbreviation "net_name n \<equiv> om_Name (Meta n)"
abbreviation "net_namespace n \<equiv> om_Namespace (Meta n)"
abbreviation "net_uid n \<equiv> om_UID (Meta n)"
abbreviation "resources n \<equiv> st_Resources (Status n)"
abbreviation "vpcStatus n \<equiv> nrs_VPC (resources n)"
abbreviation "subnetStatus n \<equiv> nrs_Subnet (resources n)"
abbreviation "sgStatus n \<equiv> nrs_SecurityGroup (resources n)"
abbreviation "vpcSpec n \<equiv> ns_VPC (sp_Network (Spec n))"
abbreviation "subnetSpec n \<equiv> ns_Subnet (sp_Network (Spec n))"
abbreviation "sgSpec n \<equiv> ns_SecurityGroup (sp_Network (Spec n))"
abbreviation "clusterRef n \<equiv> sp_ClusterRef (Spec n)"

end
