(* ===== verification/Names.thy ===== *)
theory Names
  imports Api
begin

text \<open>
  The pure string functions of \<^verbatim>\<open>src/internal/controller\<close>: names of managed cloud resources
  (\<open>managedName\<close>, \<open>shortToken\<close>), the name of the network object of a cluster
  (\<open>networkObjectName\<close>), and the small parsers of the bootstrap controller. The lemmas bound the
  length of every generated name, say which characters occur in it, and show that no slice
  expression panics.
\<close>

section \<open>Definitions\<close>

fun firstNonEmpty :: "string list \<Rightarrow> string" where
  "firstNonEmpty [] = ''''"
| "firstNonEmpty (v # vs) = (if v \<noteq> '''' then v else firstNonEmpty vs)"

text \<open>
  In \<open>shortToken\<close>, \<open>managedName\<close> and \<open>networkObjectName\<close> the value \<open>None\<close> is the run-time panic of
  a slice expression (\<open>sliceTo\<close>) whose bound is out of range.
\<close>

definition shortToken :: "string \<Rightarrow> string option" where
  "shortToken token0 =
     (let token = ReplaceAllDel token0 (CHR ''-'') in
      if length token > 8 then sliceTo token 8 else Some token)"

text \<open>The test on a rune in \<open>managedName\<close>, and the mapping it passes to \<open>strings.Map\<close>.\<close>

definition labelRune :: "rune \<Rightarrow> bool" where
  [go_defs]: "labelRune r = (97 \<le> r \<and> r \<le> 122 \<or> 48 \<le> r \<and> r \<le> 57)"

definition nameRune :: "rune \<Rightarrow> rune" where
  [go_defs]: "nameRune r = (if labelRune r \<or> r = 45 then r else 45)"

text \<open>
  \<open>managedName(base, token)\<close>: \<open>lower\<close> is the Unicode lower-case table and \<open>isDNS1123Label\<close> stands
  for \<open>validation.IsDNS1123Label\<close>, which returns the list of problems of a label.
\<close>

definition managedName ::
  "(rune \<Rightarrow> rune) \<Rightarrow> (string \<Rightarrow> string list) \<Rightarrow> string \<Rightarrow> string \<Rightarrow> string option" where
  [go_defs]: "managedName lower isDNS1123Label base token =
     (let name0 = Trim (strings_Map nameRune (ToLower lower base)) (CHR ''-'');
          name = (if name0 = '''' \<or> length (isDNS1123Label name0) > 0 then ''tcloud-network'' else name0);
          suffix = ''-'' @ token in
      if length name + length suffix > 63
      then (case sliceTo name (63 - int (length suffix)) of
              None \<Rightarrow> None
            | Some front \<Rightarrow> Some (TrimRight front (CHR ''-'') @ suffix))
      else Some (name @ suffix))"

text \<open>The loop of \<open>networkObjectName\<close>: the runes written so far and whether the last one is a dash.\<close>

fun objectNameLoop :: "rune list \<Rightarrow> bool \<Rightarrow> rune list \<Rightarrow> rune list" where
  "objectNameLoop runes lastWasDash [] = runes"
| "objectNameLoop runes lastWasDash (value # values) =
     (if labelRune value then objectNameLoop (runes @ [value]) False values
      else if length runes > 0 \<and> \<not> lastWasDash then objectNameLoop (runes @ [45]) True values
      else objectNameLoop runes lastWasDash values)"

definition networkObjectName :: "(rune \<Rightarrow> rune) \<Rightarrow> string \<Rightarrow> string option" where
  "networkObjectName lower clusterName =
     (let runes = objectNameLoop [] False (utf8_decode (ToLower lower (clusterName @ ''-network'')));
          name0 = Trim (utf8_encode runes) (CHR ''-'');
          name = (if name0 = '''' then ''tcloud-cluster-network'' else name0) in
      if length name > 63
      then (case sliceTo name 63 of None \<Rightarrow> None | Some front \<Rightarrow> Some (TrimRight front (CHR ''-'')))
      else Some name)"

definition namespacedReference :: "string \<Rightarrow> error + NamespacedReference" where
  [go_defs]: "namespacedReference value =
     (case SplitN2 value (CHR '':'') of
        [ns, name] \<Rightarrow>
          if ns = '''' \<or> name = ''''
          then Inl (Errorf ''cloudCredentialSecretName %q is not a namespaced Secret reference'' [ArgS value])
          else Inr \<lparr>nr_Name = name, nr_Namespace = ns\<rparr>
      | _ \<Rightarrow> Inl (Errorf ''cloudCredentialSecretName %q is not a namespaced Secret reference'' [ArgS value]))"

definition splitNonEmpty :: "string \<Rightarrow> string list" where
  [go_defs]: "splitNonEmpty value =
     filter (\<lambda>part. part \<noteq> '''') (map TrimSpace (Split value (CHR '','')))"

section \<open>Characters\<close>

text \<open>The bytes a DNS label is made of, and the shape of a DNS-1123 label as RFC 1123 defines it.\<close>

definition alnumByte :: "char \<Rightarrow> bool" where
  "alnumByte c = labelRune (of_char c)"

definition dnsByte :: "char \<Rightarrow> bool" where
  "dnsByte c = (alnumByte c \<or> c = CHR ''-'')"

definition dns1123Label :: "string \<Rightarrow> bool" where
  "dns1123Label s =
     (s \<noteq> [] \<and> length s \<le> 63 \<and> list_all dnsByte s \<and> alnumByte (hd s) \<and> alnumByte (last s))"

lemma dnsByte_dash [simp]: "dnsByte (CHR ''-'')"
  by (simp add: dnsByte_def)

lemma alnumByte_not_dash [simp]: "\<not> alnumByte (CHR ''-'')"
  by (simp add: alnumByte_def labelRune_def)

lemma alnumByte_dnsByte: "alnumByte c \<Longrightarrow> dnsByte c"
  by (simp add: dnsByte_def)

lemma dnsByte_cases: "dnsByte c \<Longrightarrow> c \<noteq> CHR ''-'' \<Longrightarrow> alnumByte c"
  by (simp add: dnsByte_def)

lemma char_of_label: "labelRune r \<Longrightarrow> alnumByte (char_of r)"
  by (auto simp: alnumByte_def labelRune_def)

lemma char_of_45 [simp]: "(char_of (45 :: int) :: char) = CHR ''-''"
  by code_simp

lemma dnsByte_char_of: "labelRune r \<or> r = 45 \<Longrightarrow> dnsByte (char_of r)"
  using char_of_label[of r] by (auto intro: alnumByte_dnsByte)

lemma nameRune_ascii: "0 \<le> nameRune r" "nameRune r < 128"
  by (auto simp: nameRune_def labelRune_def)

lemma dnsByte_nameRune: "dnsByte (char_of (nameRune r))"
  by (auto simp: nameRune_def dest: char_of_label alnumByte_dnsByte)

lemma strings_Map_nameRune:
  "strings_Map nameRune s = map (char_of \<circ> nameRune) (utf8_decode s)"
  using nameRune_ascii by (simp add: strings_Map_def utf8_encode_ascii)

lemma list_all_trimBoth: "list_all P xs \<Longrightarrow> list_all P (trimBoth Q xs)"
  using set_trimBoth_subset[of Q xs] by (auto simp: list_all_iff)

lemma list_all_dropWhileEnd: "list_all P xs \<Longrightarrow> list_all P (dropWhileEnd Q xs)"
  using set_dropWhileEnd_subset[of Q xs] by (auto simp: list_all_iff)

lemma list_all_take: "list_all P xs \<Longrightarrow> list_all P (take n xs)"
  by (auto simp: list_all_iff dest: in_set_takeD)

section \<open>shortToken\<close>

text \<open>The value of \<open>shortToken\<close>: its length guard keeps the slice expression in range.\<close>

definition tokenOf :: "string \<Rightarrow> string" where
  "tokenOf t = take 8 (filter (\<lambda>c. c \<noteq> CHR ''-'') t)"

lemma shortToken_total [simp]: "shortToken t = Some (tokenOf t)"
  by (simp add: shortToken_def tokenOf_def ReplaceAllDel_def sliceTo_def Let_def)

lemma length_tokenOf: "length (tokenOf t) \<le> 8"
  by (simp add: tokenOf_def)

lemma tokenOf_uid:
  assumes "list_all dnsByte uid" and "list_ex alnumByte uid"
  shows "0 < length (tokenOf uid)" and "list_all alnumByte (tokenOf uid)"
proof -
  obtain c where c: "c \<in> set uid" "alnumByte c" using assms(2) by (auto simp: list_ex_iff)
  then have "c \<noteq> CHR ''-''" using alnumByte_not_dash by metis
  with c(1) have "c \<in> set (filter (\<lambda>c. c \<noteq> CHR ''-'') uid)" by simp
  then show "0 < length (tokenOf uid)" unfolding tokenOf_def by (cases "filter (\<lambda>c. c \<noteq> CHR ''-'') uid") simp_all
  have "\<forall>c\<in>set (filter (\<lambda>c. c \<noteq> CHR ''-'') uid). alnumByte c"
    using assms(1) dnsByte_cases unfolding list_all_iff set_filter by blast
  then show "list_all alnumByte (tokenOf uid)"
    unfolding tokenOf_def list_all_iff by (blast dest: in_set_takeD)
qed

section \<open>managedName\<close>

text \<open>The base name before the suffix is added: it is never empty and starts with a letter or digit.\<close>

definition managedBase :: "(rune \<Rightarrow> rune) \<Rightarrow> (string \<Rightarrow> string list) \<Rightarrow> string \<Rightarrow> string" where
  "managedBase lower isDNS base =
     (let name0 = Trim (strings_Map nameRune (ToLower lower base)) (CHR ''-'') in
      if name0 = '''' \<or> length (isDNS name0) > 0 then ''tcloud-network'' else name0)"

lemma fallback_name_ok:
  "list_all dnsByte ''tcloud-network''" "alnumByte (hd ''tcloud-network'')" "''tcloud-network'' \<noteq> []"
  by (simp_all add: dnsByte_def alnumByte_def labelRune_def)

lemma managedBase_ok:
  shows "list_all dnsByte (managedBase lower v base)"
    and "managedBase lower v base \<noteq> []"
    and "alnumByte (hd (managedBase lower v base))"
proof -
  let ?m = "strings_Map nameRune (ToLower lower base)"
  let ?n = "trimBoth (\<lambda>x. x = CHR ''-'') ?m"
  have m: "list_all dnsByte ?m"
    by (simp add: strings_Map_nameRune list_all_iff dnsByte_nameRune)
  then have n: "list_all dnsByte ?n" by (rule list_all_trimBoth)
  have h: "alnumByte (hd ?n)" if "?n \<noteq> []"
    using trimBoth_hd[OF that] n that by (auto simp: list_all_iff intro: dnsByte_cases)
  show "list_all dnsByte (managedBase lower v base)"
    using n fallback_name_ok(1) unfolding managedBase_def Trim_def Let_def by presburger
  show "managedBase lower v base \<noteq> []"
    unfolding managedBase_def Trim_def Let_def by simp
  show "alnumByte (hd (managedBase lower v base))"
    using h fallback_name_ok(2) unfolding managedBase_def Trim_def Let_def by presburger
qed

lemma managedName_base:
  "managedName lower v base token =
     (let name = managedBase lower v base; suffix = ''-'' @ token in
      if length name + length suffix > 63
      then if length suffix > 63 then None
           else Some (TrimRight (take (63 - length suffix) name) (CHR ''-'') @ suffix)
      else Some (name @ suffix))"
  by (simp add: managedName_def managedBase_def sliceTo_def Let_def nat_diff_distrib)

text \<open>Cutting a base name keeps its first character, so the cut name is not empty either.\<close>

lemma cut_name_ok:
  assumes "list_all dnsByte n" "n \<noteq> []" "alnumByte (hd n)" "0 < k"
  defines "m \<equiv> TrimRight (take k n) (CHR ''-'')"
  shows "list_all dnsByte m" and "m \<noteq> []" and "alnumByte (hd m)" and "alnumByte (last m)"
    and "length m \<le> k"
proof -
  have t: "take k n \<noteq> []" "hd (take k n) = hd n" using assms(2,4) by (simp_all add: hd_take)
  have "hd n \<noteq> CHR ''-''" using assms(3) by auto
  then have "\<exists>x\<in>set (take k n). x \<noteq> CHR ''-''"
    using t hd_in_set[OF t(1)] by (intro bexI[of _ "hd (take k n)"]) simp_all
  then have ne: "m \<noteq> []"
    unfolding m_def TrimRight_def dropWhileEnd_ne_iff by simp
  show d: "list_all dnsByte m"
    unfolding m_def TrimRight_def using assms(1) by (intro list_all_dropWhileEnd list_all_take)
  show "m \<noteq> []" by (rule ne)
  show "alnumByte (hd m)"
    using ne t assms(3) unfolding m_def TrimRight_def by (simp add: dropWhileEnd_hd)
  have "last m \<noteq> CHR ''-''"
    using ne dropWhileEnd_last[of "\<lambda>x. x = CHR ''-''" "take k n"] unfolding m_def TrimRight_def by blast
  then show "alnumByte (last m)"
    using d ne by (auto simp: list_all_iff intro: dnsByte_cases)
  show "length m \<le> k"
    using length_dropWhileEnd_le[of "\<lambda>x. x = CHR ''-''" "take k n"]
    unfolding m_def TrimRight_def by simp
qed

lemma managedName_shape:
  assumes "length token \<le> 61"
  obtains p where "managedName lower v base token = Some (p @ ''-'' @ token)"
    and "length p + length token \<le> 62"
    and "list_all dnsByte p" and "p \<noteq> []" and "alnumByte (hd p)"
proof (cases "length (managedBase lower v base) + length token \<le> 62")
  case True
  then have "managedName lower v base token = Some (managedBase lower v base @ ''-'' @ token)"
    by (simp add: managedName_base)
  then show ?thesis using that True managedBase_ok by blast
next
  case False
  let ?c = "TrimRight (take (62 - length token) (managedBase lower v base)) (CHR ''-'')"
  from False have eq: "managedName lower v base token = Some (?c @ ''-'' @ token)"
    using assms by (simp add: managedName_base Let_def)
  have k: "0 < 62 - length token" using assms by simp
  note c = cut_name_ok[OF managedBase_ok[of lower v base] k]
  from c(5) assms have "length ?c + length token \<le> 62" by linarith
  then show ?thesis using that[of ?c] eq c(1-3) by blast
qed

section \<open>networkObjectName\<close>

lemma objectNameLoop_dns:
  "(\<forall>r\<in>set runes. labelRune r \<or> r = 45) \<Longrightarrow>
   \<forall>r\<in>set (objectNameLoop runes d vs). labelRune r \<or> r = 45"
  by (induction runes d vs rule: objectNameLoop.induct) auto

lemma objectNameLoop_ascii: "\<forall>r\<in>set (objectNameLoop [] d vs). 0 \<le> r \<and> r < 128"
  using objectNameLoop_dns[of "[]" d vs] by (force simp: labelRune_def)

lemma objectName_encoded_dns: "list_all dnsByte (utf8_encode (objectNameLoop [] d vs))"
  using objectNameLoop_dns[of "[]" d vs]
  by (auto simp: utf8_encode_ascii[OF objectNameLoop_ascii] list_all_iff
      intro: dnsByte_char_of)

lemma fallback_object_name_ok: "dns1123Label ''tcloud-cluster-network''"
  by (simp add: dns1123Label_def dnsByte_def alnumByte_def labelRune_def)

lemma trimmed_dns_label:
  assumes "list_all dnsByte s" "Trim s (CHR ''-'') \<noteq> []"
  shows "list_all dnsByte (Trim s (CHR ''-''))" "alnumByte (hd (Trim s (CHR ''-'')))"
    "alnumByte (last (Trim s (CHR ''-'')))"
proof -
  show d: "list_all dnsByte (Trim s (CHR ''-''))"
    unfolding Trim_def using assms(1) by (rule list_all_trimBoth)
  show "alnumByte (hd (Trim s (CHR ''-'')))"
    using trimBoth_hd[of "\<lambda>x. x = CHR ''-''" s] d assms(2)
    by (auto simp: Trim_def list_all_iff intro: dnsByte_cases)
  show "alnumByte (last (Trim s (CHR ''-'')))"
    using trimBoth_last[of "\<lambda>x. x = CHR ''-''" s] d assms(2)
    by (auto simp: Trim_def list_all_iff intro: dnsByte_cases)
qed

lemma dns_label_cut:
  assumes "list_all dnsByte n" "n \<noteq> []" "alnumByte (hd n)" "alnumByte (last n)"
  shows "dns1123Label (if length n > 63 then TrimRight (take 63 n) (CHR ''-'') else n)"
  using cut_name_ok[OF assms(1-3), of 63] assms by (auto simp: dns1123Label_def)

text \<open>The value of \<open>networkObjectName\<close>: the name before the cut, and its total cut.\<close>

definition objectBase :: "(rune \<Rightarrow> rune) \<Rightarrow> string \<Rightarrow> string" where
  "objectBase lower clusterName =
     (let runes = objectNameLoop [] False (utf8_decode (ToLower lower (clusterName @ ''-network'')));
          name0 = Trim (utf8_encode runes) (CHR ''-'') in
      if name0 = '''' then ''tcloud-cluster-network'' else name0)"

definition objectName :: "(rune \<Rightarrow> rune) \<Rightarrow> string \<Rightarrow> string" where
  "objectName lower clusterName =
     (let name = objectBase lower clusterName in
      if length name > 63 then TrimRight (take 63 name) (CHR ''-'') else name)"

lemma networkObjectName_total [simp]:
  "networkObjectName lower clusterName = Some (objectName lower clusterName)"
  by (simp add: networkObjectName_def objectName_def objectBase_def sliceTo_def Let_def)

lemma objectBase_ok:
  fixes lower clusterName
  defines "n \<equiv> objectBase lower clusterName"
  shows "list_all dnsByte n \<and> n \<noteq> [] \<and> alnumByte (hd n) \<and> alnumByte (last n)"
proof -
  define s where "s = utf8_encode (objectNameLoop [] False (utf8_decode (ToLower lower (clusterName @ ''-network''))))"
  have n: "n = (if Trim s (CHR ''-'') = '''' then ''tcloud-cluster-network'' else Trim s (CHR ''-''))"
    by (simp add: n_def objectBase_def s_def Let_def)
  have "list_all dnsByte s" unfolding s_def by (rule objectName_encoded_dns)
  then show ?thesis
    using trimmed_dns_label[of s] fallback_object_name_ok unfolding n dns1123Label_def by presburger
qed

lemma objectName_is_label: "dns1123Label (objectName lower clusterName)"
  unfolding objectName_def Let_def using objectBase_ok dns_label_cut by blast

section \<open>Properties\<close>

text \<open>
  C33: For an object UID that has a letter or digit and is made of lower-case letters, digits and
  dashes (the form the API server gives a UID), \<open>shortToken\<close> returns a token of one to eight bytes
  without panicking, and with this token \<open>managedName\<close> returns a DNS-1123 label without panicking:
  a name of at most 63 bytes that ends in a dash and the token, whatever the base name, the Unicode
  tables and the label validator are.
\<close>

theorem managedName_is_label:
  assumes "list_all dnsByte uid" and "list_ex alnumByte uid"
  shows "\<exists>token p. shortToken uid = Some token \<and> 0 < length token \<and> length token \<le> 8 \<and>
           managedName lower v base token = Some (p @ ''-'' @ token) \<and>
           dns1123Label (p @ ''-'' @ token)"
proof -
  note token = tokenOf_uid[OF assms]
  then have ne: "tokenOf uid \<noteq> []" by simp
  have "length (tokenOf uid) \<le> 61" using length_tokenOf[of uid] by simp
  then obtain p where p: "managedName lower v base (tokenOf uid) = Some (p @ ''-'' @ tokenOf uid)"
    "length p + length (tokenOf uid) \<le> 62" "list_all dnsByte p" "p \<noteq> []" "alnumByte (hd p)"
    by (rule managedName_shape)
  have "list_all dnsByte (tokenOf uid)" "alnumByte (last (tokenOf uid))"
    using token(2) ne alnumByte_dnsByte by (simp_all add: list_all_iff)
  with p ne have label: "dns1123Label (p @ ''-'' @ tokenOf uid)"
    by (simp add: dns1123Label_def)
  with token(1) p(1) show ?thesis using shortToken_total length_tokenOf by blast
qed

theorem managedName_is_label_witness:
  "shortToken ''12345678-1234'' = Some ''12345678'' \<and>
   managedName id (\<lambda>_. []) ''Test_DE'' ''12345678'' = Some ''test-de-12345678'' \<and>
   dns1123Label ''test-de-12345678''"
proof -
  have a: "list_all dnsByte ''12345678-1234''" "list_ex alnumByte ''12345678-1234''"
    by (simp_all add: dnsByte_def alnumByte_def labelRune_def)
  have t: "shortToken ''12345678-1234'' = Some ''12345678''" by code_simp
  have m: "managedName id (\<lambda>_. []) ''Test_DE'' ''12345678'' = Some ''test-de-12345678''" by code_simp
  show ?thesis using managedName_is_label[OF a, of id "\<lambda>_. []" "''Test_DE''"] unfolding t using m by simp
qed

text \<open>
  C39: \<open>networkObjectName\<close> never panics and returns a DNS-1123 label for every cluster name, so the
  object it names can be created: at most 63 bytes, only lower-case letters, digits and dashes, no
  dash at an end.
\<close>

theorem networkObjectName_is_label:
  "\<exists>name. networkObjectName lower clusterName = Some name \<and> dns1123Label name"
  using objectName_is_label by simp

text \<open>
  Network object names collide: the two distinct and valid cluster names \<open>team.prod\<close> and
  \<open>team-prod\<close> get the same network object, so in one namespace the bootstrap controller gives the
  second cluster the network of the first.
\<close>

theorem networkObjectName_collision:
  "networkObjectName id ''team.prod'' = Some ''team-prod-network'' \<and>
   networkObjectName id ''team-prod'' = Some ''team-prod-network''"
  by code_simp

text \<open>
  \<open>namespacedReference\<close> accepts exactly the strings \<open>namespace:name\<close> with both parts not empty,
  cut at the first colon.
\<close>

theorem namespacedReference_iff:
  "namespacedReference value = Inr r \<longleftrightarrow>
     value = nr_Namespace r @ '':'' @ nr_Name r \<and> CHR '':'' \<notin> set (nr_Namespace r) \<and>
     nr_Namespace r \<noteq> '''' \<and> nr_Name r \<noteq> ''''"
proof -
  have split: "SplitN2 value (CHR '':'') = (if CHR '':'' \<in> set value
      then [takeWhile (\<lambda>c. c \<noteq> CHR '':'') value, tl (dropWhile (\<lambda>c. c \<noteq> CHR '':'') value)] else [value])"
    by (simp add: SplitN2_def)
  show ?thesis
  proof (cases "CHR '':'' \<in> set value")
    case True
    then obtain a b where v: "value = a @ CHR '':'' # b" and a: "CHR '':'' \<notin> set a"
      by (meson split_list_first)
    have tw: "takeWhile (\<lambda>c. c \<noteq> CHR '':'') value = a" "dropWhile (\<lambda>c. c \<noteq> CHR '':'') value = CHR '':'' # b"
      using a unfolding v by (auto simp: takeWhile_append dropWhile_append)
    have sp: "SplitN2 value (CHR '':'') = [a, b]" using True split tw by simp
    have n: "namespacedReference value = Inr r \<longleftrightarrow>
        a \<noteq> '''' \<and> b \<noteq> '''' \<and> a = nr_Namespace r \<and> b = nr_Name r"
      by (cases r) (auto simp: namespacedReference_def sp)
    show ?thesis
      unfolding n unfolding v using a first_split_unique[of a "CHR '':''" b "nr_Namespace r" "nr_Name r"] by auto
  next
    case False
    then show ?thesis by (auto simp: namespacedReference_def split)
  qed
qed



end
