(* ===== verification/CloudApi.thy ===== *)
theory CloudApi
  imports Names
begin

text \<open>
  The types of \<^verbatim>\<open>src/internal/cloud/interfaces.go\<close>: credentials, resources, requests, security
  group rules, and the \<open>Service\<close> interface between the controller and the cloud, a record of the
  interface's methods as functions on a world \<open>'w\<close>.
\<close>

record Credentials =
  cr_AuthURL :: string
  cr_AuthMethod :: string
  cr_Username :: string
  cr_Password :: string
  cr_AccessKey :: string
  cr_SecretKey :: string
  cr_DomainName :: string
  cr_DomainID :: string
  cr_ProjectName :: string
  cr_ProjectID :: string
  cr_Region :: string
  cr_EndpointType :: string

record Resource =
  res_ID :: string
  res_Name :: string

record VPCRequest =
  vr_ID :: string
  vr_Name :: string
  vr_CIDR :: string

record SubnetRequest =
  sr_ID :: string
  sr_VPCID :: string
  sr_Name :: string
  sr_CIDR :: string
  sr_GatewayIP :: string
  sr_DNSNameservers :: "string list"
  sr_AvailabilityZone :: string

record Rule =
  ru_Protocol :: string
  ru_FromPort :: int
  ru_ToPort :: int
  ru_CIDR :: string
  ru_RemoteGroupID :: string

record SecurityGroupRequest =
  gr_ID :: string
  gr_Name :: string
  gr_Description :: string
  gr_Rules :: "Rule list"
  gr_RemoveRules :: "Rule list"

text \<open>The \<open>Service\<close> interface, one field per method.\<close>

record 'w Service =
  EnsureVPC :: "VPCRequest \<Rightarrow> ('w, error + Resource) io"
  EnsureSubnet :: "SubnetRequest \<Rightarrow> ('w, error + Resource) io"
  EnsureSecurityGroup :: "SecurityGroupRequest \<Rightarrow> ('w, error + Resource) io"
  GetVPC :: "string \<Rightarrow> ('w, error + Resource) io"
  GetSubnet :: "string \<Rightarrow> ('w, error + Resource) io"
  GetSecurityGroup :: "string \<Rightarrow> ('w, error + Resource) io"
  AttachedPorts :: "string \<Rightarrow> ('w, error + int) io"
  DeleteSecurityGroup :: "string \<Rightarrow> ('w, error option) io"
  DeleteSubnet :: "string \<Rightarrow> string \<Rightarrow> ('w, error option) io"
  DeleteVPC :: "string \<Rightarrow> ('w, error option) io"

text \<open>The \<open>Factory\<close> interface has the single method \<open>New\<close>.\<close>

type_synonym 'w Factory = "Credentials \<Rightarrow> ('w, error + 'w Service) io"

section \<open>IsNotFound\<close>

text \<open>
  \<open>IsNotFound\<close> of \<^verbatim>\<open>tcloud.go\<close>: \<open>errors.As\<close> searches the error and what it wraps for the SDK's
  404 error.
\<close>

fun IsNotFound :: "error \<Rightarrow> bool" where
  "IsNotFound (Sdk404 _) = True"
| "IsNotFound (Wrapf _ _ e) = IsNotFound e"
| "IsNotFound (JoinErr a b) = (IsNotFound a \<or> IsNotFound b)"
| "IsNotFound _ = False"

definition IsNotFound_opt :: "error option \<Rightarrow> bool" where
  [go_defs]: "IsNotFound_opt e = (case e of None \<Rightarrow> False | Some err \<Rightarrow> IsNotFound err)"

end
