(* ===== verification/Rules.thy ===== *)
theory Rules
  imports CloudApi
begin

text \<open>
  Security group rules, \<^verbatim>\<open>src/internal/cloud/rules.go\<close>: the rules an RKE2 cluster needs and the
  SSH rules to withdraw when the allowed CIDRs change. The lemmas say that no rule but SSH is open
  to addresses outside the group, and that withdrawal never touches a rule that is wanted.
\<close>

section \<open>Definitions\<close>

definition selfRule :: "string \<Rightarrow> string \<Rightarrow> int \<Rightarrow> int \<Rightarrow> Rule" where
  [go_defs]: "selfRule securityGroupID protocol fromPort toPort =
     \<lparr>ru_Protocol = protocol, ru_FromPort = fromPort, ru_ToPort = toPort, ru_CIDR = '''',
      ru_RemoteGroupID = securityGroupID\<rparr>"

text \<open>The rule literal for an allowed SSH CIDR, which both functions of the file build.\<close>

definition sshRule :: "string \<Rightarrow> Rule" where
  [go_defs]: "sshRule cidr =
     \<lparr>ru_Protocol = ''tcp'', ru_FromPort = 22, ru_ToPort = 22, ru_CIDR = cidr, ru_RemoteGroupID = ''''\<rparr>"

definition RKE2Rules :: "string \<Rightarrow> string list \<Rightarrow> string \<Rightarrow> Rule list" where
  [go_defs]: "RKE2Rules securityGroupID sshAllowedCIDRs cni =
     map sshRule sshAllowedCIDRs
     @ map (\<lambda>(from, to). \<lparr>ru_Protocol = ''tcp'', ru_FromPort = from, ru_ToPort = to, ru_CIDR = '''',
                           ru_RemoteGroupID = securityGroupID\<rparr>)
         [(2379, 2381), (6443, 6443), (9345, 9345), (10250, 10250), (30000, 32767)]
     @ (if cni = '''' \<or> cni = ''canal'' then
          [selfRule securityGroupID ''udp'' 8472 8472, selfRule securityGroupID ''tcp'' 9099 9099]
        else if cni = ''flannel'' then [selfRule securityGroupID ''udp'' 4789 4789]
        else if cni = ''calico'' then
          [selfRule securityGroupID ''tcp'' 179 179, selfRule securityGroupID ''udp'' 4789 4789,
           selfRule securityGroupID ''tcp'' 5473 5473, selfRule securityGroupID ''tcp'' 9098 9099]
        else [])"

text \<open>
  The set \<open>wanted\<close> is a Go map from CIDRs to true; \<open>sort.Strings\<close> orders strings byte by byte,
  which is the list order of \<open>List_Lexorder\<close> over \<open>Char_ord\<close>.
\<close>

definition ObsoleteSSHRules :: "string list \<Rightarrow> string list \<Rightarrow> Rule list" where
  [go_defs]: "ObsoleteSSHRules previous desired =
     (let wanted = set desired;
          obsoleteCIDRs = sort (filter (\<lambda>cidr. cidr \<notin> wanted) previous) in
      map sshRule obsoleteCIDRs)"

section \<open>Helper lemmas\<close>

lemma inj_sshRule: "inj sshRule"
  by (simp add: inj_def sshRule_def)

lemma base_rules_not_ssh: "list_all (\<lambda>r. ru_FromPort r \<noteq> 22) (RKE2Rules g [] cni)"
  by (simp add: RKE2Rules_def selfRule_def)

lemma sshRule_neq_self: "r \<in> set (RKE2Rules g [] cni) \<Longrightarrow> ru_FromPort r \<noteq> 22"
  using base_rules_not_ssh by (simp add: list_all_iff)

lemma base_rules_self:
  "list_all (\<lambda>r. ru_CIDR r = '''' \<and> ru_RemoteGroupID r = g) (RKE2Rules g [] cni)"
  by (simp add: RKE2Rules_def selfRule_def)

lemma base_rule_self:
  "r \<in> set (RKE2Rules g [] cni) \<Longrightarrow> ru_CIDR r = '''' \<and> ru_RemoteGroupID r = g"
  using base_rules_self by (simp add: list_all_iff)

lemma RKE2Rules_split: "RKE2Rules g cidrs cni = map sshRule cidrs @ RKE2Rules g [] cni"
  by (simp add: RKE2Rules_def)

lemma base_rules_distinct: "distinct (RKE2Rules g [] cni)"
  by (simp add: RKE2Rules_def selfRule_def)

lemma sshRule_port [simp]: "ru_FromPort (sshRule c) = 22" "ru_CIDR (sshRule c) = c"
  by (simp_all add: sshRule_def)

lemma sshRule_in_RKE2Rules: "sshRule c \<in> set (RKE2Rules g cidrs cni) \<longleftrightarrow> c \<in> set cidrs"
  using sshRule_neq_self[of "sshRule c" g cni] inj_sshRule
  by (auto simp: RKE2Rules_split[of g cidrs] dest: injD)

lemma RKE2Rules_cases:
  assumes "r \<in> set (RKE2Rules g cidrs cni)"
  obtains (ssh) c where "c \<in> set cidrs" "r = sshRule c"
    | (self) "ru_CIDR r = ''''" "ru_RemoteGroupID r = g" "ru_FromPort r \<noteq> 22"
proof (cases "r \<in> set (RKE2Rules g [] cni)")
  case True
  then show ?thesis using self base_rule_self sshRule_neq_self by metis
next
  case False
  with assms have "r \<in> sshRule ` set cidrs" by (simp add: RKE2Rules_split[of g cidrs])
  then show ?thesis using ssh by blast
qed

lemma set_ObsoleteSSHRules:
  "set (ObsoleteSSHRules previous desired) = sshRule ` (set previous - set desired)"
  by (auto simp: ObsoleteSSHRules_def)

section \<open>Properties\<close>

text \<open>
  C37: No cluster port is open to the outside: every rule \<open>RKE2Rules\<close> asks for is either a TCP/22
  rule for one of the allowed CIDRs, or has no CIDR and admits only members of the group itself.
\<close>

theorem RKE2Rules_closed_to_outside:
  assumes "r \<in> set (RKE2Rules g cidrs cni)"
  shows "(ru_CIDR r \<in> set cidrs \<and> r = sshRule (ru_CIDR r)) \<or>
         (ru_CIDR r = '''' \<and> ru_RemoteGroupID r = g \<and> ru_FromPort r \<noteq> 22)"
  using assms by (rule RKE2Rules_cases) simp_all

theorem RKE2Rules_closed_to_outside_witness:
  "sshRule ''203.0.113.5/32'' \<in> set (RKE2Rules ''sg-1'' [''203.0.113.5/32''] ''calico'') \<and>
   (ru_CIDR (sshRule ''203.0.113.5/32'') \<in> set [''203.0.113.5/32''] \<and>
      sshRule ''203.0.113.5/32'' = sshRule (ru_CIDR (sshRule ''203.0.113.5/32'')) \<or>
    ru_CIDR (sshRule ''203.0.113.5/32'') = '''' \<and> ru_RemoteGroupID (sshRule ''203.0.113.5/32'') = ''sg-1''
      \<and> ru_FromPort (sshRule ''203.0.113.5/32'') \<noteq> 22)"
proof -
  have m: "sshRule ''203.0.113.5/32'' \<in> set (RKE2Rules ''sg-1'' [''203.0.113.5/32''] ''calico'')"
    by (simp add: RKE2Rules_def)
  from RKE2Rules_closed_to_outside[OF m] m show ?thesis by blast
qed

text \<open>
  \<open>RKE2Rules\<close> repeats no rule when the allowed CIDRs are distinct, which the custom resource
  definition enforces (\<open>listType=set\<close>).
\<close>

theorem RKE2Rules_distinct:
  assumes "distinct cidrs"
  shows "distinct (RKE2Rules g cidrs cni)"
proof -
  have "set (map sshRule cidrs) \<inter> set (RKE2Rules g [] cni) = {}"
    using sshRule_neq_self by fastforce
  moreover have "distinct (map sshRule cidrs)"
    using assms inj_on_subset[OF inj_sshRule] by (simp add: distinct_map)
  ultimately show ?thesis
    using base_rules_distinct by (simp only: RKE2Rules_split[of g cidrs] distinct_append)
qed

theorem RKE2Rules_distinct_witness:
  "distinct [''203.0.113.5/32'', ''198.51.100.0/24''] \<and>
   distinct (RKE2Rules ''sg-1'' [''203.0.113.5/32'', ''198.51.100.0/24''] ''canal'')"
  using RKE2Rules_distinct[of "[''203.0.113.5/32'', ''198.51.100.0/24'']" "''sg-1''" "''canal''"]
  by simp

text \<open>
  C38: \<open>ObsoleteSSHRules\<close> withdraws exactly the SSH rules of the CIDRs that were applied and are no
  longer desired, in ascending order of the CIDR, and none of them is a rule \<open>RKE2Rules\<close> asks for
  with the desired CIDRs.
\<close>

theorem ObsoleteSSHRules_correct:
  "set (ObsoleteSSHRules previous desired) = sshRule ` (set previous - set desired) \<and>
   sorted (map ru_CIDR (ObsoleteSSHRules previous desired)) \<and>
   set (ObsoleteSSHRules previous desired) \<inter> set (RKE2Rules g desired cni) = {}"
proof -
  have "map ru_CIDR (ObsoleteSSHRules previous desired)
      = sort (filter (\<lambda>c. c \<notin> set desired) previous)"
    by (simp add: ObsoleteSSHRules_def o_def)
  then show ?thesis
    using sshRule_in_RKE2Rules by (auto simp: set_ObsoleteSSHRules)
qed

end
