(* ===== verification/CredentialSecrets.thy ===== *)
theory CredentialSecrets
  imports CloudApi
begin

text \<open>
  Reading cloud credentials from a Rancher credential Secret,
  \<^verbatim>\<open>src/internal/cloud/credentials.go\<close>, and the authentication options and endpoint selection
  of \<^verbatim>\<open>src/internal/cloud/tcloud.go\<close> that are made from them. The lemmas characterise the
  accepted Secrets, and show that the error returned for a rejected one says nothing about the
  password or the secret key.
\<close>

section \<open>Definitions\<close>

record Secret =
  sec_Name :: string
  sec_Namespace :: string
  sec_Data :: "string \<rightharpoonup> string"

definition credentialPrefix :: string where
  [go_defs]: "credentialPrefix = ''opentelekomcloudcredentialConfig-''"

text \<open>The closure \<open>value\<close> of \<open>CredentialsFromSecret\<close>.\<close>

definition secretValue :: "Secret \<Rightarrow> string \<Rightarrow> string" where
  [go_defs]: "secretValue secret key = TrimSpace (mget (sec_Data secret) (credentialPrefix @ key))"

text \<open>The struct literal \<open>CredentialsFromSecret\<close> starts from.\<close>

definition secretCredentials ::
  "(rune \<Rightarrow> rune) \<Rightarrow> Secret \<Rightarrow> string \<Rightarrow> string \<Rightarrow> string \<Rightarrow> Credentials" where
  [go_defs]: "secretCredentials lower secret fallbackRegion fallbackProject fallbackEndpointType =
     \<lparr>cr_AuthURL = secretValue secret ''authUrl'',
      cr_AuthMethod = ToLower lower (secretValue secret ''authMethod''),
      cr_Username = secretValue secret ''username'',
      cr_Password = mget (sec_Data secret) (credentialPrefix @ ''password''),
      cr_AccessKey = secretValue secret ''accessKey'',
      cr_SecretKey = mget (sec_Data secret) (credentialPrefix @ ''secretKey''),
      cr_DomainName = secretValue secret ''domainName'',
      cr_DomainID = secretValue secret ''domainId'',
      cr_ProjectName = firstNonEmpty [fallbackProject, secretValue secret ''projectName''],
      cr_ProjectID = secretValue secret ''projectId'',
      cr_Region = firstNonEmpty [fallbackRegion, secretValue secret ''region''],
      cr_EndpointType = firstNonEmpty [fallbackEndpointType, secretValue secret ''endpointType'', ''public'']\<rparr>"

definition inferAuthMethod :: "Credentials \<Rightarrow> Credentials" where
  [go_defs]: "inferAuthMethod c =
     (if cr_AuthMethod c = '''' then
        (if cr_AccessKey c \<noteq> '''' \<or> cr_SecretKey c \<noteq> '''' then c\<lparr>cr_AuthMethod := ''aksk''\<rparr>
         else c\<lparr>cr_AuthMethod := ''password''\<rparr>)
      else c)"

text \<open>The checks after the literal, in the order of the source.\<close>

definition checkCredentials :: "Secret \<Rightarrow> Credentials \<Rightarrow> error + Credentials" where
  [go_defs]: "checkCredentials secret c0 =
     (let here = [ArgS (sec_Namespace secret), ArgS (sec_Name secret)] in
      if cr_AuthURL c0 = '''' then Inl (Errorf ''cloud credential secret %s/%s has no authUrl'' here)
      else let c = inferAuthMethod c0 in
      if cr_AuthMethod c = ''password'' \<and> (cr_Username c = '''' \<or> cr_Password c = '''') then
        Inl (Errorf ''cloud credential secret %s/%s has incomplete username/password authentication'' here)
      else if cr_AuthMethod c = ''aksk'' \<and> (cr_AccessKey c = '''' \<or> cr_SecretKey c = '''') then
        Inl (Errorf ''cloud credential secret %s/%s has incomplete AK/SK authentication'' here)
      else if cr_AuthMethod c \<noteq> ''password'' \<and> cr_AuthMethod c \<noteq> ''aksk'' then
        Inl (Errorf ''cloud credential secret %s/%s has unsupported authentication method %q''
               (here @ [ArgS (cr_AuthMethod c)]))
      else if cr_AuthMethod c = ''password'' \<and> cr_DomainName c = '''' \<and> cr_DomainID c = '''' then
        Inl (Errorf ''cloud credential secret %s/%s has no domain'' here)
      else if cr_Region c = '''' then Inl (Errorf ''cloud credential secret %s/%s has no region'' here)
      else if cr_ProjectName c = '''' \<and> cr_ProjectID c = '''' then
        Inl (Errorf ''cloud credential secret %s/%s has no project'' here)
      else Inr c)"

definition CredentialsFromSecret ::
  "(rune \<Rightarrow> rune) \<Rightarrow> Secret \<Rightarrow> string \<Rightarrow> string \<Rightarrow> string \<Rightarrow> error + Credentials" where
  [go_defs]: "CredentialsFromSecret lower secret fallbackRegion fallbackProject fallbackEndpointType =
     checkCredentials secret
       (secretCredentials lower secret fallbackRegion fallbackProject fallbackEndpointType)"

text \<open>\<open>authOptions\<close> chooses between the SDK's two option types by the authentication method.\<close>

datatype AuthOptionsProvider =
    AKSKAuthOptions (ak_IdentityEndpoint: string) (ak_ProjectId: string) (ak_ProjectName: string)
      (ak_Region: string) (ak_Domain: string) (ak_DomainID: string) (ak_AccessKey: string)
      (ak_SecretKey: string)
  | AuthOptions (ao_IdentityEndpoint: string) (ao_Username: string) (ao_Password: string)
      (ao_DomainName: string) (ao_DomainID: string) (ao_TenantName: string) (ao_TenantID: string)
      (ao_AllowReauth: bool)

definition authOptions :: "Credentials \<Rightarrow> AuthOptionsProvider" where
  [go_defs]: "authOptions c =
     (if cr_AuthMethod c = ''aksk''
      then AKSKAuthOptions (cr_AuthURL c) (cr_ProjectID c) (cr_ProjectName c) (cr_Region c)
             (cr_DomainName c) (cr_DomainID c) (cr_AccessKey c) (cr_SecretKey c)
      else AuthOptions (cr_AuthURL c) (cr_Username c) (cr_Password c) (cr_DomainName c)
             (cr_DomainID c) (cr_ProjectName c) (cr_ProjectID c) True)"

datatype Availability = AvailabilityAdmin | AvailabilityPublic | AvailabilityInternal

definition endpointAvailability :: "(rune \<Rightarrow> rune) \<Rightarrow> string \<Rightarrow> Availability" where
  [go_defs]: "endpointAvailability lower value =
     (let v = ToLower lower value in
      if v = ''internal'' \<or> v = ''internalurl'' then AvailabilityInternal
      else if v = ''admin'' \<or> v = ''adminurl'' then AvailabilityAdmin
      else AvailabilityPublic)"

section \<open>Acceptance\<close>

text \<open>What the cloud client needs: an endpoint, one complete way to log in, a region and a project.\<close>

definition completePassword :: "Credentials \<Rightarrow> bool" where
  "completePassword c =
     (cr_Username c \<noteq> '''' \<and> cr_Password c \<noteq> '''' \<and> (cr_DomainName c \<noteq> '''' \<or> cr_DomainID c \<noteq> ''''))"

definition completeAKSK :: "Credentials \<Rightarrow> bool" where
  "completeAKSK c = (cr_AccessKey c \<noteq> '''' \<and> cr_SecretKey c \<noteq> '''')"

definition completeCredentials :: "Credentials \<Rightarrow> bool" where
  "completeCredentials c =
     (cr_AuthURL c \<noteq> '''' \<and> cr_Region c \<noteq> '''' \<and> (cr_ProjectName c \<noteq> '''' \<or> cr_ProjectID c \<noteq> '''') \<and>
      (cr_AuthMethod c = ''password'' \<and> completePassword c \<or>
       cr_AuthMethod c = ''aksk'' \<and> completeAKSK c))"

lemma inferAuthMethod_simps [simp]:
  "cr_AuthURL (inferAuthMethod c) = cr_AuthURL c" "cr_Region (inferAuthMethod c) = cr_Region c"
  "cr_ProjectName (inferAuthMethod c) = cr_ProjectName c"
  "cr_ProjectID (inferAuthMethod c) = cr_ProjectID c"
  by (simp_all add: inferAuthMethod_def)

lemma checkCredentials_iff:
  "checkCredentials s c0 = Inr c \<longleftrightarrow> c = inferAuthMethod c0 \<and> completeCredentials c"
  by (auto simp: checkCredentials_def completeCredentials_def completePassword_def completeAKSK_def
      Let_def)

lemma inferAuthMethod_method: "inferAuthMethod c = c\<lparr>cr_AuthMethod :=
    (if cr_AuthMethod c \<noteq> '''' then cr_AuthMethod c
     else if cr_AccessKey c \<noteq> '''' \<or> cr_SecretKey c \<noteq> '''' then ''aksk'' else ''password'')\<rparr>"
  by (simp add: inferAuthMethod_def)

lemma credentials_eq_iff:
  "c = c' \<longleftrightarrow>
     cr_AuthURL c = cr_AuthURL c' \<and> cr_Username c = cr_Username c' \<and> cr_Password c = cr_Password c' \<and>
     cr_AccessKey c = cr_AccessKey c' \<and> cr_SecretKey c = cr_SecretKey c' \<and>
     cr_DomainName c = cr_DomainName c' \<and> cr_DomainID c = cr_DomainID c' \<and> cr_ProjectID c = cr_ProjectID c' \<and>
     cr_ProjectName c = cr_ProjectName c' \<and> cr_Region c = cr_Region c' \<and>
     cr_EndpointType c = cr_EndpointType c' \<and> cr_AuthMethod c = cr_AuthMethod c'"
  for c c' :: Credentials
  by (cases c; cases c') (simp; blast)

text \<open>The fields of what is read, with the keys of the Secret written out.\<close>

lemma firstNonEmpty_two: "firstNonEmpty [a, b] = (if a \<noteq> '''' then a else b)"
  by simp

lemma firstNonEmpty_public:
  "firstNonEmpty [a, b, ''public''] = (if a \<noteq> '''' then a else if b \<noteq> '''' then b else ''public'')"
  by simp

lemma read_fields:
  fixes lower secret region project endpoint
  defines "c \<equiv> inferAuthMethod (secretCredentials lower secret region project endpoint)"
    and "raw \<equiv> \<lambda>k. mget (sec_Data secret) (''opentelekomcloudcredentialConfig-'' @ k)"
  shows "cr_AuthURL c = TrimSpace (raw ''authUrl'')" "cr_Username c = TrimSpace (raw ''username'')"
    "cr_Password c = raw ''password''" "cr_AccessKey c = TrimSpace (raw ''accessKey'')"
    "cr_SecretKey c = raw ''secretKey''" "cr_DomainName c = TrimSpace (raw ''domainName'')"
    "cr_DomainID c = TrimSpace (raw ''domainId'')" "cr_ProjectID c = TrimSpace (raw ''projectId'')"
    "cr_ProjectName c = (if project \<noteq> '''' then project else TrimSpace (raw ''projectName''))"
    "cr_Region c = (if region \<noteq> '''' then region else TrimSpace (raw ''region''))"
    "cr_EndpointType c = (if endpoint \<noteq> '''' then endpoint
       else if TrimSpace (raw ''endpointType'') \<noteq> '''' then TrimSpace (raw ''endpointType'') else ''public'')"
    "cr_AuthMethod c = (if ToLower lower (TrimSpace (raw ''authMethod'')) \<noteq> ''''
       then ToLower lower (TrimSpace (raw ''authMethod''))
       else if TrimSpace (raw ''accessKey'') \<noteq> '''' \<or> raw ''secretKey'' \<noteq> '''' then ''aksk'' else ''password'')"
  unfolding c_def raw_def inferAuthMethod_method secretCredentials_def secretValue_def credentialPrefix_def
    Credentials.simps firstNonEmpty_two firstNonEmpty_public
  by (rule refl)+

text \<open>Credentials that differ at most in the value of a non-empty password and secret key.\<close>

definition sameButSecrets :: "Credentials \<Rightarrow> Credentials \<Rightarrow> bool" where
  "sameButSecrets a b =
     (b = a\<lparr>cr_Password := cr_Password b, cr_SecretKey := cr_SecretKey b\<rparr> \<and>
      (cr_Password a = '''' \<longleftrightarrow> cr_Password b = '''') \<and> (cr_SecretKey a = '''' \<longleftrightarrow> cr_SecretKey b = ''''))"

lemma sameButSecrets_infer: "sameButSecrets a b \<Longrightarrow> sameButSecrets (inferAuthMethod a) (inferAuthMethod b)"
  by (cases a; cases b) (auto simp: sameButSecrets_def inferAuthMethod_def)

lemma sameButSecrets_fields:
  "sameButSecrets a b \<Longrightarrow>
     cr_AuthURL b = cr_AuthURL a \<and> cr_AuthMethod b = cr_AuthMethod a \<and> cr_Username b = cr_Username a \<and>
     cr_AccessKey b = cr_AccessKey a \<and> cr_DomainName b = cr_DomainName a \<and>
     cr_DomainID b = cr_DomainID a \<and> cr_ProjectName b = cr_ProjectName a \<and>
     cr_ProjectID b = cr_ProjectID a \<and> cr_Region b = cr_Region a \<and>
     (cr_Password a = '''' \<longleftrightarrow> cr_Password b = '''') \<and> (cr_SecretKey a = '''' \<longleftrightarrow> cr_SecretKey b = '''')"
  by (cases a; cases b) (auto simp: sameButSecrets_def)

lemma checkCredentials_error_independent:
  assumes "sameButSecrets a b" and "sec_Name s' = sec_Name s" and "sec_Namespace s' = sec_Namespace s"
    and "checkCredentials s a = Inl e"
  shows "checkCredentials s' b = Inl e"
proof -
  have "checkCredentials s' b =
      (case checkCredentials s a of Inl e \<Rightarrow> Inl e | Inr _ \<Rightarrow> Inr (inferAuthMethod b))"
    using sameButSecrets_fields[OF assms(1)]
      sameButSecrets_fields[OF sameButSecrets_infer[OF assms(1)]] assms(2,3)
    by (simp add: checkCredentials_def Let_def)
  with assms(4) show ?thesis by simp
qed

section \<open>Properties\<close>

text \<open>
  C34: \<open>CredentialsFromSecret\<close> returns the credentials \<open>c\<close> exactly when each field of \<open>c\<close> is what the
  Secret holds under that field's key (white space removed, except in the password and the secret
  key), where the region, the project name and the endpoint type of the spec take precedence if set
  and the endpoint type is otherwise \<open>public\<close>; the method is the one named in lower case, and if none
  is named \<open>aksk\<close> when an access or secret key is there and \<open>password\<close> when not; and when \<open>c\<close> is
  complete: an endpoint, a region, a project, and either the password method with user name, password
  and a domain or the \<open>aksk\<close> method with both keys. Every other Secret is an error.
\<close>

theorem CredentialsFromSecret_complete:
  "CredentialsFromSecret lower secret region project endpoint = Inr c \<longleftrightarrow>
    (let raw = (\<lambda>k. mget (sec_Data secret) (''opentelekomcloudcredentialConfig-'' @ k));
         key = (\<lambda>k. TrimSpace (raw k)); method = ToLower lower (key ''authMethod'') in
      cr_AuthURL c = key ''authUrl'' \<and> cr_Username c = key ''username'' \<and> cr_Password c = raw ''password'' \<and>
      cr_AccessKey c = key ''accessKey'' \<and> cr_SecretKey c = raw ''secretKey'' \<and>
      cr_DomainName c = key ''domainName'' \<and> cr_DomainID c = key ''domainId'' \<and> cr_ProjectID c = key ''projectId'' \<and>
      cr_ProjectName c = (if project \<noteq> '''' then project else key ''projectName'') \<and>
      cr_Region c = (if region \<noteq> '''' then region else key ''region'') \<and>
      cr_EndpointType c = (if endpoint \<noteq> '''' then endpoint
        else if key ''endpointType'' \<noteq> '''' then key ''endpointType'' else ''public'') \<and>
      cr_AuthMethod c = (if method \<noteq> '''' then method
        else if key ''accessKey'' \<noteq> '''' \<or> raw ''secretKey'' \<noteq> '''' then ''aksk'' else ''password'') \<and>
      cr_AuthURL c \<noteq> '''' \<and> cr_Region c \<noteq> '''' \<and> (cr_ProjectName c \<noteq> '''' \<or> cr_ProjectID c \<noteq> '''') \<and>
      (cr_AuthMethod c = ''password'' \<and> cr_Username c \<noteq> '''' \<and> cr_Password c \<noteq> '''' \<and>
         (cr_DomainName c \<noteq> '''' \<or> cr_DomainID c \<noteq> '''') \<or>
       cr_AuthMethod c = ''aksk'' \<and> cr_AccessKey c \<noteq> '''' \<and> cr_SecretKey c \<noteq> ''''))"
  unfolding CredentialsFromSecret_def checkCredentials_iff credentials_eq_iff[of c] read_fields
    completeCredentials_def completePassword_def completeAKSK_def Let_def
  by (simp only: conj_assoc)

text \<open>A Secret with an AK/SK pair and no named method; the password method is not inferred.\<close>

definition akskSecret :: Secret where
  "akskSecret =
     \<lparr>sec_Name = ''credential'', sec_Namespace = ''cattle-global-data'',
      sec_Data = [credentialPrefix @ ''authUrl'' \<mapsto> '' https://iam '', credentialPrefix @ ''accessKey'' \<mapsto> ''AK'',
        credentialPrefix @ ''secretKey'' \<mapsto> '' SK '', credentialPrefix @ ''region'' \<mapsto> ''eu-nl'',
        credentialPrefix @ ''projectId'' \<mapsto> ''p1'']\<rparr>"

theorem CredentialsFromSecret_complete_witness:
  "\<exists>c. CredentialsFromSecret id akskSecret ''eu-de'' '''' '''' = Inr c \<and> cr_AuthURL c = ''https://iam'' \<and>
     cr_AuthMethod c = ''aksk'' \<and> cr_SecretKey c = '' SK '' \<and> cr_Region c = ''eu-de'' \<and> cr_EndpointType c = ''public''"
proof -
  let ?c = "\<lparr>cr_AuthURL = ''https://iam'', cr_AuthMethod = ''aksk'', cr_Username = '''', cr_Password = '''',
    cr_AccessKey = ''AK'', cr_SecretKey = '' SK '', cr_DomainName = '''', cr_DomainID = '''', cr_ProjectName = '''',
    cr_ProjectID = ''p1'', cr_Region = ''eu-de'', cr_EndpointType = ''public''\<rparr>"
  let ?v = "\<lambda>k. mget (sec_Data akskSecret) (''opentelekomcloudcredentialConfig-'' @ k)"
  have raw: "?v ''password'' = ''''" "?v ''secretKey'' = '' SK ''" by code_simp+
  have key: "TrimSpace (?v ''authUrl'') = ''https://iam''" "TrimSpace (?v ''username'') = ''''"
    "TrimSpace (?v ''accessKey'') = ''AK''" "TrimSpace (?v ''domainName'') = ''''" "TrimSpace (?v ''domainId'') = ''''"
    "TrimSpace (?v ''projectId'') = ''p1''" "TrimSpace (?v ''projectName'') = ''''"
    "TrimSpace (?v ''endpointType'') = ''''" "ToLower id (TrimSpace (?v ''authMethod'')) = ''''"
    by code_simp+
  have "CredentialsFromSecret id akskSecret ''eu-de'' '''' '''' = Inr ?c"
    unfolding CredentialsFromSecret_complete Let_def Credentials.simps raw key by simp
  then show ?thesis by (intro exI[of _ ?c]) simp
qed

text \<open>
  C35: The error for a rejected Secret does not depend on the password or the secret key beyond
  whether they are empty: two Secrets of the same name that agree on every other key are rejected
  with the same error.
\<close>

theorem CredentialsFromSecret_hides_secrets:
  assumes "CredentialsFromSecret lower s region project endpoint = Inl e"
    and "sec_Name s' = sec_Name s" and "sec_Namespace s' = sec_Namespace s"
    and "\<forall>k. k \<noteq> credentialPrefix @ ''password'' \<and> k \<noteq> credentialPrefix @ ''secretKey'' \<longrightarrow>
           sec_Data s' k = sec_Data s k"
    and "mget (sec_Data s) (credentialPrefix @ ''password'') = '''' \<longleftrightarrow>
         mget (sec_Data s') (credentialPrefix @ ''password'') = ''''"
    and "mget (sec_Data s) (credentialPrefix @ ''secretKey'') = '''' \<longleftrightarrow>
         mget (sec_Data s') (credentialPrefix @ ''secretKey'') = ''''"
  shows "CredentialsFromSecret lower s' region project endpoint = Inl e"
proof -
  have v: "secretValue s' k = secretValue s k" if "k \<noteq> ''password''" "k \<noteq> ''secretKey''" for k
    using assms(4) that by (simp add: secretValue_def mget_def)
  have "sameButSecrets (secretCredentials lower s region project endpoint)
          (secretCredentials lower s' region project endpoint)"
    using assms(5,6) by (simp add: sameButSecrets_def secretCredentials_def v)
  from checkCredentials_error_independent[OF this assms(2,3)] assms(1) show ?thesis
    by (simp add: CredentialsFromSecret_def)
qed

text \<open>Two rejected Secrets with different passwords, for the witness.\<close>

definition secretWithPassword :: "string \<Rightarrow> Secret" where
  "secretWithPassword pw =
     \<lparr>sec_Name = ''credential'', sec_Namespace = ''cattle-global-data'',
      sec_Data = [credentialPrefix @ ''password'' \<mapsto> pw]\<rparr>"

theorem CredentialsFromSecret_hides_secrets_witness:
  "CredentialsFromSecret id (secretWithPassword ''do-not-log'') '''' '''' ''''
     = Inl (Errorf ''cloud credential secret %s/%s has no authUrl''
              [ArgS ''cattle-global-data'', ArgS ''credential'']) \<and>
   CredentialsFromSecret id (secretWithPassword ''other'') '''' '''' ''''
     = Inl (Errorf ''cloud credential secret %s/%s has no authUrl''
              [ArgS ''cattle-global-data'', ArgS ''credential''])"
proof -
  let ?e = "Errorf ''cloud credential secret %s/%s has no authUrl''
              [ArgS ''cattle-global-data'', ArgS ''credential'']"
  have a: "secretValue (secretWithPassword ''do-not-log'') ''authUrl'' = ''''"
    by (simp add: secretValue_def secretWithPassword_def mget_def TrimSpace_def trimBoth_def dropWhileEnd_def)
  have e: "CredentialsFromSecret id (secretWithPassword ''do-not-log'') '''' '''' '''' = Inl ?e"
    by (simp add: CredentialsFromSecret_def checkCredentials_def secretCredentials_def a)
      (simp add: secretWithPassword_def)
  have "CredentialsFromSecret id (secretWithPassword ''other'') '''' '''' '''' = Inl ?e"
    by (rule CredentialsFromSecret_hides_secrets[OF e]) (auto simp: secretWithPassword_def)
  with e show ?thesis by blast
qed

end
