(* ===== verification/CloudService.thy ===== *)
theory CloudService
  imports Rules CredentialSecrets
begin

text \<open>
  The T-Cloud implementation of the \<open>Service\<close> interface, \<^verbatim>\<open>src/internal/cloud/tcloud.go\<close>. The
  cloud SDK it calls (gophertelekomcloud) is the record \<open>Sdk\<close>, one field per SDK call, an argument
  of every definition here. A result page is represented by what extracting it returns.
\<close>

section \<open>The SDK\<close>

record SdkVPC =
  sv_ID :: string
  sv_Name :: string

record SdkSubnet =
  sn_ID :: string
  sn_Name :: string
  sn_NetworkID :: string

record SdkRule =
  sk_ID :: string
  sk_IPProtocol :: string
  sk_FromPort :: int
  sk_ToPort :: int
  sk_IPRangeCIDR :: string
  sk_GroupName :: string

record SdkGroup =
  sg_ID :: string
  sg_Name :: string
  sg_Rules :: "SdkRule list"

record SubnetCreateOpts =
  so_VpcID :: string
  so_Name :: string
  so_CIDR :: string
  so_GatewayIP :: string
  so_DNSList :: "string list"
  so_AvailabilityZone :: string
  so_EnableDHCP :: bool

record CreateRuleOpts =
  ro_ParentGroupID :: string
  ro_FromPort :: int
  ro_ToPort :: int
  ro_IPProtocol :: string
  ro_CIDR :: string
  ro_FromGroupID :: string

text \<open>A port is represented by its \<open>DeviceOwner\<close>, the only field the program reads.\<close>

record 'w Sdk =
  vpcs_List :: "string \<Rightarrow> ('w, error + SdkVPC list) io"
  vpcs_Create :: "string \<Rightarrow> string \<Rightarrow> ('w, error + SdkVPC) io"
  vpcs_Get :: "string \<Rightarrow> ('w, error + SdkVPC) io"
  vpcs_Delete :: "string \<Rightarrow> ('w, error option) io"
  subnets_List :: "string \<Rightarrow> string \<Rightarrow> ('w, error + SdkSubnet list) io"
  subnets_Create :: "SubnetCreateOpts \<Rightarrow> ('w, error + SdkSubnet) io"
  subnets_Get :: "string \<Rightarrow> ('w, error + SdkSubnet) io"
  subnets_Delete :: "string \<Rightarrow> string \<Rightarrow> ('w, error option) io"
  secgroups_Get :: "string \<Rightarrow> ('w, error + SdkGroup) io"
  secgroups_AllPages :: "('w, error + (error + SdkGroup list)) io"
  secgroups_Create :: "string \<Rightarrow> string \<Rightarrow> ('w, error + SdkGroup) io"
  secgroups_CreateRule :: "CreateRuleOpts \<Rightarrow> ('w, error option) io"
  secgroups_DeleteRule :: "string \<Rightarrow> ('w, error option) io"
  secgroups_Delete :: "string \<Rightarrow> ('w, error option) io"
  ports_AllPages :: "string \<Rightarrow> ('w, error + (error + string list)) io"

section \<open>Reading resources\<close>

definition vpcResource :: "SdkVPC \<Rightarrow> Resource" where
  [go_defs]: "vpcResource v = \<lparr>res_ID = sv_ID v, res_Name = sv_Name v\<rparr>"

definition subnetResource :: "SdkSubnet \<Rightarrow> Resource" where
  [go_defs]: "subnetResource v = \<lparr>res_ID = sn_ID v, res_Name = sn_Name v\<rparr>"

definition groupResource :: "SdkGroup \<Rightarrow> Resource" where
  [go_defs]: "groupResource g = \<lparr>res_ID = sg_ID g, res_Name = sg_Name g\<rparr>"

definition tcloud_GetVPC :: "'w Sdk \<Rightarrow> string \<Rightarrow> ('w, error + Resource) io" where
  [go_defs]: "tcloud_GetVPC sdk rid w =
     (case vpcs_Get sdk rid w of
        (Inl err, w) \<Rightarrow> (Inl err, w)
      | (Inr value, w) \<Rightarrow> (Inr (vpcResource value), w))"

definition tcloud_GetSubnet :: "'w Sdk \<Rightarrow> string \<Rightarrow> ('w, error + Resource) io" where
  [go_defs]: "tcloud_GetSubnet sdk rid w =
     (case subnets_Get sdk rid w of
        (Inl err, w) \<Rightarrow> (Inl err, w)
      | (Inr value, w) \<Rightarrow> (Inr (subnetResource value), w))"

definition tcloud_GetSecurityGroup :: "'w Sdk \<Rightarrow> string \<Rightarrow> ('w, error + Resource) io" where
  [go_defs]: "tcloud_GetSecurityGroup sdk rid w =
     (case secgroups_Get sdk rid w of
        (Inl err, w) \<Rightarrow> (Inl err, w)
      | (Inr value, w) \<Rightarrow> (Inr (groupResource value), w))"

section \<open>Ensuring VPCs and subnets\<close>

definition tcloud_EnsureVPC :: "'w Sdk \<Rightarrow> VPCRequest \<Rightarrow> ('w, error + Resource) io" where
  [go_defs]: "tcloud_EnsureVPC sdk request w =
     (if vr_ID request \<noteq> '''' then tcloud_GetVPC sdk (vr_ID request) w
      else case vpcs_List sdk (vr_Name request) w of
        (Inl err, w) \<Rightarrow> (Inl err, w)
      | (Inr list, w) \<Rightarrow>
          if length list > 1
          then (Inl (Errorf ''multiple VPCs found with managed name %q'' [ArgS (vr_Name request)]), w)
          else case list of
            v # _ \<Rightarrow> (Inr (vpcResource v), w)
          | [] \<Rightarrow>
              (case vpcs_Create sdk (vr_Name request) (vr_CIDR request) w of
                 (Inl err, w) \<Rightarrow> (Inl err, w)
               | (Inr created, w) \<Rightarrow> (Inr (vpcResource created), w)))"

definition defaultDNS :: "string list" where
  [go_defs]: "defaultDNS = [''100.125.4.25'', ''8.8.8.8'']"

definition tcloud_EnsureSubnet :: "'w Sdk \<Rightarrow> SubnetRequest \<Rightarrow> ('w, error + Resource) io" where
  [go_defs]: "tcloud_EnsureSubnet sdk request w =
     (if sr_ID request \<noteq> '''' then tcloud_GetSubnet sdk (sr_ID request) w
      else case subnets_List sdk (sr_VPCID request) (sr_Name request) w of
        (Inl err, w) \<Rightarrow> (Inl err, w)
      | (Inr list, w) \<Rightarrow>
          if length list > 1
          then (Inl (Errorf ''multiple subnets found with managed name %q in VPC %s''
                       [ArgS (sr_Name request), ArgS (sr_VPCID request)]), w)
          else case list of
            v # _ \<Rightarrow> (Inr (subnetResource v), w)
          | [] \<Rightarrow>
              (let dns = (if length (sr_DNSNameservers request) = 0 then defaultDNS
                          else sr_DNSNameservers request) in
               case subnets_Create sdk
                      \<lparr>so_VpcID = sr_VPCID request, so_Name = sr_Name request, so_CIDR = sr_CIDR request,
                       so_GatewayIP = sr_GatewayIP request, so_DNSList = dns,
                       so_AvailabilityZone = sr_AvailabilityZone request, so_EnableDHCP = True\<rparr> w of
                 (Inl err, w) \<Rightarrow> (Inl err, w)
               | (Inr created, w) \<Rightarrow> (Inr (subnetResource created), w)))"

section \<open>Ensuring security groups\<close>

definition matchesRule :: "(rune \<Rightarrow> rune \<Rightarrow> bool) \<Rightarrow> SdkGroup \<Rightarrow> SdkRule \<Rightarrow> Rule \<Rightarrow> bool" where
  [go_defs]: "matchesRule orbit grp existing wanted =
     (let remoteGroupMatches = (ru_RemoteGroupID wanted = '''' \<or> sk_GroupName existing = sg_Name grp) in
      EqualFold orbit (sk_IPProtocol existing) (ru_Protocol wanted) \<and>
      sk_FromPort existing = ru_FromPort wanted \<and> sk_ToPort existing = ru_ToPort wanted \<and>
      sk_IPRangeCIDR existing = ru_CIDR wanted \<and> remoteGroupMatches)"

fun hasRuleIn :: "(rune \<Rightarrow> rune \<Rightarrow> bool) \<Rightarrow> SdkGroup \<Rightarrow> SdkRule list \<Rightarrow> Rule \<Rightarrow> bool" where
  "hasRuleIn orbit grp [] wanted = False"
| "hasRuleIn orbit grp (existing # rest) wanted =
     (if matchesRule orbit grp existing wanted then True else hasRuleIn orbit grp rest wanted)"

definition hasRule :: "(rune \<Rightarrow> rune \<Rightarrow> bool) \<Rightarrow> SdkGroup \<Rightarrow> Rule \<Rightarrow> bool" where
  [go_defs]: "hasRule orbit grp wanted = hasRuleIn orbit grp (sg_Rules grp) wanted"

text \<open>The search of a group by name: a second group of the same name is an error.\<close>

fun findByName :: "string \<Rightarrow> SdkGroup option \<Rightarrow> SdkGroup list \<Rightarrow> error + SdkGroup option" where
  "findByName name grp [] = Inr grp"
| "findByName name grp (g # groups) =
     (if sg_Name g = name
      then (case grp of
              Some _ \<Rightarrow> Inl (Errorf ''multiple security groups found with managed name %q'' [ArgS name])
            | None \<Rightarrow> findByName name (Some g) groups)
      else findByName name grp groups)"

text \<open>The first half of \<open>EnsureSecurityGroup\<close>: the group with the given ID, or by name, or a new one.\<close>

definition obtainGroup :: "'w Sdk \<Rightarrow> SecurityGroupRequest \<Rightarrow> ('w, error + SdkGroup) io" where
  [go_defs]: "obtainGroup sdk request w =
     (if gr_ID request \<noteq> '''' then secgroups_Get sdk (gr_ID request) w
      else case secgroups_AllPages sdk w of
        (Inl err, w) \<Rightarrow> (Inl err, w)
      | (Inr (Inl err), w) \<Rightarrow> (Inl err, w)
      | (Inr (Inr groups), w) \<Rightarrow>
          (case findByName (gr_Name request) None groups of
             Inl err \<Rightarrow> (Inl err, w)
           | Inr (Some grp) \<Rightarrow> (Inr grp, w)
           | Inr None \<Rightarrow> secgroups_Create sdk (gr_Name request) (gr_Description request) w))"

definition ruleOpts :: "SdkGroup \<Rightarrow> Rule \<Rightarrow> CreateRuleOpts" where
  [go_defs]: "ruleOpts grp rule =
     \<lparr>ro_ParentGroupID = sg_ID grp, ro_FromPort = ru_FromPort rule, ro_ToPort = ru_ToPort rule,
      ro_IPProtocol = ru_Protocol rule, ro_CIDR = ru_CIDR rule, ro_FromGroupID = ru_RemoteGroupID rule\<rparr>"

text \<open>The loop that creates the missing rules; it stops at the first error.\<close>

fun addRules ::
  "(rune \<Rightarrow> rune \<Rightarrow> bool) \<Rightarrow> 'w Sdk \<Rightarrow> SdkGroup \<Rightarrow> Rule list \<Rightarrow> ('w, error option) io" where
  "addRules orbit sdk grp [] w = (None, w)"
| "addRules orbit sdk grp (rule # rules) w =
     (if hasRule orbit grp rule then addRules orbit sdk grp rules w
      else case secgroups_CreateRule sdk (ruleOpts grp rule) w of
        (Some err, w) \<Rightarrow> (Some err, w)
      | (None, w) \<Rightarrow> addRules orbit sdk grp rules w)"

text \<open>The inner and the outer loop that delete obsolete rules; a missing rule is no error.\<close>

fun removeMatching ::
  "(rune \<Rightarrow> rune \<Rightarrow> bool) \<Rightarrow> 'w Sdk \<Rightarrow> SdkGroup \<Rightarrow> Rule \<Rightarrow> SdkRule list \<Rightarrow> ('w, error option) io" where
  "removeMatching orbit sdk grp obsolete [] w = (None, w)"
| "removeMatching orbit sdk grp obsolete (existing # rest) w =
     (if \<not> matchesRule orbit grp existing obsolete
      then removeMatching orbit sdk grp obsolete rest w
      else case secgroups_DeleteRule sdk (sk_ID existing) w of
        (err, w) \<Rightarrow>
          if err \<noteq> None \<and> \<not> IsNotFound_opt err then (err, w)
          else removeMatching orbit sdk grp obsolete rest w)"

fun removeRules ::
  "(rune \<Rightarrow> rune \<Rightarrow> bool) \<Rightarrow> 'w Sdk \<Rightarrow> SdkGroup \<Rightarrow> Rule list \<Rightarrow> ('w, error option) io" where
  "removeRules orbit sdk grp [] w = (None, w)"
| "removeRules orbit sdk grp (obsolete # rules) w =
     (case removeMatching orbit sdk grp obsolete (sg_Rules grp) w of
        (Some err, w) \<Rightarrow> (Some err, w)
      | (None, w) \<Rightarrow> removeRules orbit sdk grp rules w)"

definition tcloud_EnsureSecurityGroup ::
  "(rune \<Rightarrow> rune \<Rightarrow> bool) \<Rightarrow> 'w Sdk \<Rightarrow> SecurityGroupRequest \<Rightarrow> ('w, error + Resource) io" where
  [go_defs]: "tcloud_EnsureSecurityGroup orbit sdk request w =
     (case obtainGroup sdk request w of
        (Inl err, w) \<Rightarrow> (Inl err, w)
      | (Inr grp, w) \<Rightarrow>
          (case addRules orbit sdk grp (gr_Rules request) w of
             (Some err, w) \<Rightarrow> (Inl err, w)
           | (None, w) \<Rightarrow>
               (case removeRules orbit sdk grp (gr_RemoveRules request) w of
                  (Some err, w) \<Rightarrow> (Inl err, w)
                | (None, w) \<Rightarrow> (Inr (groupResource grp), w))))"

section \<open>Ports and deletion\<close>

text \<open>The loop that counts the ports of compute instances.\<close>

fun countAttached :: "string list \<Rightarrow> int \<Rightarrow> int" where
  "countAttached [] attached = attached"
| "countAttached (deviceOwner # ports) attached =
     (if HasPrefix deviceOwner ''compute:'' then countAttached ports (attached + 1)
      else countAttached ports attached)"

definition tcloud_AttachedPorts :: "'w Sdk \<Rightarrow> string \<Rightarrow> ('w, error + int) io" where
  [go_defs]: "tcloud_AttachedPorts sdk subnetID w =
     (case subnets_Get sdk subnetID w of
        (Inl err, w) \<Rightarrow> if IsNotFound err then (Inr 0, w) else (Inl err, w)
      | (Inr subnet, w) \<Rightarrow>
          (case ports_AllPages sdk (sn_NetworkID subnet) w of
             (Inl err, w) \<Rightarrow> (Inl err, w)
           | (Inr (Inl err), w) \<Rightarrow> (Inl err, w)
           | (Inr (Inr ports), w) \<Rightarrow> (Inr (countAttached ports 0), w)))"

definition tcloud_DeleteSecurityGroup :: "'w Sdk \<Rightarrow> string \<Rightarrow> ('w, error option) io" where
  [go_defs]: "tcloud_DeleteSecurityGroup sdk rid w =
     (case secgroups_Delete sdk rid w of (err, w) \<Rightarrow> (if IsNotFound_opt err then None else err, w))"

definition tcloud_DeleteSubnet :: "'w Sdk \<Rightarrow> string \<Rightarrow> string \<Rightarrow> ('w, error option) io" where
  [go_defs]: "tcloud_DeleteSubnet sdk vpcID subnetID w =
     (case subnets_Delete sdk vpcID subnetID w of (err, w) \<Rightarrow> (if IsNotFound_opt err then None else err, w))"

definition tcloud_DeleteVPC :: "'w Sdk \<Rightarrow> string \<Rightarrow> ('w, error option) io" where
  [go_defs]: "tcloud_DeleteVPC sdk rid w =
     (case vpcs_Delete sdk rid w of (err, w) \<Rightarrow> (if IsNotFound_opt err then None else err, w))"

section \<open>The service and its factory\<close>

definition tcloudService :: "(rune \<Rightarrow> rune \<Rightarrow> bool) \<Rightarrow> 'w Sdk \<Rightarrow> 'w Service" where
  "tcloudService orbit sdk =
     \<lparr>EnsureVPC = tcloud_EnsureVPC sdk, EnsureSubnet = tcloud_EnsureSubnet sdk,
      EnsureSecurityGroup = tcloud_EnsureSecurityGroup orbit sdk,
      GetVPC = tcloud_GetVPC sdk, GetSubnet = tcloud_GetSubnet sdk,
      GetSecurityGroup = tcloud_GetSecurityGroup sdk, AttachedPorts = tcloud_AttachedPorts sdk,
      DeleteSecurityGroup = tcloud_DeleteSecurityGroup sdk, DeleteSubnet = tcloud_DeleteSubnet sdk,
      DeleteVPC = tcloud_DeleteVPC sdk\<rparr>"

text \<open>
  The SDK's client constructors: \<open>'p\<close> is a provider client, \<open>'c\<close> a service client. \<open>sdkOf\<close> gives
  the SDK calls made through a VPC, a compute and a network client.
\<close>

record EndpointOpts =
  eo_Region :: string
  eo_Availability :: Availability

record ('w, 'p, 'c) OpenStack =
  AuthenticatedClient :: "AuthOptionsProvider \<Rightarrow> ('w, error + 'p) io"
  PrependUserAgent :: "string \<Rightarrow> 'p \<Rightarrow> 'p"
  NewNetworkV1 :: "'p \<Rightarrow> EndpointOpts \<Rightarrow> ('w, error + 'c) io"
  NewComputeV2 :: "'p \<Rightarrow> EndpointOpts \<Rightarrow> ('w, error + 'c) io"
  NewNetworkV2 :: "'p \<Rightarrow> EndpointOpts \<Rightarrow> ('w, error + 'c) io"

definition TCloudFactory_New ::
  "(rune \<Rightarrow> rune) \<Rightarrow> (rune \<Rightarrow> rune \<Rightarrow> bool) \<Rightarrow> ('w, 'p, 'c) OpenStack \<Rightarrow>
   ('c \<Rightarrow> 'c \<Rightarrow> 'c \<Rightarrow> 'w Sdk) \<Rightarrow> 'w Factory" where
  [go_defs]: "TCloudFactory_New lower orbit os sdkOf credentials w =
     (case AuthenticatedClient os (authOptions credentials) w of
        (Inl err, w) \<Rightarrow> (Inl (Wrapf ''authenticate with T-Cloud: %w'' [] err), w)
      | (Inr provider0, w) \<Rightarrow>
          (let provider = PrependUserAgent os ''t-cloud-rancher-network-controller'' provider0;
               endpointOpts = \<lparr>eo_Region = cr_Region credentials,
                 eo_Availability = endpointAvailability lower (cr_EndpointType credentials)\<rparr> in
           case NewNetworkV1 os provider endpointOpts w of
             (Inl err, w) \<Rightarrow> (Inl (Wrapf ''create VPC client: %w'' [] err), w)
           | (Inr vpcClient, w) \<Rightarrow>
               (case NewComputeV2 os provider endpointOpts w of
                  (Inl err, w) \<Rightarrow> (Inl (Wrapf ''create compute client: %w'' [] err), w)
                | (Inr computeClient, w) \<Rightarrow>
                    (case NewNetworkV2 os provider endpointOpts w of
                       (Inl err, w) \<Rightarrow> (Inl (Wrapf ''create network client: %w'' [] err), w)
                     | (Inr networkClient, w) \<Rightarrow>
                         (Inr (tcloudService orbit (sdkOf vpcClient computeClient networkClient)), w)))))"

lemma tcloudService_simps [simp]:
  "EnsureVPC (tcloudService orbit sdk) = tcloud_EnsureVPC sdk"
  "EnsureSubnet (tcloudService orbit sdk) = tcloud_EnsureSubnet sdk"
  "EnsureSecurityGroup (tcloudService orbit sdk) = tcloud_EnsureSecurityGroup orbit sdk"
  "GetVPC (tcloudService orbit sdk) = tcloud_GetVPC sdk"
  "GetSubnet (tcloudService orbit sdk) = tcloud_GetSubnet sdk"
  "GetSecurityGroup (tcloudService orbit sdk) = tcloud_GetSecurityGroup sdk"
  "AttachedPorts (tcloudService orbit sdk) = tcloud_AttachedPorts sdk"
  "DeleteSecurityGroup (tcloudService orbit sdk) = tcloud_DeleteSecurityGroup sdk"
  "DeleteSubnet (tcloudService orbit sdk) = tcloud_DeleteSubnet sdk"
  "DeleteVPC (tcloudService orbit sdk) = tcloud_DeleteVPC sdk"
  by (simp_all add: tcloudService_def)

lemma hasRuleIn_iff: "hasRuleIn orbit grp rs wanted \<longleftrightarrow> (\<exists>r\<in>set rs. matchesRule orbit grp r wanted)"
  by (induction rs) auto

lemma hasRule_iff: "hasRule orbit grp wanted \<longleftrightarrow> (\<exists>r\<in>set (sg_Rules grp). matchesRule orbit grp r wanted)"
  by (simp add: hasRule_def hasRuleIn_iff)

lemma countAttached_eq:
  "countAttached ports n = n + int (length (filter (\<lambda>d. HasPrefix d ''compute:'') ports))"
  by (induction ports arbitrary: n) auto

end
