(* ===== verification/Kube.thy ===== *)
theory Kube
  imports CloudService
begin

text \<open>
  The controller's view of Kubernetes: the client operations it calls, the pure library functions
  it uses, and the status helpers \<open>patchStatus\<close>, \<open>setCondition\<close>, \<open>fail\<close> and \<open>removeFinalizer\<close> of
  \<^verbatim>\<open>src/internal/controller/tcloudclusternetwork_controller.go\<close>. Client and library are
  third-party code: they are records of functions, arguments of every definition that uses them.
\<close>

section \<open>Unstructured objects\<close>

datatype jvalue =
    VString string
  | VInt int
  | VBool bool
  | VList "jvalue list"
  | VMap "(string \<times> jvalue) list"
  | VOther

record Unstructured =
  u_Meta :: ObjectMeta
  u_Object :: jvalue

abbreviation "u_name u \<equiv> om_Name (u_Meta u)"
abbreviation "u_namespace u \<equiv> om_Namespace (u_Meta u)"
abbreviation "u_uid u \<equiv> om_UID (u_Meta u)"

section \<open>The client\<close>

text \<open>
  One field per operation and kind. A read takes a namespace and a name; a write takes the object
  and returns it as the client leaves it in memory, that is, as the server answered. A merge patch
  takes the base it is computed from and the mutated object; the client writes the answer into the
  object only when the call succeeds. \<open>ListMachines\<close> takes a namespace and the value of the
  cluster-name label.
\<close>

record 'w Kube =
  GetNetwork :: "string \<Rightarrow> string \<Rightarrow> ('w, error + TCloudClusterNetwork) io"
  ListNetworks :: "string \<Rightarrow> ('w, error + TCloudClusterNetwork list) io"
  CreateNetwork :: "TCloudClusterNetwork \<Rightarrow> ('w, error + TCloudClusterNetwork) io"
  UpdateNetwork :: "TCloudClusterNetwork \<Rightarrow> ('w, error + TCloudClusterNetwork) io"
  PatchNetwork :: "TCloudClusterNetwork \<Rightarrow> TCloudClusterNetwork \<Rightarrow> ('w, error + TCloudClusterNetwork) io"
  StatusPatchNetwork :: "TCloudClusterNetwork \<Rightarrow> TCloudClusterNetwork \<Rightarrow> ('w, error + TCloudClusterNetwork) io"
  DeleteNetwork :: "TCloudClusterNetwork \<Rightarrow> ('w, error option) io"
  GetCluster :: "string \<Rightarrow> string \<Rightarrow> ('w, error + Unstructured) io"
  PatchCluster :: "Unstructured \<Rightarrow> Unstructured \<Rightarrow> ('w, error + Unstructured) io"
  ListMachines :: "string \<Rightarrow> string \<Rightarrow> ('w, error + Unstructured list) io"
  GetConfig :: "string \<Rightarrow> string \<Rightarrow> ('w, error + Unstructured) io"
  ListConfigs :: "string \<Rightarrow> ('w, error + Unstructured list) io"
  PatchConfig :: "Unstructured \<Rightarrow> Unstructured \<Rightarrow> ('w, error + Unstructured) io"
  GetSecret :: "string \<Rightarrow> string \<Rightarrow> ('w, error + Secret) io"

section \<open>Library functions\<close>

text \<open>
  Pure library functions: the Unicode tables of the Go distribution, the label validator, the
  condition helpers of \<open>k8s.io/apimachinery/pkg/api/meta\<close> and the finalizer helpers of
  \<open>controllerutil\<close>.
\<close>

record lib =
  lib_lower :: "rune \<Rightarrow> rune"
  lib_orbit :: "rune \<Rightarrow> rune \<Rightarrow> bool"
  IsDNS1123Label :: "string \<Rightarrow> string list"
  SetStatusCondition :: "Condition list \<Rightarrow> Condition \<Rightarrow> Condition list"
  IsStatusConditionTrue :: "Condition list \<Rightarrow> string \<Rightarrow> bool"
  AddFinalizer :: "string list \<Rightarrow> string \<Rightarrow> string list \<times> bool"
  ContainsFinalizer :: "string list \<Rightarrow> string \<Rightarrow> bool"
  RemoveFinalizer :: "string list \<Rightarrow> string \<Rightarrow> string list"

text \<open>The condition of a type, and what the library documents of its functions.\<close>

definition condition_of :: "Condition list \<Rightarrow> string \<Rightarrow> Condition option" where
  "condition_of cs t = find (\<lambda>c. cn_Type c = t) cs"

locale status_lib =
  fixes L :: lib
  assumes set_condition: "condition_of (SetStatusCondition L cs c) t =
            (if t = cn_Type c then Some c else condition_of cs t)"
    and condition_true: "IsStatusConditionTrue L cs t \<longleftrightarrow>
            (\<exists>c. condition_of cs t = Some c \<and> cn_Status c = ConditionTrue)"
    and add_finalizer: "AddFinalizer L fs f = (fs', added) \<Longrightarrow>
            set fs' = insert f (set fs) \<and> (added \<longleftrightarrow> f \<notin> set fs)"
    and contains_finalizer: "ContainsFinalizer L fs f \<longleftrightarrow> f \<in> set fs"
    and remove_finalizer: "set (RemoveFinalizer L fs f) = set fs - {f}"

text \<open>The label that ties a machine to its cluster.\<close>

definition clusterNameLabel :: string where
  [go_defs]: "clusterNameLabel = ''cluster.x-k8s.io/cluster-name''"

section \<open>Results\<close>

record Result =
  Requeue :: bool
  RequeueAfter :: duration

abbreviation noResult :: Result where
  "noResult \<equiv> \<lparr>Requeue = False, RequeueAfter = 0\<rparr>"
abbreviation requeue :: Result where
  "requeue \<equiv> \<lparr>Requeue = True, RequeueAfter = 0\<rparr>"
abbreviation requeueAfter :: "duration \<Rightarrow> Result" where
  "requeueAfter d \<equiv> \<lparr>Requeue = False, RequeueAfter = d\<rparr>"

text \<open>What a reconcile function does: return a result and an error, or panic at run time.\<close>

datatype ret = Ret Result "error option" | GoPanic

section \<open>Status helpers\<close>

definition patchStatus ::
  "'w Kube \<Rightarrow> TCloudClusterNetwork \<Rightarrow> (TCloudClusterNetwork \<Rightarrow> TCloudClusterNetwork) \<Rightarrow>
   ('w, error option \<times> TCloudClusterNetwork) io" where
  [go_defs]: "patchStatus k network mutate w =
     (let base = network; mutated = mutate network in
      case StatusPatchNetwork k base mutated w of
        (Inl err, w) \<Rightarrow> ((Some err, mutated), w)
      | (Inr answer, w) \<Rightarrow> ((None, answer), w))"

abbreviation mkCondition :: "TCloudClusterNetwork \<Rightarrow> string \<Rightarrow> condition_status \<Rightarrow> string \<Rightarrow> message \<Rightarrow> Condition" where
  "mkCondition network t s reason msg \<equiv>
     \<lparr>cn_Type = t, cn_Status = s, cn_Reason = reason, cn_Message = msg,
      cn_ObservedGeneration = om_Generation (Meta network)\<rparr>"

definition withCondition :: "lib \<Rightarrow> Condition \<Rightarrow> TCloudClusterNetwork \<Rightarrow> TCloudClusterNetwork" where
  [go_defs]: "withCondition L c network =
     network\<lparr>Status := (Status network)\<lparr>st_Conditions := SetStatusCondition L (st_Conditions (Status network)) c\<rparr>\<rparr>"

definition setCondition ::
  "lib \<Rightarrow> 'w Kube \<Rightarrow> TCloudClusterNetwork \<Rightarrow> string \<Rightarrow> condition_status \<Rightarrow> string \<Rightarrow> message \<Rightarrow>
   ('w, TCloudClusterNetwork) io" where
  [go_defs]: "setCondition L k network conditionType status reason msg w =
     (case patchStatus k network (withCondition L (mkCondition network conditionType status reason msg)) w of
        ((_, network), w) \<Rightarrow> (network, w))"

definition failConditions ::
  "lib \<Rightarrow> string \<Rightarrow> string \<Rightarrow> error \<Rightarrow> TCloudClusterNetwork \<Rightarrow> TCloudClusterNetwork" where
  [go_defs]: "failConditions L conditionType reason err network =
     (let condition = mkCondition network conditionType ConditionFalse reason (ErrorText err);
          network' = withCondition L condition network in
      if conditionType \<noteq> ConditionReady
      then withCondition L (condition\<lparr>cn_Type := ConditionReady\<rparr>) network'
      else network')"

definition fail ::
  "lib \<Rightarrow> 'w Kube \<Rightarrow> TCloudClusterNetwork \<Rightarrow> string \<Rightarrow> string \<Rightarrow> error \<Rightarrow> ('w, error) io" where
  [go_defs]: "fail L k network conditionType reason err w =
     (case patchStatus k network (failConditions L conditionType reason err) w of
        ((Some statusErr, _), w) \<Rightarrow> (JoinErr err (Wrapf ''publish failure status: %w'' [] statusErr), w)
      | ((None, _), w) \<Rightarrow> (err, w))"

text \<open>The statement \<open>return ctrl.Result{}, r.fail(...)\<close>.\<close>

definition failRet ::
  "lib \<Rightarrow> 'w Kube \<Rightarrow> TCloudClusterNetwork \<Rightarrow> string \<Rightarrow> string \<Rightarrow> error \<Rightarrow> ('w, ret) io" where
  [go_defs]: "failRet L k network conditionType reason err w =
     (case fail L k network conditionType reason err w of (e, w) \<Rightarrow> (Ret noResult (Some e), w))"

definition removeFinalizer :: "lib \<Rightarrow> 'w Kube \<Rightarrow> TCloudClusterNetwork \<Rightarrow> ('w, error option) io" where
  [go_defs]: "removeFinalizer L k network w =
     (let base = network;
          mutated = network\<lparr>Meta := (Meta network)\<lparr>om_Finalizers :=
                      RemoveFinalizer L (om_Finalizers (Meta network)) NetworkFinalizer\<rparr>\<rparr> in
      case PatchNetwork k base mutated w of
        (Inl err, w) \<Rightarrow> (Some err, w)
      | (Inr _, w) \<Rightarrow> (None, w))"

section \<open>A reference library\<close>

text \<open>
  A library that behaves as documented, on which the contract is discharged and witnesses run. Its
  Unicode tables are those of a program that sees ASCII only.
\<close>

fun refSetCondition :: "Condition list \<Rightarrow> Condition \<Rightarrow> Condition list" where
  "refSetCondition [] c = [c]"
| "refSetCondition (x # xs) c = (if cn_Type x = cn_Type c then c # xs else x # refSetCondition xs c)"

definition refLib :: lib where
  "refLib =
     \<lparr>lib_lower = (\<lambda>r. r), lib_orbit = (\<lambda>a b. False),
      IsDNS1123Label = (\<lambda>s. if dns1123Label s then [] else [''invalid label'']),
      SetStatusCondition = refSetCondition,
      IsStatusConditionTrue = (\<lambda>cs t. case condition_of cs t of None \<Rightarrow> False
                                       | Some c \<Rightarrow> cn_Status c = ConditionTrue),
      AddFinalizer = (\<lambda>fs f. if f \<in> set fs then (fs, False) else (fs @ [f], True)),
      ContainsFinalizer = (\<lambda>fs f. f \<in> set fs),
      RemoveFinalizer = (\<lambda>fs f. filter (\<lambda>x. x \<noteq> f) fs)\<rparr>"

lemma condition_of_refSet:
  "condition_of (refSetCondition cs c) t = (if t = cn_Type c then Some c else condition_of cs t)"
  by (induction cs) (auto simp: condition_of_def)

interpretation ref: status_lib refLib
  by unfold_locales (auto simp: refLib_def condition_of_refSet split: option.splits if_splits)

section \<open>Lemmas\<close>

lemma withCondition_frame [simp]:
  "Meta (withCondition L c n) = Meta n" "Spec (withCondition L c n) = Spec n"
  "resources (withCondition L c n) = resources n"
  by (simp_all add: withCondition_def)

lemma failConditions_frame [simp]:
  "Meta (failConditions L t reason err n) = Meta n" "Spec (failConditions L t reason err n) = Spec n"
  "resources (failConditions L t reason err n) = resources n"
  by (simp_all add: failConditions_def Let_def)

context status_lib
begin

lemma condition_of_withCondition:
  "condition_of (st_Conditions (Status (withCondition L c n))) t =
     (if t = cn_Type c then Some c else condition_of (st_Conditions (Status n)) t)"
  by (simp add: withCondition_def set_condition)

text \<open>A failure makes both its own condition and \<open>Ready\<close> false, with the same reason and text.\<close>

lemma failConditions_ready:
  assumes "t = conditionType \<or> t = ConditionReady"
  shows "condition_of (st_Conditions (Status (failConditions L conditionType reason err n))) t =
    Some (mkCondition n t ConditionFalse reason (ErrorText err))"
  using assms by (auto simp: failConditions_def Let_def condition_of_withCondition)

lemma failConditions_other:
  assumes "t \<noteq> conditionType" "t \<noteq> ConditionReady"
  shows "condition_of (st_Conditions (Status (failConditions L conditionType reason err n))) t =
    condition_of (st_Conditions (Status n)) t"
  using assms by (auto simp: failConditions_def Let_def condition_of_withCondition)

end

end
