(* ===== verification/CloudContracts.thy ===== *)
theory CloudContracts
  imports CloudService "HOL-Library.AList"
begin

text \<open>
  What the cloud SDK promises and what \<open>tcloudService\<close> makes of it. The locale \<open>secgroup_sdk\<close> is
  the documented behaviour of the SDK's security group calls over an abstract view of the stored
  groups; the locale \<open>vpc_sdk\<close> that of its VPC calls. Inside them the loops of
  \<open>EnsureSecurityGroup\<close> are shown to converge to the requested rules and \<open>EnsureVPC\<close> to be
  idempotent. Both contracts are met by an in-memory cloud, which the witnesses run on.
\<close>

section \<open>Security groups\<close>

text \<open>The rule the cloud stores for a creation request.\<close>

definition ruleFrom :: "CreateRuleOpts \<Rightarrow> SdkGroup \<Rightarrow> SdkRule \<Rightarrow> bool" where
  "ruleFrom opts g r =
     (sk_IPProtocol r = ro_IPProtocol opts \<and> sk_FromPort r = ro_FromPort opts \<and>
      sk_ToPort r = ro_ToPort opts \<and> sk_IPRangeCIDR r = ro_CIDR opts \<and>
      (ro_FromGroupID opts = sg_ID g \<longrightarrow> sk_GroupName r = sg_Name g))"

definition removeIDs ::
  "string set \<Rightarrow> (string \<rightharpoonup> SdkGroup) \<Rightarrow> (string \<rightharpoonup> SdkGroup)" where
  "removeIDs S G = (\<lambda>k. map_option (\<lambda>g. g\<lparr>sg_Rules := filter (\<lambda>r. sk_ID r \<notin> S) (sg_Rules g)\<rparr>) (G k))"

lemma removeIDs_empty [simp]: "removeIDs {} G = G"
  by (rule ext) (simp add: removeIDs_def option.map_ident)

lemma removeIDs_removeIDs [simp]: "removeIDs S (removeIDs T G) = removeIDs (T \<union> S) G"
  by (rule ext) (simp add: removeIDs_def option.map_comp o_def conj_commute)

text \<open>Rule identifiers are unique in a group and shared by no two groups.\<close>

definition uniqueRuleIDs :: "(string \<rightharpoonup> SdkGroup) \<Rightarrow> bool" where
  "uniqueRuleIDs G =
     ((\<forall>i g. G i = Some g \<longrightarrow> distinct (map sk_ID (sg_Rules g))) \<and>
      (\<forall>i j g h. G i = Some g \<longrightarrow> G j = Some h \<longrightarrow> i \<noteq> j \<longrightarrow>
         sk_ID ` set (sg_Rules g) \<inter> sk_ID ` set (sg_Rules h) = {}))"

lemma uniqueRuleIDs_distinct:
  "uniqueRuleIDs G \<Longrightarrow> G i = Some g \<Longrightarrow> distinct (map sk_ID (sg_Rules g))"
  by (simp add: uniqueRuleIDs_def)

lemma uniqueRuleIDs_disjoint:
  "uniqueRuleIDs G \<Longrightarrow> G i = Some g \<Longrightarrow> G j = Some h \<Longrightarrow> i \<noteq> j \<Longrightarrow>
   sk_ID ` set (sg_Rules g) \<inter> sk_ID ` set (sg_Rules h) = {}"
  unfolding uniqueRuleIDs_def by blast

text \<open>Deleting the matching rules of a group by their IDs touches no rule added since, nor another group.\<close>

lemma removeIDs_snapshot:
  assumes "uniqueRuleIDs (G(i \<mapsto> g\<lparr>sg_Rules := sg_Rules g @ new\<rparr>))"
  shows "removeIDs (sk_ID ` {r \<in> set (sg_Rules g). P r}) (G(i \<mapsto> g\<lparr>sg_Rules := sg_Rules g @ new\<rparr>))
       = G(i \<mapsto> g\<lparr>sg_Rules := filter (\<lambda>r. \<not> P r) (sg_Rules g) @ new\<rparr>)"
proof -
  let ?G = "G(i \<mapsto> g\<lparr>sg_Rules := sg_Rules g @ new\<rparr>)"
  let ?S = "sk_ID ` {r \<in> set (sg_Rules g). P r}"
  have d: "distinct (map sk_ID (sg_Rules g @ new))"
    using uniqueRuleIDs_distinct[OF assms, of i] by simp
  then have inj: "inj_on sk_ID (set (sg_Rules g))" and sep: "sk_ID ` set (sg_Rules g) \<inter> sk_ID ` set new = {}"
    by (auto simp: distinct_map)
  have old: "filter (\<lambda>r. sk_ID r \<notin> ?S) (sg_Rules g) = filter (\<lambda>r. \<not> P r) (sg_Rules g)"
    using inj by (auto intro!: filter_cong dest: inj_onD)
  have added: "filter (\<lambda>r. sk_ID r \<notin> ?S) new = new"
    using sep by (auto simp: filter_id_conv)
  have other: "filter (\<lambda>r. sk_ID r \<notin> ?S) (sg_Rules h) = sg_Rules h" if "k \<noteq> i" "G k = Some h" for k h
  proof -
    have "sk_ID ` set (sg_Rules g @ new) \<inter> sk_ID ` set (sg_Rules h) = {}"
      using uniqueRuleIDs_disjoint[OF assms, of i _ k h] that by simp
    then show ?thesis by (auto simp: filter_id_conv)
  qed
  show ?thesis
  proof (rule ext)
    fix k show "removeIDs ?S ?G k = (G(i \<mapsto> g\<lparr>sg_Rules := filter (\<lambda>r. \<not> P r) (sg_Rules g) @ new\<rparr>)) k"
      using other[of k] by (cases "k = i"; cases "G k") (simp_all add: removeIDs_def old added)
  qed
qed

locale secgroup_sdk =
  fixes sdk :: "'w Sdk"
    and groups :: "'w \<Rightarrow> (string \<rightharpoonup> SdkGroup)"
    and inv :: "'w \<Rightarrow> bool"
  assumes group_key: "inv w \<Longrightarrow> groups w i = Some g \<Longrightarrow> sg_ID g = i"
    and rule_ids: "inv w \<Longrightarrow> uniqueRuleIDs (groups w)"
    and get_group: "inv w \<Longrightarrow> secgroups_Get sdk i w = (r, w') \<Longrightarrow>
          inv w' \<and> groups w' = groups w \<and> (\<forall>g. r = Inr g \<longrightarrow> groups w i = Some g)"
    and list_groups: "inv w \<Longrightarrow> secgroups_AllPages sdk w = (page, w') \<Longrightarrow>
          inv w' \<and> groups w' = groups w \<and> (\<forall>gs. page = Inr (Inr gs) \<longrightarrow> set gs = ran (groups w))"
    and create_group: "inv w \<Longrightarrow> secgroups_Create sdk n d w = (Inr g, w') \<Longrightarrow>
          inv w' \<and> groups w (sg_ID g) = None \<and> sg_Name g = n \<and> groups w' = (groups w)(sg_ID g \<mapsto> g)"
    and create_rule: "inv w \<Longrightarrow> groups w (ro_ParentGroupID opts) = Some g \<Longrightarrow>
          secgroups_CreateRule sdk opts w = (None, w') \<Longrightarrow>
          inv w' \<and> (\<exists>r. ruleFrom opts g r \<and>
            groups w' = (groups w)(ro_ParentGroupID opts \<mapsto> g\<lparr>sg_Rules := sg_Rules g @ [r]\<rparr>))"
    and delete_rule: "inv w \<Longrightarrow> secgroups_DeleteRule sdk i w = (e, w') \<Longrightarrow>
          e = None \<or> IsNotFound_opt e \<Longrightarrow> inv w' \<and> groups w' = removeIDs {i} (groups w)"
begin

text \<open>
  The adding loop works on a snapshot \<open>g\<close> of the group: it appends to the stored group \<open>h\<close> a rule
  for every wanted rule the snapshot lacks.
\<close>

lemma addRules_spec:
  assumes "inv w" "groups w (sg_ID g) = Some h" "sg_Name h = sg_Name g" "sg_ID h = sg_ID g"
    and "addRules orbit sdk g rules w = (None, w')"
  shows "\<exists>new. inv w' \<and> groups w' = (groups w)(sg_ID g \<mapsto> h\<lparr>sg_Rules := sg_Rules h @ new\<rparr>) \<and>
           (\<forall>r\<in>set new. \<exists>rule\<in>set rules. ruleFrom (ruleOpts g rule) g r) \<and>
           (\<forall>rule\<in>set rules. hasRule orbit g rule \<or> (\<exists>r\<in>set new. ruleFrom (ruleOpts g rule) g r))"
  using assms
proof (induction rules arbitrary: w h)
  case Nil
  then show ?case by (intro exI[of _ "[]"]) (auto simp: map_upd_triv)
next
  case (Cons rule rules)
  show ?case
  proof (cases "hasRule orbit g rule")
    case True
    with Cons.prems(5) have a: "addRules orbit sdk g rules w = (None, w')" by simp
    from Cons.IH[OF Cons.prems(1-4) a] True show ?thesis by auto
  next
    case False
    with Cons.prems(5) obtain w1 where c: "secgroups_CreateRule sdk (ruleOpts g rule) w = (None, w1)"
      and a: "addRules orbit sdk g rules w1 = (None, w')"
      by (auto split: prod.splits option.splits)
    have "groups w (ro_ParentGroupID (ruleOpts g rule)) = Some h"
      using Cons.prems(2) by (simp add: ruleOpts_def)
    from create_rule[OF Cons.prems(1) this c] obtain r where i1: "inv w1"
      and r: "ruleFrom (ruleOpts g rule) h r"
      and g1: "groups w1 = (groups w)(sg_ID g \<mapsto> h\<lparr>sg_Rules := sg_Rules h @ [r]\<rparr>)"
      by (auto simp: ruleOpts_def)
    let ?h1 = "h\<lparr>sg_Rules := sg_Rules h @ [r]\<rparr>"
    have "groups w1 (sg_ID g) = Some ?h1" "sg_Name ?h1 = sg_Name g" "sg_ID ?h1 = sg_ID g"
      using g1 Cons.prems(3,4) by simp_all
    from Cons.IH[OF i1 this a] obtain new where new: "inv w'"
      "groups w' = (groups w1)(sg_ID g \<mapsto> ?h1\<lparr>sg_Rules := sg_Rules ?h1 @ new\<rparr>)"
      "\<forall>r\<in>set new. \<exists>rule\<in>set rules. ruleFrom (ruleOpts g rule) g r"
      "\<forall>rule\<in>set rules. hasRule orbit g rule \<or> (\<exists>r\<in>set new. ruleFrom (ruleOpts g rule) g r)"
      by blast
    have rg: "ruleFrom (ruleOpts g rule) g r" using r Cons.prems(3,4) by (simp add: ruleFrom_def)
    have "groups w' = (groups w)(sg_ID g \<mapsto> h\<lparr>sg_Rules := sg_Rules h @ (r # new)\<rparr>)"
      using new(2) g1 by simp
    with new(1,3,4) rg show ?thesis by (intro exI[of _ "r # new"]) auto
  qed
qed

lemma removeMatching_spec:
  assumes "inv w" "removeMatching orbit sdk g obsolete rs w = (None, w')"
  shows "inv w' \<and>
    groups w' = removeIDs (sk_ID ` {r \<in> set rs. matchesRule orbit g r obsolete}) (groups w)"
  using assms
proof (induction rs arbitrary: w)
  case Nil
  then show ?case by simp
next
  case (Cons r rs)
  show ?case
  proof (cases "matchesRule orbit g r obsolete")
    case False
    then have "{x \<in> set (r # rs). matchesRule orbit g x obsolete} = {x \<in> set rs. matchesRule orbit g x obsolete}"
      by auto
    with False Cons show ?thesis by auto
  next
    case True
    with Cons.prems(2) obtain e w1 where d: "secgroups_DeleteRule sdk (sk_ID r) w = (e, w1)"
      and ok: "e = None \<or> IsNotFound_opt e" and rest: "removeMatching orbit sdk g obsolete rs w1 = (None, w')"
      by (auto split: prod.splits if_splits)
    from delete_rule[OF Cons.prems(1) d ok] have w1: "inv w1" "groups w1 = removeIDs {sk_ID r} (groups w)"
      by simp_all
    have "{x \<in> set (r # rs). matchesRule orbit g x obsolete} = insert r {x \<in> set rs. matchesRule orbit g x obsolete}"
      using True by auto
    with Cons.IH[OF w1(1) rest] w1(2) show ?thesis by simp
  qed
qed

lemma removeRules_spec:
  assumes "inv w" "removeRules orbit sdk g obs w = (None, w')"
  shows "inv w' \<and> groups w' =
    removeIDs (sk_ID ` {r \<in> set (sg_Rules g). \<exists>ob\<in>set obs. matchesRule orbit g r ob}) (groups w)"
  using assms
proof (induction obs arbitrary: w)
  case Nil
  then show ?case by simp
next
  case (Cons ob obs)
  from Cons.prems(2) obtain w1 where m: "removeMatching orbit sdk g ob (sg_Rules g) w = (None, w1)"
    and rest: "removeRules orbit sdk g obs w1 = (None, w')"
    by (auto split: prod.splits option.splits)
  from removeMatching_spec[OF Cons.prems(1) m] have w1: "inv w1"
    "groups w1 = removeIDs (sk_ID ` {r \<in> set (sg_Rules g). matchesRule orbit g r ob}) (groups w)"
    by simp_all
  have "{r \<in> set (sg_Rules g). \<exists>o'\<in>set (ob # obs). matchesRule orbit g r o'} =
      {r \<in> set (sg_Rules g). matchesRule orbit g r ob} \<union> {r \<in> set (sg_Rules g). \<exists>o'\<in>set obs. matchesRule orbit g r o'}"
    by auto
  with Cons.IH[OF w1(1) rest] w1(2) show ?case by (simp add: image_Un)
qed

text \<open>
  The whole operation on a group given by ID: the stored group loses the snapshot's obsolete rules
  and gains the missing ones, every other group is as before.
\<close>

lemma ensure_existing_group:
  assumes "inv w" "gr_ID req \<noteq> ''''" "tcloud_EnsureSecurityGroup orbit sdk req w = (Inr res, w')"
  shows "\<exists>g new. inv w' \<and> groups w (gr_ID req) = Some g \<and> res = groupResource g \<and>
    groups w' = (groups w)(gr_ID req \<mapsto> g\<lparr>sg_Rules :=
       filter (\<lambda>r. \<not> (\<exists>ob\<in>set (gr_RemoveRules req). matchesRule orbit g r ob)) (sg_Rules g) @ new\<rparr>) \<and>
    (\<forall>r\<in>set new. \<exists>rule\<in>set (gr_Rules req). ruleFrom (ruleOpts g rule) g r) \<and>
    (\<forall>rule\<in>set (gr_Rules req). hasRule orbit g rule \<or> (\<exists>r\<in>set new. ruleFrom (ruleOpts g rule) g r))"
proof -
  from assms(2,3) obtain g w1 w2 where
    get: "secgroups_Get sdk (gr_ID req) w = (Inr g, w1)" and
    add: "addRules orbit sdk g (gr_Rules req) w1 = (None, w2)" and
    rem: "removeRules orbit sdk g (gr_RemoveRules req) w2 = (None, w')" and res: "res = groupResource g"
    by (auto simp: tcloud_EnsureSecurityGroup_def obtainGroup_def
        split: prod.splits sum.splits option.splits)
  from get_group[OF assms(1) get] have w1: "inv w1" "groups w1 = groups w" and g: "groups w (gr_ID req) = Some g"
    by simp_all
  have gid: "sg_ID g = gr_ID req" by (rule group_key[OF assms(1) g])
  have "groups w1 (sg_ID g) = Some g" using w1(2) g gid by simp
  from addRules_spec[OF w1(1) this refl refl add] obtain new where new: "inv w2"
    "groups w2 = (groups w)(gr_ID req \<mapsto> g\<lparr>sg_Rules := sg_Rules g @ new\<rparr>)"
    "\<forall>r\<in>set new. \<exists>rule\<in>set (gr_Rules req). ruleFrom (ruleOpts g rule) g r"
    "\<forall>rule\<in>set (gr_Rules req). hasRule orbit g rule \<or> (\<exists>r\<in>set new. ruleFrom (ruleOpts g rule) g r)"
    using w1(2) gid by auto
  let ?P = "\<lambda>r. \<exists>ob\<in>set (gr_RemoveRules req). matchesRule orbit g r ob"
  let ?S = "sk_ID ` {r \<in> set (sg_Rules g). ?P r}"
  from removeRules_spec[OF new(1) rem] have w': "inv w'" "groups w' = removeIDs ?S (groups w2)" by simp_all
  have uniq: "uniqueRuleIDs (groups w2)" by (rule rule_ids[OF new(1)])
  have "groups w' = (groups w)(gr_ID req \<mapsto> g\<lparr>sg_Rules := filter (\<lambda>r. \<not> ?P r) (sg_Rules g) @ new\<rparr>)"
    unfolding w'(2) new(2) by (rule removeIDs_snapshot) (use uniq new(2) in simp)
  with new w'(1) g res show ?thesis by blast
qed

end

section \<open>VPCs\<close>

locale vpc_sdk =
  fixes sdk :: "'w Sdk"
    and vpcs :: "'w \<Rightarrow> (string \<rightharpoonup> SdkVPC)"
    and inv :: "'w \<Rightarrow> bool"
  assumes vpc_key: "inv w \<Longrightarrow> vpcs w i = Some v \<Longrightarrow> sv_ID v = i"
    and list_vpcs: "inv w \<Longrightarrow> vpcs_List sdk n w = (r, w') \<Longrightarrow>
          inv w' \<and> vpcs w' = vpcs w \<and>
          (\<forall>vs. r = Inr vs \<longrightarrow> distinct vs \<and> set vs = {v \<in> ran (vpcs w). sv_Name v = n})"
    and create_vpc: "inv w \<Longrightarrow> vpcs_Create sdk n c w = (Inr v, w') \<Longrightarrow>
          inv w' \<and> vpcs w (sv_ID v) = None \<and> sv_Name v = n \<and> vpcs w' = (vpcs w)(sv_ID v \<mapsto> v)"
begin

lemma ensure_by_name:
  assumes "inv w" "vr_ID req = ''''" "tcloud_EnsureVPC sdk req w = (Inr res, w')"
  shows "inv w' \<and> (\<exists>v. res = vpcResource v \<and> {u \<in> ran (vpcs w'). sv_Name u = vr_Name req} = {v} \<and>
           vpcs w \<subseteq>\<^sub>m vpcs w')"
proof -
  from assms(2,3) obtain vs w1 where l: "vpcs_List sdk (vr_Name req) w = (Inr vs, w1)" and len: "length vs \<le> 1"
    by (auto simp: tcloud_EnsureVPC_def split: prod.splits sum.splits if_splits)
  from list_vpcs[OF assms(1) l] have w1: "inv w1" "vpcs w1 = vpcs w"
    and vs: "set vs = {v \<in> ran (vpcs w). sv_Name v = vr_Name req}" by simp_all
  show ?thesis
  proof (cases vs)
    case (Cons v rest)
    with len have "vs = [v]" by simp
    with assms(2,3) l vs w1 show ?thesis by (auto simp: tcloud_EnsureVPC_def)
  next
    case Nil
    with assms(2,3) l obtain v where c: "vpcs_Create sdk (vr_Name req) (vr_CIDR req) w1 = (Inr v, w')"
      and res: "res = vpcResource v"
      by (auto simp: tcloud_EnsureVPC_def split: prod.splits sum.splits)
    from create_vpc[OF w1(1) c] w1(2) have v: "inv w'" "vpcs w (sv_ID v) = None" "sv_Name v = vr_Name req"
      "vpcs w' = (vpcs w)(sv_ID v \<mapsto> v)" by simp_all
    have "ran (vpcs w') = insert v (ran (vpcs w))" using v(2,4) by simp
    with vs Nil v(3) have "{u \<in> ran (vpcs w'). sv_Name u = vr_Name req} = {v}" by auto
    moreover have "vpcs w \<subseteq>\<^sub>m vpcs w'" using v(2,4) by (auto simp: map_le_def)
    ultimately show ?thesis using v(1) res by blast
  qed
qed

lemma ensure_again:
  assumes "inv w" "vr_ID req = ''''" "{u \<in> ran (vpcs w). sv_Name u = vr_Name req} = {v}"
    and "tcloud_EnsureVPC sdk req w = (r, w')"
  shows "vpcs w' = vpcs w \<and> (\<forall>res. r = Inr res \<longrightarrow> res = vpcResource v)"
proof -
  obtain l w1 where l: "vpcs_List sdk (vr_Name req) w = (l, w1)" by fastforce
  from list_vpcs[OF assms(1) l] assms(3) have w1: "vpcs w1 = vpcs w"
    and vs: "l = Inr vs \<Longrightarrow> distinct vs \<and> set vs = {v}" for vs by simp_all
  show ?thesis
  proof (cases l)
    case (Inl e)
    with assms(2,4) l w1 show ?thesis by (auto simp: tcloud_EnsureVPC_def)
  next
    case (Inr vs)
    with vs have "vs = [v]"
      by (metis distinct_card card_1_singleton_iff length_0_conv length_Suc_conv list.simps(15)
          One_nat_def empty_set insert_not_empty singleton_insert_inj_eq list.set(1))
    with assms(2,4) l w1 Inr show ?thesis by (auto simp: tcloud_EnsureVPC_def)
  qed
qed

end

section \<open>An in-memory cloud\<close>

text \<open>
  A cloud that keeps its resources in association lists by ID and never fails: it meets both
  contracts. New identifiers are longer than every identifier in use.
\<close>

record mem_cloud =
  mc_vpcs :: "(string \<times> SdkVPC) list"
  mc_subnets :: "(string \<times> SdkSubnet) list"
  mc_groups :: "(string \<times> SdkGroup) list"
  mc_ports :: "string \<Rightarrow> string list"
  mc_next :: nat

definition freshID :: "nat \<Rightarrow> string" where
  "freshID n = replicate (Suc n) (CHR ''x'')"

definition lookupOr404 :: "('v \<Rightarrow> 'r) \<Rightarrow> (string \<times> 'v) list \<Rightarrow> string \<Rightarrow> error + 'r" where
  "lookupOr404 f al i = (case map_of al i of None \<Rightarrow> Inl (Sdk404 i) | Some v \<Rightarrow> Inr (f v))"

definition mem_CreateVPC :: "string \<Rightarrow> string \<Rightarrow> (mem_cloud, error + SdkVPC) io" where
  "mem_CreateVPC n c w =
     (let v = \<lparr>sv_ID = freshID (mc_next w), sv_Name = n\<rparr> in
      (Inr v, w\<lparr>mc_vpcs := (sv_ID v, v) # mc_vpcs w, mc_next := Suc (mc_next w)\<rparr>))"

definition mem_CreateSubnet :: "SubnetCreateOpts \<Rightarrow> (mem_cloud, error + SdkSubnet) io" where
  "mem_CreateSubnet opts w =
     (let i = freshID (mc_next w); s = \<lparr>sn_ID = i, sn_Name = so_Name opts, sn_NetworkID = i\<rparr> in
      (Inr s, w\<lparr>mc_subnets := (i, s) # mc_subnets w, mc_next := Suc (mc_next w)\<rparr>))"

definition mem_CreateGroup :: "string \<Rightarrow> string \<Rightarrow> (mem_cloud, error + SdkGroup) io" where
  "mem_CreateGroup n d w =
     (let g = \<lparr>sg_ID = freshID (mc_next w), sg_Name = n, sg_Rules = []\<rparr> in
      (Inr g, w\<lparr>mc_groups := (sg_ID g, g) # mc_groups w, mc_next := Suc (mc_next w)\<rparr>))"

definition mem_CreateRule :: "CreateRuleOpts \<Rightarrow> (mem_cloud, error option) io" where
  "mem_CreateRule opts w =
     (case map_of (mc_groups w) (ro_ParentGroupID opts) of
        None \<Rightarrow> (Some (Sdk404 (ro_ParentGroupID opts)), w)
      | Some g \<Rightarrow>
          (let r = \<lparr>sk_ID = freshID (mc_next w), sk_IPProtocol = ro_IPProtocol opts,
                    sk_FromPort = ro_FromPort opts, sk_ToPort = ro_ToPort opts,
                    sk_IPRangeCIDR = ro_CIDR opts,
                    sk_GroupName = (case map_of (mc_groups w) (ro_FromGroupID opts) of
                                      None \<Rightarrow> '''' | Some s \<Rightarrow> sg_Name s)\<rparr> in
           (None, w\<lparr>mc_groups := AList.update (ro_ParentGroupID opts)
                       (g\<lparr>sg_Rules := sg_Rules g @ [r]\<rparr>) (mc_groups w), mc_next := Suc (mc_next w)\<rparr>)))"

definition mem_DeleteRule :: "string \<Rightarrow> (mem_cloud, error option) io" where
  "mem_DeleteRule i w =
     (None, w\<lparr>mc_groups := map (\<lambda>(k, g). (k, g\<lparr>sg_Rules := filter (\<lambda>r. sk_ID r \<notin> {i}) (sg_Rules g)\<rparr>))
                (mc_groups w)\<rparr>)"

definition memSdk :: "mem_cloud Sdk" where
  "memSdk =
     \<lparr>vpcs_List = (\<lambda>n w. (Inr (filter (\<lambda>v. sv_Name v = n) (map snd (mc_vpcs w))), w)),
      vpcs_Create = mem_CreateVPC,
      vpcs_Get = (\<lambda>i w. (lookupOr404 (\<lambda>v. v) (mc_vpcs w) i, w)),
      vpcs_Delete = (\<lambda>i w. (None, w\<lparr>mc_vpcs := AList.delete i (mc_vpcs w)\<rparr>)),
      subnets_List = (\<lambda>v n w. (Inr (filter (\<lambda>s. sn_Name s = n) (map snd (mc_subnets w))), w)),
      subnets_Create = mem_CreateSubnet,
      subnets_Get = (\<lambda>i w. (lookupOr404 (\<lambda>v. v) (mc_subnets w) i, w)),
      subnets_Delete = (\<lambda>v i w. (None, w\<lparr>mc_subnets := AList.delete i (mc_subnets w)\<rparr>)),
      secgroups_Get = (\<lambda>i w. (lookupOr404 (\<lambda>v. v) (mc_groups w) i, w)),
      secgroups_AllPages = (\<lambda>w. (Inr (Inr (map snd (mc_groups w))), w)),
      secgroups_Create = mem_CreateGroup,
      secgroups_CreateRule = mem_CreateRule,
      secgroups_DeleteRule = mem_DeleteRule,
      secgroups_Delete = (\<lambda>i w. (None, w\<lparr>mc_groups := AList.delete i (mc_groups w)\<rparr>)),
      ports_AllPages = (\<lambda>i w. (Inr (Inr (mc_ports w i)), w))\<rparr>"

definition mem_inv :: "mem_cloud \<Rightarrow> bool" where
  "mem_inv w =
     (distinct (map fst (mc_vpcs w)) \<and> distinct (map fst (mc_groups w)) \<and>
      (\<forall>i v. map_of (mc_vpcs w) i = Some v \<longrightarrow> sv_ID v = i \<and> length i \<le> mc_next w) \<and>
      (\<forall>i g. map_of (mc_groups w) i = Some g \<longrightarrow> sg_ID g = i \<and> length i \<le> mc_next w \<and>
         (\<forall>r\<in>set (sg_Rules g). length (sk_ID r) \<le> mc_next w)) \<and>
      uniqueRuleIDs (map_of (mc_groups w)))"

lemma length_freshID [simp]: "length (freshID n) = Suc n"
  by (simp add: freshID_def)

lemma mem_inv_vpc: "mem_inv w \<Longrightarrow> map_of (mc_vpcs w) i = Some v \<Longrightarrow> sv_ID v = i \<and> length i \<le> mc_next w"
  by (simp add: mem_inv_def)

lemma mem_inv_group:
  "mem_inv w \<Longrightarrow> map_of (mc_groups w) i = Some g \<Longrightarrow>
   sg_ID g = i \<and> length i \<le> mc_next w \<and> (\<forall>r\<in>set (sg_Rules g). length (sk_ID r) \<le> mc_next w)"
  by (simp add: mem_inv_def)

lemma freshID_no_vpc: "mem_inv w \<Longrightarrow> map_of (mc_vpcs w) (freshID (mc_next w)) = None"
  using mem_inv_vpc[of w "freshID (mc_next w)"] by (cases "map_of (mc_vpcs w) (freshID (mc_next w))") auto

lemma freshID_no_group: "mem_inv w \<Longrightarrow> map_of (mc_groups w) (freshID (mc_next w)) = None"
  using mem_inv_group[of w "freshID (mc_next w)"] by (cases "map_of (mc_groups w) (freshID (mc_next w))") auto

lemma alist_ran: "distinct (map fst al) \<Longrightarrow> ran (map_of al) = set (map snd al)"
  by (simp only: ran_distinct set_map)

lemma removeIDs_alist:
  "map_of (map (\<lambda>(k, g). (k, g\<lparr>sg_Rules := filter (\<lambda>r. sk_ID r \<notin> S) (sg_Rules g)\<rparr>)) al) = removeIDs S (map_of al)"
  by (rule ext) (simp add: removeIDs_def map_of_map)

lemma uniqueRuleIDs_removeIDs: "uniqueRuleIDs G \<Longrightarrow> uniqueRuleIDs (removeIDs S G)"
  unfolding uniqueRuleIDs_def removeIDs_def by (auto simp: distinct_map_filter) blast

lemma uniqueRuleIDs_new_group:
  "uniqueRuleIDs G \<Longrightarrow> sg_Rules g = [] \<Longrightarrow> uniqueRuleIDs (G(i \<mapsto> g))"
  unfolding uniqueRuleIDs_def by auto

lemma uniqueRuleIDs_new_rule:
  assumes "uniqueRuleIDs G" "G i = Some g" "\<And>k h. G k = Some h \<Longrightarrow> sk_ID r \<notin> sk_ID ` set (sg_Rules h)"
  shows "uniqueRuleIDs (G(i \<mapsto> g\<lparr>sg_Rules := sg_Rules g @ [r]\<rparr>))"
proof -
  have "distinct (map sk_ID (sg_Rules g @ [r]))"
    using uniqueRuleIDs_distinct[OF assms(1,2)] assms(3)[OF assms(2)] by auto
  moreover have "sk_ID ` set (sg_Rules g @ [r]) \<inter> sk_ID ` set (sg_Rules h) = {}"
    if "G k = Some h" "k \<noteq> i" for k h
    using uniqueRuleIDs_disjoint[OF assms(1,2) that(1)] that(2) assms(3)[OF that(1)] by auto
  ultimately show ?thesis
    using assms(1) unfolding uniqueRuleIDs_def by (auto simp: Int_commute)
qed

lemma mem_inv_CreateRule:
  assumes "mem_inv w" "map_of (mc_groups w) (ro_ParentGroupID opts) = Some g" "mem_CreateRule opts w = (e, w')"
  shows "mem_inv w' \<and> (\<exists>r. ruleFrom opts g r \<and> map_of (mc_groups w') =
           (map_of (mc_groups w))(ro_ParentGroupID opts \<mapsto> g\<lparr>sg_Rules := sg_Rules g @ [r]\<rparr>))"
proof -
  let ?p = "ro_ParentGroupID opts"
  define r where "r = \<lparr>sk_ID = freshID (mc_next w), sk_IPProtocol = ro_IPProtocol opts,
    sk_FromPort = ro_FromPort opts, sk_ToPort = ro_ToPort opts, sk_IPRangeCIDR = ro_CIDR opts,
    sk_GroupName = (case map_of (mc_groups w) (ro_FromGroupID opts) of None \<Rightarrow> '''' | Some s \<Rightarrow> sg_Name s)\<rparr>"
  let ?G = "(map_of (mc_groups w))(?p \<mapsto> g\<lparr>sg_Rules := sg_Rules g @ [r]\<rparr>)"
  have g: "sg_ID g = ?p" using mem_inv_group[OF assms(1,2)] by simp
  have w': "w' = w\<lparr>mc_groups := AList.update ?p (g\<lparr>sg_Rules := sg_Rules g @ [r]\<rparr>) (mc_groups w),
                   mc_next := Suc (mc_next w)\<rparr>"
    using assms(2,3) by (simp add: mem_CreateRule_def r_def)
  have G: "map_of (mc_groups w') = ?G" by (simp add: w' AList.update_conv')
  have "sk_ID r \<notin> sk_ID ` set (sg_Rules h)" if "map_of (mc_groups w) k = Some h" for k h
  proof
    assume "sk_ID r \<in> sk_ID ` set (sg_Rules h)"
    then obtain r' where "r' \<in> set (sg_Rules h)" "sk_ID r' = freshID (mc_next w)" by (auto simp: r_def)
    with mem_inv_group[OF assms(1) that] have "length (freshID (mc_next w)) \<le> mc_next w" by metis
    then show False by simp
  qed
  then have "uniqueRuleIDs ?G"
    using assms(1,2) by (intro uniqueRuleIDs_new_rule) (auto simp: mem_inv_def)
  moreover have "length (sk_ID r) = Suc (mc_next w)" by (simp add: r_def)
  moreover have "ruleFrom opts g r" using g assms(2) by (simp add: ruleFrom_def r_def)
  ultimately show ?thesis
    using assms(1,2) G by (auto simp: mem_inv_def w' AList.update_conv' distinct_update le_Suc_eq)
qed

lemma mem_inv_new_group:
  fixes n :: string
  assumes "mem_inv w"
  defines "g \<equiv> \<lparr>sg_ID = freshID (mc_next w), sg_Name = n, sg_Rules = []\<rparr>"
  shows "mem_inv (w\<lparr>mc_groups := (sg_ID g, g) # mc_groups w, mc_next := Suc (mc_next w)\<rparr>)"
proof -
  have u: "uniqueRuleIDs ((map_of (mc_groups w))(freshID (mc_next w) \<mapsto> g))"
    using assms by (intro uniqueRuleIDs_new_group) (auto simp: mem_inv_def)
  have "freshID (mc_next w) \<notin> fst ` set (mc_groups w)"
    using freshID_no_group[OF assms(1)] by (simp add: map_of_eq_None_iff)
  with u assms(1) show ?thesis by (auto simp: mem_inv_def g_def le_Suc_eq)
qed

lemma mem_inv_new_vpc:
  fixes n :: string
  assumes "mem_inv w"
  defines "v \<equiv> \<lparr>sv_ID = freshID (mc_next w), sv_Name = n\<rparr>"
  shows "mem_inv (w\<lparr>mc_vpcs := (sv_ID v, v) # mc_vpcs w, mc_next := Suc (mc_next w)\<rparr>)"
proof -
  have "freshID (mc_next w) \<notin> fst ` set (mc_vpcs w)"
    using freshID_no_vpc[OF assms(1)] by (simp add: map_of_eq_None_iff)
  with assms(1) show ?thesis by (auto simp: mem_inv_def v_def le_Suc_eq)
qed

lemma mem_inv_DeleteRule:
  assumes "mem_inv w" "mem_DeleteRule i w = (e, w')"
  shows "mem_inv w' \<and> map_of (mc_groups w') = removeIDs {i} (map_of (mc_groups w))"
proof -
  have G: "map_of (mc_groups w') = removeIDs {i} (map_of (mc_groups w))"
    using assms(2) removeIDs_alist[of "{i}"] by (auto simp: mem_DeleteRule_def)
  have same: "map fst (mc_groups w') = map fst (mc_groups w)" "mc_next w' = mc_next w" "mc_vpcs w' = mc_vpcs w"
    using assms(2) by (auto simp: mem_DeleteRule_def)
  have u: "uniqueRuleIDs (removeIDs {i} (map_of (mc_groups w)))"
    using assms(1) by (intro uniqueRuleIDs_removeIDs) (simp add: mem_inv_def)
  have b: "sg_ID g = k \<and> length k \<le> mc_next w \<and> (\<forall>r\<in>set (sg_Rules g). length (sk_ID r) \<le> mc_next w)"
    if "removeIDs {i} (map_of (mc_groups w)) k = Some g" for k g
    using that mem_inv_group[OF assms(1), of k] by (auto simp: removeIDs_def simp del: map_of_eq_Some_iff)
  have "distinct (map fst (mc_vpcs w)) \<and> distinct (map fst (mc_groups w))"
    "\<forall>i v. map_of (mc_vpcs w) i = Some v \<longrightarrow> sv_ID v = i \<and> length i \<le> mc_next w"
    using assms(1) unfolding mem_inv_def by blast+
  with u b show ?thesis unfolding mem_inv_def G same by blast
qed

interpretation mem_groups: secgroup_sdk memSdk "\<lambda>w. map_of (mc_groups w)" mem_inv
proof (unfold_locales, goal_cases)
  case (1 w i g)
  then show ?case using mem_inv_group by blast
next
  case (2 w)
  then show ?case by (simp add: mem_inv_def)
next
  case (3 w i r w')
  then show ?case by (auto simp: memSdk_def lookupOr404_def split: option.splits)
next
  case (4 w page w')
  then have "ran (map_of (mc_groups w)) = set (map snd (mc_groups w))"
    by (intro alist_ran) (simp add: mem_inv_def)
  with 4 show ?case by (auto simp: memSdk_def simp del: set_map)
next
  case (5 w n d g w')
  then show ?case
    using freshID_no_group[of w] mem_inv_new_group[of w n]
    by (auto simp: memSdk_def mem_CreateGroup_def Let_def)
next
  case (6 w opts g w')
  then show ?case using mem_inv_CreateRule[of w opts g None w'] by (simp add: memSdk_def)
next
  case (7 w i e w')
  then show ?case using mem_inv_DeleteRule[of w i e w'] by (simp add: memSdk_def)
qed

lemma mem_inv_distinct_vpcs: "mem_inv w \<Longrightarrow> distinct (map snd (mc_vpcs w))"
proof -
  assume i: "mem_inv w"
  then have d: "distinct (map fst (mc_vpcs w))" by (simp add: mem_inv_def)
  have "sv_ID (snd p) = fst p" if "p \<in> set (mc_vpcs w)" for p
    using mem_inv_vpc[OF i map_of_is_SomeI[OF d, of "fst p" "snd p"]] that by simp
  then have "map fst (mc_vpcs w) = map sv_ID (map snd (mc_vpcs w))" by simp
  with d have "distinct (map sv_ID (map snd (mc_vpcs w)))" by simp
  then show ?thesis by (simp only: distinct_map)
qed

interpretation mem_vpcs: vpc_sdk memSdk "\<lambda>w. map_of (mc_vpcs w)" mem_inv
proof (unfold_locales, goal_cases)
  case (1 w i v)
  then show ?case using mem_inv_vpc by blast
next
  case (2 w n r w')
  let ?vs = "map snd (mc_vpcs w)"
  have d: "distinct (filter (\<lambda>v. sv_Name v = n) ?vs)"
    by (intro distinct_filter mem_inv_distinct_vpcs 2(1))
  have ran: "ran (map_of (mc_vpcs w)) = set ?vs"
    using 2(1) by (intro alist_ran) (simp add: mem_inv_def)
  from 2(2) have "r = Inr (filter (\<lambda>v. sv_Name v = n) ?vs)" "w' = w" by (auto simp: memSdk_def)
  with d 2(1) show ?case unfolding ran by (simp only: set_filter sum.inject) simp
next
  case (3 w n c v w')
  then show ?case
    using freshID_no_vpc[of w] mem_inv_new_vpc[of w n]
    by (auto simp: memSdk_def mem_CreateVPC_def Let_def)
qed

section \<open>Properties\<close>

text \<open>The controller's rules: a wanted rule and an obsolete SSH rule match no common stored rule.\<close>

lemma wanted_obsolete_disjoint:
  assumes "rule \<in> set (RKE2Rules gid desired cni)" "ob \<in> set (ObsoleteSSHRules previous desired)"
    and "matchesRule orbit g r ob"
    and "sk_FromPort r = ru_FromPort rule" "sk_IPRangeCIDR r = ru_CIDR rule"
  shows False
proof -
  obtain c where c: "c \<in> set previous - set desired" "ob = sshRule c"
    using assms(2) set_ObsoleteSSHRules[of previous desired] by blast
  from assms(3) c(2) have "sk_FromPort r = 22" "sk_IPRangeCIDR r = c"
    by (simp_all add: matchesRule_def Let_def)
  with assms(1,4,5) c(1) show False by (elim RKE2Rules_cases) auto
qed

lemma matchesRule_ruleFrom:
  assumes "ruleFrom (ruleOpts g rule) g r" "ru_RemoteGroupID rule = '''' \<or> ru_RemoteGroupID rule = sg_ID g"
    "sg_Name g' = sg_Name g"
  shows "matchesRule orbit g' r rule"
  using assms by (auto simp: ruleFrom_def ruleOpts_def matchesRule_def)

lemma matchesRule_fields:
  "matchesRule orbit g r rule \<Longrightarrow>
   sk_FromPort r = ru_FromPort rule \<and> sk_ToPort r = ru_ToPort rule \<and> sk_IPRangeCIDR r = ru_CIDR rule"
  by (simp add: matchesRule_def Let_def)

lemma matchesRule_name: "sg_Name g' = sg_Name g \<Longrightarrow> matchesRule orbit g' = matchesRule orbit g"
  by (intro ext) (simp add: matchesRule_def)

lemma RKE2Rules_remote:
  "rule \<in> set (RKE2Rules gid desired cni) \<Longrightarrow> ru_RemoteGroupID rule = '''' \<or> ru_RemoteGroupID rule = gid"
  by (erule RKE2Rules_cases) (auto simp: sshRule_def)

text \<open>The request the controller makes for the rules of a group.\<close>

abbreviation groupRulesRequest :: "string \<Rightarrow> string \<Rightarrow> string list \<Rightarrow> string list \<Rightarrow> string \<Rightarrow> SecurityGroupRequest" where
  "groupRulesRequest gid n previous desired cni \<equiv>
     \<lparr>gr_ID = gid, gr_Name = n, gr_Description = '''', gr_Rules = RKE2Rules gid desired cni,
      gr_RemoveRules = ObsoleteSSHRules previous desired\<rparr>"

text \<open>The rules of a group that a change of the SSH CIDRs makes obsolete, and what a revision makes of the group.\<close>

definition obsoleteIn :: "(rune \<Rightarrow> rune \<Rightarrow> bool) \<Rightarrow> SdkGroup \<Rightarrow> string list \<Rightarrow> string list \<Rightarrow> SdkRule \<Rightarrow> bool" where
  "obsoleteIn orbit g previous desired r \<longleftrightarrow> (\<exists>c\<in>set previous - set desired. matchesRule orbit g r (sshRule c))"

lemma obsoleteIn_rules:
  "obsoleteIn orbit g previous desired r \<longleftrightarrow> (\<exists>ob\<in>set (ObsoleteSSHRules previous desired). matchesRule orbit g r ob)"
  by (simp add: obsoleteIn_def set_ObsoleteSSHRules)

lemma wanted_not_obsolete:
  assumes "rule \<in> set (RKE2Rules gid desired cni)" "sk_FromPort r = ru_FromPort rule" "sk_IPRangeCIDR r = ru_CIDR rule"
  shows "\<not> obsoleteIn orbit g previous desired r"
  using wanted_obsolete_disjoint[OF assms(1)] assms(2,3) unfolding obsoleteIn_def set_ObsoleteSSHRules by blast

lemma revised_group:
  fixes previous :: "string list"
  assumes gid: "sg_ID g = gid"
    and made: "\<forall>r\<in>set new. \<exists>rule\<in>set (RKE2Rules gid desired cni). ruleFrom (ruleOpts g rule) g r"
    and all: "\<forall>rule\<in>set (RKE2Rules gid desired cni). hasRule orbit g rule \<or> (\<exists>r\<in>set new. ruleFrom (ruleOpts g rule) g r)"
  defines "g' \<equiv> g\<lparr>sg_Rules := filter (\<lambda>r. \<not> obsoleteIn orbit g previous desired r) (sg_Rules g) @ new\<rparr>"
  shows "rule \<in> set (RKE2Rules gid desired cni) \<Longrightarrow> hasRule orbit g' rule"
    and "c \<in> set previous - set desired \<Longrightarrow> \<not> hasRule orbit g' (sshRule c)"
    and "r \<in> set (sg_Rules g) \<Longrightarrow> r \<in> set (sg_Rules g') \<longleftrightarrow> \<not> obsoleteIn orbit g previous desired r"
proof -
  have m: "matchesRule orbit g' = matchesRule orbit g" by (rule matchesRule_name) (simp add: g'_def)
  have rs: "set (sg_Rules g') = {r \<in> set (sg_Rules g). \<not> obsoleteIn orbit g previous desired r} \<union> set new"
    by (simp add: g'_def)
  have new_ok: "\<not> obsoleteIn orbit g previous desired r" if "r \<in> set new" for r
    using made that wanted_not_obsolete by (fastforce simp: ruleFrom_def ruleOpts_def)
  show "hasRule orbit g' rule" if rule: "rule \<in> set (RKE2Rules gid desired cni)"
  proof (cases "hasRule orbit g rule")
    case True
    then obtain r where r: "r \<in> set (sg_Rules g)" "matchesRule orbit g r rule" by (auto simp: hasRule_iff)
    with wanted_not_obsolete[OF rule] matchesRule_fields[OF r(2)] show ?thesis by (auto simp: hasRule_iff m rs)
  next
    case False
    with all rule obtain r where "r \<in> set new" "ruleFrom (ruleOpts g rule) g r" by blast
    then show ?thesis using matchesRule_ruleFrom[of g rule r g orbit] RKE2Rules_remote[OF rule] gid
      by (auto simp: hasRule_iff m rs)
  qed
  show "\<not> hasRule orbit g' (sshRule c)" if "c \<in> set previous - set desired"
    unfolding hasRule_iff m rs using that new_ok by (auto simp: obsoleteIn_def)
  show "r \<in> set (sg_Rules g') \<longleftrightarrow> \<not> obsoleteIn orbit g previous desired r" if "r \<in> set (sg_Rules g)"
    using that new_ok by (auto simp: rs)
qed

text \<open>
  C7: Under the SDK's contract, a successful \<open>EnsureSecurityGroup\<close> with the rules request of the
  controller leaves the group with every rule the cluster needs and without any SSH rule of a CIDR
  that was applied before and is no longer desired. An old rule disappears exactly when it matches
  such an obsolete SSH rule, whoever created it; no other group changes.
\<close>

theorem EnsureSecurityGroup_applies_rules:
  assumes "secgroup_sdk sdk groups cinv" and "cinv w" and "gid \<noteq> ''''"
    and "tcloud_EnsureSecurityGroup orbit sdk (groupRulesRequest gid n previous desired cni) w = (Inr res, w')"
  shows "\<exists>g g'. groups w gid = Some g \<and> groups w' gid = Some g' \<and> res = groupResource g \<and>
           (\<forall>rule\<in>set (RKE2Rules gid desired cni). hasRule orbit g' rule) \<and>
           (\<forall>c\<in>set previous - set desired. \<not> hasRule orbit g' (sshRule c)) \<and>
           (\<forall>r\<in>set (sg_Rules g). r \<in> set (sg_Rules g') \<longleftrightarrow>
              \<not> (\<exists>c\<in>set previous - set desired. matchesRule orbit g r (sshRule c))) \<and>
           (\<forall>k. k \<noteq> gid \<longrightarrow> groups w' k = groups w k)"
proof -
  let ?req = "groupRulesRequest gid n previous desired cni"
  have "gr_ID ?req \<noteq> ''''" using assms(3) by simp
  from secgroup_sdk.ensure_existing_group[OF assms(1,2) this assms(4)] obtain g new where
    g: "groups w gid = Some g" "res = groupResource g" and
    w': "groups w' = (groups w)(gid \<mapsto> g\<lparr>sg_Rules :=
       filter (\<lambda>r. \<not> (\<exists>ob\<in>set (ObsoleteSSHRules previous desired). matchesRule orbit g r ob)) (sg_Rules g) @ new\<rparr>)" and
    made: "\<forall>r\<in>set new. \<exists>rule\<in>set (RKE2Rules gid desired cni). ruleFrom (ruleOpts g rule) g r" and
    all: "\<forall>rule\<in>set (RKE2Rules gid desired cni). hasRule orbit g rule \<or> (\<exists>r\<in>set new. ruleFrom (ruleOpts g rule) g r)"
    by auto
  note gid = secgroup_sdk.group_key[OF assms(1,2) g(1)]
  note revised = revised_group[OF gid made all, where previous = previous]
  let ?g' = "g\<lparr>sg_Rules := filter (\<lambda>r. \<not> obsoleteIn orbit g previous desired r) (sg_Rules g) @ new\<rparr>"
  have "groups w' = (groups w)(gid \<mapsto> ?g')" unfolding w' obsoleteIn_rules ..
  with g revised show ?thesis unfolding obsoleteIn_def[symmetric] by (intro exI[of _ g] exI[of _ ?g']) simp
qed

text \<open>A cloud with one group, whose SSH rule for \<open>203.0.113.5/32\<close> was there before.\<close>

definition oneGroupCloud :: mem_cloud where
  "oneGroupCloud =
     \<lparr>mc_vpcs = [], mc_subnets = [],
      mc_groups = [(''sg-id'', \<lparr>sg_ID = ''sg-id'', sg_Name = ''managed-sg'',
        sg_Rules = [\<lparr>sk_ID = ''old'', sk_IPProtocol = ''TCP'', sk_FromPort = 22, sk_ToPort = 22,
                     sk_IPRangeCIDR = ''203.0.113.5/32'', sk_GroupName = ''''\<rparr>]\<rparr>)],
      mc_ports = (\<lambda>_. []), mc_next = 5\<rparr>"

lemma oneGroupCloud_inv: "mem_inv oneGroupCloud"
  by (simp add: mem_inv_def oneGroupCloud_def uniqueRuleIDs_def)

abbreviation "oneGroupRun \<equiv>
  tcloud_EnsureSecurityGroup (\<lambda>_ _. False) memSdk
    (groupRulesRequest ''sg-id'' ''managed-sg'' [''203.0.113.5/32''] [''198.51.100.0/24''] ''canal'') oneGroupCloud"

theorem EnsureSecurityGroup_applies_rules_witness:
  "\<exists>g'. map_of (mc_groups (snd oneGroupRun)) ''sg-id'' = Some g' \<and>
     hasRule (\<lambda>_ _. False) g' (sshRule ''198.51.100.0/24'') \<and>
     \<not> hasRule (\<lambda>_ _. False) g' (sshRule ''203.0.113.5/32'')"
proof -
  have r: "fst oneGroupRun = Inr \<lparr>res_ID = ''sg-id'', res_Name = ''managed-sg''\<rparr>" by code_simp
  then have run: "oneGroupRun = (Inr \<lparr>res_ID = ''sg-id'', res_Name = ''managed-sg''\<rparr>, snd oneGroupRun)"
    by (metis prod.collapse)
  have "''198.51.100.0/24'' \<noteq> ''203.0.113.5/32''" by simp
  then show ?thesis
    using EnsureSecurityGroup_applies_rules[OF mem_groups.secgroup_sdk_axioms oneGroupCloud_inv _ run]
    by (auto simp: sshRule_in_RKE2Rules)
qed

text \<open>
  C36: Under the SDK's contract, \<open>EnsureVPC\<close> by name is idempotent: once it has returned a VPC of the
  requested name, repeating the request changes no VPC and can only return that VPC again.
\<close>

theorem EnsureVPC_idempotent:
  assumes "vpc_sdk sdk vpcs cinv" and "cinv w" and "vr_ID req = ''''"
    and "tcloud_EnsureVPC sdk req w = (Inr res, w1)"
    and "tcloud_EnsureVPC sdk req w1 = (r2, w2)"
  shows "res_Name res = vr_Name req \<and> vpcs w2 = vpcs w1 \<and> (\<forall>res2. r2 = Inr res2 \<longrightarrow> res2 = res)"
proof -
  from vpc_sdk.ensure_by_name[OF assms(1-4)] obtain v where v: "cinv w1" "res = vpcResource v"
    "{u \<in> ran (vpcs w1). sv_Name u = vr_Name req} = {v}" by blast
  moreover from v(3) have "sv_Name v = vr_Name req" by blast
  ultimately show ?thesis
    using vpc_sdk.ensure_again[OF assms(1) v(1) assms(3) v(3) assms(5)] by (simp add: vpcResource_def)
qed

abbreviation "vpcReq \<equiv> \<lparr>vr_ID = '''', vr_Name = ''net-1'', vr_CIDR = ''192.168.0.0/16''\<rparr>"
abbreviation "vpcRun \<equiv> tcloud_EnsureVPC memSdk vpcReq oneGroupCloud"

theorem EnsureVPC_idempotent_witness:
  "fst vpcRun = Inr \<lparr>res_ID = ''xxxxxx'', res_Name = ''net-1''\<rparr> \<and>
   fst (tcloud_EnsureVPC memSdk vpcReq (snd vpcRun)) = fst vpcRun"
proof -
  have r: "fst vpcRun = Inr \<lparr>res_ID = ''xxxxxx'', res_Name = ''net-1''\<rparr>" by code_simp
  then have run: "vpcRun = (Inr \<lparr>res_ID = ''xxxxxx'', res_Name = ''net-1''\<rparr>, snd vpcRun)"
    by (metis prod.collapse)
  obtain res2 where res2: "fst (tcloud_EnsureVPC memSdk vpcReq (snd vpcRun)) = Inr res2"
    by (simp add: tcloud_EnsureVPC_def memSdk_def mem_CreateVPC_def oneGroupCloud_def Let_def)
  have "res2 = \<lparr>res_ID = ''xxxxxx'', res_Name = ''net-1''\<rparr>"
    using EnsureVPC_idempotent[OF mem_vpcs.vpc_sdk_axioms oneGroupCloud_inv _ run, of "Inr res2"]
    by (simp add: prod_eq_iff res2)
  with r res2 show ?thesis by simp
qed

end
