(* ===== verification/KubeMem.thy ===== *)
theory KubeMem
  imports Kube CloudContracts
begin

text \<open>
  An in-memory cluster beside the in-memory cloud: a client that keeps its objects in lists, and the
  T-Cloud service running on the same world. The contracts of the later theories are discharged on
  it and the witnesses run on it.
\<close>

record mem_world =
  mw_networks :: "TCloudClusterNetwork list"
  mw_clusters :: "Unstructured list"
  mw_machines :: "Unstructured list"
  mw_configs :: "Unstructured list"
  mw_secrets :: "Secret list"
  mw_cloud :: mem_cloud

definition emptyCloud :: mem_cloud where
  "emptyCloud = \<lparr>mc_vpcs = [], mc_subnets = [], mc_groups = [], mc_ports = (\<lambda>_. []), mc_next = 0\<rparr>"

definition emptyWorld :: mem_world where
  "emptyWorld = \<lparr>mw_networks = [], mw_clusters = [], mw_machines = [], mw_configs = [], mw_secrets = [],
     mw_cloud = emptyCloud\<rparr>"

definition isNet :: "string \<Rightarrow> string \<Rightarrow> TCloudClusterNetwork \<Rightarrow> bool" where
  "isNet ns n net = (net_namespace net = ns \<and> net_name net = n)"

definition isObj :: "string \<Rightarrow> string \<Rightarrow> Unstructured \<Rightarrow> bool" where
  "isObj ns n u = (u_namespace u = ns \<and> u_name u = n)"

definition lookup :: "('a \<Rightarrow> bool) \<Rightarrow> string \<Rightarrow> 'a list \<Rightarrow> error + 'a" where
  "lookup P n xs = (case find P xs of None \<Rightarrow> Inl (KubeErr NotFound n) | Some x \<Rightarrow> Inr x)"

definition replaceBy :: "('a \<Rightarrow> bool) \<Rightarrow> 'a \<Rightarrow> 'a list \<Rightarrow> 'a list" where
  "replaceBy P y xs = map (\<lambda>x. if P x then y else x) xs"

text \<open>A stored network that is being deleted disappears with its last finalizer.\<close>

definition storeNetwork :: "TCloudClusterNetwork \<Rightarrow> mem_world \<Rightarrow> mem_world" where
  "storeNetwork net w =
     (let same = isNet (net_namespace net) (net_name net) in
      if om_DeletionTimestamp (Meta net) \<noteq> None \<and> om_Finalizers (Meta net) = []
      then w\<lparr>mw_networks := filter (\<lambda>x. \<not> same x) (mw_networks w)\<rparr>
      else w\<lparr>mw_networks := replaceBy same net (mw_networks w)\<rparr>)"

definition mem_change ::
  "(TCloudClusterNetwork \<Rightarrow> TCloudClusterNetwork) \<Rightarrow> TCloudClusterNetwork \<Rightarrow>
   (mem_world, error + TCloudClusterNetwork) io" where
  "mem_change f net w =
     (case lookup (isNet (net_namespace net) (net_name net)) (net_name net) (mw_networks w) of
        Inl err \<Rightarrow> (Inl err, w)
      | Inr stored \<Rightarrow> (Inr (f stored), storeNetwork (f stored) w))"

definition mem_DeleteNetwork :: "TCloudClusterNetwork \<Rightarrow> (mem_world, error option) io" where
  "mem_DeleteNetwork net w =
     (case mem_change (\<lambda>s. s\<lparr>Meta := (Meta s)\<lparr>om_DeletionTimestamp := Some 0\<rparr>\<rparr>) net w of
        (Inl err, w) \<Rightarrow> (Some err, w)
      | (Inr _, w) \<Rightarrow> (None, w))"

definition mem_CreateNetwork :: "TCloudClusterNetwork \<Rightarrow> (mem_world, error + TCloudClusterNetwork) io" where
  "mem_CreateNetwork net w =
     (if find (isNet (net_namespace net) (net_name net)) (mw_networks w) = None
      then (Inr net, w\<lparr>mw_networks := mw_networks w @ [net]\<rparr>)
      else (Inl (KubeErr AlreadyExists (net_name net)), w))"

definition memKube :: "mem_world Kube" where
  "memKube =
     \<lparr>GetNetwork = (\<lambda>ns n w. (lookup (isNet ns n) n (mw_networks w), w)),
      ListNetworks = (\<lambda>ns w. (Inr (filter (\<lambda>x. net_namespace x = ns) (mw_networks w)), w)),
      CreateNetwork = mem_CreateNetwork,
      UpdateNetwork = (\<lambda>net. mem_change (\<lambda>s. s\<lparr>Meta := Meta net, Spec := Spec net\<rparr>) net),
      PatchNetwork = (\<lambda>base net. mem_change (\<lambda>s. s\<lparr>Meta := Meta net, Spec := Spec net\<rparr>) net),
      StatusPatchNetwork = (\<lambda>base net. mem_change (\<lambda>s. s\<lparr>Status := Status net\<rparr>) net),
      DeleteNetwork = mem_DeleteNetwork,
      GetCluster = (\<lambda>ns n w. (lookup (isObj ns n) n (mw_clusters w), w)),
      PatchCluster = (\<lambda>base u w. (Inr u, w\<lparr>mw_clusters := replaceBy (isObj (u_namespace u) (u_name u)) u (mw_clusters w)\<rparr>)),
      ListMachines = (\<lambda>ns cluster w. (Inr (filter (\<lambda>m. u_namespace m = ns \<and> om_Labels (u_Meta m) clusterNameLabel = Some cluster)
                                             (mw_machines w)), w)),
      GetConfig = (\<lambda>ns n w. (lookup (isObj ns n) n (mw_configs w), w)),
      ListConfigs = (\<lambda>ns w. (Inr (filter (\<lambda>u. u_namespace u = ns) (mw_configs w)), w)),
      PatchConfig = (\<lambda>base u w. (Inr u, w\<lparr>mw_configs := replaceBy (isObj (u_namespace u) (u_name u)) u (mw_configs w)\<rparr>)),
      GetSecret = (\<lambda>ns n w. (lookup (\<lambda>s. sec_Namespace s = ns \<and> sec_Name s = n) n (mw_secrets w), w))\<rparr>"

definition onCloud :: "(mem_cloud, 'a) io \<Rightarrow> (mem_world, 'a) io" where
  "onCloud f w = (case f (mw_cloud w) of (a, c) \<Rightarrow> (a, w\<lparr>mw_cloud := c\<rparr>))"

definition memService :: "mem_world Service" where
  "memService =
     (let s = tcloudService (\<lambda>_ _. False) memSdk in
      \<lparr>EnsureVPC = (\<lambda>q. onCloud (EnsureVPC s q)), EnsureSubnet = (\<lambda>q. onCloud (EnsureSubnet s q)),
       EnsureSecurityGroup = (\<lambda>q. onCloud (EnsureSecurityGroup s q)),
       GetVPC = (\<lambda>i. onCloud (GetVPC s i)), GetSubnet = (\<lambda>i. onCloud (GetSubnet s i)),
       GetSecurityGroup = (\<lambda>i. onCloud (GetSecurityGroup s i)),
       AttachedPorts = (\<lambda>i. onCloud (AttachedPorts s i)),
       DeleteSecurityGroup = (\<lambda>i. onCloud (DeleteSecurityGroup s i)),
       DeleteSubnet = (\<lambda>v i. onCloud (DeleteSubnet s v i)), DeleteVPC = (\<lambda>i. onCloud (DeleteVPC s i))\<rparr>)"

end
