(* ===== verification/Adoption.thy ===== *)
theory Adoption
  imports KubeMem
begin

text \<open>
  Discovery of the network a machine driver created, \<^verbatim>\<open>src/internal/controller/adoption.go\<close>.
  The gzip, tar and JSON decoders are the record \<open>codec\<close>: what opening a byte string as a
  compressed tar archive gives, an opened archive being the sequence of results its \<open>Next\<close> returns
  before \<open>io.EOF\<close>, and what decoding a JSON text into the driver state gives.
\<close>

section \<open>Driver state\<close>

record managedResourceID =
  mr_Value :: string
  mr_Managed :: bool

record machineDriverState =
  ds_DriverName :: string
  ds_VPCID :: managedResourceID
  ds_SubnetID :: managedResourceID
  ds_ManagedSecurityGroup :: string

datatype tar_next = TarError error | TarEntry (th_Name: string) (th_Size: int) (th_Body: string)

record codec =
  openArchive :: "string \<Rightarrow> error + tar_next list"
  decodeJSON :: "string \<Rightarrow> error + machineDriverState"

definition maxMachineConfigSize :: int where
  [go_defs]: "maxMachineConfigSize = 2 * 1024 * 1024"

text \<open>The loop over the archive: the first \<open>config.json\<close> decides.\<close>

fun scanArchive :: "codec \<Rightarrow> tar_next list \<Rightarrow> error + machineDriverState" where
  "scanArchive C [] = Inl (Errorf ''config.json is missing from extractedConfig'' [])"
| "scanArchive C (TarError err # rest) = Inl (Wrapf ''read machine state archive: %w'' [] err)"
| "scanArchive C (TarEntry name sz body # rest) =
     (if filepath_Base name \<noteq> ''config.json'' then scanArchive C rest
      else if sz < 1 \<or> sz > maxMachineConfigSize
      then Inl (Errorf ''machine config size %d is invalid'' [ArgD sz])
      else case decodeJSON C (take (nat maxMachineConfigSize) body) of
        Inl err \<Rightarrow> Inl (Wrapf ''parse machine config: %w'' [] err)
      | Inr state \<Rightarrow> Inr state)"

definition decodeMachineDriverState :: "codec \<Rightarrow> string \<Rightarrow> error + machineDriverState" where
  [go_defs]: "decodeMachineDriverState C value =
     (if length value = 0 then Inl (Errorf ''extractedConfig is empty'' [])
      else case openArchive C value of
        Inl err \<Rightarrow> Inl (Wrapf ''open compressed machine state: %w'' [] err)
      | Inr archive \<Rightarrow> scanArchive C archive)"

definition adoptableResourcesFromState ::
  "string \<Rightarrow> machineDriverState \<Rightarrow> error + NetworkResourceStatus" where
  [go_defs]: "adoptableResourcesFromState machineName state =
     (if ds_DriverName state \<noteq> ''opentelekomcloud''
      then Inl (Errorf ''machine %s uses driver %q, not opentelekomcloud''
                  [ArgS machineName, ArgS (ds_DriverName state)])
      else if \<not> mr_Managed (ds_VPCID state) \<or> \<not> mr_Managed (ds_SubnetID state) \<or>
              ds_ManagedSecurityGroup state = ''''
      then Inl (Errorf ''machine %s does not own a complete driver-managed network; select Existing network ownership instead''
                  [ArgS machineName])
      else if mr_Value (ds_VPCID state) = '''' \<or> mr_Value (ds_SubnetID state) = ''''
      then Inl (Errorf ''machine %s state does not contain complete network resource IDs'' [ArgS machineName])
      else Inr
        \<lparr>nrs_VPC = \<lparr>rs_ID = mr_Value (ds_VPCID state), rs_Name = '''', rs_ControllerManaged = True\<rparr>,
         nrs_Subnet = \<lparr>rs_ID = mr_Value (ds_SubnetID state), rs_Name = '''', rs_ControllerManaged = True\<rparr>,
         nrs_SecurityGroup = \<lparr>rs_ID = ds_ManagedSecurityGroup state, rs_Name = '''', rs_ControllerManaged = True\<rparr>\<rparr>)"

section \<open>Discovery\<close>

text \<open>
  The order of \<open>sort.Slice\<close>: by creation time, then by name. Names are unique in a namespace, so
  the order is total on the candidates and the result does not depend on the sorting algorithm.
\<close>

definition candidateKey :: "Unstructured \<Rightarrow> time \<times> string" where
  [go_defs]: "candidateKey m = (om_CreationTimestamp (u_Meta m), u_name m)"

definition candidateMachines :: "Unstructured list \<Rightarrow> Unstructured list" where
  [go_defs]: "candidateMachines machines =
     sort_key candidateKey (filter (\<lambda>m. om_DeletionTimestamp (u_Meta m) = None) machines)"

definition stateSecretName :: "Unstructured \<Rightarrow> string" where
  [go_defs]: "stateSecretName m = u_name m @ ''-machine-state''"

type_synonym 'w SecretReader = "string \<Rightarrow> string \<Rightarrow> ('w, error + Secret) io"

text \<open>The loop over the candidates: a missing state Secret moves on, anything else decides.\<close>

fun tryCandidates ::
  "codec \<Rightarrow> 'w SecretReader \<Rightarrow> string \<Rightarrow> Unstructured list \<Rightarrow> ('w, error + NetworkResourceStatus) io" where
  "tryCandidates C reader ns [] w =
     (Inl (Errorf ''no T-Cloud machine with complete driver state is available for network adoption'' []), w)"
| "tryCandidates C reader ns (m # ms) w =
     (case reader ns (stateSecretName m) w of
        (Inl err, w) \<Rightarrow>
          if apierrors_IsNotFound err then tryCandidates C reader ns ms w
          else (Inl (Wrapf ''read machine state Secret %s/%s: %w'' [ArgS ns, ArgS (stateSecretName m)] err), w)
      | (Inr stateSecret, w) \<Rightarrow>
          (case decodeMachineDriverState C (mget (sec_Data stateSecret) ''extractedConfig'') of
             Inl err \<Rightarrow>
               (Inl (Wrapf ''decode machine state Secret %s/%s: %w'' [ArgS ns, ArgS (stateSecretName m)] err), w)
           | Inr state \<Rightarrow> (adoptableResourcesFromState (u_name m) state, w)))"

definition discoverAdoptableResources ::
  "codec \<Rightarrow> 'w Kube \<Rightarrow> 'w SecretReader \<Rightarrow> TCloudClusterNetwork \<Rightarrow> ('w, error + NetworkResourceStatus) io" where
  [go_defs]: "discoverAdoptableResources C k reader network w =
     (case ListMachines k (nr_Namespace (clusterRef network)) (nr_Name (clusterRef network)) w of
        (Inl err, w) \<Rightarrow> (Inl (Wrapf ''list T-Cloud machines: %w'' [] err), w)
      | (Inr machines, w) \<Rightarrow>
          (let candidates = candidateMachines machines in
           if length candidates = 0
           then (Inl (Errorf ''no T-Cloud machine is available for network adoption'' []), w)
           else tryCandidates C reader (nr_Namespace (clusterRef network)) candidates w))"

section \<open>Lemmas\<close>

text \<open>What may be adopted: three resources with IDs, all of them marked controller-managed.\<close>

definition adoptable :: "NetworkResourceStatus \<Rightarrow> bool" where
  "adoptable r =
     (list_all (\<lambda>s. rs_ID s \<noteq> '''' \<and> rs_ControllerManaged s) [nrs_VPC r, nrs_Subnet r, nrs_SecurityGroup r])"

lemma adoptableResourcesFromState_iff:
  "adoptableResourcesFromState m state = Inr r \<longleftrightarrow>
     ds_DriverName state = ''opentelekomcloud'' \<and> mr_Managed (ds_VPCID state) \<and> mr_Managed (ds_SubnetID state) \<and>
     ds_ManagedSecurityGroup state \<noteq> '''' \<and> mr_Value (ds_VPCID state) \<noteq> '''' \<and> mr_Value (ds_SubnetID state) \<noteq> '''' \<and>
     r = \<lparr>nrs_VPC = \<lparr>rs_ID = mr_Value (ds_VPCID state), rs_Name = '''', rs_ControllerManaged = True\<rparr>,
          nrs_Subnet = \<lparr>rs_ID = mr_Value (ds_SubnetID state), rs_Name = '''', rs_ControllerManaged = True\<rparr>,
          nrs_SecurityGroup = \<lparr>rs_ID = ds_ManagedSecurityGroup state, rs_Name = '''', rs_ControllerManaged = True\<rparr>\<rparr>"
  by (simp add: adoptableResourcesFromState_def) blast

lemma adoptableResourcesFromState_adoptable:
  "adoptableResourcesFromState m state = Inr r \<Longrightarrow> adoptable r"
  by (auto simp: adoptableResourcesFromState_iff adoptable_def)

lemma tryCandidates_adoptable: "tryCandidates C reader ns ms w = (Inr r, w') \<Longrightarrow> adoptable r"
  by (induction C reader ns ms w rule: tryCandidates.induct)
    (auto split: prod.splits sum.splits if_splits dest: adoptableResourcesFromState_adoptable)

lemma discoverAdoptableResources_adoptable:
  "discoverAdoptableResources C k reader network w = (Inr r, w') \<Longrightarrow> adoptable r"
  by (auto simp: discoverAdoptableResources_def Let_def split: prod.splits sum.splits if_splits
      dest: tryCandidates_adoptable)

lemma candidateMachines_set:
  "set (candidateMachines ms) = {m \<in> set ms. om_DeletionTimestamp (u_Meta m) = None}"
  by (auto simp: candidateMachines_def)

lemma candidateMachines_sorted: "sorted (map candidateKey (candidateMachines ms))"
  by (simp add: candidateMachines_def)

text \<open>With a reader that only reads, the loop stops at the first candidate that has a state Secret.\<close>

abbreviation pureReader :: "(string \<Rightarrow> string \<Rightarrow> error + Secret) \<Rightarrow> 'w SecretReader" where
  "pureReader secrets \<equiv> (\<lambda>ns n w. (secrets ns n, w))"

definition hasStateSecret :: "(string \<Rightarrow> string \<Rightarrow> error + Secret) \<Rightarrow> string \<Rightarrow> Unstructured \<Rightarrow> bool" where
  "hasStateSecret secrets ns m = (\<exists>s. secrets ns (stateSecretName m) = Inr s)"

lemma tryCandidates_first:
  assumes "tryCandidates C (pureReader secrets) ns ms w = (Inr r, w')"
  shows "\<exists>before m after s state. ms = before @ m # after \<and>
    (\<forall>b\<in>set before. \<not> hasStateSecret secrets ns b) \<and> secrets ns (stateSecretName m) = Inr s \<and>
    decodeMachineDriverState C (mget (sec_Data s) ''extractedConfig'') = Inr state \<and>
    adoptableResourcesFromState (u_name m) state = Inr r"
  using assms
proof (induction ms)
  case Nil
  then show ?case by simp
next
  case (Cons m ms)
  show ?case
  proof (cases "secrets ns (stateSecretName m)")
    case (Inl err)
    with Cons.prems have "tryCandidates C (pureReader secrets) ns ms w = (Inr r, w')"
      by (simp split: if_splits)
    from Cons.IH[OF this] obtain before m' after s state where "ms = before @ m' # after"
      "\<forall>b\<in>set before. \<not> hasStateSecret secrets ns b" "secrets ns (stateSecretName m') = Inr s"
      "decodeMachineDriverState C (mget (sec_Data s) ''extractedConfig'') = Inr state"
      "adoptableResourcesFromState (u_name m') state = Inr r" by blast
    moreover have "\<not> hasStateSecret secrets ns m" using Inl by (simp add: hasStateSecret_def)
    ultimately show ?thesis by (intro exI[of _ "m # before"]) auto
  next
    case (Inr s)
    with Cons.prems show ?thesis
      by (intro exI[of _ "[]"]) (auto split: sum.splits)
  qed
qed

lemma sorted_first_least:
  fixes key :: "'a \<Rightarrow> 'k::linorder"
  assumes "sorted (map key (before @ m # after))" "x \<in> set (before @ m # after)" "x \<notin> set before"
  shows "key m \<le> key x"
  using assms by (auto simp: sorted_append)

section \<open>Properties\<close>

text \<open>
  C9: Adoption takes over only what a machine driver created: a successful discovery yields a VPC, a
  subnet and a security group with IDs, and they come from the driver state of the oldest machine
  (by creation time, then name) that is not being deleted and has a state Secret. That state names
  the opentelekomcloud driver and marks the VPC and the subnet as managed by it.
\<close>

theorem discover_oldest_driver_managed:
  assumes "ListMachines k (nr_Namespace (clusterRef network)) (nr_Name (clusterRef network)) w = (Inr machines, w1)"
    and "discoverAdoptableResources C k (pureReader secrets) network w = (Inr r, w2)"
  shows "adoptable r \<and>
    (\<exists>m s state. m \<in> set machines \<and> om_DeletionTimestamp (u_Meta m) = None \<and>
       secrets (nr_Namespace (clusterRef network)) (stateSecretName m) = Inr s \<and>
       (\<forall>m'\<in>set machines. om_DeletionTimestamp (u_Meta m') = None \<longrightarrow>
          hasStateSecret secrets (nr_Namespace (clusterRef network)) m' \<longrightarrow> candidateKey m \<le> candidateKey m') \<and>
       decodeMachineDriverState C (mget (sec_Data s) ''extractedConfig'') = Inr state \<and>
       ds_DriverName state = ''opentelekomcloud'' \<and> mr_Managed (ds_VPCID state) \<and>
       mr_Managed (ds_SubnetID state) \<and> rs_ID (nrs_VPC r) = mr_Value (ds_VPCID state) \<and>
       rs_ID (nrs_Subnet r) = mr_Value (ds_SubnetID state) \<and>
       rs_ID (nrs_SecurityGroup r) = ds_ManagedSecurityGroup state)"
proof -
  let ?ns = "nr_Namespace (clusterRef network)" and ?cs = "candidateMachines machines"
  have "tryCandidates C (pureReader secrets) ?ns ?cs w1 = (Inr r, w2)"
    using assms by (simp add: discoverAdoptableResources_def Let_def split: if_splits)
  from tryCandidates_first[OF this] obtain before m after s state where
    split: "?cs = before @ m # after" and none: "\<forall>b\<in>set before. \<not> hasStateSecret secrets ?ns b" and
    s: "secrets ?ns (stateSecretName m) = Inr s"
      "decodeMachineDriverState C (mget (sec_Data s) ''extractedConfig'') = Inr state" and
    st: "adoptableResourcesFromState (u_name m) state = Inr r" by blast
  have m: "m \<in> set machines" "om_DeletionTimestamp (u_Meta m) = None"
    using split candidateMachines_set[of machines] by auto
  have least: "candidateKey m \<le> candidateKey m'"
    if "m' \<in> set machines" "om_DeletionTimestamp (u_Meta m') = None" "hasStateSecret secrets ?ns m'" for m'
  proof -
    have "m' \<in> set (before @ m # after)" using that candidateMachines_set[of machines] split by auto
    then show ?thesis
      using sorted_first_least[of candidateKey before m after m'] candidateMachines_sorted[of machines]
        that(3) none unfolding split by blast
  qed
  from discoverAdoptableResources_adoptable[OF assms(2)] m least s st[unfolded adoptableResourcesFromState_iff]
  show ?thesis by (intro conjI exI[of _ m] exI[of _ s] exI[of _ state]) auto
qed

text \<open>Two machines: the older one is being deleted, so the other one's state is used.\<close>

definition sampleMachine :: "string \<Rightarrow> time \<Rightarrow> time option \<Rightarrow> Unstructured" where
  "sampleMachine n created deleted =
     \<lparr>u_Meta = \<lparr>om_Name = n, om_Namespace = ''fleet'', om_UID = n, om_Generation = 1, om_CreationTimestamp = created,
        om_DeletionTimestamp = deleted, om_Finalizers = [], om_OwnerReferences = [],
        om_Labels = [clusterNameLabel \<mapsto> ''c''], om_Annotations = Map.empty\<rparr>,
      u_Object = VMap []\<rparr>"

definition sampleState :: machineDriverState where
  "sampleState = \<lparr>ds_DriverName = ''opentelekomcloud'', ds_VPCID = \<lparr>mr_Value = ''v1'', mr_Managed = True\<rparr>,
     ds_SubnetID = \<lparr>mr_Value = ''s1'', mr_Managed = True\<rparr>, ds_ManagedSecurityGroup = ''g1''\<rparr>"

definition sampleCodec :: codec where
  "sampleCodec = \<lparr>openArchive = (\<lambda>b. Inr [TarEntry ''machines/'' 0 '''', TarEntry ''machines/config.json'' 2 b]),
     decodeJSON = (\<lambda>b. Inr sampleState)\<rparr>"

definition sampleSecrets :: "string \<Rightarrow> string \<Rightarrow> error + Secret" where
  "sampleSecrets ns n = Inr \<lparr>sec_Name = n, sec_Namespace = ns, sec_Data = [''extractedConfig'' \<mapsto> ''gz'']\<rparr>"

definition sampleSpec :: TCloudClusterNetworkSpec where
  "sampleSpec = \<lparr>sp_ClusterRef = \<lparr>nr_Name = ''c'', nr_Namespace = ''fleet''\<rparr>,
     sp_CredentialSecretRef = \<lparr>nr_Name = ''cc'', nr_Namespace = ''cattle''\<rparr>, sp_ManagementPolicy = '''',
     sp_Region = ''eu-de'', sp_ProjectName = ''eu-de_p'', sp_EndpointType = '''',
     sp_Network = \<lparr>ns_VPC = \<lparr>vs_ID = '''', vs_Name = '''', vs_CIDR = ''10.0.0.0/16''\<rparr>,
       ns_Subnet = \<lparr>ss_ID = '''', ss_Name = '''', ss_CIDR = ''10.0.0.0/24'', ss_GatewayIP = ''10.0.0.1'',
         ss_DNSNameservers = [], ss_AvailabilityZone = ''''\<rparr>,
       ns_SecurityGroup = \<lparr>gs_ID = '''', gs_Name = '''', gs_ManagementPolicy = '''',
         gs_SSHAllowedCIDRs = [''192.0.2.0/24''], gs_CNI = ''''\<rparr>\<rparr>,
     sp_OrphanCleanupAfter = None\<rparr>"

definition sampleStatus :: TCloudClusterNetworkStatus where
  "sampleStatus = \<lparr>st_ObservedGeneration = 0, st_ClusterUID = '''', st_OwnershipToken = '''',
     st_Resources = \<lparr>nrs_VPC = noResource, nrs_Subnet = noResource, nrs_SecurityGroup = noResource\<rparr>,
     st_AppliedSSHAllowedCIDRs = [], st_Conditions = []\<rparr>"

definition sampleNetwork :: TCloudClusterNetwork where
  "sampleNetwork = \<lparr>Meta = \<lparr>om_Name = ''n'', om_Namespace = ''fleet'', om_UID = ''11111111-2222'',
       om_Generation = 1, om_CreationTimestamp = 0, om_DeletionTimestamp = None, om_Finalizers = [],
       om_OwnerReferences = [], om_Labels = Map.empty, om_Annotations = Map.empty\<rparr>,
     Spec = sampleSpec, Status = sampleStatus\<rparr>"

definition adoptionWorld :: mem_world where
  "adoptionWorld = emptyWorld\<lparr>mw_machines := [sampleMachine ''b'' 7 None, sampleMachine ''a'' 5 (Some 9)]\<rparr>"

lemma decode_sample: "decodeMachineDriverState sampleCodec ''gz'' = Inr sampleState"
proof -
  have "filepath_Base ''machines/'' = ''machines''" "filepath_Base ''machines/config.json'' = ''config.json''"
    by code_simp+
  then show ?thesis by (simp add: decodeMachineDriverState_def sampleCodec_def maxMachineConfigSize_def)
qed

theorem discover_oldest_driver_managed_witness:
  "(\<exists>r. discoverAdoptableResources sampleCodec memKube (pureReader sampleSecrets) sampleNetwork adoptionWorld
        = (Inr r, adoptionWorld) \<and> adoptable r \<and> rs_ID (nrs_Subnet r) = ''s1'')"
proof -
  let ?ms = "[sampleMachine ''b'' 7 None, sampleMachine ''a'' 5 (Some 9)]"
  have l: "ListMachines memKube (nr_Namespace (clusterRef sampleNetwork)) (nr_Name (clusterRef sampleNetwork)) adoptionWorld
      = (Inr ?ms, adoptionWorld)"
    by (simp add: memKube_def sampleNetwork_def sampleSpec_def adoptionWorld_def sampleMachine_def)
  have c: "candidateMachines ?ms = [sampleMachine ''b'' 7 None]"
    by (simp add: candidateMachines_def sampleMachine_def)

  have "\<exists>r. adoptableResourcesFromState ''b'' sampleState = Inr r \<and> rs_ID (nrs_Subnet r) = ''s1''"
    by (simp add: adoptableResourcesFromState_def sampleState_def)
  then obtain r where a: "adoptableResourcesFromState ''b'' sampleState = Inr r" and r: "rs_ID (nrs_Subnet r) = ''s1''"
    by blast
  have n: "u_name (sampleMachine ''b'' 7 None) = ''b''" by (simp add: sampleMachine_def)
  have d: "discoverAdoptableResources sampleCodec memKube (pureReader sampleSecrets) sampleNetwork adoptionWorld
        = (Inr r, adoptionWorld)"
    using a by (simp add: discoverAdoptableResources_def l c sampleSecrets_def decode_sample mget_def n)
  from discover_oldest_driver_managed[OF l d] d r show ?thesis by blast
qed

end
