(* ===== verification/Reconciler.thy ===== *)
theory Reconciler
  imports Adoption
begin

text \<open>
  The reconciler of \<open>TCloudClusterNetwork\<close> objects,
  \<^verbatim>\<open>src/internal/controller/tcloudclusternetwork_controller.go\<close>: one definition per method, in the
  order of a reconcile. A method body that is long in the source is split at its early returns: a
  step returns \<open>Inl\<close> with what the method returns there, or \<open>Inr\<close> with what the next step needs.
  The object the source mutates through its pointer is threaded through the steps.
\<close>

section \<open>The reconciler\<close>

text \<open>
  The struct's fields \<open>Client\<close>, \<open>APIReader\<close> (only Secrets are read through it), \<open>Factory\<close>, \<open>Recorder\<close>
  and \<open>Now\<close>; \<open>Scheme\<close> is not used. The last three fields are not in the struct: the clock
  \<open>time.Now\<close>, the library functions and the decoders the methods call.
\<close>

record 'w TCloudClusterNetworkReconciler =
  Client :: "'w Kube"
  APIReader :: "'w SecretReader option"
  NewService :: "'w Factory"
  RecordEvent :: "TCloudClusterNetwork \<Rightarrow> string \<Rightarrow> string \<Rightarrow> string \<Rightarrow> 'w \<Rightarrow> 'w"
  Now :: "('w, time) io option"
  SystemNow :: "('w, time) io"
  Lib :: lib
  Codec :: codec

definition secretReader :: "'w TCloudClusterNetworkReconciler \<Rightarrow> 'w SecretReader" where
  [go_defs]: "secretReader r = (case APIReader r of None \<Rightarrow> GetSecret (Client r) | Some reader \<Rightarrow> reader)"

definition cloudService ::
  "'w TCloudClusterNetworkReconciler \<Rightarrow> TCloudClusterNetwork \<Rightarrow> ('w, error + 'w Service) io" where
  [go_defs]: "cloudService r network w =
     (let ref = sp_CredentialSecretRef (Spec network) in
      case secretReader r (nr_Namespace ref) (nr_Name ref) w of
        (Inl err, w) \<Rightarrow>
          (Inl (Wrapf ''read cloud credential secret %s/%s: %w'' [ArgS (nr_Namespace ref), ArgS (nr_Name ref)] err), w)
      | (Inr secret, w) \<Rightarrow>
          (case CredentialsFromSecret (lib_lower (Lib r)) secret (sp_Region (Spec network))
                  (sp_ProjectName (Spec network)) (sp_EndpointType (Spec network)) of
             Inl err \<Rightarrow> (Inl err, w)
           | Inr credentials \<Rightarrow> NewService r credentials w))"

section \<open>Owner binding and orphan expiry\<close>

fun hasOwner :: "string \<Rightarrow> OwnerReference list \<Rightarrow> bool" where
  "hasOwner uid [] = False"
| "hasOwner uid (owner # owners) = (if or_UID owner = uid then True else hasOwner uid owners)"

definition clusterOwner :: "Unstructured \<Rightarrow> OwnerReference" where
  [go_defs]: "clusterOwner cluster =
     \<lparr>or_APIVersion = ''provisioning.cattle.io/v1'', or_Kind = ''Cluster'', or_Name = u_name cluster,
      or_UID = u_uid cluster\<rparr>"

definition markBound ::
  "'w TCloudClusterNetworkReconciler \<Rightarrow> TCloudClusterNetwork \<Rightarrow>
   ('w, (bool \<times> Result option \<times> error option) \<times> TCloudClusterNetwork) io" where
  [go_defs]: "markBound r network w =
     (case setCondition (Lib r) (Client r) network ConditionOwnerBound ConditionTrue ''ClusterBound''
             (Text ''Bound to the Rancher provisioning Cluster'') w of
        (network, w) \<Rightarrow> (((True, None, None), network), w))"

definition bindClusterOwner ::
  "'w TCloudClusterNetworkReconciler \<Rightarrow> TCloudClusterNetwork \<Rightarrow>
   ('w, (bool \<times> Result option \<times> error option) \<times> TCloudClusterNetwork) io" where
  [go_defs]: "bindClusterOwner r network w =
     (let ref = clusterRef network;
          namespace = firstNonEmpty [nr_Namespace ref, net_namespace network] in
      case GetCluster (Client r) namespace (nr_Name ref) w of
        (Inl err, w) \<Rightarrow>
          if apierrors_IsNotFound err
          then (case setCondition (Lib r) (Client r) network ConditionOwnerBound ConditionFalse ''ClusterNotFound''
                       (Text ''Waiting for the Rancher provisioning Cluster'') w of
                  (network, w) \<Rightarrow> (((False, None, None), network), w))
          else (((False, None, Some err), network), w)
      | (Inr cluster, w) \<Rightarrow>
          (let wanted = clusterOwner cluster in
           if \<not> hasOwner (or_UID wanted) (om_OwnerReferences (Meta network))
           then (let base = network;
                     mutated = network\<lparr>Meta := (Meta network)\<lparr>om_OwnerReferences :=
                                 om_OwnerReferences (Meta network) @ [wanted]\<rparr>\<rparr> in
                 case PatchNetwork (Client r) base mutated w of
                   (Inl err, w) \<Rightarrow> (((False, None, Some err), mutated), w)
                 | (Inr answer, w) \<Rightarrow> (((False, Some requeue, None), answer), w))
           else if st_ClusterUID (Status network) \<noteq> u_uid cluster
           then (case patchStatus (Client r) network
                        (\<lambda>n. n\<lparr>Status := (Status n)\<lparr>st_ClusterUID := u_uid cluster\<rparr>\<rparr>) w of
                   ((Some err, network), w) \<Rightarrow> (((False, None, Some err), network), w)
                 | ((None, network), w) \<Rightarrow> markBound r network w)
           else markBound r network w))"

definition orphanExpired ::
  "'w TCloudClusterNetworkReconciler \<Rightarrow> TCloudClusterNetwork \<Rightarrow> ('w, bool) io" where
  [go_defs]: "orphanExpired r network w =
     (let timeout = (case sp_OrphanCleanupAfter (Spec network) of None \<Rightarrow> Hour | Some d \<Rightarrow> d);
          now = (case Now r of None \<Rightarrow> SystemNow r | Some f \<Rightarrow> f) in
      if timeout > 0
      then (case now w of (t, w) \<Rightarrow> (t > om_CreationTimestamp (Meta network) + timeout, w))
      else (False, w))"

section \<open>Steps shared by the policies\<close>

text \<open>The ownership token is the object's UID, fixed once.\<close>

definition ensureToken ::
  "'w TCloudClusterNetworkReconciler \<Rightarrow> TCloudClusterNetwork \<Rightarrow> ('w, ret + TCloudClusterNetwork) io" where
  [go_defs]: "ensureToken r network w =
     (if st_OwnershipToken (Status network) = ''''
      then (case patchStatus (Client r) network
                   (\<lambda>n. n\<lparr>Status := (Status n)\<lparr>st_OwnershipToken := net_uid n\<rparr>\<rparr>) w of
              ((Some err, _), w) \<Rightarrow> (Inl (Ret noResult (Some err)), w)
            | ((None, network), w) \<Rightarrow> (Inr network, w))
      else (Inr network, w))"

abbreviation setVPC :: "ResourceStatus \<Rightarrow> TCloudClusterNetwork \<Rightarrow> TCloudClusterNetwork" where
  "setVPC s n \<equiv> n\<lparr>Status := (Status n)\<lparr>st_Resources := (resources n)\<lparr>nrs_VPC := s\<rparr>\<rparr>\<rparr>"
abbreviation setSubnet :: "ResourceStatus \<Rightarrow> TCloudClusterNetwork \<Rightarrow> TCloudClusterNetwork" where
  "setSubnet s n \<equiv> n\<lparr>Status := (Status n)\<lparr>st_Resources := (resources n)\<lparr>nrs_Subnet := s\<rparr>\<rparr>\<rparr>"
abbreviation setSecurityGroup :: "ResourceStatus \<Rightarrow> TCloudClusterNetwork \<Rightarrow> TCloudClusterNetwork" where
  "setSecurityGroup s n \<equiv> n\<lparr>Status := (Status n)\<lparr>st_Resources := (resources n)\<lparr>nrs_SecurityGroup := s\<rparr>\<rparr>\<rparr>"

text \<open>
  A resource the cloud returned is recorded in the status at once, marked controller-managed, before
  the next cloud call; \<open>current\<close> is its recorded status and \<open>store\<close> the field assignment.
\<close>

definition recordResource ::
  "'w TCloudClusterNetworkReconciler \<Rightarrow> TCloudClusterNetwork \<Rightarrow> ResourceStatus \<Rightarrow>
   (ResourceStatus \<Rightarrow> TCloudClusterNetwork \<Rightarrow> TCloudClusterNetwork) \<Rightarrow> Resource \<Rightarrow>
   ('w, ret + TCloudClusterNetwork \<times> Resource) io" where
  [go_defs]: "recordResource r network current store resource w =
     (if rs_ID current \<noteq> res_ID resource
      then (case patchStatus (Client r) network
                   (store \<lparr>rs_ID = res_ID resource, rs_Name = res_Name resource, rs_ControllerManaged = True\<rparr>) w of
              ((Some err, _), w) \<Rightarrow> (Inl (Ret noResult (Some err)), w)
            | ((None, network), w) \<Rightarrow> (Inr (network, resource), w))
      else (Inr (network, resource), w))"

definition readyStatus ::
  "lib \<Rightarrow> string \<Rightarrow> string \<Rightarrow> string \<Rightarrow> TCloudClusterNetwork \<Rightarrow> TCloudClusterNetwork" where
  [go_defs]: "readyStatus L reason networkMessage readyMessage n =
     withCondition L (mkCondition n ConditionReady ConditionTrue ''Reconciled'' (Text readyMessage))
       (withCondition L (mkCondition n ConditionNetwork ConditionTrue reason (Text networkMessage)) n)"

definition observeGeneration :: "TCloudClusterNetwork \<Rightarrow> TCloudClusterNetwork" where
  [go_defs]: "observeGeneration n = n\<lparr>Status := (Status n)\<lparr>st_ObservedGeneration := om_Generation (Meta n)\<rparr>\<rparr>"

definition recordApplied :: "TCloudClusterNetwork \<Rightarrow> TCloudClusterNetwork" where
  [go_defs]: "recordApplied n =
     n\<lparr>Status := (Status n)\<lparr>st_AppliedSSHAllowedCIDRs := gs_SSHAllowedCIDRs (sgSpec n)\<rparr>\<rparr>"

text \<open>The last step of each policy: publish the status, then come back in ten minutes.\<close>

definition publishReady ::
  "'w TCloudClusterNetworkReconciler \<Rightarrow> TCloudClusterNetwork \<Rightarrow>
   (TCloudClusterNetwork \<Rightarrow> TCloudClusterNetwork) \<Rightarrow> ('w, ret) io" where
  [go_defs]: "publishReady r network mutate w =
     (case patchStatus (Client r) network mutate w of
        ((Some err, _), w) \<Rightarrow> (Ret noResult (Some err), w)
      | ((None, _), w) \<Rightarrow> (Ret (requeueAfter (10 * Minute)) None, w))"

text \<open>The request that brings a group's rules in line with the spec.\<close>

definition rulesRequest :: "TCloudClusterNetwork \<Rightarrow> string \<Rightarrow> string \<Rightarrow> SecurityGroupRequest" where
  [go_defs]: "rulesRequest network gid name =
     \<lparr>gr_ID = gid, gr_Name = name, gr_Description = '''',
      gr_Rules = RKE2Rules gid (gs_SSHAllowedCIDRs (sgSpec network)) (gs_CNI (sgSpec network)),
      gr_RemoveRules = ObsoleteSSHRules (st_AppliedSSHAllowedCIDRs (Status network))
                         (gs_SSHAllowedCIDRs (sgSpec network))\<rparr>"

abbreviation nameFor :: "'w TCloudClusterNetworkReconciler \<Rightarrow> string \<Rightarrow> string \<Rightarrow> string option" where
  "nameFor r \<equiv> managedName (lib_lower (Lib r)) (IsDNS1123Label (Lib r))"

section \<open>Managed\<close>

definition ensureManagedVPC ::
  "'w TCloudClusterNetworkReconciler \<Rightarrow> 'w Service \<Rightarrow> string \<Rightarrow> TCloudClusterNetwork \<Rightarrow>
   ('w, ret + TCloudClusterNetwork \<times> Resource) io" where
  [go_defs]: "ensureManagedVPC r service token network w =
     (case nameFor r (firstNonEmpty [vs_Name (vpcSpec network), nr_Name (clusterRef network)]) token of
        None \<Rightarrow> (Inl GoPanic, w)
      | Some vpcName \<Rightarrow>
          (case EnsureVPC service
                  \<lparr>vr_ID = rs_ID (vpcStatus network), vr_Name = vpcName, vr_CIDR = vs_CIDR (vpcSpec network)\<rparr> w of
             (Inl err, w) \<Rightarrow>
               (case failRet (Lib r) (Client r) network ConditionNetwork ''VPCCreationFailed'' err w of
                  (ret, w) \<Rightarrow> (Inl ret, w))
           | (Inr vpc, w) \<Rightarrow> recordResource r network (vpcStatus network) setVPC vpc w))"

definition ensureManagedSubnet ::
  "'w TCloudClusterNetworkReconciler \<Rightarrow> 'w Service \<Rightarrow> string \<Rightarrow> Resource \<Rightarrow> TCloudClusterNetwork \<Rightarrow>
   ('w, ret + TCloudClusterNetwork \<times> Resource) io" where
  [go_defs]: "ensureManagedSubnet r service token vpc network w =
     (case nameFor r (firstNonEmpty [ss_Name (subnetSpec network), nr_Name (clusterRef network) @ ''-subnet'']) token of
        None \<Rightarrow> (Inl GoPanic, w)
      | Some subnetName \<Rightarrow>
          (case EnsureSubnet service
                  \<lparr>sr_ID = rs_ID (subnetStatus network), sr_VPCID = res_ID vpc, sr_Name = subnetName,
                   sr_CIDR = ss_CIDR (subnetSpec network), sr_GatewayIP = ss_GatewayIP (subnetSpec network),
                   sr_DNSNameservers = ss_DNSNameservers (subnetSpec network),
                   sr_AvailabilityZone = ss_AvailabilityZone (subnetSpec network)\<rparr> w of
             (Inl err, w) \<Rightarrow>
               (case failRet (Lib r) (Client r) network ConditionNetwork ''SubnetCreationFailed'' err w of
                  (ret, w) \<Rightarrow> (Inl ret, w))
           | (Inr subnet, w) \<Rightarrow> recordResource r network (subnetStatus network) setSubnet subnet w))"

text \<open>
  The group of a managed network and of an observed network with a managed group: create or find
  it, record it, then apply its rules. They differ in the description and in the name the second
  call carries.
\<close>

definition obtainManagedGroup ::
  "'w TCloudClusterNetworkReconciler \<Rightarrow> 'w Service \<Rightarrow> string \<Rightarrow> string \<Rightarrow> TCloudClusterNetwork \<Rightarrow>
   ('w, ret + TCloudClusterNetwork \<times> Resource) io" where
  [go_defs]: "obtainManagedGroup r service name description network w =
     (case EnsureSecurityGroup service
             \<lparr>gr_ID = rs_ID (sgStatus network), gr_Name = name, gr_Description = description,
              gr_Rules = [], gr_RemoveRules = []\<rparr> w of
        (Inl err, w) \<Rightarrow>
          (case failRet (Lib r) (Client r) network ConditionNetwork ''SecurityGroupCreationFailed'' err w of
             (ret, w) \<Rightarrow> (Inl ret, w))
      | (Inr securityGroup, w) \<Rightarrow>
          recordResource r network (sgStatus network) setSecurityGroup securityGroup w)"

definition applyRules ::
  "'w TCloudClusterNetworkReconciler \<Rightarrow> 'w Service \<Rightarrow> string \<Rightarrow> Resource \<Rightarrow> TCloudClusterNetwork \<Rightarrow>
   ('w, ret + TCloudClusterNetwork \<times> Resource) io" where
  [go_defs]: "applyRules r service name securityGroup network w =
     (case EnsureSecurityGroup service (rulesRequest network (res_ID securityGroup) name) w of
        (Inl err, w) \<Rightarrow>
          (case failRet (Lib r) (Client r) network ConditionNetwork ''SecurityGroupRulesFailed'' err w of
             (ret, w) \<Rightarrow> (Inl ret, w))
      | (Inr _, w) \<Rightarrow> (Inr (network, securityGroup), w))"

definition managedDescription :: "TCloudClusterNetwork \<Rightarrow> string" where
  [go_defs]: "managedDescription network =
     ''Managed by T-Cloud Rancher network controller for '' @ net_namespace network @ ''/'' @ net_name network"

definition groupBase :: "TCloudClusterNetwork \<Rightarrow> string" where
  [go_defs]: "groupBase network = firstNonEmpty [gs_Name (sgSpec network), nr_Name (clusterRef network) @ ''-rke2'']"

definition ensureManagedGroup ::
  "'w TCloudClusterNetworkReconciler \<Rightarrow> 'w Service \<Rightarrow> string \<Rightarrow> TCloudClusterNetwork \<Rightarrow>
   ('w, ret + TCloudClusterNetwork \<times> Resource) io" where
  [go_defs]: "ensureManagedGroup r service token network w =
     (case nameFor r (groupBase network) token of
        None \<Rightarrow> (Inl GoPanic, w)
      | Some name \<Rightarrow>
          (case obtainManagedGroup r service name (managedDescription network @ '' ('' @ token @ '')'') network w of
             (Inl ret, w) \<Rightarrow> (Inl ret, w)
           | (Inr (network, securityGroup), w) \<Rightarrow> applyRules r service name securityGroup network w))"

definition managedReady :: "lib \<Rightarrow> TCloudClusterNetwork \<Rightarrow> TCloudClusterNetwork" where
  [go_defs]: "managedReady L n =
     readyStatus L ''ResourcesReady'' ''Managed network resources are ready''
       ''T-Cloud cluster network is ready'' (recordApplied (observeGeneration n))"

definition reconcileManaged ::
  "'w TCloudClusterNetworkReconciler \<Rightarrow> TCloudClusterNetwork \<Rightarrow> 'w Service \<Rightarrow> ('w, ret) io" where
  [go_defs]: "reconcileManaged r network service w =
     (case ensureToken r network w of
        (Inl ret, w) \<Rightarrow> (ret, w)
      | (Inr network, w) \<Rightarrow>
          (case shortToken (st_OwnershipToken (Status network)) of
             None \<Rightarrow> (GoPanic, w)
           | Some token \<Rightarrow>
          (case ensureManagedVPC r service token network w of
             (Inl ret, w) \<Rightarrow> (ret, w)
           | (Inr (network, vpc), w) \<Rightarrow>
               (case ensureManagedSubnet r service token vpc network w of
                  (Inl ret, w) \<Rightarrow> (ret, w)
                | (Inr (network, subnet), w) \<Rightarrow>
                    (case ensureManagedGroup r service token network w of
                       (Inl ret, w) \<Rightarrow> (ret, w)
                     | (Inr (network, securityGroup), w) \<Rightarrow>
                         publishReady r network (managedReady (Lib r)) w)))))"

section \<open>Observe\<close>

definition observeVPC ::
  "'w TCloudClusterNetworkReconciler \<Rightarrow> 'w Service \<Rightarrow> TCloudClusterNetwork \<Rightarrow> ('w, ret + Resource) io" where
  [go_defs]: "observeVPC r service network w =
     (case GetVPC service (vs_ID (vpcSpec network)) w of
        (Inl err, w) \<Rightarrow>
          (case failRet (Lib r) (Client r) network ConditionNetwork ''VPCObservationFailed'' err w of
             (ret, w) \<Rightarrow> (Inl ret, w))
      | (Inr vpc, w) \<Rightarrow> (Inr vpc, w))"

definition observeSubnet ::
  "'w TCloudClusterNetworkReconciler \<Rightarrow> 'w Service \<Rightarrow> TCloudClusterNetwork \<Rightarrow> ('w, ret + Resource) io" where
  [go_defs]: "observeSubnet r service network w =
     (case GetSubnet service (ss_ID (subnetSpec network)) w of
        (Inl err, w) \<Rightarrow>
          (case failRet (Lib r) (Client r) network ConditionNetwork ''SubnetObservationFailed'' err w of
             (ret, w) \<Rightarrow> (Inl ret, w))
      | (Inr subnet, w) \<Rightarrow> (Inr subnet, w))"

definition securityGroupManaged :: "TCloudClusterNetwork \<Rightarrow> bool" where
  [go_defs]: "securityGroupManaged network = (gs_ManagementPolicy (sgSpec network) = ManagementPolicyManaged)"

definition observeGroup ::
  "'w TCloudClusterNetworkReconciler \<Rightarrow> 'w Service \<Rightarrow> TCloudClusterNetwork \<Rightarrow>
   ('w, ret + TCloudClusterNetwork \<times> Resource) io" where
  [go_defs]: "observeGroup r service network w =
     (if securityGroupManaged network
      then (case ensureToken r network w of
              (Inl ret, w) \<Rightarrow> (Inl ret, w)
            | (Inr network, w) \<Rightarrow>
                (case shortToken (st_OwnershipToken (Status network)) of
                   None \<Rightarrow> (Inl GoPanic, w)
                 | Some token \<Rightarrow>
                (case nameFor r (groupBase network) token of
                   None \<Rightarrow> (Inl GoPanic, w)
                 | Some name \<Rightarrow>
                     (case obtainManagedGroup r service name (managedDescription network) network w of
                        (Inl ret, w) \<Rightarrow> (Inl ret, w)
                      | (Inr (network, securityGroup), w) \<Rightarrow>
                          applyRules r service (res_Name securityGroup) securityGroup network w))))
      else (case GetSecurityGroup service (gs_ID (sgSpec network)) w of
              (Inl err, w) \<Rightarrow>
                (case failRet (Lib r) (Client r) network ConditionNetwork ''SecurityGroupObservationFailed'' err w of
                   (ret, w) \<Rightarrow> (Inl ret, w))
            | (Inr securityGroup, w) \<Rightarrow> (Inr (network, securityGroup), w)))"

definition observedReady ::
  "lib \<Rightarrow> bool \<Rightarrow> Resource \<Rightarrow> Resource \<Rightarrow> Resource \<Rightarrow> TCloudClusterNetwork \<Rightarrow> TCloudClusterNetwork" where
  [go_defs]: "observedReady L managed vpc subnet securityGroup n =
     (let n1 = observeGeneration n;
          n2 = n1\<lparr>Status := (Status n1)\<lparr>st_Resources :=
                 \<lparr>nrs_VPC = \<lparr>rs_ID = res_ID vpc, rs_Name = res_Name vpc, rs_ControllerManaged = False\<rparr>,
                  nrs_Subnet = \<lparr>rs_ID = res_ID subnet, rs_Name = res_Name subnet, rs_ControllerManaged = False\<rparr>,
                  nrs_SecurityGroup = \<lparr>rs_ID = res_ID securityGroup, rs_Name = res_Name securityGroup,
                                       rs_ControllerManaged = managed\<rparr>\<rparr>\<rparr>\<rparr>;
          n3 = (if managed then recordApplied n2 else n2) in
      readyStatus L ''ResourcesObserved'' ''Existing network resources were found''
        ''Existing T-Cloud cluster network is ready'' n3)"

definition reconcileObserve ::
  "'w TCloudClusterNetworkReconciler \<Rightarrow> TCloudClusterNetwork \<Rightarrow> 'w Service \<Rightarrow> ('w, ret) io" where
  [go_defs]: "reconcileObserve r network service w =
     (case observeVPC r service network w of
        (Inl ret, w) \<Rightarrow> (ret, w)
      | (Inr vpc, w) \<Rightarrow>
          (case observeSubnet r service network w of
             (Inl ret, w) \<Rightarrow> (ret, w)
           | (Inr subnet, w) \<Rightarrow>
               (let managed = securityGroupManaged network in
                case observeGroup r service network w of
                  (Inl ret, w) \<Rightarrow> (ret, w)
                | (Inr (network, securityGroup), w) \<Rightarrow>
                    publishReady r network (observedReady (Lib r) managed vpc subnet securityGroup) w)))"

section \<open>Adopt\<close>

definition adoptFail ::
  "'w TCloudClusterNetworkReconciler \<Rightarrow> TCloudClusterNetwork \<Rightarrow> string \<Rightarrow> error \<Rightarrow> ('w, ret) io" where
  [go_defs]: "adoptFail r network reason err w = failRet (Lib r) (Client r) network ConditionNetwork reason err w"

definition adoptResources ::
  "'w TCloudClusterNetworkReconciler \<Rightarrow> 'w Service \<Rightarrow> TCloudClusterNetwork \<Rightarrow> ('w, ret) io" where
  [go_defs]: "adoptResources r service network w =
     (case discoverAdoptableResources (Codec r) (Client r) (secretReader r) network w of
        (Inl err, w) \<Rightarrow> adoptFail r network ''NetworkAdoptionFailed'' err w
      | (Inr discovered, w) \<Rightarrow>
          (case GetVPC service (rs_ID (nrs_VPC discovered)) w of
             (Inl err, w) \<Rightarrow> adoptFail r network ''VPCAdoptionFailed'' err w
           | (Inr vpc, w) \<Rightarrow>
               (case GetSubnet service (rs_ID (nrs_Subnet discovered)) w of
                  (Inl err, w) \<Rightarrow> adoptFail r network ''SubnetAdoptionFailed'' err w
                | (Inr subnet, w) \<Rightarrow>
                    (case GetSecurityGroup service (rs_ID (nrs_SecurityGroup discovered)) w of
                       (Inl err, w) \<Rightarrow> adoptFail r network ''SecurityGroupAdoptionFailed'' err w
                     | (Inr securityGroup, w) \<Rightarrow>
                         (let named = \<lparr>nrs_VPC = (nrs_VPC discovered)\<lparr>rs_Name := res_Name vpc\<rparr>,
                                       nrs_Subnet = (nrs_Subnet discovered)\<lparr>rs_Name := res_Name subnet\<rparr>,
                                       nrs_SecurityGroup = (nrs_SecurityGroup discovered)\<lparr>rs_Name := res_Name securityGroup\<rparr>\<rparr> in
                          case patchStatus (Client r) network
                                 (\<lambda>n. n\<lparr>Status := (Status n)\<lparr>st_OwnershipToken := net_uid n, st_Resources := named\<rparr>\<rparr>) w of
                            ((Some err, _), w) \<Rightarrow> (Ret noResult (Some err), w)
                          | ((None, _), w) \<Rightarrow> (Ret requeue None, w))))))"

definition adoptedReady :: "lib \<Rightarrow> TCloudClusterNetwork \<Rightarrow> TCloudClusterNetwork" where
  [go_defs]: "adoptedReady L n =
     readyStatus L ''ResourcesAdopted'' ''Existing machine-owned network resources are now controller-managed''
       ''Adopted T-Cloud cluster network is ready'' (recordApplied (observeGeneration n))"

definition reconcileAdopt ::
  "'w TCloudClusterNetworkReconciler \<Rightarrow> TCloudClusterNetwork \<Rightarrow> 'w Service \<Rightarrow> ('w, ret) io" where
  [go_defs]: "reconcileAdopt r network service w =
     (let res = resources network in
      if rs_ID (nrs_VPC res) = '''' \<or> rs_ID (nrs_Subnet res) = '''' \<or> rs_ID (nrs_SecurityGroup res) = ''''
      then adoptResources r service network w
      else case EnsureSecurityGroup service
                  (rulesRequest network (rs_ID (nrs_SecurityGroup res)) (rs_Name (nrs_SecurityGroup res))) w of
             (Inl err, w) \<Rightarrow> adoptFail r network ''SecurityGroupRulesFailed'' err w
           | (Inr _, w) \<Rightarrow> publishReady r network (adoptedReady (Lib r)) w)"

section \<open>Delete\<close>

definition machineCount ::
  "'w TCloudClusterNetworkReconciler \<Rightarrow> TCloudClusterNetwork \<Rightarrow> ('w, error + int) io" where
  [go_defs]: "machineCount r network w =
     (case ListMachines (Client r) (nr_Namespace (clusterRef network)) (nr_Name (clusterRef network)) w of
        (Inl err, w) \<Rightarrow> if meta_IsNoMatchError err then (Inr 0, w) else (Inl err, w)
      | (Inr machines, w) \<Rightarrow> (Inr (int (length machines)), w))"

definition verifyResource ::
  "ResourceStatus \<Rightarrow> (string \<Rightarrow> ('w, error + Resource) io) \<Rightarrow> ('w, error option) io" where
  [go_defs]: "verifyResource status get w =
     (if \<not> rs_ControllerManaged status
      then (Some (Errorf ''resource %s is not marked controller-managed'' [ArgS (rs_ID status)]), w)
      else case get (rs_ID status) w of
        (Inl err, w) \<Rightarrow> if IsNotFound err then (None, w) else (Some err, w)
      | (Inr actual, w) \<Rightarrow>
          if res_Name actual \<noteq> rs_Name status
          then (Some (Errorf ''resource %s name changed from %q to %q''
                        [ArgS (rs_ID status), ArgS (rs_Name status), ArgS (res_Name actual)]), w)
          else (None, w))"

definition verifyVPCOwnership :: "TCloudClusterNetwork \<Rightarrow> 'w Service \<Rightarrow> ('w, error option) io" where
  [go_defs]: "verifyVPCOwnership network service = verifyResource (vpcStatus network) (GetVPC service)"

definition verifySubnetOwnership :: "TCloudClusterNetwork \<Rightarrow> 'w Service \<Rightarrow> ('w, error option) io" where
  [go_defs]: "verifySubnetOwnership network service = verifyResource (subnetStatus network) (GetSubnet service)"

definition verifySecurityGroupOwnership :: "TCloudClusterNetwork \<Rightarrow> 'w Service \<Rightarrow> ('w, error option) io" where
  [go_defs]: "verifySecurityGroupOwnership network service =
     verifyResource (sgStatus network) (GetSecurityGroup service)"

definition managedWithID :: "ResourceStatus \<Rightarrow> bool" where
  [go_defs]: "managedWithID s = (rs_ControllerManaged s \<and> rs_ID s \<noteq> '''')"

text \<open>
  The step that is the same for the three resources: verify the ownership, delete, clear the status
  entry and come back.
\<close>

definition deleteResource ::
  "'w TCloudClusterNetworkReconciler \<Rightarrow> TCloudClusterNetwork \<Rightarrow> ('w, error option) io \<Rightarrow> ('w, error option) io \<Rightarrow>
   (ResourceStatus \<Rightarrow> TCloudClusterNetwork \<Rightarrow> TCloudClusterNetwork) \<Rightarrow> ('w, ret) io" where
  [go_defs]: "deleteResource r network verify del store w =
     (case verify w of
        (Some err, w) \<Rightarrow> failRet (Lib r) (Client r) network ConditionOwnership ''OwnershipMismatch'' err w
      | (None, w) \<Rightarrow>
          (case del w of
             (Some err, w) \<Rightarrow> (Ret noResult (Some err), w)
           | (None, w) \<Rightarrow>
               (case patchStatus (Client r) network (store noResource) w of
                  ((err, _), w) \<Rightarrow> (Ret requeue err, w))))"

text \<open>The steps after the guards: the group first, then the subnet, then the VPC, one per reconcile.\<close>

definition deleteNext ::
  "'w TCloudClusterNetworkReconciler \<Rightarrow> TCloudClusterNetwork \<Rightarrow> 'w Service \<Rightarrow> ('w, ret) io" where
  [go_defs]: "deleteNext r network service w =
     (if managedWithID (sgStatus network)
      then deleteResource r network (verifySecurityGroupOwnership network service)
             (DeleteSecurityGroup service (rs_ID (sgStatus network))) setSecurityGroup w
      else if managedWithID (subnetStatus network)
      then deleteResource r network (verifySubnetOwnership network service)
             (DeleteSubnet service (rs_ID (vpcStatus network)) (rs_ID (subnetStatus network))) setSubnet w
      else if managedWithID (vpcStatus network)
      then deleteResource r network (verifyVPCOwnership network service)
             (DeleteVPC service (rs_ID (vpcStatus network))) setVPC w
      else (let w = RecordEvent r network ''Normal'' ''NetworkDeleted''
                      ''Deleted all controller-managed T-Cloud network resources'' w in
            case removeFinalizer (Lib r) (Client r) network w of (err, w) \<Rightarrow> (Ret noResult err, w)))"

text \<open>The gate on attached ports: only a managed subnet waits for them.\<close>

definition portsGate ::
  "'w TCloudClusterNetworkReconciler \<Rightarrow> TCloudClusterNetwork \<Rightarrow> 'w Service \<Rightarrow> ('w, ret + unit) io" where
  [go_defs]: "portsGate r network service w =
     (if managedWithID (subnetStatus network)
      then (case AttachedPorts service (rs_ID (subnetStatus network)) w of
              (Inl err, w) \<Rightarrow>
                (case failRet (Lib r) (Client r) network ConditionDeleting ''PortLookupFailed'' err w of
                   (ret, w) \<Rightarrow> (Inl ret, w))
            | (Inr ports, w) \<Rightarrow>
                if ports > 0
                then (case setCondition (Lib r) (Client r) network ConditionDeleting ConditionFalse ''WaitingForPorts''
                             (Sprintf ''Waiting for %d attached cloud ports'' [ArgD ports]) w of
                        (_, w) \<Rightarrow> (Inl (Ret (requeueAfter (15 * Second)) None), w))
                else (Inr (), w))
      else (Inr (), w))"

definition deleteInCloud ::
  "'w TCloudClusterNetworkReconciler \<Rightarrow> TCloudClusterNetwork \<Rightarrow> ('w, ret) io" where
  [go_defs]: "deleteInCloud r network w =
     (case cloudService r network w of
        (Inl err, w) \<Rightarrow> failRet (Lib r) (Client r) network ConditionDeleting ''CredentialsInvalid'' err w
      | (Inr service, w) \<Rightarrow>
          (case portsGate r network service w of
             (Inl ret, w) \<Rightarrow> (ret, w)
           | (Inr _, w) \<Rightarrow> deleteNext r network service w))"

definition reconcileDelete ::
  "'w TCloudClusterNetworkReconciler \<Rightarrow> TCloudClusterNetwork \<Rightarrow> ('w, ret) io" where
  [go_defs]: "reconcileDelete r network w =
     (if \<not> ContainsFinalizer (Lib r) (om_Finalizers (Meta network)) NetworkFinalizer then (Ret noResult None, w)
      else if sp_ManagementPolicy (Spec network) = ManagementPolicyAbandon
      then (case removeFinalizer (Lib r) (Client r) network w of (err, w) \<Rightarrow> (Ret noResult err, w))
      else if \<not> rs_ControllerManaged (vpcStatus network) \<and> \<not> rs_ControllerManaged (subnetStatus network) \<and>
              \<not> rs_ControllerManaged (sgStatus network)
      then (case removeFinalizer (Lib r) (Client r) network w of (err, w) \<Rightarrow> (Ret noResult err, w))
      else case machineCount r network w of
        (Inl err, w) \<Rightarrow> (Ret noResult (Some err), w)
      | (Inr remaining, w) \<Rightarrow>
          if remaining > 0
          then (case setCondition (Lib r) (Client r) network ConditionDeleting ConditionFalse ''WaitingForMachines''
                       (Sprintf ''Waiting for %d T-Cloud machines'' [ArgD remaining]) w of
                  (_, w) \<Rightarrow> (Ret (requeueAfter (10 * Second)) None, w))
          else deleteInCloud r network w)"

section \<open>Reconcile\<close>

definition reconcilePolicy ::
  "'w TCloudClusterNetworkReconciler \<Rightarrow> TCloudClusterNetwork \<Rightarrow> 'w Service \<Rightarrow> ('w, ret) io" where
  [go_defs]: "reconcilePolicy r network service w =
     (let policy = (if sp_ManagementPolicy (Spec network) = '''' then ManagementPolicyManaged
                    else sp_ManagementPolicy (Spec network)) in
      if policy = ManagementPolicyManaged then reconcileManaged r network service w
      else if policy = ManagementPolicyObserve then reconcileObserve r network service w
      else if policy = ManagementPolicyAdopt then reconcileAdopt r network service w
      else if policy = ManagementPolicyAbandon
      then failRet (Lib r) (Client r) network ConditionReady ''AbandonOnlyDuringDeletion''
             (Errorf ''Abandon policy is only valid while deleting'' []) w
      else failRet (Lib r) (Client r) network ConditionReady ''InvalidPolicy''
             (Errorf ''unsupported management policy %q'' [ArgS policy]) w)"

definition reconcileCloud ::
  "'w TCloudClusterNetworkReconciler \<Rightarrow> TCloudClusterNetwork \<Rightarrow> ('w, ret) io" where
  [go_defs]: "reconcileCloud r network w =
     (case cloudService r network w of
        (Inl err, w) \<Rightarrow> failRet (Lib r) (Client r) network ConditionCredentials ''CredentialsInvalid'' err w
      | (Inr service, w) \<Rightarrow>
          (case setCondition (Lib r) (Client r) network ConditionCredentials ConditionTrue ''CredentialsAccepted''
                  (Text ''Cloud credentials are usable'') w of
             (network, w) \<Rightarrow> reconcilePolicy r network service w))"

definition expireOrphan ::
  "'w TCloudClusterNetworkReconciler \<Rightarrow> TCloudClusterNetwork \<Rightarrow> ('w, ret) io" where
  [go_defs]: "expireOrphan r network w =
     (let w = RecordEvent r network ''Warning'' ''OrphanExpired''
                ''Deleting an unbound managed network request after its orphan timeout'' w in
      case DeleteNetwork (Client r) network w of (err, w) \<Rightarrow> (Ret noResult err, w))"

definition reconcileLive ::
  "'w TCloudClusterNetworkReconciler \<Rightarrow> TCloudClusterNetwork \<Rightarrow> ('w, ret) io" where
  [go_defs]: "reconcileLive r network w =
     (case bindClusterOwner r network w of
        (((bound, result, Some err), network), w) \<Rightarrow>
          failRet (Lib r) (Client r) network ConditionOwnerBound ''ClusterLookupFailed'' err w
      | (((bound, Some result, None), network), w) \<Rightarrow> (Ret result None, w)
      | (((bound, None, None), network), w) \<Rightarrow>
          if bound then reconcileCloud r network w
          else (case orphanExpired r network w of
                  (expired, w) \<Rightarrow>
                    if expired then expireOrphan r network w else reconcileCloud r network w))"

definition Reconcile ::
  "'w TCloudClusterNetworkReconciler \<Rightarrow> string \<Rightarrow> string \<Rightarrow> ('w, ret) io" where
  [go_defs]: "Reconcile r namespace name w =
     (case GetNetwork (Client r) namespace name w of
        (Inl err, w) \<Rightarrow> (Ret noResult (IgnoreNotFound err), w)
      | (Inr network, w) \<Rightarrow>
          if om_DeletionTimestamp (Meta network) \<noteq> None then reconcileDelete r network w
          else case AddFinalizer (Lib r) (om_Finalizers (Meta network)) NetworkFinalizer of
            (finalizers, added) \<Rightarrow>
              (let network = network\<lparr>Meta := (Meta network)\<lparr>om_Finalizers := finalizers\<rparr>\<rparr> in
               if added
               then (case UpdateNetwork (Client r) network w of
                       (Inl err, w) \<Rightarrow> (Ret noResult (Some err), w)
                     | (Inr _, w) \<Rightarrow> (Ret requeue None, w))
               else reconcileLive r network w))"

section \<open>Watches\<close>

text \<open>The requests an event of a cluster or of a machine gives rise to, as namespace and name.\<close>

definition requestsForCluster ::
  "'w TCloudClusterNetworkReconciler \<Rightarrow> string \<Rightarrow> string \<Rightarrow> ('w, (string \<times> string) list) io" where
  [go_defs]: "requestsForCluster r namespace name w =
     (case ListNetworks (Client r) namespace w of
        (Inl err, w) \<Rightarrow> ([], w)
      | (Inr items, w) \<Rightarrow>
          (map (\<lambda>item. (net_namespace item, net_name item))
             (filter (\<lambda>item. nr_Name (clusterRef item) = name) items), w))"

definition requestsForMachine ::
  "'w TCloudClusterNetworkReconciler \<Rightarrow> Unstructured \<Rightarrow> ('w, (string \<times> string) list) io" where
  [go_defs]: "requestsForMachine r object w =
     (let clusterName = mget (om_Labels (u_Meta object)) clusterNameLabel in
      if clusterName = '''' then ([], w)
      else requestsForCluster r (u_namespace object) clusterName w)"

end
