(* ===== verification/Trace.thy ===== *)
theory Trace
  imports Reconciler
begin

text \<open>
  Traces of a reconcile. A reconciler over any world is turned into one over the world paired with a
  log: every call of the client, of the factory and of the cloud service appends an event that holds
  the call's arguments and its answer. The reconcile methods do not know the log, so what holds of
  the log holds of the calls they make, whatever the environment answers.
\<close>

section \<open>Events\<close>

datatype event =
    EGetNetwork string string "error + TCloudClusterNetwork"
  | EListNetworks string
  | ECreateNetwork TCloudClusterNetwork
  | EUpdateNetwork TCloudClusterNetwork
  | EPatchNetwork TCloudClusterNetwork TCloudClusterNetwork
  | EStatusPatch TCloudClusterNetwork TCloudClusterNetwork "error + TCloudClusterNetwork"
  | EDeleteNetwork TCloudClusterNetwork
  | EGetCluster string string "error + Unstructured"
  | EPatchCluster Unstructured Unstructured "error + Unstructured"
  | EListMachines string string "error + Unstructured list"
  | EGetConfig string string "error + Unstructured"
  | EListConfigs string
  | EPatchConfig Unstructured Unstructured
  | EGetSecret string string
  | ENewService Credentials
  | ERecord string string
  | ENow time
  | EEnsureVPC VPCRequest "error + Resource"
  | EEnsureSubnet SubnetRequest "error + Resource"
  | EEnsureSecurityGroup SecurityGroupRequest "error + Resource"
  | EGetVPC string "error + Resource"
  | EGetSubnet string "error + Resource"
  | EGetSecurityGroup string "error + Resource"
  | EAttachedPorts string "error + int"
  | EDeleteSecurityGroup string "error option"
  | EDeleteSubnet string string "error option"
  | EDeleteVPC string "error option"

type_synonym 'w logged = "'w \<times> event list"

definition logging :: "('a \<Rightarrow> event) \<Rightarrow> ('w, 'a) io \<Rightarrow> ('w logged, 'a) io" where
  "logging ev f wl = (case wl of (w, l) \<Rightarrow> case f w of (a, w') \<Rightarrow> (a, (w', l @ [ev a])))"

definition tracedService :: "'w Service \<Rightarrow> 'w logged Service" where
  "tracedService s =
     \<lparr>EnsureVPC = (\<lambda>q. logging (EEnsureVPC q) (EnsureVPC s q)),
      EnsureSubnet = (\<lambda>q. logging (EEnsureSubnet q) (EnsureSubnet s q)),
      EnsureSecurityGroup = (\<lambda>q. logging (EEnsureSecurityGroup q) (EnsureSecurityGroup s q)),
      GetVPC = (\<lambda>i. logging (EGetVPC i) (GetVPC s i)),
      GetSubnet = (\<lambda>i. logging (EGetSubnet i) (GetSubnet s i)),
      GetSecurityGroup = (\<lambda>i. logging (EGetSecurityGroup i) (GetSecurityGroup s i)),
      AttachedPorts = (\<lambda>i. logging (EAttachedPorts i) (AttachedPorts s i)),
      DeleteSecurityGroup = (\<lambda>i. logging (EDeleteSecurityGroup i) (DeleteSecurityGroup s i)),
      DeleteSubnet = (\<lambda>v i. logging (EDeleteSubnet v i) (DeleteSubnet s v i)),
      DeleteVPC = (\<lambda>i. logging (EDeleteVPC i) (DeleteVPC s i))\<rparr>"

definition tracedKube :: "'w Kube \<Rightarrow> 'w logged Kube" where
  "tracedKube k =
     \<lparr>GetNetwork = (\<lambda>ns n. logging (EGetNetwork ns n) (GetNetwork k ns n)),
      ListNetworks = (\<lambda>ns. logging (\<lambda>_. EListNetworks ns) (ListNetworks k ns)),
      CreateNetwork = (\<lambda>x. logging (\<lambda>_. ECreateNetwork x) (CreateNetwork k x)),
      UpdateNetwork = (\<lambda>x. logging (\<lambda>_. EUpdateNetwork x) (UpdateNetwork k x)),
      PatchNetwork = (\<lambda>b x. logging (\<lambda>_. EPatchNetwork b x) (PatchNetwork k b x)),
      StatusPatchNetwork = (\<lambda>b x. logging (EStatusPatch b x) (StatusPatchNetwork k b x)),
      DeleteNetwork = (\<lambda>x. logging (\<lambda>_. EDeleteNetwork x) (DeleteNetwork k x)),
      GetCluster = (\<lambda>ns n. logging (EGetCluster ns n) (GetCluster k ns n)),
      PatchCluster = (\<lambda>b x. logging (EPatchCluster b x) (PatchCluster k b x)),
      ListMachines = (\<lambda>ns n. logging (EListMachines ns n) (ListMachines k ns n)),
      GetConfig = (\<lambda>ns n. logging (EGetConfig ns n) (GetConfig k ns n)),
      ListConfigs = (\<lambda>ns. logging (\<lambda>_. EListConfigs ns) (ListConfigs k ns)),
      PatchConfig = (\<lambda>b x. logging (\<lambda>_. EPatchConfig b x) (PatchConfig k b x)),
      GetSecret = (\<lambda>ns n. logging (\<lambda>_. EGetSecret ns n) (GetSecret k ns n))\<rparr>"

definition tracedFactory :: "'w Factory \<Rightarrow> 'w logged Factory" where
  "tracedFactory new creds wl =
     (case wl of (w, l) \<Rightarrow>
        case new creds w of (a, w') \<Rightarrow> (map_sum (\<lambda>e. e) tracedService a, (w', l @ [ENewService creds])))"

definition traced :: "'w TCloudClusterNetworkReconciler \<Rightarrow> 'w logged TCloudClusterNetworkReconciler" where
  "traced r =
     \<lparr>Client = tracedKube (Client r),
      APIReader = map_option (\<lambda>f ns n. logging (\<lambda>_. EGetSecret ns n) (f ns n)) (APIReader r),
      NewService = tracedFactory (NewService r),
      RecordEvent = (\<lambda>n t reason msg (w, l). (RecordEvent r n t reason msg w, l @ [ERecord t reason])),
      Now = map_option (logging ENow) (Now r),
      SystemNow = logging ENow (SystemNow r),
      Lib = Lib r,
      Codec = Codec r\<rparr>"

lemma logging_apply [simp]: "logging ev f (w, l) = (case f w of (a, w') \<Rightarrow> (a, (w', l @ [ev a])))"
  by (simp add: logging_def)

lemma tracedService_simps [simp]:
  "EnsureVPC (tracedService s) q = logging (EEnsureVPC q) (EnsureVPC s q)"
  "EnsureSubnet (tracedService s) q' = logging (EEnsureSubnet q') (EnsureSubnet s q')"
  "EnsureSecurityGroup (tracedService s) g = logging (EEnsureSecurityGroup g) (EnsureSecurityGroup s g)"
  "GetVPC (tracedService s) i = logging (EGetVPC i) (GetVPC s i)"
  "GetSubnet (tracedService s) i = logging (EGetSubnet i) (GetSubnet s i)"
  "GetSecurityGroup (tracedService s) i = logging (EGetSecurityGroup i) (GetSecurityGroup s i)"
  "AttachedPorts (tracedService s) i = logging (EAttachedPorts i) (AttachedPorts s i)"
  "DeleteSecurityGroup (tracedService s) i = logging (EDeleteSecurityGroup i) (DeleteSecurityGroup s i)"
  "DeleteSubnet (tracedService s) v i = logging (EDeleteSubnet v i) (DeleteSubnet s v i)"
  "DeleteVPC (tracedService s) i = logging (EDeleteVPC i) (DeleteVPC s i)"
  by (simp_all add: tracedService_def)

lemma tracedKube_simps [simp]:
  "GetNetwork (tracedKube k) ns n = logging (EGetNetwork ns n) (GetNetwork k ns n)"
  "ListNetworks (tracedKube k) ns = logging (\<lambda>_. EListNetworks ns) (ListNetworks k ns)"
  "CreateNetwork (tracedKube k) x = logging (\<lambda>_. ECreateNetwork x) (CreateNetwork k x)"
  "UpdateNetwork (tracedKube k) x = logging (\<lambda>_. EUpdateNetwork x) (UpdateNetwork k x)"
  "PatchNetwork (tracedKube k) b x = logging (\<lambda>_. EPatchNetwork b x) (PatchNetwork k b x)"
  "StatusPatchNetwork (tracedKube k) b x = logging (EStatusPatch b x) (StatusPatchNetwork k b x)"
  "DeleteNetwork (tracedKube k) x = logging (\<lambda>_. EDeleteNetwork x) (DeleteNetwork k x)"
  "GetCluster (tracedKube k) ns n = logging (EGetCluster ns n) (GetCluster k ns n)"
  "PatchCluster (tracedKube k) bu u = logging (EPatchCluster bu u) (PatchCluster k bu u)"
  "ListMachines (tracedKube k) ns n = logging (EListMachines ns n) (ListMachines k ns n)"
  "GetConfig (tracedKube k) ns n = logging (EGetConfig ns n) (GetConfig k ns n)"
  "ListConfigs (tracedKube k) ns = logging (\<lambda>_. EListConfigs ns) (ListConfigs k ns)"
  "PatchConfig (tracedKube k) bu u = logging (\<lambda>_. EPatchConfig bu u) (PatchConfig k bu u)"
  "GetSecret (tracedKube k) ns n = logging (\<lambda>_. EGetSecret ns n) (GetSecret k ns n)"
  by (simp_all add: tracedKube_def)

lemma traced_simps [simp]:
  "Client (traced r) = tracedKube (Client r)" "NewService (traced r) = tracedFactory (NewService r)"
  "Lib (traced r) = Lib r" "Codec (traced r) = Codec r"
  "APIReader (traced r) = map_option (\<lambda>f ns n. logging (\<lambda>_. EGetSecret ns n) (f ns n)) (APIReader r)"
  "RecordEvent (traced r) n t reason msg (w, l) = (RecordEvent r n t reason msg w, l @ [ERecord t reason])"
  "Now (traced r) = map_option (logging ENow) (Now r)" "SystemNow (traced r) = logging ENow (SystemNow r)"
  by (simp_all add: traced_def)

lemma secretReader_traced [simp]:
  "secretReader (traced r) ns n = logging (\<lambda>_. EGetSecret ns n) (secretReader r ns n)"
  by (simp add: secretReader_def split: option.split)

section \<open>Frames\<close>

text \<open>
  \<open>ensures I f Q\<close>: running \<open>f\<close> moves the world along the relation \<open>I\<close> and its answer satisfies \<open>Q\<close>.
\<close>

definition ensures :: "('w \<Rightarrow> 'w \<Rightarrow> bool) \<Rightarrow> ('w, 'a) io \<Rightarrow> ('a \<Rightarrow> bool) \<Rightarrow> bool" where
  "ensures I f Q \<longleftrightarrow> (\<forall>w. I w (snd (f w)) \<and> Q (fst (f w)))"

abbreviation keeps :: "('w \<Rightarrow> 'w \<Rightarrow> bool) \<Rightarrow> ('w, 'a) io \<Rightarrow> bool" where
  "keeps I f \<equiv> ensures I f (\<lambda>_. True)"

lemma ensuresD: "ensures I f Q \<Longrightarrow> f w = (a, w') \<Longrightarrow> I w w' \<and> Q a"
  unfolding ensures_def by (metis fst_conv snd_conv)

lemma ensures_weaken: "ensures I f Q \<Longrightarrow> (\<And>a. Q a \<Longrightarrow> R a) \<Longrightarrow> ensures I f R"
  by (auto simp: ensures_def)

named_theorems frame_rules

text \<open>The rules follow the shape of the definitions: a call and its continuation, and case splits.\<close>

lemma ensures_split [frame_rules]:
  "(x \<Longrightarrow> ensures I f Q) \<Longrightarrow> (\<not> x \<Longrightarrow> ensures I g Q) \<Longrightarrow> ensures I (\<lambda>w. if x then f w else g w) Q"
  by (cases x) simp_all

lemma ensures_case_sum [frame_rules]:
  "(\<And>a. x = Inl a \<Longrightarrow> ensures I (f a) Q) \<Longrightarrow> (\<And>b. x = Inr b \<Longrightarrow> ensures I (g b) Q) \<Longrightarrow>
   ensures I (\<lambda>w. case x of Inl a \<Rightarrow> f a w | Inr b \<Rightarrow> g b w) Q"
  by (cases x) simp_all

lemma ensures_case_option [frame_rules]:
  "(x = None \<Longrightarrow> ensures I f Q) \<Longrightarrow> (\<And>a. x = Some a \<Longrightarrow> ensures I (g a) Q) \<Longrightarrow>
   ensures I (\<lambda>w. case x of None \<Rightarrow> f w | Some a \<Rightarrow> g a w) Q"
  by (cases x) simp_all

lemma ensures_case_prod [frame_rules]:
  "(\<And>a b. x = (a, b) \<Longrightarrow> ensures I (f a b) Q) \<Longrightarrow> ensures I (\<lambda>w. case x of (a, b) \<Rightarrow> f a b w) Q"
  by (cases x) simp

locale preorder_frame =
  fixes I :: "'w \<Rightarrow> 'w \<Rightarrow> bool"
  assumes frame_refl: "I w w"
    and frame_trans: "I u v \<Longrightarrow> I v w \<Longrightarrow> I u w"
begin

lemma ensures_return: "Q a \<Longrightarrow> ensures I (\<lambda>w. (a, w)) Q"
  by (simp add: ensures_def frame_refl)

lemma ensures_call:
  assumes "ensures I f R" "\<And>a. R a \<Longrightarrow> ensures I (g a) Q"
  shows "ensures I (\<lambda>w. case f w of (a, w') \<Rightarrow> g a w') Q"
  unfolding ensures_def
proof
  fix w
  obtain a w' where fw: "f w = (a, w')" by force
  from ensuresD[OF assms(1) fw] have "I w w'" "ensures I (g a) Q" using assms(2) by auto
  then show "I w (snd (case f w of (a, w') \<Rightarrow> g a w')) \<and> Q (fst (case f w of (a, w') \<Rightarrow> g a w'))"
    using frame_trans[of w w'] by (simp add: fw ensures_def)
qed

lemmas ensures_call_any = ensures_call[where R = "\<lambda>_. True"]

end

text \<open>Two frames: anything may happen to the world; the log grows by events of a given kind.\<close>

abbreviation anything :: "'w \<Rightarrow> 'w \<Rightarrow> bool" where
  "anything \<equiv> (\<lambda>_ _. True)"

definition extends :: "(event \<Rightarrow> bool) \<Rightarrow> 'w logged \<Rightarrow> 'w logged \<Rightarrow> bool" where
  "extends A u v = (\<exists>new. snd v = snd u @ new \<and> list_all A new)"

interpretation anything: preorder_frame anything
  by unfold_locales simp_all

interpretation extends: preorder_frame "extends A"
proof
  fix w :: "'a logged" show "extends A w w" by (simp add: extends_def)
next
  fix u v w :: "'a logged"
  assume "extends A u v" "extends A v w"
  then show "extends A u w" by (force simp: extends_def)
qed

lemma keeps_anything: "keeps anything f"
  by (simp add: ensures_def)

lemma keeps_logging: "(\<And>a. A (ev a)) \<Longrightarrow> keeps (extends A) (logging ev f)"
  by (simp add: ensures_def extends_def logging_def split: prod.split)

end
