(* ===== verification/Frames.thy ===== *)
theory Frames
  imports Trace
begin

text \<open>
  What every reconcile keeps. The locale \<open>client_frame\<close> is a Kubernetes client whose calls move the
  world along a relation: reads, status patches that change nothing but the status, and patches that
  add an owner reference, all of an object that satisfies \<open>own\<close>, which the answers keep.
  \<open>reconciler_frame\<close> adds the other collaborators of the reconciler; later locales allow deleting the
  object and removing the finalizer. The methods are then shown, once, to move the world along that
  relation and to return rather than panic. The locales are interpreted on the traced reconciler.
\<close>

section \<open>What may be written\<close>

text \<open>
  The ownership token is empty or the object's UID. A status patch changes the status only and keeps
  that; a patch of the object adds an owner reference or removes the finalizer.
\<close>

definition tokenOk :: "TCloudClusterNetwork \<Rightarrow> bool" where
  "tokenOk n = (st_OwnershipToken (Status n) \<in> {'''', net_uid n})"

definition statusWrite :: "TCloudClusterNetwork \<Rightarrow> TCloudClusterNetwork \<Rightarrow> bool" where
  "statusWrite b x = (Meta x = Meta b \<and> Spec x = Spec b \<and> (tokenOk b \<longrightarrow> tokenOk x))"

definition ownerWrite :: "TCloudClusterNetwork \<Rightarrow> TCloudClusterNetwork \<Rightarrow> bool" where
  "ownerWrite b x = (\<exists>owner. x = b\<lparr>Meta := (Meta b)\<lparr>om_OwnerReferences := om_OwnerReferences (Meta b) @ [owner]\<rparr>\<rparr>)"

definition finalizerWrite :: "lib \<Rightarrow> TCloudClusterNetwork \<Rightarrow> TCloudClusterNetwork \<Rightarrow> bool" where
  "finalizerWrite L b x =
     (x = b\<lparr>Meta := (Meta b)\<lparr>om_Finalizers := RemoveFinalizer L (om_Finalizers (Meta b)) NetworkFinalizer\<rparr>\<rparr>)"

lemma token_conditions [simp]:
  "st_OwnershipToken (Status (withCondition L c n)) = st_OwnershipToken (Status n)"
  "st_OwnershipToken (Status (failConditions L t reason err n)) = st_OwnershipToken (Status n)"
  by (simp_all add: withCondition_def failConditions_def Let_def)

lemma statusWrite_keep: "Meta x = Meta b \<Longrightarrow> Spec x = Spec b \<Longrightarrow>
    st_OwnershipToken (Status x) = st_OwnershipToken (Status b) \<Longrightarrow> statusWrite b x"
  by (simp add: statusWrite_def tokenOk_def)

lemma statusWrite_update [simp]:
  "statusWrite n (n\<lparr>Status := s\<rparr>) \<longleftrightarrow> (tokenOk n \<longrightarrow> st_OwnershipToken s = '''' \<or> st_OwnershipToken s = net_uid n)"
  by (simp add: statusWrite_def tokenOk_def)

lemma ownerWriteD: "ownerWrite b x \<Longrightarrow> om_Finalizers (Meta x) = om_Finalizers (Meta b)"
  by (auto simp: ownerWrite_def)

lemma tokenOk_update [simp]:
  "tokenOk n \<Longrightarrow> st_OwnershipToken (Status n) = '''' \<or> st_OwnershipToken (Status n) = net_uid n"
  by (simp add: tokenOk_def)

lemma statusWrite_ready [simp]: "statusWrite n (managedReady L n)" "statusWrite n (adoptedReady L n)"
  "statusWrite n (observedReady L m v s g n)"
  by (rule statusWrite_keep; simp add: managedReady_def adoptedReady_def observedReady_def readyStatus_def
      recordApplied_def observeGeneration_def Let_def)+

lemma ownerWrite_append [simp]: "ownerWrite n (n\<lparr>Meta := (Meta n)\<lparr>om_OwnerReferences := om_OwnerReferences (Meta n) @ [x]\<rparr>\<rparr>)"
  by (auto simp: ownerWrite_def)

section \<open>The client\<close>

text \<open>
  The calls the reconciler makes, the writes only with what it may write and to an object of its own:
  \<open>own\<close> depends on the key of an object only, and a status patch of an own object answers with one.
\<close>

definition sameKey :: "TCloudClusterNetwork \<Rightarrow> TCloudClusterNetwork \<Rightarrow> bool" where
  "sameKey b x = (net_namespace x = net_namespace b \<and> net_name x = net_name b)"

lemma sameKey_writes: "statusWrite b x \<Longrightarrow> sameKey b x" "ownerWrite b x \<Longrightarrow> sameKey b x" "finalizerWrite L b x \<Longrightarrow> sameKey b x"
  by (auto simp: sameKey_def statusWrite_def ownerWrite_def finalizerWrite_def)

locale client_frame = preorder_frame I for I :: "'w \<Rightarrow> 'w \<Rightarrow> bool" +
  fixes k :: "'w Kube" and own :: "TCloudClusterNetwork \<Rightarrow> bool"
  assumes own_key: "sameKey b x \<Longrightarrow> own b \<Longrightarrow> own x"
    and client_calls:
    "keeps I (GetNetwork k ns n)" "keeps I (GetCluster k ns n)" "keeps I (ListMachines k ns n)"
    "keeps I (GetSecret k ns n)"
    and client_status: "own b \<Longrightarrow> statusWrite b x \<Longrightarrow>
      ensures I (StatusPatchNetwork k b x) (\<lambda>a. \<forall>y. a = Inr y \<longrightarrow> own y)"
    and client_patch: "own b \<Longrightarrow> ownerWrite b x \<Longrightarrow> keeps I (PatchNetwork k b x)"
begin

lemmas own_write = sameKey_writes[THEN own_key]

lemmas client_bind = client_calls[THEN ensures_call_any] client_patch[THEN ensures_call_any]

lemma patchStatus_frame:
  assumes "own network" and "statusWrite network (mutate network)"
  shows "ensures I (patchStatus k network mutate) (\<lambda>a. own (snd a))"
  unfolding patchStatus_def[abs_def] Let_def
  by (intro frame_rules client_status[THEN ensures_call] ensures_return) (use assms own_write in auto)

lemma setCondition_frame: "own network \<Longrightarrow> ensures I (setCondition L k network t s reason msg) own"
  unfolding setCondition_def[abs_def]
  by (intro frame_rules patchStatus_frame[THEN ensures_call] ensures_return statusWrite_keep) simp_all

lemma failRet_frame: "own network \<Longrightarrow> ensures I (failRet L k network t reason err) (\<lambda>x. x \<noteq> GoPanic)"
  unfolding failRet_def[abs_def] fail_def[abs_def]
  by (intro frame_rules patchStatus_frame[THEN ensures_call] ensures_return
      ensures_call_any statusWrite_keep) simp_all

lemmas status_bind = patchStatus_frame[THEN ensures_call] setCondition_frame[THEN ensures_call]
  failRet_frame[THEN ensures_call]

end

section \<open>The cloud service\<close>

definition readService :: "('w \<Rightarrow> 'w \<Rightarrow> bool) \<Rightarrow> 'w Service \<Rightarrow> bool" where
  "readService I s = ((\<forall>i. keeps I (GetVPC s i)) \<and> (\<forall>i. keeps I (GetSubnet s i)) \<and>
     (\<forall>i. keeps I (GetSecurityGroup s i)) \<and> (\<forall>i. keeps I (AttachedPorts s i)))"

text \<open>The reconciler only ever asks for the removal of SSH rules of a CIDR.\<close>

definition removesSSHOnly :: "SecurityGroupRequest \<Rightarrow> bool" where
  "removesSSHOnly q = list_all (\<lambda>rule. rule = sshRule (ru_CIDR rule)) (gr_RemoveRules q)"

lemma removesSSHOnly_none [simp]: "gr_RemoveRules q = [] \<Longrightarrow> removesSSHOnly q"
  by (simp add: removesSSHOnly_def)

lemma removesSSHOnly_rules [simp]: "removesSSHOnly (rulesRequest network gid name)"
  by (auto simp: removesSSHOnly_def rulesRequest_def list_all_iff set_ObsoleteSSHRules)

definition groupService :: "('w \<Rightarrow> 'w \<Rightarrow> bool) \<Rightarrow> 'w Service \<Rightarrow> bool" where
  "groupService I s = (readService I s \<and> (\<forall>q. removesSSHOnly q \<longrightarrow> keeps I (EnsureSecurityGroup s q)))"

definition liveService :: "('w \<Rightarrow> 'w \<Rightarrow> bool) \<Rightarrow> 'w Service \<Rightarrow> bool" where
  "liveService I s = (groupService I s \<and> (\<forall>q. keeps I (EnsureVPC s q)) \<and> (\<forall>q. keeps I (EnsureSubnet s q)))"

definition fullService :: "('w \<Rightarrow> 'w \<Rightarrow> bool) \<Rightarrow> 'w Service \<Rightarrow> bool" where
  "fullService I s = (liveService I s \<and> (\<forall>i. keeps I (DeleteSecurityGroup s i)) \<and>
     (\<forall>v i. keeps I (DeleteSubnet s v i)) \<and> (\<forall>i. keeps I (DeleteVPC s i)))"

lemmas service_defs = fullService_def liveService_def groupService_def readService_def

lemma groupServiceD: "groupService I s \<Longrightarrow> removesSSHOnly g \<Longrightarrow> keeps I (EnsureSecurityGroup s g)"
  "groupService I s \<Longrightarrow> readService I s"
  by (simp_all add: groupService_def)

lemma liveServiceD: "liveService I s \<Longrightarrow> keeps I (EnsureVPC s q)" "liveService I s \<Longrightarrow> keeps I (EnsureSubnet s q')"
  "liveService I s \<Longrightarrow> groupService I s" "liveService I s \<Longrightarrow> readService I s"
  by (simp_all add: liveService_def groupService_def)

lemma readServiceD: "readService I s \<Longrightarrow> keeps I (GetVPC s i)" "readService I s \<Longrightarrow> keeps I (GetSubnet s i)"
  "readService I s \<Longrightarrow> keeps I (GetSecurityGroup s i)" "readService I s \<Longrightarrow> keeps I (AttachedPorts s i)"
  by (simp_all add: readService_def)

section \<open>The reconciler\<close>

text \<open>A token of at most eight bytes leaves room for a name: \<open>managedName\<close> does not panic.\<close>

lemma managedName_defined: "length token \<le> 8 \<Longrightarrow> managedName lower valid base token \<noteq> None"
  by (rule managedName_shape[of token lower valid base]) simp_all

text \<open>The answers of a step: it does not panic, and the object it hands on is an own one.\<close>

definition stepOk :: "(TCloudClusterNetwork \<Rightarrow> bool) \<Rightarrow> ret + TCloudClusterNetwork \<times> 'a \<Rightarrow> bool" where
  "stepOk own x = (case x of Inl ret \<Rightarrow> ret \<noteq> GoPanic | Inr (network, _) \<Rightarrow> own network)"

lemma stepOk_simps [simp]:
  "stepOk own (Inl ret) = (ret \<noteq> GoPanic)" "stepOk own (Inr (network, res)) = own network"
  by (simp_all add: stepOk_def)

locale reconciler_frame = client_frame I "Client r" own
  for I :: "'w \<Rightarrow> 'w \<Rightarrow> bool" and r :: "'w TCloudClusterNetworkReconciler" and own :: "TCloudClusterNetwork \<Rightarrow> bool" +
  fixes S :: "'w Service \<Rightarrow> bool"
  assumes read_secret: "keeps I (secretReader r ns n)"
    and record_event: "I w (RecordEvent r network t reason msg w)"
    and system_now: "keeps I (SystemNow r)"
    and injected_now: "Now r = Some f \<Longrightarrow> keeps I f"
    and new_service: "ensures I (NewService r creds) (\<lambda>x. \<forall>s. x = Inr s \<longrightarrow> S s)"
begin

lemma event_then:
  assumes "ensures I f Q" shows "ensures I (\<lambda>w. f (RecordEvent r network t reason msg w)) Q"
  using assms frame_trans record_event unfolding ensures_def by blast

lemma cloudService_frame: "ensures I (cloudService r network) (\<lambda>x. \<forall>s. x = Inr s \<longrightarrow> S s)"
  unfolding cloudService_def[abs_def] Let_def
  by (intro frame_rules read_secret[THEN ensures_call_any] ensures_return new_service) simp_all

lemma bindClusterOwner_frame:
  "own network \<Longrightarrow> ensures I (bindClusterOwner r network) (\<lambda>(res, network). fst (snd res) \<noteq> None \<and> snd (snd res) = None \<or> own network)"
  unfolding bindClusterOwner_def[abs_def] markBound_def[abs_def] Let_def
  by (intro frame_rules client_bind status_bind ensures_return) (auto intro: own_write(2)[OF ownerWrite_append])

lemma orphanExpired_frame: "keeps I (orphanExpired r network)"
proof -
  have now: "keeps I (case Now r of None \<Rightarrow> SystemNow r | Some f \<Rightarrow> f)"
    by (cases "Now r") (simp_all add: system_now injected_now)
  show ?thesis unfolding orphanExpired_def[abs_def] Let_def
    by (intro frame_rules now[THEN ensures_call_any] ensures_return TrueI)
qed

lemma ensureToken_frame: "own network \<Longrightarrow>
    ensures I (ensureToken r network) (\<lambda>x. x \<noteq> Inl GoPanic \<and> (\<forall>y. x = Inr y \<longrightarrow> own y))"
  unfolding ensureToken_def[abs_def]
  by (intro frame_rules status_bind ensures_return) simp_all

lemma recordResource_frame: "own network \<Longrightarrow> (\<And>st n. statusWrite n (store st n)) \<Longrightarrow>
    ensures I (recordResource r network cur store res) (stepOk own)"
  unfolding recordResource_def[abs_def]
  by (intro frame_rules status_bind ensures_return) simp_all

lemma publishReady_frame: "own network \<Longrightarrow> statusWrite network (mutate network) \<Longrightarrow> ensures I (publishReady r network mutate) (\<lambda>x. x \<noteq> GoPanic)"
  unfolding publishReady_def[abs_def]
  by (intro frame_rules status_bind ensures_return) simp_all

lemma tryCandidates_frame: "keeps I (tryCandidates C (secretReader r) ns ms)"
proof (induction ms)
  case Nil
  show ?case unfolding tryCandidates.simps[abs_def] by (intro ensures_return TrueI)
next
  case (Cons m ms)
  show ?case unfolding tryCandidates.simps(2)[abs_def]
    by (intro frame_rules read_secret[THEN ensures_call_any] ensures_return Cons.IH TrueI)
qed

lemma discover_frame: "keeps I (discoverAdoptableResources C (Client r) (secretReader r) network)"
  unfolding discoverAdoptableResources_def[abs_def] Let_def
  by (intro frame_rules client_bind ensures_return tryCandidates_frame TrueI)

lemmas steps_bind = ensureToken_frame[THEN ensures_call] recordResource_frame[THEN ensures_call]
  orphanExpired_frame[THEN ensures_call_any] bindClusterOwner_frame[THEN ensures_call]
  discover_frame[THEN ensures_call_any] cloudService_frame[THEN ensures_call]

lemma ensureManagedVPC_frame:
  assumes "liveService I s" "length token \<le> 8" "own network"
  shows "ensures I (ensureManagedVPC r s token network) (stepOk own)"
  unfolding ensureManagedVPC_def[abs_def]
  by (intro frame_rules liveServiceD(1)[OF assms(1), THEN ensures_call_any] status_bind
      recordResource_frame ensures_return) (use assms(2,3) managedName_defined in auto)

lemma ensureManagedSubnet_frame:
  assumes "liveService I s" "length token \<le> 8" "own network"
  shows "ensures I (ensureManagedSubnet r s token vpc network) (stepOk own)"
  unfolding ensureManagedSubnet_def[abs_def]
  by (intro frame_rules liveServiceD(2)[OF assms(1), THEN ensures_call_any] status_bind
      recordResource_frame ensures_return) (use assms(2,3) managedName_defined in auto)

lemma obtainManagedGroup_frame:
  assumes "groupService I s" "own network"
  shows "ensures I (obtainManagedGroup r s name d network) (stepOk own)"
  unfolding obtainManagedGroup_def[abs_def]
  by (intro frame_rules groupServiceD(1)[OF assms(1), THEN ensures_call_any] status_bind
      recordResource_frame ensures_return) (use assms(2) in simp_all)

lemma applyRules_frame:
  assumes "groupService I s" "own network"
  shows "ensures I (applyRules r s name g network) (stepOk own)"
  unfolding applyRules_def[abs_def]
  by (intro frame_rules groupServiceD(1)[OF assms(1), THEN ensures_call_any] status_bind
      ensures_return) (use assms(2) in simp_all)

lemma ensureManagedGroup_frame:
  assumes "liveService I s" "length token \<le> 8" "own network"
  shows "ensures I (ensureManagedGroup r s token network) (stepOk own)"
  unfolding ensureManagedGroup_def[abs_def]
  by (intro frame_rules obtainManagedGroup_frame[OF liveServiceD(3)[OF assms(1)], THEN ensures_call] ensures_return
      applyRules_frame[OF liveServiceD(3)[OF assms(1)]]) (use assms(2,3) managedName_defined in auto)

lemma reconcileManaged_frame:
  assumes "liveService I s" "own network"
  shows "ensures I (reconcileManaged r network s) (\<lambda>x. x \<noteq> GoPanic)"
  unfolding reconcileManaged_def[abs_def] shortToken_total option.case
  by (intro frame_rules steps_bind ensureManagedVPC_frame[OF assms(1) length_tokenOf, THEN ensures_call]
      ensureManagedSubnet_frame[OF assms(1) length_tokenOf, THEN ensures_call]
      ensureManagedGroup_frame[OF assms(1) length_tokenOf, THEN ensures_call] ensures_return publishReady_frame)
    (use assms(2) in auto)

lemma observeGroup_frame:
  assumes "if securityGroupManaged network then groupService I s else readService I s"
    and own: "own network"
  shows "ensures I (observeGroup r s network) (stepOk own)"
proof (cases "securityGroupManaged network")
  case True
  with assms(1) have s: "groupService I s" by simp
  show ?thesis unfolding observeGroup_def[abs_def] if_P[OF True] shortToken_total option.case
    by (intro frame_rules steps_bind obtainManagedGroup_frame[OF s, THEN ensures_call] ensures_return
        applyRules_frame[OF s]) (use own managedName_defined length_tokenOf in auto)
next
  case False
  with assms(1) have s: "readService I s" by simp
  show ?thesis unfolding observeGroup_def[abs_def] if_not_P[OF False]
    by (intro frame_rules readServiceD(3)[OF s, THEN ensures_call_any] status_bind ensures_return) (use own in simp_all)
qed

lemma reconcileObserve_frame:
  assumes "if securityGroupManaged network then groupService I s else readService I s"
    and own: "own network"
  shows "ensures I (reconcileObserve r network s) (\<lambda>x. x \<noteq> GoPanic)"
proof -
  have s: "readService I s" using assms(1) groupServiceD(2) by (auto split: if_splits)
  have "ensures I (observeVPC r s network) (\<lambda>x. x \<noteq> Inl GoPanic)"
    "ensures I (observeSubnet r s network) (\<lambda>x. x \<noteq> Inl GoPanic)"
    unfolding observeVPC_def[abs_def] observeSubnet_def[abs_def]
    by (intro frame_rules readServiceD(1,2)[OF s, THEN ensures_call_any] status_bind ensures_return; simp add: own)+
  note observe = this[THEN ensures_call]
  show ?thesis unfolding reconcileObserve_def[abs_def] Let_def
    by (intro frame_rules observe observeGroup_frame[OF assms, THEN ensures_call] ensures_return
        publishReady_frame) (use own in auto)
qed

lemma reconcileAdopt_frame:
  assumes "groupService I s" "own network"
  shows "ensures I (reconcileAdopt r network s) (\<lambda>x. x \<noteq> GoPanic)"
proof -
  note reads = readServiceD[OF groupServiceD(2)[OF assms(1)], THEN ensures_call_any]
  show ?thesis unfolding reconcileAdopt_def[abs_def] adoptResources_def[abs_def] adoptFail_def[abs_def] Let_def
    by (intro frame_rules reads groupServiceD(1)[OF assms(1), THEN ensures_call_any] steps_bind status_bind
        ensures_return failRet_frame publishReady_frame) (use assms(2) in simp_all)
qed

lemma reconcilePolicy_frame:
  assumes "liveService I s" "own network"
  shows "ensures I (reconcilePolicy r network s) (\<lambda>x. x \<noteq> GoPanic)"
  unfolding reconcilePolicy_def[abs_def] Let_def
  by (intro frame_rules reconcileManaged_frame reconcileObserve_frame reconcileAdopt_frame failRet_frame)
    (use assms liveServiceD(3,4) in auto)

text \<open>Deletion: the guards, one deletion, and the choice of the resource while one is left.\<close>

lemma machineCount_frame: "keeps I (machineCount r network)"
  unfolding machineCount_def[abs_def]
  by (intro frame_rules client_bind ensures_return TrueI)

lemma portsGate_frame:
  assumes "readService I s" "own network"
  shows "ensures I (portsGate r network s) (\<lambda>x. x \<noteq> Inl GoPanic)"
  unfolding portsGate_def[abs_def]
  by (intro frame_rules readServiceD(4)[OF assms(1), THEN ensures_call_any] status_bind
      ensures_return) (use assms(2) in simp_all)

lemma verifyResource_frame: "(\<And>i. keeps I (get i)) \<Longrightarrow> keeps I (verifyResource status get)"
  unfolding verifyResource_def[abs_def]
  by (intro frame_rules ensures_call_any ensures_return TrueI)

lemma deleteResource_frame:
  assumes "keeps I verify" "keeps I del" and store: "\<And>st n. statusWrite n (store st n)" and own: "own network"
  shows "ensures I (deleteResource r network verify del store) (\<lambda>x. x \<noteq> GoPanic)"
  unfolding deleteResource_def[abs_def]
  by (intro frame_rules assms(1,2)[THEN ensures_call_any] status_bind failRet_frame ensures_return store own) simp_all

lemma deleteNext_managed_frame:
  assumes "fullService I s"
    and "managedWithID (sgStatus network) \<or> managedWithID (subnetStatus network) \<or> managedWithID (vpcStatus network)"
    and own: "own network"
  shows "ensures I (deleteNext r network s) (\<lambda>x. x \<noteq> GoPanic)"
proof -
  have "readService I s" using assms(1) liveServiceD(4) by (auto simp: fullService_def)
  note gets = readServiceD[OF this]
  have dels: "keeps I (DeleteSecurityGroup s i)" "keeps I (DeleteSubnet s v i)" "keeps I (DeleteVPC s i)" for v i
    using assms by (simp_all add: fullService_def)
  show ?thesis
    unfolding deleteNext_def[abs_def] verifySecurityGroupOwnership_def verifySubnetOwnership_def verifyVPCOwnership_def
    by (intro frame_rules deleteResource_frame verifyResource_frame gets dels own) (use assms(2) in simp_all)
qed

end

section \<open>Reconcile\<close>

text \<open>With a service whose creating calls keep the frame, so do the policies.\<close>

locale cloud_frame = reconciler_frame I r own "liveService I"
  for I :: "'w \<Rightarrow> 'w \<Rightarrow> bool" and r :: "'w TCloudClusterNetworkReconciler" and own :: "TCloudClusterNetwork \<Rightarrow> bool"
begin

lemma reconcileCloud_frame: "own network \<Longrightarrow> ensures I (reconcileCloud r network) (\<lambda>x. x \<noteq> GoPanic)"
  unfolding reconcileCloud_def[abs_def]
  by (intro frame_rules steps_bind status_bind failRet_frame reconcilePolicy_frame) simp_all

end

text \<open>If deleting the object keeps it too, so does all that an object not under deletion goes through.\<close>

locale live_frame = cloud_frame I r own
  for I :: "'w \<Rightarrow> 'w \<Rightarrow> bool" and r :: "'w TCloudClusterNetworkReconciler" and own :: "TCloudClusterNetwork \<Rightarrow> bool" +
  assumes delete_object: "own x \<Longrightarrow> keeps I (DeleteNetwork (Client r) x)"
begin

lemma expireOrphan_frame: "own network \<Longrightarrow> ensures I (expireOrphan r network) (\<lambda>x. x \<noteq> GoPanic)"
  unfolding expireOrphan_def[abs_def] Let_def
  by (intro event_then[where f = "\<lambda>w. case DeleteNetwork (Client r) network w of (err, w) \<Rightarrow> (Ret noResult err, w)"]
      delete_object[THEN ensures_call_any] ensures_return) simp_all

lemma reconcileLive_frame: "own network \<Longrightarrow> ensures I (reconcileLive r network) (\<lambda>x. x \<noteq> GoPanic)"
  unfolding reconcileLive_def[abs_def]
  by (intro frame_rules steps_bind status_bind failRet_frame reconcileCloud_frame expireOrphan_frame
      ensures_return) auto

end

text \<open>
  A service all of whose calls keep the frame: a deletion keeps it as long as the object still
  records a resource to delete, because it then does not touch the finalizer.
\<close>

locale cleanup_frame = reconciler_frame I r own "fullService I"
  for I :: "'w \<Rightarrow> 'w \<Rightarrow> bool" and r :: "'w TCloudClusterNetworkReconciler" and own :: "TCloudClusterNetwork \<Rightarrow> bool"

sublocale cleanup_frame \<subseteq> cloud: cloud_frame I r own
proof unfold_locales
  show "ensures I (NewService r creds) (\<lambda>x. \<forall>s. x = Inr s \<longrightarrow> liveService I s)" for creds
    by (rule ensures_weaken[OF new_service]) (simp add: fullService_def)
qed (rule read_secret record_event system_now injected_now, assumption?)+

definition nothingLeft :: "TCloudClusterNetwork \<Rightarrow> bool" where
  "nothingLeft network = (\<not> managedWithID (sgStatus network) \<and> \<not> managedWithID (subnetStatus network) \<and>
     \<not> managedWithID (vpcStatus network))"

context cleanup_frame
begin

lemma portsGate_full: "fullService I s \<Longrightarrow> own network \<Longrightarrow> ensures I (portsGate r network s) (\<lambda>x. x \<noteq> Inl GoPanic)"
  by (intro portsGate_frame liveServiceD(4)) (simp_all add: fullService_def)

lemma deleteInCloud_frame:
  assumes "\<And>s. fullService I s \<Longrightarrow> ensures I (deleteNext r network s) (\<lambda>x. x \<noteq> GoPanic)"
    and own: "own network"
  shows "ensures I (deleteInCloud r network) (\<lambda>x. x \<noteq> GoPanic)"
  unfolding deleteInCloud_def[abs_def]
  by (intro frame_rules steps_bind portsGate_full[THEN ensures_call] assms(1) failRet_frame ensures_return own) auto

lemma reconcileDelete_left_frame:
  assumes left: "\<not> nothingLeft network" and policy: "sp_ManagementPolicy (Spec network) \<noteq> ManagementPolicyAbandon"
    and own: "own network"
  shows "ensures I (reconcileDelete r network) (\<lambda>x. x \<noteq> GoPanic)"
proof -
  have managed: "\<not> (\<not> rs_ControllerManaged (vpcStatus network) \<and> \<not> rs_ControllerManaged (subnetStatus network) \<and>
      \<not> rs_ControllerManaged (sgStatus network))"
    using left by (auto simp: nothingLeft_def managedWithID_def)
  show ?thesis
    unfolding reconcileDelete_def[abs_def] if_not_P[OF policy] if_not_P[OF managed]
    by (intro frame_rules status_bind machineCount_frame[THEN ensures_call_any] deleteInCloud_frame
        deleteNext_managed_frame ensures_return own) (use left in \<open>auto simp: nothingLeft_def\<close>)
qed

end

text \<open>If patches of finalizers keep the frame too, then every deletion does.\<close>

locale deletion_frame = cleanup_frame I r own
  for I :: "'w \<Rightarrow> 'w \<Rightarrow> bool" and r :: "'w TCloudClusterNetworkReconciler" and own :: "TCloudClusterNetwork \<Rightarrow> bool" +
  assumes patch_finalizer: "own b \<Longrightarrow> finalizerWrite (Lib r) b x \<Longrightarrow> keeps I (PatchNetwork (Client r) b x)"
begin

lemma removeFinalizer_frame: "own network \<Longrightarrow> keeps I (removeFinalizer (Lib r) (Client r) network)"
  unfolding removeFinalizer_def[abs_def] Let_def
  by (intro frame_rules patch_finalizer[THEN ensures_call_any] ensures_return TrueI) (simp_all add: finalizerWrite_def)

lemmas finalizer_bind = removeFinalizer_frame[THEN ensures_call_any]

lemma deleteNext_frame:
  assumes "fullService I s" and own: "own network"
  shows "ensures I (deleteNext r network s) (\<lambda>x. x \<noteq> GoPanic)"
proof (cases "nothingLeft network")
  case True
  have finish: "ensures I (\<lambda>w. case removeFinalizer (Lib r) (Client r) network w of (err, w) \<Rightarrow> (Ret noResult err, w))
      (\<lambda>x. x \<noteq> GoPanic)"
    by (intro finalizer_bind ensures_return own) simp
  from True show ?thesis
    unfolding deleteNext_def[abs_def] Let_def nothingLeft_def
    using event_then[OF finish] by simp
next
  case False
  then show ?thesis using deleteNext_managed_frame[OF assms(1) _ own] by (auto simp: nothingLeft_def)
qed

lemma reconcileDelete_frame: "own network \<Longrightarrow> ensures I (reconcileDelete r network) (\<lambda>x. x \<noteq> GoPanic)"
  unfolding reconcileDelete_def[abs_def]
  by (intro frame_rules status_bind machineCount_frame[THEN ensures_call_any] finalizer_bind
      deleteInCloud_frame deleteNext_frame ensures_return) auto

end

locale full_frame = deletion_frame I r own
  for I :: "'w \<Rightarrow> 'w \<Rightarrow> bool" and r :: "'w TCloudClusterNetworkReconciler" and own :: "TCloudClusterNetwork \<Rightarrow> bool" +
  fixes ns n :: string
  assumes get_own: "ensures I (GetNetwork (Client r) ns n) (\<lambda>a. \<forall>y. a = Inr y \<longrightarrow> own y)"
    and delete_own: "own x \<Longrightarrow> keeps I (DeleteNetwork (Client r) x)"
    and update_own: "own x \<Longrightarrow> keeps I (UpdateNetwork (Client r) x)"

sublocale full_frame \<subseteq> live: live_frame I r own
  by unfold_locales (rule delete_own)

context full_frame
begin

lemma own_finalizers: "own b \<Longrightarrow> own (b\<lparr>Meta := (Meta b)\<lparr>om_Finalizers := fs\<rparr>\<rparr>)"
  by (rule own_key[of b]) (simp_all add: sameKey_def)

lemma Reconcile_frame: "ensures I (Reconcile r ns n) (\<lambda>x. x \<noteq> GoPanic)"
  unfolding Reconcile_def[abs_def] Let_def
  by (intro frame_rules get_own[THEN ensures_call] update_own[THEN ensures_call_any] reconcileDelete_frame
      live.reconcileLive_frame ensures_return) (auto intro: own_finalizers)

end

section \<open>Interpretations\<close>

lemma fullService_anything: "fullService anything s"
  by (simp add: service_defs keeps_anything)

interpretation any_world: full_frame anything r "\<lambda>_. True" ns n for r ns n
  by unfold_locales (simp_all add: ensures_def fullService_anything)

text \<open>The calls that delete in the cloud, and those that may change anything there.\<close>

fun cloudDelete :: "event \<Rightarrow> bool" where
  "cloudDelete (EDeleteSecurityGroup _ _) = True"
| "cloudDelete (EDeleteSubnet _ _ _) = True"
| "cloudDelete (EDeleteVPC _ _) = True"
| "cloudDelete _ = False"

fun cloudEnsure :: "event \<Rightarrow> bool" where
  "cloudEnsure (EEnsureVPC _ _) = True"
| "cloudEnsure (EEnsureSubnet _ _) = True"
| "cloudEnsure (EEnsureSecurityGroup _ _) = True"
| "cloudEnsure _ = False"

abbreviation noDelete :: "event \<Rightarrow> bool" where "noDelete e \<equiv> \<not> cloudDelete e"
abbreviation noChange :: "event \<Rightarrow> bool" where "noChange e \<equiv> \<not> cloudDelete e \<and> \<not> cloudEnsure e"

lemma tracedFactory_frame:
  "(\<And>c. A (ENewService c)) \<Longrightarrow> (\<And>s0. S (tracedService s0)) \<Longrightarrow>
   ensures (extends A) (tracedFactory new creds) (\<lambda>x. \<forall>s. x = Inr s \<longrightarrow> S s)"
  by (auto simp: ensures_def tracedFactory_def extends_def map_sum_def split: prod.split sum.splits)

lemma live_tracedService: "liveService (extends noDelete) (tracedService s)"
  by (simp add: service_defs keeps_logging)

lemma read_tracedService: "readService (extends noChange) (tracedService s)"
  by (simp add: readService_def keeps_logging)

lemma injected_now_traced: "(\<And>t. A (ENow t)) \<Longrightarrow> Now (traced r) = Some f \<Longrightarrow> keeps (extends A) f"
  by (auto simp: keeps_logging)

lemma record_event_traced:
  "(\<And>t reason. A (ERecord t reason)) \<Longrightarrow> extends A w (RecordEvent (traced r) network t reason msg w)"
  by (cases w) (simp add: extends_def)

interpretation no_delete: live_frame "extends noDelete" "traced r" "\<lambda>_. True" for r
  by unfold_locales
    (simp_all add: keeps_logging tracedFactory_frame live_tracedService injected_now_traced record_event_traced)

interpretation no_change: reconciler_frame "extends noChange" "traced r" "\<lambda>_. True" "readService (extends noChange)" for r
  by unfold_locales
    (simp_all add: keeps_logging tracedFactory_frame read_tracedService injected_now_traced record_event_traced)

fun dropsFinalizer :: "event \<Rightarrow> bool" where
  "dropsFinalizer (EPatchNetwork b x) = (om_Finalizers (Meta b) \<noteq> om_Finalizers (Meta x))"
| "dropsFinalizer _ = False"

interpretation no_drop: cleanup_frame "extends (\<lambda>e. \<not> dropsFinalizer e)" "traced r" "\<lambda>_. True" for r
  by unfold_locales
    (simp_all add: keeps_logging tracedFactory_frame injected_now_traced record_event_traced service_defs ownerWriteD)

interpretation no_drop_live: live_frame "extends (\<lambda>e. \<not> dropsFinalizer e)" "traced r" "\<lambda>_. True" for r
  by unfold_locales (simp add: keeps_logging)

fun objectDelete :: "event \<Rightarrow> bool" where
  "objectDelete (EDeleteNetwork _) = True"
| "objectDelete _ = False"

interpretation no_object_delete: deletion_frame "extends (\<lambda>e. \<not> objectDelete e)" "traced r" "\<lambda>_. True" for r
  by unfold_locales
    (simp_all add: keeps_logging tracedFactory_frame injected_now_traced record_event_traced service_defs)

text \<open>Writes to the cluster: of a network object only the reconciler's own part, and nothing else.\<close>

fun ownWrite :: "lib \<Rightarrow> event \<Rightarrow> bool" where
  "ownWrite L (EStatusPatch b x _) = statusWrite b x"
| "ownWrite L (EPatchNetwork b x) = (ownerWrite b x \<or> finalizerWrite L b x)"
| "ownWrite L (EUpdateNetwork _) = False"
| "ownWrite L (ECreateNetwork _) = False"
| "ownWrite L (EPatchCluster _ _ _) = False"
| "ownWrite L (EPatchConfig _ _) = False"
| "ownWrite L _ = True"

interpretation own_writes: deletion_frame "extends (ownWrite (Lib r))" "traced r" "\<lambda>_. True" for r
  by unfold_locales
    (simp_all add: keeps_logging tracedFactory_frame injected_now_traced record_event_traced service_defs)

interpretation own_writes_live: live_frame "extends (ownWrite (Lib r))" "traced r" "\<lambda>_. True" for r
  by unfold_locales (simp add: keeps_logging)

text \<open>
  A client that answers with the object asked for: a read returns the object of that namespace and
  name, and a status patch returns the object it was sent to. With such a client every write of a
  network is a write of the object of the request.
\<close>

definition hasKey :: "string \<Rightarrow> string \<Rightarrow> TCloudClusterNetwork \<Rightarrow> bool" where
  "hasKey ns n x = (net_namespace x = ns \<and> net_name x = n)"

fun onObject :: "string \<Rightarrow> string \<Rightarrow> event \<Rightarrow> bool" where
  "onObject ns n (EStatusPatch b x _) = (hasKey ns n b \<and> hasKey ns n x)"
| "onObject ns n (EPatchNetwork b x) = (hasKey ns n b \<and> hasKey ns n x)"
| "onObject ns n (EUpdateNetwork x) = hasKey ns n x"
| "onObject ns n (EDeleteNetwork x) = hasKey ns n x"
| "onObject ns n (ECreateNetwork _) = False"
| "onObject ns n _ = True"

locale identity_client =
  fixes k :: "'w Kube" and ns n :: string
  assumes get_answer: "GetNetwork k ns n w = (Inr y, w') \<Longrightarrow> hasKey ns n y"
    and status_answer: "StatusPatchNetwork k b x w = (Inr y, w') \<Longrightarrow> sameKey x y"

lemma ensures_logging:
  "(\<And>a. A (e a)) \<Longrightarrow> (\<And>w a w'. f w = (a, w') \<Longrightarrow> Q a) \<Longrightarrow> ensures (extends A) (logging e f) Q"
  by (auto simp: ensures_def logging_def extends_def split: prod.split)

context identity_client
begin

lemma own_object_frame: "Client r = k \<Longrightarrow> full_frame (extends (onObject ns n)) (traced r) (hasKey ns n) ns n"
proof unfold_locales
  assume k: "Client r = k"
  show "ensures (extends (onObject ns n)) (GetNetwork (Client (traced r)) ns n) (\<lambda>a. \<forall>y. a = Inr y \<longrightarrow> hasKey ns n y)"
    unfolding traced_simps tracedKube_simps k by (rule ensures_logging) (auto dest: get_answer)
  show "ensures (extends (onObject ns n)) (StatusPatchNetwork (Client (traced r)) b x) (\<lambda>a. \<forall>y. a = Inr y \<longrightarrow> hasKey ns n y)"
    if "hasKey ns n b" "statusWrite b x" for b x
    unfolding traced_simps tracedKube_simps k
    by (rule ensures_logging)
      (use that sameKey_writes(1)[OF that(2)] status_answer in \<open>auto simp: hasKey_def sameKey_def\<close>)
qed (auto simp: keeps_logging tracedFactory_frame injected_now_traced record_event_traced service_defs
    hasKey_def sameKey_def dest: sameKey_writes)

lemma Reconcile_on_object:
  assumes "Client r = k" and "Reconcile (traced r) ns n (w, []) = (x, (w', log))"
  shows "\<forall>e\<in>set log. onObject ns n e"
  using ensuresD[OF full_frame.Reconcile_frame[OF own_object_frame[OF assms(1)]] assms(2)]
  by (simp add: extends_def list_all_iff)

end

text \<open>The calls that may create, change or delete a VPC or a subnet.\<close>

fun vpcOrSubnetChange :: "event \<Rightarrow> bool" where
  "vpcOrSubnetChange (EEnsureVPC _ _) = True"
| "vpcOrSubnetChange (EEnsureSubnet _ _) = True"
| "vpcOrSubnetChange (EDeleteSubnet _ _ _) = True"
| "vpcOrSubnetChange (EDeleteVPC _ _) = True"
| "vpcOrSubnetChange _ = False"

text \<open>The calls that ask to remove rules of a group: only SSH rules.\<close>

fun removesOtherRules :: "event \<Rightarrow> bool" where
  "removesOtherRules (EEnsureSecurityGroup q _) = (\<not> removesSSHOnly q)"
| "removesOtherRules _ = False"

abbreviation groupsOnly :: "event \<Rightarrow> bool" where
  "groupsOnly e \<equiv> \<not> vpcOrSubnetChange e \<and> \<not> cloudDelete e \<and> \<not> removesOtherRules e"

interpretation groups_only:
  reconciler_frame "extends groupsOnly" "traced r" "\<lambda>_. True" "groupService (extends groupsOnly)" for r
  by unfold_locales
    (simp_all add: keeps_logging tracedFactory_frame injected_now_traced record_event_traced service_defs)

end
