(* ===== verification/Safety.thy ===== *)
theory Safety
  imports Frames
begin

text \<open>
  Safety of the reconciler, stated on the log of its calls and for any environment: what is deleted,
  when the finalizer goes, what the policies may touch. Environment answers are unconstrained, so
  the properties hold under failures, stale reads and concurrent edits.
\<close>

section \<open>What justifies a deletion\<close>

definition machinesGone :: "TCloudClusterNetwork \<Rightarrow> event list \<Rightarrow> bool" where
  "machinesGone net pre =
     list_ex (\<lambda>e. case e of EListMachines ns cluster ans \<Rightarrow>
                     ns = nr_Namespace (clusterRef net) \<and> cluster = nr_Name (clusterRef net) \<and>
                     (case ans of Inl err \<Rightarrow> meta_IsNoMatchError err | Inr machines \<Rightarrow> machines = [])
                   | _ \<Rightarrow> False) pre"

text \<open>An answer to a read that shows the resource still is the recorded one, or is gone.\<close>

definition stillOwned :: "ResourceStatus \<Rightarrow> error + Resource \<Rightarrow> bool" where
  "stillOwned st ans = (case ans of Inl err \<Rightarrow> IsNotFound err | Inr res \<Rightarrow> res_Name res = rs_Name st)"

definition portsFree :: "string \<Rightarrow> event list \<Rightarrow> bool" where
  "portsFree i pre = list_ex (\<lambda>e. case e of EAttachedPorts j (Inr p) \<Rightarrow> j = i \<and> p \<le> 0 | _ \<Rightarrow> False) pre"

definition mayDelete :: "lib \<Rightarrow> TCloudClusterNetwork \<Rightarrow> event list \<Rightarrow> bool" where
  "mayDelete L net pre =
     (om_DeletionTimestamp (Meta net) \<noteq> None \<and>
      ContainsFinalizer L (om_Finalizers (Meta net)) NetworkFinalizer \<and>
      sp_ManagementPolicy (Spec net) \<noteq> ManagementPolicyAbandon \<and> machinesGone net pre \<and>
      (managedWithID (subnetStatus net) \<longrightarrow> portsFree (rs_ID (subnetStatus net)) pre))"

text \<open>A deleting call is justified by the object the reconcile read and the calls before it.\<close>

fun justified :: "lib \<Rightarrow> TCloudClusterNetwork \<Rightarrow> event list \<Rightarrow> event \<Rightarrow> bool" where
  "justified L net pre (EDeleteSecurityGroup i _) =
     (mayDelete L net pre \<and> managedWithID (sgStatus net) \<and> i = rs_ID (sgStatus net) \<and>
      list_ex (\<lambda>e. case e of EGetSecurityGroup j ans \<Rightarrow> j = i \<and> stillOwned (sgStatus net) ans | _ \<Rightarrow> False) pre)"
| "justified L net pre (EDeleteSubnet v i _) =
     (mayDelete L net pre \<and> \<not> managedWithID (sgStatus net) \<and> managedWithID (subnetStatus net) \<and>
      i = rs_ID (subnetStatus net) \<and> v = rs_ID (vpcStatus net) \<and>
      list_ex (\<lambda>e. case e of EGetSubnet j ans \<Rightarrow> j = i \<and> stillOwned (subnetStatus net) ans | _ \<Rightarrow> False) pre)"
| "justified L net pre (EDeleteVPC i _) =
     (mayDelete L net pre \<and> \<not> managedWithID (sgStatus net) \<and> \<not> managedWithID (subnetStatus net) \<and>
      managedWithID (vpcStatus net) \<and> i = rs_ID (vpcStatus net) \<and>
      list_ex (\<lambda>e. case e of EGetVPC j ans \<Rightarrow> j = i \<and> stillOwned (vpcStatus net) ans | _ \<Rightarrow> False) pre)"
| "justified L net pre _ = True"

fun allJustified :: "lib \<Rightarrow> TCloudClusterNetwork \<Rightarrow> event list \<Rightarrow> event list \<Rightarrow> bool" where
  "allJustified L net pre [] = True"
| "allJustified L net pre (e # es) = (justified L net pre e \<and> allJustified L net (pre @ [e]) es)"

lemma justified_noDelete: "\<not> cloudDelete e \<Longrightarrow> justified L net pre e"
  by (cases e) simp_all

lemma allJustified_append:
  "allJustified L net pre (xs @ ys) \<longleftrightarrow> allJustified L net pre xs \<and> allJustified L net (pre @ xs) ys"
  by (induction xs arbitrary: pre) simp_all

lemma allJustified_noDelete: "list_all noDelete es \<Longrightarrow> allJustified L net pre es"
  by (induction es arbitrary: pre) (simp_all add: justified_noDelete)

text \<open>The shape of every log: nothing is deleted, or one justified deletion surrounded by other calls.\<close>

definition oneDelete :: "lib \<Rightarrow> TCloudClusterNetwork \<Rightarrow> event list \<Rightarrow> event list \<Rightarrow> bool" where
  "oneDelete L net pre new =
     (list_all noDelete new \<or>
      (\<exists>a d b. new = a @ d # b \<and> list_all noDelete a \<and> list_all noDelete b \<and> cloudDelete d \<and>
               justified L net (pre @ a) d))"

lemma oneDelete_none: "list_all noDelete new \<Longrightarrow> oneDelete L net pre new"
  by (simp add: oneDelete_def)

lemma oneDelete_append:
  assumes "list_all noDelete xs" "oneDelete L net (pre @ xs) ys"
  shows "oneDelete L net pre (xs @ ys)"
proof (cases "list_all noDelete ys")
  case True
  with assms(1) show ?thesis by (simp add: oneDelete_def)
next
  case False
  with assms(2) obtain a d b where "ys = a @ d # b" "list_all noDelete a" "list_all noDelete b" "cloudDelete d"
    "justified L net ((pre @ xs) @ a) d" unfolding oneDelete_def by blast
  with assms(1) show ?thesis unfolding oneDelete_def
    by (intro disjI2 exI[of _ "xs @ a"] exI[of _ d] exI[of _ b]) simp
qed

lemma oneDelete_allJustified: "oneDelete L net pre new \<Longrightarrow> allJustified L net pre new"
  by (auto simp: oneDelete_def allJustified_append allJustified_noDelete)

lemma filter_noDelete: "list_all noDelete xs \<Longrightarrow> filter cloudDelete xs = []"
  by (induction xs) simp_all

lemma oneDelete_count: "oneDelete L net pre new \<Longrightarrow> length (filter cloudDelete new) \<le> 1"
  by (auto simp: oneDelete_def filter_noDelete)

section \<open>The deletion steps\<close>

lemma extends_pair: "extends A (w, l) (w', l') \<longleftrightarrow> (\<exists>new. l' = l @ new \<and> list_all A new)"
  by (simp add: extends_def)

lemma machinesGone_append: "machinesGone net pre \<Longrightarrow> machinesGone net (pre @ new)"
  by (simp add: machinesGone_def)

lemma machineCount_traced:
  assumes "machineCount (traced r) net (w, l) = (Inr c, (w', l'))" "c \<le> 0"
  shows "machinesGone net l'"
  using assms
  by (auto simp: machineCount_def machinesGone_def split: prod.splits sum.splits if_splits)

lemma cloudService_traced:
  assumes "cloudService (traced r) net (w, l) = (Inr s, (w', l'))"
  shows "\<exists>s0. s = tracedService s0"
  using assms
  by (auto simp: cloudService_def Let_def tracedFactory_def map_sum_def split: prod.splits sum.splits)

lemma portsGate_traced:
  assumes "portsGate (traced r) net (tracedService s) (w, l) = (Inr (), (w', l'))" "managedWithID (subnetStatus net)"
  shows "portsFree (rs_ID (subnetStatus net)) l'"
  using assms
  by (auto simp: portsGate_def portsFree_def split: prod.splits sum.splits if_splits)

lemma verifyResource_traced:
  assumes "verifyResource st (\<lambda>i. logging (ev i) (get i)) (w, l) = (e, (w', l'))" "rs_ControllerManaged st"
  shows "\<exists>ans. l' = l @ [ev (rs_ID st) ans] \<and> (e = None \<longrightarrow> stillOwned st ans)"
  using assms
  by (auto simp: verifyResource_def stillOwned_def split: prod.splits sum.splits if_splits)

lemma failRet_traced:
  assumes "failRet L (tracedKube k) net t reason err (w, l) = (x, (w', l'))"
  shows "\<exists>ans. l' = l @ [EStatusPatch net (failConditions L t reason err net) ans]"
  using assms by (auto simp: failRet_def fail_def patchStatus_def Let_def split: prod.splits sum.splits option.splits)

lemma patchStatus_traced:
  assumes "patchStatus (tracedKube k) net mutate (w, l) = (x, (w', l'))"
  shows "\<exists>ans. l' = l @ [EStatusPatch net (mutate net) ans]"
  using assms by (auto simp: patchStatus_def Let_def split: prod.splits sum.splits)

lemma deleteResource_traced:
  assumes run: "deleteResource (traced r) net (verifyResource st (\<lambda>i. logging (ev i) (get i)))
      (logging dev del) store (w, l) = (x, (w', l'))"
    and managed: "rs_ControllerManaged st"
    and quiet: "\<And>i a. noDelete (ev i a)" and loud: "\<And>a. cloudDelete (dev a)"
    and ok: "\<And>ans a. stillOwned st ans \<Longrightarrow> justified L net (l @ [ev (rs_ID st) ans]) (dev a)"
  shows "\<exists>new. l' = l @ new \<and> oneDelete L net l new"
proof -
  obtain e w1 l1 where v: "verifyResource st (\<lambda>i. logging (ev i) (get i)) (w, l) = (e, (w1, l1))"
    by (metis prod.exhaust)
  from verifyResource_traced[OF v managed] obtain ans where l1: "l1 = l @ [ev (rs_ID st) ans]"
    and own: "e = None \<Longrightarrow> stillOwned st ans" by blast
  show ?thesis
  proof (cases e)
    case (Some err)
    with run v have "failRet (Lib r) (tracedKube (Client r)) net ConditionOwnership ''OwnershipMismatch'' err (w1, l1)
        = (x, (w', l'))" by (simp add: deleteResource_def)
    from failRet_traced[OF this] l1 quiet show ?thesis by (auto intro!: oneDelete_none)
  next
    case None
    obtain d w2 where d: "del w1 = (d, w2)" by force
    from run v None d obtain rest where "l' = l1 @ dev d # rest" "list_all noDelete rest"
      by (auto simp: deleteResource_def split: option.splits prod.splits dest!: patchStatus_traced)
    moreover have "oneDelete L net (l @ [ev (rs_ID st) ans]) (dev d # rest)"
      using ok[OF own[OF None]] loud \<open>list_all noDelete rest\<close> unfolding oneDelete_def
      by (intro disjI2 exI[of _ "[]"] exI[of _ "dev d"] exI[of _ rest]) simp
    ultimately show ?thesis
      using oneDelete_append[of "[ev (rs_ID st) ans]" L net l "dev d # rest"] quiet l1
      by (intro exI[of _ "ev (rs_ID st) ans # dev d # rest"]) simp
  qed
qed

lemma mayDelete_snoc: "mayDelete L net pre \<Longrightarrow> mayDelete L net (pre @ new)"
  by (auto simp: mayDelete_def machinesGone_def portsFree_def)

lemma removeFinalizer_traced:
  assumes "removeFinalizer L (tracedKube k) net (w, l) = (x, (w', l'))"
  shows "l' = l @ [EPatchNetwork net (net\<lparr>Meta := (Meta net)\<lparr>om_Finalizers :=
           RemoveFinalizer L (om_Finalizers (Meta net)) NetworkFinalizer\<rparr>\<rparr>)]"
  using assms by (auto simp: removeFinalizer_def Let_def split: prod.splits sum.splits)

lemma deleteNext_traced:
  assumes run: "deleteNext (traced r) net (tracedService s) (w, l) = (x, (w', l'))" and may: "mayDelete L net l"
  shows "\<exists>new. l' = l @ new \<and> oneDelete L net l new"
proof -
  note may' = mayDelete_snoc[OF may]
  consider (sg) "managedWithID (sgStatus net)"
    | (sub) "\<not> managedWithID (sgStatus net)" "managedWithID (subnetStatus net)"
    | (vpc) "\<not> managedWithID (sgStatus net)" "\<not> managedWithID (subnetStatus net)" "managedWithID (vpcStatus net)"
    | (none) "\<not> managedWithID (sgStatus net)" "\<not> managedWithID (subnetStatus net)" "\<not> managedWithID (vpcStatus net)"
    by blast
  then show ?thesis
  proof cases
    case sg
    with run show ?thesis unfolding deleteNext_def verifySecurityGroupOwnership_def tracedService_simps[abs_def]
      by (intro deleteResource_traced[of r net "sgStatus net" EGetSecurityGroup])
        (auto simp: may' managedWithID_def)
  next
    case sub
    with run show ?thesis unfolding deleteNext_def verifySubnetOwnership_def tracedService_simps[abs_def]
      by (intro deleteResource_traced[of r net "subnetStatus net" EGetSubnet])
        (auto simp: may' managedWithID_def)
  next
    case vpc
    with run show ?thesis unfolding deleteNext_def verifyVPCOwnership_def tracedService_simps[abs_def]
      by (intro deleteResource_traced[of r net "vpcStatus net" EGetVPC])
        (auto simp: may' managedWithID_def)
  next
    case none
    with run show ?thesis
      by (auto simp: deleteNext_def Let_def split: prod.splits dest!: removeFinalizer_traced intro!: oneDelete_none)
  qed
qed

text \<open>A step that keeps the no-delete frame may precede a log of the required shape.\<close>

lemma oneDelete_step:
  assumes "extends noDelete (w, l) (w1, l1)" "\<exists>new. l' = l1 @ new \<and> oneDelete L net l1 new"
  shows "\<exists>new. l' = l @ new \<and> oneDelete L net l new"
  using assms oneDelete_append unfolding extends_pair by (metis append_assoc)

lemma oneDelete_stop:
  assumes "extends noDelete (w, l) (w', l')" shows "\<exists>new. l' = l @ new \<and> oneDelete L net l new"
  using assms unfolding extends_pair by (blast intro: oneDelete_none)

lemma deleteInCloud_traced:
  assumes run: "deleteInCloud (traced r) net (w, l) = (x, (w', l'))"
    and may: "om_DeletionTimestamp (Meta net) \<noteq> None" "sp_ManagementPolicy (Spec net) \<noteq> ManagementPolicyAbandon"
      "ContainsFinalizer (Lib r) (om_Finalizers (Meta net)) NetworkFinalizer" "machinesGone net l"
  shows "\<exists>new. l' = l @ new \<and> oneDelete (Lib r) net l new"
proof -
  obtain a w1 l1 where c: "cloudService (traced r) net (w, l) = (a, (w1, l1))" by (metis prod.exhaust)
  from ensuresD[OF no_delete.cloudService_frame c] have e1: "extends noDelete (w, l) (w1, l1)" by simp
  show ?thesis
  proof (cases a)
    case (Inl err)
    with run c have f: "failRet (Lib r) (tracedKube (Client r)) net ConditionDeleting ''CredentialsInvalid'' err (w1, l1)
        = (x, (w', l'))" by (simp add: deleteInCloud_def)
    have "extends noDelete (w1, l1) (w', l')"
      using failRet_traced[OF f] by (auto simp: extends_pair)
    from oneDelete_step[OF e1 oneDelete_stop[OF this]] show ?thesis .
  next
    case (Inr s)
    with cloudService_traced[of r net w l s w1 l1] c obtain s0 where s: "s = tracedService s0" by auto
    obtain b w2 l2 where p: "portsGate (traced r) net s (w1, l1) = (b, (w2, l2))" by (metis prod.exhaust)
    from ensuresD[OF no_delete.portsGate_frame[OF _ TrueI] p] live_tracedService s
    have e2: "extends noDelete (w1, l1) (w2, l2)" using liveServiceD(4) by blast
    show ?thesis
    proof (cases b)
      case Inl
      with run c p \<open>a = Inr s\<close> have "l' = l2" by (simp add: deleteInCloud_def)
      with oneDelete_step[OF e1 oneDelete_stop[OF e2]] show ?thesis by simp
    next
      case (Inr u)
      with run c p \<open>a = Inr s\<close> s have d: "deleteNext (traced r) net (tracedService s0) (w2, l2) = (x, (w', l'))"
        by (simp add: deleteInCloud_def)
      have "mayDelete (Lib r) net l2"
        using may e1 e2 portsGate_traced[of r net s0 w1 l1 w2 l2] p Inr s machinesGone_append
        by (auto simp: mayDelete_def extends_pair)
      from oneDelete_step[OF e1 oneDelete_step[OF e2 deleteNext_traced[OF d this]]] show ?thesis .
    qed
  qed
qed

lemma reconcileDelete_traced:
  assumes run: "reconcileDelete (traced r) net (w, l) = (x, (w', l'))"
    and del: "om_DeletionTimestamp (Meta net) \<noteq> None"
  shows "\<exists>new. l' = l @ new \<and> oneDelete (Lib r) net l new"
proof (cases "\<not> ContainsFinalizer (Lib r) (om_Finalizers (Meta net)) NetworkFinalizer \<or>
    sp_ManagementPolicy (Spec net) = ManagementPolicyAbandon \<or>
    \<not> rs_ControllerManaged (vpcStatus net) \<and> \<not> rs_ControllerManaged (subnetStatus net) \<and>
      \<not> rs_ControllerManaged (sgStatus net)")
  case True
  with run show ?thesis
    by (auto simp: reconcileDelete_def split: if_splits prod.splits dest!: removeFinalizer_traced
        intro!: oneDelete_none)
next
  case go: False
  obtain c w1 l1 where m: "machineCount (traced r) net (w, l) = (c, (w1, l1))" by (metis prod.exhaust)
  from ensuresD[OF no_delete.machineCount_frame m] have e1: "extends noDelete (w, l) (w1, l1)" by simp
  show ?thesis
  proof (cases c)
    case (Inl err)
    with run go m have "l' = l1" by (simp add: reconcileDelete_def split: if_splits)
    with oneDelete_stop[OF e1] show ?thesis by simp
  next
    case (Inr n)
    show ?thesis
    proof (cases "n > 0")
      case True
      with run go m Inr obtain ans base x where "l' = l1 @ [EStatusPatch base x ans]"
        by (auto simp: reconcileDelete_def setCondition_def split: if_splits prod.splits dest!: patchStatus_traced)
      then have "extends noDelete (w1, l1) (w', l')" by (simp add: extends_pair)
      from oneDelete_step[OF e1 oneDelete_stop[OF this]] show ?thesis .
    next
      case False
      with m Inr have "machinesGone net l1" by (intro machineCount_traced) auto
      moreover from run go m Inr False have "deleteInCloud (traced r) net (w1, l1) = (x, (w', l'))"
        by (simp add: reconcileDelete_def split: if_splits)
      ultimately show ?thesis using go del by (intro oneDelete_step[OF e1 deleteInCloud_traced]) auto
    qed
  qed
qed

lemma Reconcile_traced:
  assumes "Reconcile (traced r) ns n (w, []) = (x, (w', log))"
  shows "list_all noDelete log \<or>
    (\<exists>net rest. log = EGetNetwork ns n (Inr net) # rest \<and> oneDelete (Lib r) net [EGetNetwork ns n (Inr net)] rest)"
proof -
  obtain a w1 where g: "GetNetwork (Client r) ns n w = (a, w1)" by force
  show ?thesis
  proof (cases a)
    case (Inl err)
    with assms g show ?thesis by (auto simp: Reconcile_def)
  next
    case (Inr net)
    let ?l = "[EGetNetwork ns n (Inr net)]"
    show ?thesis
    proof (cases "om_DeletionTimestamp (Meta net)")
      case (Some t)
      with assms g Inr have "reconcileDelete (traced r) net (w1, ?l) = (x, (w', log))" by (simp add: Reconcile_def)
      from reconcileDelete_traced[OF this] Some show ?thesis by auto
    next
      case None
      obtain fs added where f: "AddFinalizer (Lib r) (om_Finalizers (Meta net)) NetworkFinalizer = (fs, added)" by force
      let ?net = "net\<lparr>Meta := (Meta net)\<lparr>om_Finalizers := fs\<rparr>\<rparr>"
      have "extends noDelete (w1, ?l) (w', log)"
      proof (cases added)
        case True
        with assms g Inr None f show ?thesis
          by (auto simp: Reconcile_def Let_def extends_pair split: prod.splits sum.splits)
      next
        case False
        with assms g Inr None f have "reconcileLive (traced r) ?net (w1, ?l) = (x, (w', log))"
          by (simp add: Reconcile_def)
        from ensuresD[OF no_delete.reconcileLive_frame[OF TrueI] this] show ?thesis by simp
      qed
      then show ?thesis by (auto simp: extends_pair)
    qed
  qed
qed

section \<open>A concrete environment\<close>

text \<open>A network under deletion on the in-memory cluster and cloud, with all three resources in place.\<close>

definition memReconciler :: "mem_world TCloudClusterNetworkReconciler" where
  "memReconciler = \<lparr>Client = memKube, APIReader = None, NewService = (\<lambda>c w. (Inr memService, w)),
     RecordEvent = (\<lambda>n t reason msg w. w), Now = None, SystemNow = (\<lambda>w. (0, w)), Lib = refLib, Codec = sampleCodec\<rparr>"

definition sampleCredentials :: Secret where
  "sampleCredentials = \<lparr>sec_Name = ''cc'', sec_Namespace = ''cattle'',
     sec_Data = (\<lambda>k. if k = credentialPrefix @ ''authUrl'' then Some ''https://iam''
                     else if k = credentialPrefix @ ''domainName'' then Some ''d''
                     else if k = credentialPrefix @ ''username'' then Some ''u''
                     else if k = credentialPrefix @ ''password'' then Some ''p'' else None)\<rparr>"

definition sampleCloud :: mem_cloud where
  "sampleCloud = emptyCloud\<lparr>mc_vpcs := [(''v1'', \<lparr>sv_ID = ''v1'', sv_Name = ''vpc''\<rparr>)],
     mc_subnets := [(''s1'', \<lparr>sn_ID = ''s1'', sn_Name = ''net'', sn_NetworkID = ''n1''\<rparr>)],
     mc_groups := [(''g1'', \<lparr>sg_ID = ''g1'', sg_Name = ''grp'', sg_Rules = []\<rparr>)]\<rparr>"

definition managedStatus :: TCloudClusterNetworkStatus where
  "managedStatus = sampleStatus\<lparr>st_Resources :=
     \<lparr>nrs_VPC = \<lparr>rs_ID = ''v1'', rs_Name = ''vpc'', rs_ControllerManaged = True\<rparr>,
      nrs_Subnet = \<lparr>rs_ID = ''s1'', rs_Name = ''net'', rs_ControllerManaged = True\<rparr>,
      nrs_SecurityGroup = \<lparr>rs_ID = ''g1'', rs_Name = ''grp'', rs_ControllerManaged = True\<rparr>\<rparr>\<rparr>"

definition deletingNetwork :: TCloudClusterNetwork where
  "deletingNetwork = sampleNetwork\<lparr>Meta := (Meta sampleNetwork)\<lparr>om_DeletionTimestamp := Some 1,
     om_Finalizers := [NetworkFinalizer]\<rparr>, Status := managedStatus\<rparr>"

definition deletingWorld :: mem_world where
  "deletingWorld = emptyWorld\<lparr>mw_networks := [deletingNetwork], mw_secrets := [sampleCredentials],
     mw_cloud := sampleCloud\<rparr>"

abbreviation deletingRun :: "ret \<times> mem_world logged" where
  "deletingRun \<equiv> Reconcile (traced memReconciler) ''fleet'' ''n'' (deletingWorld, [])"

fun deletedID :: "event \<Rightarrow> string option" where
  "deletedID (EDeleteSecurityGroup i _) = Some i"
| "deletedID (EDeleteSubnet _ i _) = Some i"
| "deletedID (EDeleteVPC i _) = Some i"
| "deletedID _ = None"

lemma deletingRun_deletes: "map deletedID (filter cloudDelete (snd (snd deletingRun))) = [Some ''g1'']"
  by code_simp

section \<open>Properties\<close>

text \<open>
  C1: A reconcile makes at most one deleting cloud call, and only a justified one: the object it read
  is under deletion with the finalizer in place and not abandoned, the resource is recorded as
  controller-managed under that ID, the cluster's machines are gone, a managed subnet has no
  attached instance ports, and a read made earlier in the same reconcile found the resource under its
  recorded name or not at all. Groups go before subnets and subnets before VPCs.
\<close>

theorem Reconcile_deletes_justified:
  assumes "Reconcile (traced r) ns n (w, []) = (x, (w', log))"
  shows "length (filter cloudDelete log) \<le> 1 \<and>
    (\<forall>pre d post. log = pre @ d # post \<longrightarrow> cloudDelete d \<longrightarrow>
       (\<exists>net. EGetNetwork ns n (Inr net) \<in> set pre \<and> justified (Lib r) net pre d))"
proof (cases "list_all noDelete log")
  case True
  then show ?thesis by (auto simp: filter_noDelete)
next
  case False
  with Reconcile_traced[OF assms] obtain net rest where log: "log = EGetNetwork ns n (Inr net) # rest"
    and one: "oneDelete (Lib r) net [EGetNetwork ns n (Inr net)] rest" by blast
  have "\<exists>net. EGetNetwork ns n (Inr net) \<in> set pre \<and> justified (Lib r) net pre d"
    if "log = pre @ d # post" "cloudDelete d" for pre d post
  proof -
    from that log obtain pre' where pre: "pre = EGetNetwork ns n (Inr net) # pre'" "rest = pre' @ d # post"
      by (cases pre) auto
    with oneDelete_allJustified[OF one] show ?thesis by (auto simp: allJustified_append)
  qed
  with oneDelete_count[OF one] log show ?thesis by auto
qed

theorem Reconcile_deletes_justified_witness:
  "length (filter cloudDelete (snd (snd deletingRun))) = 1 \<and>
   (\<exists>pre d post net. snd (snd deletingRun) = pre @ d # post \<and> cloudDelete d \<and>
      EGetNetwork ''fleet'' ''n'' (Inr net) \<in> set pre \<and> justified refLib net pre d)"
proof -
  have run: "deletingRun = (fst deletingRun, (fst (snd deletingRun), snd (snd deletingRun)))" by simp
  have one: "length (filter cloudDelete (snd (snd deletingRun))) = length [Some ''g1'']"
    using arg_cong[OF deletingRun_deletes, of length] by simp
  then have "filter cloudDelete (snd (snd deletingRun)) \<noteq> []" by auto
  then obtain d where d: "d \<in> set (snd (snd deletingRun))" "cloudDelete d"
    by (auto simp: filter_empty_conv)
  from split_list[OF d(1)] obtain pre post where log: "snd (snd deletingRun) = pre @ d # post" by blast
  have "Lib memReconciler = refLib" by (simp add: memReconciler_def)
  with Reconcile_deletes_justified[OF run] log d(2)
  obtain net where "EGetNetwork ''fleet'' ''n'' (Inr net) \<in> set pre" "justified refLib net pre d" by metis
  with log d(2) one show ?thesis by auto
qed

text \<open>
  C2: The finalizer is given up only when nothing is left to delete: a reconcile patches an object's
  finalizers away only if the object it read is under deletion and is either abandoned or records
  no controller-managed resource with an ID.
\<close>

theorem finalizer_kept_until_clean:
  assumes run: "Reconcile (traced r) ns n (w, []) = (x, (w', log))" and drop: "list_ex dropsFinalizer log"
  shows "\<exists>net rest. log = EGetNetwork ns n (Inr net) # rest \<and> om_DeletionTimestamp (Meta net) \<noteq> None \<and>
    (sp_ManagementPolicy (Spec net) = ManagementPolicyAbandon \<or> nothingLeft net)"
proof -
  have no: "\<not> list_ex dropsFinalizer log" if "extends (\<lambda>e. \<not> dropsFinalizer e) (v, [EGetNetwork ns n a]) (w', log)" for v a
    using that by (auto simp: extends_pair list_ex_iff list_all_iff)
  obtain a w1 where g: "GetNetwork (Client r) ns n w = (a, w1)" by force
  show ?thesis
  proof (cases a)
    case (Inl err)
    with run g drop show ?thesis by (auto simp: Reconcile_def)
  next
    case (Inr net)
    let ?l = "[EGetNetwork ns n (Inr net)]"
    obtain fs added where f: "AddFinalizer (Lib r) (om_Finalizers (Meta net)) NetworkFinalizer = (fs, added)" by force
    show ?thesis
    proof (cases "om_DeletionTimestamp (Meta net)")
      case None
      have "extends (\<lambda>e. \<not> dropsFinalizer e) (w1, ?l) (w', log)"
      proof (cases added)
        case True
        with run g Inr None f show ?thesis
          by (auto simp: Reconcile_def Let_def extends_pair split: prod.splits sum.splits)
      next
        case False
        with run g Inr None f have "reconcileLive (traced r) (net\<lparr>Meta := (Meta net)\<lparr>om_Finalizers := fs\<rparr>\<rparr>) (w1, ?l)
            = (x, (w', log))" by (simp add: Reconcile_def)
        from ensuresD[OF no_drop_live.reconcileLive_frame[OF TrueI] this] show ?thesis by simp
      qed
      with no drop show ?thesis by blast
    next
      case (Some t)
      with run g Inr have d: "reconcileDelete (traced r) net (w1, ?l) = (x, (w', log))" by (simp add: Reconcile_def)
      have "sp_ManagementPolicy (Spec net) = ManagementPolicyAbandon \<or> nothingLeft net"
        using ensuresD[OF no_drop.reconcileDelete_left_frame[OF _ _ TrueI] d] no drop by blast
      moreover obtain new where "log = ?l @ new"
        using reconcileDelete_traced[OF d] Some by auto
      ultimately show ?thesis using Some by simp
    qed
  qed
qed

definition emptiedWorld :: mem_world where
  "emptiedWorld = deletingWorld\<lparr>mw_networks := [deletingNetwork\<lparr>Status := sampleStatus\<rparr>]\<rparr>"

abbreviation emptiedRun :: "ret \<times> mem_world logged" where
  "emptiedRun \<equiv> Reconcile (traced memReconciler) ''fleet'' ''n'' (emptiedWorld, [])"

theorem finalizer_kept_until_clean_witness:
  "list_ex dropsFinalizer (snd (snd emptiedRun)) \<and>
   (\<exists>net rest. snd (snd emptiedRun) = EGetNetwork ''fleet'' ''n'' (Inr net) # rest \<and>
      om_DeletionTimestamp (Meta net) \<noteq> None \<and>
      (sp_ManagementPolicy (Spec net) = ManagementPolicyAbandon \<or> nothingLeft net))"
proof -
  have run: "emptiedRun = (fst emptiedRun, (fst (snd emptiedRun), snd (snd emptiedRun)))" by simp
  have drop: "list_ex dropsFinalizer (snd (snd emptiedRun))" by code_simp
  from finalizer_kept_until_clean[OF run drop] drop show ?thesis by blast
qed

text \<open>
  C26: No input makes a reconcile panic: with any object, any cluster and any answers of the cloud,
  \<open>Reconcile\<close> returns a result and an error. In particular the slice expressions \<open>token[:8]\<close> of
  \<open>shortToken\<close> and \<open>name[:63-len(suffix)]\<close> of \<open>managedName\<close> stay in range.
\<close>

theorem Reconcile_never_panics: "fst (Reconcile r ns n w) \<noteq> GoPanic"
  using any_world.Reconcile_frame[of r ns n] by (simp add: ensures_def)

text \<open>
  C27: The Observe policy with an observed security group only reads from the cloud: no call creates,
  changes or deletes anything there, whatever the environment answers.
\<close>

theorem Observe_only_reads:
  assumes "\<not> securityGroupManaged net"
    and "reconcileObserve (traced r) net (tracedService s) (w, l) = (x, (w', l'))"
  shows "\<exists>new. l' = l @ new \<and> list_all (\<lambda>e. \<not> cloudDelete e \<and> \<not> cloudEnsure e) new"
  using ensuresD[OF no_change.reconcileObserve_frame[OF _ TrueI] assms(2)] assms(1) read_tracedService
  by (auto simp: extends_pair)

definition observedNetwork :: TCloudClusterNetwork where
  "observedNetwork = sampleNetwork\<lparr>Spec := sampleSpec\<lparr>sp_ManagementPolicy := ManagementPolicyObserve,
     sp_Network := \<lparr>ns_VPC = \<lparr>vs_ID = ''v1'', vs_Name = '''', vs_CIDR = ''''\<rparr>,
       ns_Subnet = (subnetSpec sampleNetwork)\<lparr>ss_ID := ''s1''\<rparr>,
       ns_SecurityGroup = (sgSpec sampleNetwork)\<lparr>gs_ID := ''g1''\<rparr>\<rparr>\<rparr>\<rparr>"

definition observedWorld :: mem_world where
  "observedWorld = emptyWorld\<lparr>mw_networks := [observedNetwork], mw_cloud := sampleCloud\<rparr>"

abbreviation observedRun :: "ret \<times> mem_world logged" where
  "observedRun \<equiv> reconcileObserve (traced memReconciler) observedNetwork (tracedService memService) (observedWorld, [])"

theorem Observe_only_reads_witness:
  "fst observedRun = Ret (requeueAfter (10 * Minute)) None \<and>
   list_all (\<lambda>e. \<not> cloudDelete e \<and> \<not> cloudEnsure e) (snd (snd observedRun))"
proof -
  have run: "observedRun = (fst observedRun, (fst (snd observedRun), snd (snd observedRun)))" by simp
  have "\<not> securityGroupManaged observedNetwork" by code_simp
  from Observe_only_reads[OF this run]
  have "list_all (\<lambda>e. \<not> cloudDelete e \<and> \<not> cloudEnsure e) (snd (snd observedRun))" by auto
  moreover have "fst observedRun = Ret (requeueAfter (10 * Minute)) None" by code_simp
  ultimately show ?thesis by blast
qed

section \<open>Orphans\<close>

definition orphanTimeout :: "TCloudClusterNetwork \<Rightarrow> duration" where
  "orphanTimeout net = (case sp_OrphanCleanupAfter (Spec net) of None \<Rightarrow> Hour | Some d \<Rightarrow> d)"

definition clusterMissing :: "TCloudClusterNetwork \<Rightarrow> event \<Rightarrow> bool" where
  "clusterMissing net e =
     (case e of EGetCluster ns n (Inl err) \<Rightarrow>
        ns = firstNonEmpty [nr_Namespace (clusterRef net), net_namespace net] \<and> n = nr_Name (clusterRef net) \<and>
        apierrors_IsNotFound err
      | _ \<Rightarrow> False)"

lemma clusterMissing_cong:
  assumes "clusterRef a = clusterRef b" "net_namespace a = net_namespace b"
  shows "clusterMissing a = clusterMissing b"
  by (rule ext) (unfold clusterMissing_def assms, rule refl)

lemma bindClusterOwner_unbound:
  assumes "bindClusterOwner (traced r) net (w, l) = (((False, None, None), net'), (w', l'))"
  shows "list_ex (clusterMissing net) l'"
  using assms
  by (auto simp: bindClusterOwner_def markBound_def setCondition_def Let_def clusterMissing_def
      split: prod.splits sum.splits if_splits option.splits dest!: patchStatus_traced)

lemma orphanExpired_traced:
  assumes "orphanExpired (traced r) net (w, l) = (True, (w', l'))"
  shows "0 < orphanTimeout net \<and> (\<exists>t. ENow t \<in> set l' \<and> om_CreationTimestamp (Meta net) + orphanTimeout net < t)"
  using assms
  by (auto simp: orphanExpired_def orphanTimeout_def Let_def split: prod.splits if_splits option.splits)

lemma no_object_delete_set:
  "extends (\<lambda>e. \<not> objectDelete e) (v, l) (w', log) \<Longrightarrow> EDeleteNetwork x \<in> set log \<Longrightarrow> EDeleteNetwork x \<in> set l"
  by (force simp: extends_pair list_all_iff)

lemma set_extends: "extends A (v, l) (w', log) \<Longrightarrow> set l \<subseteq> set log"
  by (auto simp: extends_pair)

lemma list_ex_mono: "list_ex P xs \<Longrightarrow> set xs \<subseteq> set ys \<Longrightarrow> list_ex P ys"
  by (auto simp: list_ex_iff)

lemma reconcileLive_object_delete:
  assumes run: "reconcileLive (traced r) net (w, l) = (x, (w', log))"
    and del: "EDeleteNetwork y \<in> set log" "EDeleteNetwork y \<notin> set l"
  shows "list_ex (clusterMissing net) log \<and> 0 < orphanTimeout y \<and>
    (\<exists>t. ENow t \<in> set log \<and> om_CreationTimestamp (Meta y) + orphanTimeout y < t)"
proof -
  obtain b res err net1 w1 l1 where bind: "bindClusterOwner (traced r) net (w, l) = (((b, res, err), net1), (w1, l1))"
    by (metis prod.exhaust)
  have l1: "EDeleteNetwork y \<notin> set l1"
    using no_object_delete_set[OF conjunct1[OF ensuresD[OF no_object_delete.bindClusterOwner_frame[OF TrueI] bind]]] del(2) by blast
  have cloud: False if "reconcileCloud (traced r) net1 (v, l2) = (x, (w', log))" "EDeleteNetwork y \<notin> set l2" for v l2
    using no_object_delete_set[OF conjunct1[OF ensuresD[OF no_object_delete.cloud.reconcileCloud_frame[OF TrueI] that(1)]]]
      that(2) del(1) by blast
  have e: "err = None"
  proof (rule ccontr)
    assume "err \<noteq> None"
    with run bind obtain e where "failRet (Lib r) (tracedKube (Client r)) net1 ConditionOwnerBound ''ClusterLookupFailed'' e (w1, l1)
        = (x, (w', log))" by (auto simp: reconcileLive_def split: option.splits)
    from failRet_traced[OF this] del(1) l1 show False by auto
  qed
  have r: "res = None" using run bind e del(1) l1 by (cases res) (auto simp: reconcileLive_def)
  have b: "\<not> b" using run bind e r cloud l1 by (auto simp: reconcileLive_def)
  obtain ex w2 l2 where o: "orphanExpired (traced r) net1 (w1, l1) = (ex, (w2, l2))" by (metis prod.exhaust)
  have l12: "extends (\<lambda>e. \<not> objectDelete e) (w1, l1) (w2, l2)"
    using ensuresD[OF no_object_delete.orphanExpired_frame o] by simp
  have l2: "EDeleteNetwork y \<notin> set l2" using no_object_delete_set[OF l12] l1 by blast
  have ex using run bind e r b o cloud l2 by (cases ex) (auto simp: reconcileLive_def)
  with run bind e r b o have "log = l2 @ [ERecord ''Warning'' ''OrphanExpired'', EDeleteNetwork net1]"
    by (auto simp: reconcileLive_def expireOrphan_def Let_def split: prod.splits)
  with del(1) l2 have y: "y = net1" and sub: "set l2 \<subseteq> set log" by auto
  have "list_ex (clusterMissing net) log"
    using bindClusterOwner_unbound[of r net w l net1 w1 l1] bind e r b set_extends[OF l12] sub
    by (auto intro: list_ex_mono)
  with orphanExpired_traced[of r net1 w1 l1 w2 l2] o \<open>ex\<close> sub y show ?thesis by auto
qed

text \<open>
  C8: The reconciler deletes its own object only as an expired orphan: the read of the referenced
  cluster in the same reconcile answered NotFound, the object is not under deletion, its orphan
  timeout is positive, and the clock has passed its creation time plus that timeout.
\<close>

theorem orphan_deleted_only_when_expired:
  assumes run: "Reconcile (traced r) ns n (w, []) = (x, (w', log))" and del: "EDeleteNetwork y \<in> set log"
  shows "\<exists>net rest. log = EGetNetwork ns n (Inr net) # rest \<and> om_DeletionTimestamp (Meta net) = None \<and>
    list_ex (clusterMissing net) log \<and> 0 < orphanTimeout y \<and>
    (\<exists>t. ENow t \<in> set log \<and> om_CreationTimestamp (Meta y) + orphanTimeout y < t)"
proof -
  obtain a w1 where g: "GetNetwork (Client r) ns n w = (a, w1)" by force
  obtain net where net: "a = Inr net" using run g del by (cases a) (auto simp: Reconcile_def)
  let ?l = "[EGetNetwork ns n (Inr net)]"
  have live: "om_DeletionTimestamp (Meta net) = None"
  proof (rule ccontr)
    assume "om_DeletionTimestamp (Meta net) \<noteq> None"
    with run g net have "reconcileDelete (traced r) net (w1, ?l) = (x, (w', log))" by (auto simp: Reconcile_def)
    from no_object_delete_set[OF conjunct1[OF ensuresD[OF no_object_delete.reconcileDelete_frame[OF TrueI] this]] del]
    show False by simp
  qed
  obtain fs added where f: "AddFinalizer (Lib r) (om_Finalizers (Meta net)) NetworkFinalizer = (fs, added)" by force
  let ?net = "net\<lparr>Meta := (Meta net)\<lparr>om_Finalizers := fs\<rparr>\<rparr>"
  have "\<not> added" using run g net live f del
    by (auto simp: Reconcile_def Let_def split: prod.splits sum.splits)
  with run g net live f have l: "reconcileLive (traced r) ?net (w1, ?l) = (x, (w', log))" by (simp add: Reconcile_def)
  have "clusterMissing ?net = clusterMissing net" by (rule clusterMissing_cong) simp_all
  with reconcileLive_object_delete[OF l del] have c: "list_ex (clusterMissing net) log \<and> 0 < orphanTimeout y \<and>
      (\<exists>t. ENow t \<in> set log \<and> om_CreationTimestamp (Meta y) + orphanTimeout y < t)" by simp
  obtain new where "log = ?l @ new"
    using ensuresD[OF no_delete.reconcileLive_frame[OF TrueI] l] by (auto simp: extends_pair)
  with live c show ?thesis by simp
qed

definition orphanReconciler :: "mem_world TCloudClusterNetworkReconciler" where
  "orphanReconciler = memReconciler\<lparr>Now := Some (\<lambda>w. (2 * Hour, w))\<rparr>"

definition orphanWorld :: mem_world where
  "orphanWorld = emptyWorld\<lparr>mw_networks := [sampleNetwork\<lparr>Meta := (Meta sampleNetwork)\<lparr>om_Finalizers := [NetworkFinalizer]\<rparr>\<rparr>]\<rparr>"

abbreviation orphanRun :: "ret \<times> mem_world logged" where
  "orphanRun \<equiv> Reconcile (traced orphanReconciler) ''fleet'' ''n'' (orphanWorld, [])"

theorem orphan_deleted_only_when_expired_witness:
  "\<exists>y. EDeleteNetwork y \<in> set (snd (snd orphanRun)) \<and> 0 < orphanTimeout y \<and>
     (\<exists>t. ENow t \<in> set (snd (snd orphanRun)) \<and> om_CreationTimestamp (Meta y) + orphanTimeout y < t)"
proof -
  have run: "orphanRun = (fst orphanRun, (fst (snd orphanRun), snd (snd orphanRun)))" by simp
  have "list_ex objectDelete (snd (snd orphanRun))" by code_simp
  then obtain y where y: "EDeleteNetwork y \<in> set (snd (snd orphanRun))"
    by (auto simp: list_ex_iff elim!: objectDelete.elims)
  from orphan_deleted_only_when_expired[OF run y] y show ?thesis by blast
qed

section \<open>Observe and Adopt\<close>

text \<open>
  C28: Observing and adopting make no call that creates, changes or deletes a VPC or a subnet and no
  call that deletes a security group. The only changing call they may make is \<open>EnsureSecurityGroup\<close>,
  which can create a group, add rules to it and, through \<open>RemoveRules\<close>, delete rules of it; the rules
  it is asked to delete are SSH rules of a CIDR and no others.
\<close>

theorem Observe_and_Adopt_touch_groups_only:
  assumes "reconcileObserve (traced r) net (tracedService s) (w, l) = (x, (w', l'))
         \<or> reconcileAdopt (traced r) net (tracedService s) (w, l) = (x, (w', l'))"
  shows "\<exists>new. l' = l @ new \<and>
    list_all (\<lambda>e. \<not> vpcOrSubnetChange e \<and> \<not> cloudDelete e \<and> \<not> removesOtherRules e) new"
proof -
  have s: "groupService (extends groupsOnly) (tracedService s)" by (simp add: service_defs keeps_logging)
  then have s': "if securityGroupManaged net then groupService (extends groupsOnly) (tracedService s)
      else readService (extends groupsOnly) (tracedService s)" using groupServiceD(2) by auto
  from assms ensuresD[OF groups_only.reconcileObserve_frame[OF s' TrueI], of r] ensuresD[OF groups_only.reconcileAdopt_frame[OF s TrueI], of r]
  have "extends groupsOnly (w, l) (w', l')" by blast
  then show ?thesis by (simp add: extends_pair)
qed

definition hybridNetwork :: TCloudClusterNetwork where
  "hybridNetwork = observedNetwork\<lparr>Spec := (Spec observedNetwork)\<lparr>sp_Network := (sp_Network (Spec observedNetwork))\<lparr>
     ns_SecurityGroup := (sgSpec observedNetwork)\<lparr>gs_ID := '''', gs_ManagementPolicy := ManagementPolicyManaged\<rparr>\<rparr>\<rparr>\<rparr>"

definition hybridWorld :: mem_world where
  "hybridWorld = emptyWorld\<lparr>mw_networks := [hybridNetwork], mw_cloud := sampleCloud\<rparr>"

abbreviation hybridRun :: "ret \<times> mem_world logged" where
  "hybridRun \<equiv> reconcileObserve (traced memReconciler) hybridNetwork (tracedService memService) (hybridWorld, [])"

theorem Observe_and_Adopt_touch_groups_only_witness:
  "length (filter cloudEnsure (snd (snd hybridRun))) = 2 \<and>
   list_all (\<lambda>e. \<not> vpcOrSubnetChange e \<and> \<not> cloudDelete e \<and> \<not> removesOtherRules e) (snd (snd hybridRun))"
proof -
  have run: "hybridRun = (fst hybridRun, (fst (snd hybridRun), snd (snd hybridRun)))" by simp
  from Observe_and_Adopt_touch_groups_only[OF disjI1[OF run]]
  have "list_all (\<lambda>e. \<not> vpcOrSubnetChange e \<and> \<not> cloudDelete e \<and> \<not> removesOtherRules e) (snd (snd hybridRun))" by auto
  moreover have "length (filter cloudEnsure (snd (snd hybridRun))) = 2" by code_simp
  ultimately show ?thesis by blast
qed

end
