(* ===== verification/Writes.thy ===== *)
theory Writes
  imports Safety
begin

text \<open>
  What a reconcile may write to the cluster: of a network only the finalizer, one owner reference and
  the status, and in the status the ownership token only once; and, with a client that answers with
  the object asked for, no other network than that of the request.
\<close>

definition addsFinalizer :: "lib \<Rightarrow> TCloudClusterNetwork \<Rightarrow> TCloudClusterNetwork \<Rightarrow> bool" where
  "addsFinalizer L net x =
     (x = net\<lparr>Meta := (Meta net)\<lparr>om_Finalizers := fst (AddFinalizer L (om_Finalizers (Meta net)) NetworkFinalizer)\<rparr>\<rparr>)"

fun patchesStatus :: "event \<Rightarrow> bool" where
  "patchesStatus (EStatusPatch _ _ _) = True"
| "patchesStatus _ = False"

lemma extends_ownWrite:
  "extends (ownWrite L) (w1, [EGetNetwork ns n a]) (w', log) \<Longrightarrow> \<forall>e\<in>set log. ownWrite L e"
  by (auto simp: extends_pair list_all_iff)

text \<open>The in-memory client answers with the object asked for.\<close>

lemma lookup_isNet: "lookup (isNet ns n) m xs = Inr y \<Longrightarrow> hasKey ns n y"
  by (auto simp: lookup_def find_Some_iff isNet_def hasKey_def split: option.splits)

interpretation mem_identity: identity_client memKube ns n for ns n
proof unfold_locales
  show "hasKey ns n y" if "GetNetwork memKube ns n w = (Inr y, w')" for w y w'
    using that lookup_isNet by (auto simp: memKube_def)
  show "sameKey x y" if "StatusPatchNetwork memKube b x w = (Inr y, w')" for b x w y w'
    using that lookup_isNet
    by (fastforce simp: memKube_def mem_change_def hasKey_def sameKey_def split: sum.splits)
qed

lemma Reconcile_own_writes:
  assumes run: "Reconcile (traced r) ns n (w, []) = (x, (w', log))"
  shows "(\<forall>e\<in>set log. ownWrite (Lib r) e) \<or>
    (\<exists>net y. log = [EGetNetwork ns n (Inr net), EUpdateNetwork y] \<and> addsFinalizer (Lib r) net y)"
proof -
  obtain a w1 where g: "GetNetwork (Client r) ns n w = (a, w1)" by force
  show ?thesis
  proof (cases a)
    case (Inl err)
    with run g show ?thesis by (auto simp: Reconcile_def)
  next
    case (Inr net)
    let ?l = "[EGetNetwork ns n (Inr net)]"
    obtain fs added where f: "AddFinalizer (Lib r) (om_Finalizers (Meta net)) NetworkFinalizer = (fs, added)" by force
    let ?net = "net\<lparr>Meta := (Meta net)\<lparr>om_Finalizers := fs\<rparr>\<rparr>"
    consider (deleting) "om_DeletionTimestamp (Meta net) \<noteq> None" | (new) "om_DeletionTimestamp (Meta net) = None" added
      | (live) "om_DeletionTimestamp (Meta net) = None" "\<not> added" by blast
    then show ?thesis
    proof cases
      case deleting
      with run g Inr have "reconcileDelete (traced r) net (w1, ?l) = (x, (w', log))" by (auto simp: Reconcile_def)
      from extends_ownWrite[OF conjunct1[OF ensuresD[OF own_writes.reconcileDelete_frame[OF TrueI] this]]] show ?thesis by blast
    next
      case new
      with run g Inr f show ?thesis
        by (auto simp: Reconcile_def Let_def addsFinalizer_def split: prod.splits sum.splits)
    next
      case live
      with run g Inr f have "reconcileLive (traced r) ?net (w1, ?l) = (x, (w', log))" by (simp add: Reconcile_def)
      from extends_ownWrite[OF conjunct1[OF ensuresD[OF own_writes_live.reconcileLive_frame[OF TrueI] this]]] show ?thesis by blast
    qed
  qed
qed

text \<open>
  C6: A reconcile of the request \<open>ns/n\<close> writes only what belongs to it. Whatever the environment
  answers, its one update adds the finalizer to the object it read; a patch appends an owner
  reference or removes the finalizer; a status patch leaves metadata and spec alone and keeps the
  ownership token empty or equal to the object's UID; clusters and machine configs are never written
  and no network is created. And if the client answers with the object asked for (a read of \<open>ns/n\<close>
  returns the object of that namespace and name, a status patch returns the object it was sent to),
  then every network that is updated, patched or deleted is the object \<open>ns/n\<close>.
\<close>

theorem Reconcile_writes_own_fields:
  assumes run: "Reconcile (traced r) ns n (w, []) = (x, (w', log))"
  shows "((\<forall>e\<in>set log. ownWrite (Lib r) e) \<or>
      (\<exists>net y. log = [EGetNetwork ns n (Inr net), EUpdateNetwork y] \<and> addsFinalizer (Lib r) net y)) \<and>
    ((\<forall>u y u'. GetNetwork (Client r) ns n u = (Inr y, u') \<longrightarrow> net_namespace y = ns \<and> net_name y = n) \<and>
     (\<forall>b z u y u'. StatusPatchNetwork (Client r) b z u = (Inr y, u') \<longrightarrow>
        net_namespace y = net_namespace z \<and> net_name y = net_name z) \<longrightarrow>
     (\<forall>e\<in>set log. onObject ns n e))"
proof (intro conjI impI)
  assume "(\<forall>u y u'. GetNetwork (Client r) ns n u = (Inr y, u') \<longrightarrow> net_namespace y = ns \<and> net_name y = n) \<and>
    (\<forall>b z u y u'. StatusPatchNetwork (Client r) b z u = (Inr y, u') \<longrightarrow>
       net_namespace y = net_namespace z \<and> net_name y = net_name z)"
  then have "identity_client (Client r) ns n"
    unfolding identity_client_def hasKey_def sameKey_def by blast
  from identity_client.Reconcile_on_object[OF this refl run] show "\<forall>e\<in>set log. onObject ns n e" .
qed (rule Reconcile_own_writes[OF run])

theorem Reconcile_writes_own_fields_witness:
  "\<exists>b y a. EStatusPatch b y a \<in> set (snd (snd deletingRun)) \<and> statusWrite b y \<and>
     hasKey ''fleet'' ''n'' b \<and> hasKey ''fleet'' ''n'' y"
proof -
  have run: "deletingRun = (fst deletingRun, (fst (snd deletingRun), snd (snd deletingRun)))" by simp
  have "list_ex patchesStatus (snd (snd deletingRun))" by code_simp
  then obtain b y a where e: "EStatusPatch b y a \<in> set (snd (snd deletingRun))"
    by (auto simp: list_ex_iff elim!: patchesStatus.elims)
  have k: "Client memReconciler = memKube" by (simp add: memReconciler_def)
  have "(\<forall>u y u'. GetNetwork memKube ''fleet'' ''n'' u = (Inr y, u') \<longrightarrow> net_namespace y = ''fleet'' \<and> net_name y = ''n'')"
    "(\<forall>b z u y u'. StatusPatchNetwork memKube b z u = (Inr y, u') \<longrightarrow>
       net_namespace y = net_namespace z \<and> net_name y = net_name z)"
    using mem_identity.get_answer mem_identity.status_answer by (auto simp: hasKey_def sameKey_def)
  with Reconcile_writes_own_fields[OF run] have "onObject ''fleet'' ''n'' (EStatusPatch b y a)"
    and "ownWrite (Lib memReconciler) (EStatusPatch b y a)"
    unfolding k using e by (blast, fastforce)
  with e show ?thesis unfolding onObject.simps ownWrite.simps by blast
qed

end
