(* ===== verification/Unstr.thy ===== *)
theory Unstr
  imports KubeMem
begin

text \<open>
  The accessors of \<open>k8s.io/apimachinery/pkg/apis/meta/v1/unstructured\<close> the bootstrap controller
  calls: a record of functions, an argument of the definitions that use them. The locale
  \<open>unstructured_lib\<close> states what the library documents of them on the top-level fields of an object,
  and a reference implementation meets it.
\<close>

text \<open>A getter returns the value (the zero value if there is none), whether it was found, and an error.\<close>

type_synonym 'a nested = "'a \<times> bool \<times> error option"

record unstructured =
  NestedString :: "jvalue \<Rightarrow> string list \<Rightarrow> string nested"
  NestedInt64 :: "jvalue \<Rightarrow> string list \<Rightarrow> int nested"
  NestedSlice :: "jvalue \<Rightarrow> string list \<Rightarrow> jvalue list nested"
  NestedMap :: "jvalue \<Rightarrow> string list \<Rightarrow> jvalue nested"
  NestedFieldNoCopy :: "jvalue \<Rightarrow> string list \<Rightarrow> jvalue nested"
  SetNestedField :: "jvalue \<Rightarrow> jvalue \<Rightarrow> string list \<Rightarrow> error + jvalue"

fun topField :: "jvalue \<Rightarrow> string \<Rightarrow> jvalue option" where
  "topField (VMap kvs) f = map_of kvs f"
| "topField _ f = None"

fun isMap :: "jvalue \<Rightarrow> bool" where
  "isMap (VMap _) = True"
| "isMap _ = False"

locale unstructured_lib =
  fixes U :: unstructured
  assumes field_no_copy: "isMap obj \<Longrightarrow> NestedFieldNoCopy U obj [f] =
      (case topField obj f of None \<Rightarrow> (VOther, False, None) | Some v \<Rightarrow> (v, True, None))"
    and nested_string: "isMap obj \<Longrightarrow> fst (NestedString U obj [f]) =
      (case topField obj f of Some (VString s) \<Rightarrow> s | _ \<Rightarrow> '''')"
    and set_field: "isMap obj \<Longrightarrow> \<exists>obj'. SetNestedField U obj v [f] = Inr obj' \<and> isMap obj' \<and>
      (\<forall>g. topField obj' g = (if g = f then Some v else topField obj g))"

section \<open>Reference implementation\<close>

fun refField :: "jvalue \<Rightarrow> string list \<Rightarrow> error + jvalue option" where
  "refField v [] = Inr (Some v)"
| "refField (VMap kvs) (f # fs) = (case map_of kvs f of None \<Rightarrow> Inr None | Some v \<Rightarrow> refField v fs)"
| "refField _ (f # fs) = Inl (Errorf ''%v accessor error: %v is of the type %T, expected map[string]interface{}'' [ArgS f])"

definition refNested :: "'a \<Rightarrow> (jvalue \<Rightarrow> 'a option) \<Rightarrow> jvalue \<Rightarrow> string list \<Rightarrow> 'a nested" where
  "refNested zero get obj path =
     (case refField obj path of
        Inl err \<Rightarrow> (zero, False, Some err)
      | Inr None \<Rightarrow> (zero, False, None)
      | Inr (Some v) \<Rightarrow>
          (case get v of None \<Rightarrow> (zero, False, Some (Errorf ''accessor error: unexpected type'' []))
           | Some x \<Rightarrow> (x, True, None)))"

fun refSet :: "jvalue \<Rightarrow> jvalue \<Rightarrow> string list \<Rightarrow> error + jvalue" where
  "refSet (VMap kvs) v [f] = Inr (VMap (AList.update f v kvs))"
| "refSet (VMap kvs) v (f # g # fs) =
     (case refSet (case map_of kvs f of None \<Rightarrow> VMap [] | Some u \<Rightarrow> u) v (g # fs) of
        Inl err \<Rightarrow> Inl err
      | Inr u \<Rightarrow> Inr (VMap (AList.update f u kvs)))"
| "refSet _ v _ = Inl (Errorf ''value cannot be set'' [])"

definition refUnstructured :: unstructured where
  "refUnstructured =
     \<lparr>NestedString = refNested '''' (\<lambda>v. case v of VString s \<Rightarrow> Some s | _ \<Rightarrow> None),
      NestedInt64 = refNested 0 (\<lambda>v. case v of VInt n \<Rightarrow> Some n | _ \<Rightarrow> None),
      NestedSlice = refNested [] (\<lambda>v. case v of VList vs \<Rightarrow> Some vs | _ \<Rightarrow> None),
      NestedMap = refNested (VMap []) (\<lambda>v. case v of VMap m \<Rightarrow> Some (VMap m) | _ \<Rightarrow> None),
      NestedFieldNoCopy = refNested VOther (\<lambda>v. Some v),
      SetNestedField = refSet\<rparr>"

interpretation ref_unstructured: unstructured_lib refUnstructured
proof (unfold_locales, goal_cases)
  case (1 obj f)
  then show ?case by (cases obj) (auto simp: refUnstructured_def refNested_def split: option.splits)
next
  case (2 obj f)
  then show ?case by (cases obj) (auto simp: refUnstructured_def refNested_def split: option.splits jvalue.splits)
next
  case (3 obj v f)
  then show ?case by (cases obj) (auto simp: refUnstructured_def AList.update_conv')
qed

end
