(* ===== verification/Bootstrap.thy ===== *)
theory Bootstrap
  imports Unstr "HOL-Library.Word"
begin

text \<open>
  The bootstrap controller, \<^verbatim>\<open>src/internal/controller/cluster_network_bootstrap_controller.go\<close>: it
  turns a provisioning cluster whose only machine created its own network into an adopted network
  object, and hands the identifiers of a ready network to the cluster's machine configs.
\<close>

section \<open>The reconciler\<close>

text \<open>
  The struct's client, and beside it the library functions; \<open>MapOrder\<close> is the order in which a
  \<open>range\<close> over a Go map visits its entries, which the language leaves open. \<open>APIReader\<close> and \<open>Scheme\<close>
  are not used.
\<close>

record 'w TCloudClusterNetworkBootstrapReconciler =
  BClient :: "'w Kube"
  BLib :: lib
  BUnstructured :: unstructured
  MapOrder :: "(string \<times> jvalue) list \<Rightarrow> (string \<times> jvalue) list"

definition bootstrapRetryInterval :: duration where
  [go_defs]: "bootstrapRetryInterval = 5 * Second"

definition clusterAPIVersion :: string where
  [go_defs]: "clusterAPIVersion = ''provisioning.cattle.io/v1''"

definition clusterKind :: string where
  [go_defs]: "clusterKind = ''Cluster''"

definition machineConfigKind :: string where
  [go_defs]: "machineConfigKind = ''OpentelekomcloudConfig''"

section \<open>Reading the cluster\<close>

abbreviation nestedString :: "unstructured \<Rightarrow> jvalue \<Rightarrow> string list \<Rightarrow> string" where
  "nestedString U obj path \<equiv> fst (NestedString U obj path)"

abbreviation machinePoolsPath :: "string list" where
  "machinePoolsPath \<equiv> [''spec'', ''rkeConfig'', ''machinePools'']"

text \<open>The loop of \<open>tcloudMachineConfigRefs\<close> over the pools: \<open>seen\<close> and \<open>refs\<close> are its variables.\<close>

fun refsLoop ::
  "unstructured \<Rightarrow> (rune \<Rightarrow> rune \<Rightarrow> bool) \<Rightarrow> string set \<Rightarrow> string list \<Rightarrow> jvalue list \<Rightarrow> error + string list" where
  "refsLoop U orbit seen refs [] = Inr refs"
| "refsLoop U orbit seen refs (pool # pools) =
     (if \<not> isMap pool then refsLoop U orbit seen refs pools
      else case NestedMap U pool [''machineConfigRef''] of
        (_, _, Some err) \<Rightarrow> Inl err
      | (ref, _, None) \<Rightarrow>
          (let kind = nestedString U ref [''kind'']; name = nestedString U ref [''name''] in
           if \<not> EqualFold orbit kind machineConfigKind \<or> name = '''' \<or> name \<in> seen
           then refsLoop U orbit seen refs pools
           else refsLoop U orbit (insert name seen) (refs @ [name]) pools))"

definition tcloudMachineConfigRefs ::
  "unstructured \<Rightarrow> (rune \<Rightarrow> rune \<Rightarrow> bool) \<Rightarrow> Unstructured \<Rightarrow> error + string list" where
  [go_defs]: "tcloudMachineConfigRefs U orbit cluster =
     (case NestedSlice U (u_Object cluster) machinePoolsPath of
        (pools, found, Some err) \<Rightarrow> Inl err
      | (pools, found, None) \<Rightarrow> if \<not> found then Inr [] else refsLoop U orbit {} [] pools)"

text \<open>The sum of \<open>desiredNodeCount\<close> is an \<open>int64\<close>: it wraps around.\<close>

fun countLoop :: "unstructured \<Rightarrow> 64 word \<Rightarrow> jvalue list \<Rightarrow> 64 word" where
  "countLoop U count [] = count"
| "countLoop U count (pool # pools) =
     (if \<not> isMap pool then countLoop U count pools
      else countLoop U (count + word_of_int (fst (NestedInt64 U pool [''quantity'']))) pools)"

definition desiredNodeCount :: "unstructured \<Rightarrow> Unstructured \<Rightarrow> int" where
  [go_defs]: "desiredNodeCount U cluster =
     (case NestedSlice U (u_Object cluster) machinePoolsPath of
        (pools, found, _) \<Rightarrow> if \<not> found then 0 else sint (countLoop U 0 pools))"

fun ownedByClusterLoop :: "OwnerReference list \<Rightarrow> Unstructured \<Rightarrow> bool" where
  "ownedByClusterLoop [] cluster = False"
| "ownedByClusterLoop (owner # owners) cluster =
     (if or_APIVersion owner = clusterAPIVersion \<and> or_Kind owner = clusterKind \<and> or_Name owner = u_name cluster \<and>
         (u_uid cluster = '''' \<or> or_UID owner = u_uid cluster)
      then True else ownedByClusterLoop owners cluster)"

definition ownedByCluster :: "Unstructured \<Rightarrow> Unstructured \<Rightarrow> bool" where
  [go_defs]: "ownedByCluster config cluster = ownedByClusterLoop (om_OwnerReferences (u_Meta config)) cluster"

text \<open>The two loops of \<open>machineConfigNames\<close>.\<close>

fun refNames :: "string set \<Rightarrow> string list \<Rightarrow> string list \<Rightarrow> string set \<times> string list" where
  "refNames seen names [] = (seen, names)"
| "refNames seen names (name # refs) = refNames (insert name seen) (names @ [name]) refs"

fun ownedNames :: "Unstructured \<Rightarrow> string set \<Rightarrow> string list \<Rightarrow> Unstructured list \<Rightarrow> string list" where
  "ownedNames cluster seen names [] = names"
| "ownedNames cluster seen names (config # configs) =
     (if u_name config \<in> seen \<or> \<not> ownedByCluster config cluster
      then ownedNames cluster seen names configs
      else ownedNames cluster (insert (u_name config) seen) (names @ [u_name config]) configs)"

definition machineConfigNames ::
  "'w TCloudClusterNetworkBootstrapReconciler \<Rightarrow> Unstructured \<Rightarrow> string list \<Rightarrow> ('w, error + string list) io" where
  [go_defs]: "machineConfigNames r cluster refs w =
     (case refNames {} [] refs of
        (seen, names) \<Rightarrow>
          (case ListConfigs (BClient r) (u_namespace cluster) w of
             (Inl err, w) \<Rightarrow> (Inl (Wrapf ''list T-Cloud machine configs in %s: %w'' [ArgS (u_namespace cluster)] err), w)
           | (Inr configs, w) \<Rightarrow> (Inr (ownedNames cluster seen names configs), w)))"

section \<open>The adoption network\<close>

definition machineConfig ::
  "'w TCloudClusterNetworkBootstrapReconciler \<Rightarrow> string \<Rightarrow> string \<Rightarrow> ('w, error + Unstructured) io" where
  [go_defs]: "machineConfig r namespace name w =
     (case GetConfig (BClient r) namespace name w of
        (Inl err, w) \<Rightarrow> (Inl (Wrapf ''read T-Cloud machine config %s/%s: %w'' [ArgS namespace, ArgS name] err), w)
      | (Inr config, w) \<Rightarrow> (Inr config, w))"

definition machineScopedWithoutExistingNetwork :: "unstructured \<Rightarrow> Unstructured \<Rightarrow> bool" where
  [go_defs]: "machineScopedWithoutExistingNetwork U config =
     (let scope = nestedString U (u_Object config) [''networkScope''];
          vpcID = nestedString U (u_Object config) [''vpcId''];
          subnetID = nestedString U (u_Object config) [''subnetId''];
          securityGroups = nestedString U (u_Object config) [''secGroups''] in
      (scope = '''' \<or> scope = ''machine'') \<and> vpcID = '''' \<and> subnetID = '''' \<and> securityGroups = '''')"

text \<open>The zero values of the structs that \<open>newAdoptionNetwork\<close> leaves partly unset.\<close>

definition zeroMeta :: "string \<Rightarrow> string \<Rightarrow> ObjectMeta" where
  "zeroMeta name namespace =
     \<lparr>om_Name = name, om_Namespace = namespace, om_UID = '''', om_Generation = 0, om_CreationTimestamp = 0,
      om_DeletionTimestamp = None, om_Finalizers = [], om_OwnerReferences = [], om_Labels = Map.empty,
      om_Annotations = Map.empty\<rparr>"

definition zeroStatus :: TCloudClusterNetworkStatus where
  "zeroStatus =
     \<lparr>st_ObservedGeneration = 0, st_ClusterUID = '''', st_OwnershipToken = '''',
      st_Resources = \<lparr>nrs_VPC = noResource, nrs_Subnet = noResource, nrs_SecurityGroup = noResource\<rparr>,
      st_AppliedSSHAllowedCIDRs = [], st_Conditions = []\<rparr>"

definition newAdoptionNetwork ::
  "unstructured \<Rightarrow> Unstructured \<Rightarrow> Unstructured \<Rightarrow> string \<Rightarrow> error + TCloudClusterNetwork" where
  [go_defs]: "newAdoptionNetwork U cluster config name =
     (let credential = nestedString U (u_Object cluster) [''spec'', ''cloudCredentialSecretName''] in
      case namespacedReference credential of
        Inl err \<Rightarrow> Inl err
      | Inr secretRef \<Rightarrow>
          (let region = nestedString U (u_Object config) [''region''] in
           if region = ''''
           then Inl (Errorf ''T-Cloud machine config %s/%s has no region'' [ArgS (u_namespace config), ArgS (u_name config)])
           else
             (let projectName = nestedString U (u_Object config) [''projectName''];
                  endpointType0 = nestedString U (u_Object config) [''endpointType''];
                  endpointType = (if endpointType0 = '''' then ''public'' else endpointType0);
                  sshCIDRs0 = splitNonEmpty (nestedString U (u_Object config) [''sshAllowCidr'']);
                  sshCIDRs = (if length sshCIDRs0 = 0 then [''0.0.0.0/0''] else sshCIDRs0);
                  cni0 = nestedString U (u_Object cluster) [''spec'', ''rkeConfig'', ''machineGlobalConfig'', ''cni''];
                  cni = (if cni0 = '''' then ''canal'' else cni0) in
              Inr \<lparr>Meta = zeroMeta name (u_namespace cluster),
                   Spec = \<lparr>sp_ClusterRef = \<lparr>nr_Name = u_name cluster, nr_Namespace = u_namespace cluster\<rparr>,
                           sp_CredentialSecretRef = secretRef, sp_ManagementPolicy = ManagementPolicyAdopt,
                           sp_Region = region, sp_ProjectName = projectName, sp_EndpointType = endpointType,
                           sp_Network =
                             \<lparr>ns_VPC = \<lparr>vs_ID = '''', vs_Name = '''', vs_CIDR = ''''\<rparr>,
                              ns_Subnet = \<lparr>ss_ID = '''', ss_Name = '''', ss_CIDR = '''', ss_GatewayIP = '''',
                                           ss_DNSNameservers = [], ss_AvailabilityZone = ''''\<rparr>,
                              ns_SecurityGroup = \<lparr>gs_ID = '''', gs_Name = '''', gs_ManagementPolicy = '''',
                                                  gs_SSHAllowedCIDRs = sshCIDRs, gs_CNI = cni\<rparr>\<rparr>,
                           sp_OrphanCleanupAfter = None\<rparr>,
                   Status = zeroStatus\<rparr>)))"

section \<open>Handing the network to the machine configs\<close>

definition completeNetworkStatus :: "TCloudClusterNetwork \<Rightarrow> error option" where
  [go_defs]: "completeNetworkStatus network =
     (if rs_ID (vpcStatus network) = '''' \<or> rs_ID (subnetStatus network) = '''' \<or> rs_ID (sgStatus network) = '''' \<or>
         rs_Name (sgStatus network) = ''''
      then Some (Errorf ''T-Cloud cluster network %s/%s is Ready without complete resource status''
                   [ArgS (net_namespace network), ArgS (net_name network)])
      else None)"

definition desiredFields :: "TCloudClusterNetwork \<Rightarrow> (string \<times> jvalue) list" where
  [go_defs]: "desiredFields network =
     [(''vpcId'', VString (rs_ID (vpcStatus network))), (''vpcName'', VString (rs_Name (vpcStatus network))),
      (''subnetId'', VString (rs_ID (subnetStatus network))), (''subnetName'', VString (rs_Name (subnetStatus network))),
      (''secGroups'', VString (rs_Name (sgStatus network))), (''networkScope'', VString ''shared''),
      (''skipDefaultSg'', VBool True)]"

text \<open>The loop over the desired fields: the object so far and whether it changed.\<close>

fun applyFields :: "unstructured \<Rightarrow> (string \<times> jvalue) list \<Rightarrow> jvalue \<Rightarrow> bool \<Rightarrow> error + jvalue \<times> bool" where
  "applyFields U [] obj changed = Inr (obj, changed)"
| "applyFields U ((field, v) # rest) obj changed =
     (case NestedFieldNoCopy U obj [field] of
        (current, found, _) \<Rightarrow>
          if \<not> found \<or> current \<noteq> v
          then (case SetNestedField U obj v [field] of
                  Inl err \<Rightarrow> Inl err
                | Inr obj' \<Rightarrow> applyFields U rest obj' True)
          else applyFields U rest obj changed)"

definition patchMachineConfig ::
  "'w TCloudClusterNetworkBootstrapReconciler \<Rightarrow> string \<Rightarrow> string \<Rightarrow> TCloudClusterNetwork \<Rightarrow> ('w, error option) io" where
  [go_defs]: "patchMachineConfig r namespace name network w =
     (case machineConfig r namespace name w of
        (Inl err, w) \<Rightarrow> (Some err, w)
      | (Inr config, w) \<Rightarrow>
          (case applyFields (BUnstructured r) (MapOrder r (desiredFields network)) (u_Object config) False of
             Inl err \<Rightarrow> (Some err, w)
           | Inr (obj, changed) \<Rightarrow>
               if \<not> changed then (None, w)
               else (case PatchConfig (BClient r) config (config\<lparr>u_Object := obj\<rparr>) w of
                       (Inl err, w) \<Rightarrow>
                         (Some (Wrapf ''patch T-Cloud machine config %s/%s: %w'' [ArgS namespace, ArgS name] err), w)
                     | (Inr _, w) \<Rightarrow> (None, w))))"

fun patchMachineConfigs ::
  "'w TCloudClusterNetworkBootstrapReconciler \<Rightarrow> string \<Rightarrow> TCloudClusterNetwork \<Rightarrow> string list \<Rightarrow> ('w, error option) io" where
  "patchMachineConfigs r namespace network [] w = (None, w)"
| "patchMachineConfigs r namespace network (ref # refs) w =
     (case patchMachineConfig r namespace ref network w of
        (Some err, w) \<Rightarrow> (Some err, w)
      | (None, w) \<Rightarrow> patchMachineConfigs r namespace network refs w)"

section \<open>Annotations\<close>

abbreviation annotation :: "Unstructured \<Rightarrow> string \<Rightarrow> string" where
  "annotation u k \<equiv> mget (om_Annotations (u_Meta u)) k"

definition setAnnotations :: "(string \<times> string) list \<Rightarrow> Unstructured \<Rightarrow> Unstructured" where
  [go_defs]: "setAnnotations kvs u =
     u\<lparr>u_Meta := (u_Meta u)\<lparr>om_Annotations := om_Annotations (u_Meta u) ++ map_of (rev kvs)\<rparr>\<rparr>"

definition ensureProviderAnnotation ::
  "'w TCloudClusterNetworkBootstrapReconciler \<Rightarrow> Unstructured \<Rightarrow> ('w, error option \<times> Unstructured) io" where
  [go_defs]: "ensureProviderAnnotation r cluster w =
     (if annotation cluster UIProviderAnnotation = TCloudProviderID then ((None, cluster), w)
      else (let base = cluster; mutated = setAnnotations [(UIProviderAnnotation, TCloudProviderID)] cluster in
            case PatchCluster (BClient r) base mutated w of
              (Inl err, w) \<Rightarrow> ((Some err, mutated), w)
            | (Inr answer, w) \<Rightarrow> ((None, answer), w)))"

definition networkSecurityGroupPolicy :: "ManagementPolicy \<Rightarrow> ManagementPolicy" where
  [go_defs]: "networkSecurityGroupPolicy policy =
     (if policy = ManagementPolicyManaged \<or> policy = ManagementPolicyAdopt then ManagementPolicyManaged
      else ManagementPolicyObserve)"

definition networkAnnotations ::
  "string \<Rightarrow> ManagementPolicy \<Rightarrow> SecurityGroupSpec \<Rightarrow> (string \<times> string) list" where
  [go_defs]: "networkAnnotations name policy securityGroup =
     (let sshAllowedCIDRsValue = Join (gs_SSHAllowedCIDRs securityGroup) '','';
          securityGroupPolicy = (if gs_ManagementPolicy securityGroup = '''' then networkSecurityGroupPolicy policy
                                 else gs_ManagementPolicy securityGroup) in
      [(ClusterAnnotation, name), (NetworkPolicyAnnotation, policy), (UIProviderAnnotation, TCloudProviderID),
       (SSHAllowedCIDRsAnnotation, sshAllowedCIDRsValue), (SecurityGroupPolicyAnnotation, securityGroupPolicy),
       (SecurityGroupNameAnnotation, gs_Name securityGroup)])"

definition patchClusterNetworkAnnotations ::
  "'w TCloudClusterNetworkBootstrapReconciler \<Rightarrow> Unstructured \<Rightarrow> string \<Rightarrow> ManagementPolicy \<Rightarrow>
   SecurityGroupSpec \<Rightarrow> ('w, error option) io" where
  [go_defs]: "patchClusterNetworkAnnotations r cluster name policy securityGroup w =
     (case GetCluster (BClient r) (u_namespace cluster) (u_name cluster) w of
        (Inl err, w) \<Rightarrow> (Some err, w)
      | (Inr current, w) \<Rightarrow>
          (let wanted = networkAnnotations name policy securityGroup in
           if list_all (\<lambda>(k, v). annotation current k = v) wanted then (None, w)
           else case PatchCluster (BClient r) current (setAnnotations wanted current) w of
                  (Inl err, w) \<Rightarrow> (Some err, w)
                | (Inr _, w) \<Rightarrow> (None, w)))"

section \<open>Reconcile\<close>

text \<open>The branch for a network object that does not exist.\<close>

definition bootstrapAdoption ::
  "'w TCloudClusterNetworkBootstrapReconciler \<Rightarrow> Unstructured \<Rightarrow> string list \<Rightarrow> string \<Rightarrow> ('w, ret) io" where
  [go_defs]: "bootstrapAdoption r cluster refs name w =
     (if annotation cluster ClusterAnnotation \<noteq> '''' \<or>
         annotation cluster NetworkPolicyAnnotation = ManagementPolicyManaged \<or>
         annotation cluster NetworkPolicyAnnotation = ManagementPolicyObserve
      then (Ret (requeueAfter bootstrapRetryInterval) None, w)
      else if annotation cluster NetworkPolicyAnnotation \<noteq> ManagementPolicyAdopt \<and>
              desiredNodeCount (BUnstructured r) cluster \<noteq> 1
      then (Ret noResult None, w)
      else case refs of
        [] \<Rightarrow> (GoPanic, w)
      | ref # _ \<Rightarrow>
          (case machineConfig r (u_namespace cluster) ref w of
             (Inl err, w) \<Rightarrow> (Ret noResult (Some err), w)
           | (Inr config, w) \<Rightarrow>
               if \<not> machineScopedWithoutExistingNetwork (BUnstructured r) config then (Ret noResult None, w)
               else (case newAdoptionNetwork (BUnstructured r) cluster config name of
                       Inl err \<Rightarrow> (Ret noResult (Some err), w)
                     | Inr network \<Rightarrow>
                         (case CreateNetwork (BClient r) network w of
                            (Inl err, w) \<Rightarrow>
                              if \<not> apierrors_IsAlreadyExists err then (Ret noResult (Some err), w)
                              else (Ret (requeueAfter bootstrapRetryInterval) None, w)
                          | (Inr network, w) \<Rightarrow>
                              (case patchClusterNetworkAnnotations r cluster name ManagementPolicyAdopt (sgSpec network) w of
                                 (Some err, w) \<Rightarrow> (Ret noResult (Some err), w)
                               | (None, w) \<Rightarrow> (Ret (requeueAfter bootstrapRetryInterval) None, w))))))"

text \<open>The branch for a network object that exists.\<close>

definition bootstrapPropagate ::
  "'w TCloudClusterNetworkBootstrapReconciler \<Rightarrow> Unstructured \<Rightarrow> string list \<Rightarrow> string \<Rightarrow> TCloudClusterNetwork \<Rightarrow>
   ('w, ret) io" where
  [go_defs]: "bootstrapPropagate r cluster refs name network w =
     (if \<not> IsStatusConditionTrue (BLib r) (st_Conditions (Status network)) ConditionReady \<or>
         st_ObservedGeneration (Status network) \<noteq> om_Generation (Meta network)
      then (Ret (requeueAfter bootstrapRetryInterval) None, w)
      else case completeNetworkStatus network of
        Some err \<Rightarrow> (Ret noResult (Some err), w)
      | None \<Rightarrow>
          (case machineConfigNames r cluster refs w of
             (Inl err, w) \<Rightarrow> (Ret noResult (Some err), w)
           | (Inr configNames, w) \<Rightarrow>
               (case patchMachineConfigs r (u_namespace cluster) network configNames w of
                  (Some err, w) \<Rightarrow> (Ret noResult (Some err), w)
                | (None, w) \<Rightarrow>
                    (case patchClusterNetworkAnnotations r cluster name (sp_ManagementPolicy (Spec network)) (sgSpec network) w of
                       (Some err, w) \<Rightarrow> (Ret noResult (Some err), w)
                     | (None, w) \<Rightarrow> (Ret (requeueAfter (10 * Minute)) None, w)))))"

definition bootstrapNetwork ::
  "'w TCloudClusterNetworkBootstrapReconciler \<Rightarrow> Unstructured \<Rightarrow> string list \<Rightarrow> ('w, ret) io" where
  [go_defs]: "bootstrapNetwork r cluster refs w =
     (let name0 = annotation cluster ClusterAnnotation;
          name1 = (if name0 = '''' then networkObjectName (lib_lower (BLib r)) (u_name cluster) else Some name0) in
      case name1 of
        None \<Rightarrow> (GoPanic, w)
      | Some name \<Rightarrow>
          (case GetNetwork (BClient r) (u_namespace cluster) name w of
             (Inl err, w) \<Rightarrow>
               if \<not> apierrors_IsNotFound err then (Ret noResult (Some err), w)
               else bootstrapAdoption r cluster refs name w
           | (Inr network, w) \<Rightarrow> bootstrapPropagate r cluster refs name network w))"

definition Bootstrap_Reconcile ::
  "'w TCloudClusterNetworkBootstrapReconciler \<Rightarrow> string \<Rightarrow> string \<Rightarrow> ('w, ret) io" where
  [go_defs]: "Bootstrap_Reconcile r namespace name w =
     (case GetCluster (BClient r) namespace name w of
        (Inl err, w) \<Rightarrow> (Ret noResult (IgnoreNotFound err), w)
      | (Inr cluster, w) \<Rightarrow>
          if om_DeletionTimestamp (u_Meta cluster) \<noteq> None then (Ret noResult None, w)
          else case tcloudMachineConfigRefs (BUnstructured r) (lib_orbit (BLib r)) cluster of
            Inl err \<Rightarrow> (Ret noResult (Some err), w)
          | Inr refs \<Rightarrow>
              if length refs = 0 then (Ret noResult None, w)
              else (case ensureProviderAnnotation r cluster w of
                      ((Some err, _), w) \<Rightarrow> (Ret noResult (Some err), w)
                    | ((None, cluster), w) \<Rightarrow> bootstrapNetwork r cluster refs w))"

section \<open>Watches\<close>

definition Bootstrap_requestsForMachine :: "Unstructured \<Rightarrow> (string \<times> string) list" where
  [go_defs]: "Bootstrap_requestsForMachine object =
     (let name = mget (om_Labels (u_Meta object)) clusterNameLabel in
      if name = '''' then [] else [(u_namespace object, name)])"

definition requestForNetwork :: "TCloudClusterNetwork \<Rightarrow> (string \<times> string) list" where
  [go_defs]: "requestForNetwork network =
     (if nr_Name (clusterRef network) = '''' then []
      else [(nr_Namespace (clusterRef network), nr_Name (clusterRef network))])"

fun requestForOwners :: "string \<Rightarrow> OwnerReference list \<Rightarrow> (string \<times> string) list" where
  "requestForOwners namespace [] = []"
| "requestForOwners namespace (owner # owners) =
     (if or_APIVersion owner = clusterAPIVersion \<and> or_Kind owner = clusterKind
      then [(namespace, or_Name owner)] else requestForOwners namespace owners)"

definition requestForMachineConfig :: "Unstructured \<Rightarrow> (string \<times> string) list" where
  [go_defs]: "requestForMachineConfig object =
     requestForOwners (u_namespace object) (om_OwnerReferences (u_Meta object))"

end
