(* ===== verification/LogLogic.thy ===== *)
theory LogLogic
  imports Safety
begin

text \<open>
  A logic for the log of a run: \<open>logs f Q\<close> relates the answer of a step to the events it appends.
  Its rules follow the shape of the definitions; the locale \<open>staged\<close> composes steps that either go on
  or return.
\<close>

section \<open>A logic of logs\<close>

text \<open>\<open>logs f Q\<close>: a run of \<open>f\<close> appends events to the log that, with its answer, satisfy \<open>Q\<close>.\<close>

definition logs :: "('w logged, 'a) io \<Rightarrow> ('a \<Rightarrow> event list \<Rightarrow> bool) \<Rightarrow> bool" where
  "logs f Q \<longleftrightarrow> (\<forall>w l. \<exists>a w' new. f (w, l) = (a, (w', l @ new)) \<and> Q a new)"

named_theorems log_rules

lemma logsD:
  assumes "logs f Q" "f (w, l) = (a, (w', l'))" shows "\<exists>new. l' = l @ new \<and> Q a new"
  using assms unfolding logs_def by (metis Pair_inject)

lemma logs_weaken: "logs f Q \<Longrightarrow> (\<And>a new. Q a new \<Longrightarrow> R a new) \<Longrightarrow> logs f R"
  unfolding logs_def by metis

lemma logs_return: "Q a [] \<Longrightarrow> logs (\<lambda>w. (a, w)) Q"
  by (simp add: logs_def)

lemma logs_bind:
  assumes "logs f R" "\<And>a new. R a new \<Longrightarrow> logs (g a) (\<lambda>b new'. Q b (new @ new'))"
  shows "logs (\<lambda>w. case f w of (a, w') \<Rightarrow> g a w') Q"
  unfolding logs_def
proof (intro allI)
  fix w l
  from assms(1) obtain a w1 new where f: "f (w, l) = (a, (w1, l @ new))" "R a new" unfolding logs_def by metis
  from assms(2)[OF f(2)] obtain b w2 new' where "g a (w1, l @ new) = (b, (w2, (l @ new) @ new'))" "Q b (new @ new')"
    unfolding logs_def by metis
  with f show "\<exists>b w' new. (case f (w, l) of (a, w') \<Rightarrow> g a w') = (b, (w', l @ new)) \<and> Q b new" by auto
qed

lemma logs_logging: "(\<And>a. Q a [ev a]) \<Longrightarrow> logs (logging ev f) Q"
  by (auto simp: logs_def split: prod.split)

lemma logs_call [log_rules]:
  assumes "\<And>a. logs (g a) (\<lambda>b new. Q b (ev a # new))"
  shows "logs (\<lambda>w. case logging ev f w of (a, w') \<Rightarrow> g a w') Q"
  by (rule logs_bind[where R = "\<lambda>a new. new = [ev a]"]) (use assms in \<open>auto intro: logs_logging\<close>)

lemma logs_if [log_rules]:
  "(x \<Longrightarrow> logs f Q) \<Longrightarrow> (\<not> x \<Longrightarrow> logs g Q) \<Longrightarrow> logs (\<lambda>w. if x then f w else g w) Q"
  by (cases x) simp_all

lemma logs_case_sum [log_rules]:
  "(\<And>a. x = Inl a \<Longrightarrow> logs (f a) Q) \<Longrightarrow> (\<And>b. x = Inr b \<Longrightarrow> logs (g b) Q) \<Longrightarrow>
   logs (\<lambda>w. case x of Inl a \<Rightarrow> f a w | Inr b \<Rightarrow> g b w) Q"
  by (cases x) simp_all

lemma logs_case_option [log_rules]:
  "(x = None \<Longrightarrow> logs f Q) \<Longrightarrow> (\<And>a. x = Some a \<Longrightarrow> logs (g a) Q) \<Longrightarrow>
   logs (\<lambda>w. case x of None \<Rightarrow> f w | Some a \<Rightarrow> g a w) Q"
  by (cases x) simp_all

lemma logs_case_prod [log_rules]:
  "(\<And>a b. x = (a, b) \<Longrightarrow> logs (f a b) Q) \<Longrightarrow> logs (\<lambda>w. case x of (a, b) \<Rightarrow> f a b w) Q"
  by (cases x) simp

text \<open>The status helpers append one status patch.\<close>

lemma logs_patchStatus:
  "logs (patchStatus (tracedKube k) net mutate)
     (\<lambda>a new. \<exists>ans. new = [EStatusPatch net (mutate net) ans] \<and>
        a = (case ans of Inl err \<Rightarrow> (Some err, mutate net) | Inr n \<Rightarrow> (None, n)))"
  unfolding patchStatus_def[abs_def] Let_def tracedKube_simps
  by (intro log_rules logs_return) auto

lemma logs_patchStatus_call [log_rules]:
  assumes "\<And>err. logs (g (Some err, mutate net)) (\<lambda>b new. Q b (EStatusPatch net (mutate net) (Inl err) # new))"
    and "\<And>n. logs (g (None, n)) (\<lambda>b new. Q b (EStatusPatch net (mutate net) (Inr n) # new))"
  shows "logs (\<lambda>w. case patchStatus (tracedKube k) net mutate w of (a, w') \<Rightarrow> g a w') Q"
proof (rule logs_bind[OF logs_patchStatus])
  fix a new
  assume "\<exists>ans. new = [EStatusPatch net (mutate net) ans] \<and>
      a = (case ans of Inl err \<Rightarrow> (Some err, mutate net) | Inr n \<Rightarrow> (None, n))"
  then obtain ans where "new = [EStatusPatch net (mutate net) ans]"
    "a = (case ans of Inl err \<Rightarrow> (Some err, mutate net) | Inr n \<Rightarrow> (None, n))" by blast
  with assms show "logs (g a) (\<lambda>b new'. Q b (new @ new'))" by (cases ans) simp_all
qed

lemma logs_failRet:
  "logs (failRet L (tracedKube k) net t reason err)
     (\<lambda>a new. \<exists>ans e. new = [EStatusPatch net (failConditions L t reason err net) ans] \<and> a = Ret noResult (Some e))"
  unfolding failRet_def[abs_def]
proof (rule logs_bind)
  show "logs (fail L (tracedKube k) net t reason err)
      (\<lambda>a new. \<exists>ans. new = [EStatusPatch net (failConditions L t reason err net) ans])"
    unfolding fail_def[abs_def] by (intro log_rules logs_return) auto
qed (auto intro: logs_return)

lemma logs_failRet_call [log_rules]:
  assumes "\<And>ans e. logs (g (Ret noResult (Some e)))
      (\<lambda>b new. Q b (EStatusPatch net (failConditions L t reason err net) ans # new))"
  shows "logs (\<lambda>w. case failRet L (tracedKube k) net t reason err w of (a, w') \<Rightarrow> g a w') Q"
  by (rule logs_bind[OF logs_failRet]) (use assms in auto)

section \<open>Staged runs\<close>

text \<open>
  A property of logs that is proved stage by stage: \<open>go\<close> holds of the log of a stage after which the
  reconcile goes on, \<open>stop\<close> of the log of one where it returns.
\<close>

definition stage :: "(event list \<Rightarrow> bool) \<Rightarrow> (ret \<Rightarrow> event list \<Rightarrow> bool) \<Rightarrow> ret + 'a \<Rightarrow> event list \<Rightarrow> bool" where
  "stage go stop x new = (case x of Inl ret \<Rightarrow> stop ret new | Inr _ \<Rightarrow> go new)"

lemma stage_simps [simp]: "stage go stop (Inl ret) new = stop ret new" "stage go stop (Inr v) new = go new"
  by (simp_all add: stage_def)

locale staged =
  fixes go :: "event list \<Rightarrow> bool" and stop :: "ret \<Rightarrow> event list \<Rightarrow> bool"
  assumes go_append: "go a \<Longrightarrow> go b \<Longrightarrow> go (a @ b)"
    and stop_append: "go a \<Longrightarrow> stop x b \<Longrightarrow> stop x (a @ b)"
begin

lemma stage_last:
  assumes "logs f (stage go stop)" "\<And>v. logs (g v) stop"
  shows "logs (\<lambda>w. case f w of (x, w) \<Rightarrow> case x of Inl ret \<Rightarrow> (ret, w) | Inr v \<Rightarrow> g v w) stop"
proof (rule logs_bind[OF assms(1)])
  show "logs (\<lambda>w. case x of Inl ret \<Rightarrow> (ret, w) | Inr v \<Rightarrow> g v w) (\<lambda>b new'. stop b (new @ new'))"
    if st: "stage go stop x new" for x new
  proof (cases x)
    case (Inl ret)
    with st show ?thesis by (simp add: logs_return)
  next
    case (Inr v)
    with st show ?thesis by (auto intro: logs_weaken[OF assms(2)] stop_append)
  qed
qed

lemma stage_then:
  assumes "logs f (stage go stop)" "\<And>v. logs (g v) (stage go stop)"
  shows "logs (\<lambda>w. case f w of (x, w) \<Rightarrow> case x of Inl ret \<Rightarrow> (Inl ret, w) | Inr v \<Rightarrow> g v w) (stage go stop)"
proof (rule logs_bind[OF assms(1)])
  have append: "go new \<Longrightarrow> stage go stop y new' \<Longrightarrow> stage go stop y (new @ new')" for y :: "ret + 'd" and new new'
    by (cases y) (auto intro: go_append stop_append)
  show "logs (\<lambda>w. case x of Inl ret \<Rightarrow> (Inl ret, w) | Inr v \<Rightarrow> g v w) (\<lambda>b new'. stage go stop b (new @ new'))"
    if st: "stage go stop x new" for x new
  proof (cases x)
    case (Inl ret)
    with st show ?thesis by (simp add: logs_return)
  next
    case (Inr v)
    with st show ?thesis by (auto intro: logs_weaken[OF assms(2)] append)
  qed
qed

end

end
