(* ===== verification/Managed.thy ===== *)
theory Managed
  imports LogLogic
begin

text \<open>
  What a managed reconcile does step by step, over the log of its calls: which requests it sends, in
  which order, what it records before it goes on, and what it publishes when a call fails.
\<close>

section \<open>The steps of a managed reconcile\<close>

abbreviation managedEntry :: "Resource \<Rightarrow> ResourceStatus" where
  "managedEntry v \<equiv> \<lparr>rs_ID = res_ID v, rs_Name = res_Name v, rs_ControllerManaged = True\<rparr>"

text \<open>
  The log of a step that asks for a resource: \<open>call\<close> is the event of the request by its answer, \<open>cur\<close>
  the recorded ID and \<open>store\<close> the field assignment.
\<close>

inductive resourceLog ::
  "lib \<Rightarrow> TCloudClusterNetwork \<Rightarrow> (error + Resource \<Rightarrow> event) \<Rightarrow> string \<Rightarrow>
   (ResourceStatus \<Rightarrow> TCloudClusterNetwork \<Rightarrow> TCloudClusterNetwork) \<Rightarrow>
   ret + TCloudClusterNetwork \<times> Resource \<Rightarrow> event list \<Rightarrow> bool"
  for L net call cur store where
  failed: "resourceLog L net call cur store (Inl (Ret noResult (Some e)))
     [call (Inl err), EStatusPatch net (failConditions L ConditionNetwork reason err net) ans]"
| unrecorded: "cur \<noteq> res_ID v \<Longrightarrow> resourceLog L net call cur store (Inl (Ret noResult (Some err)))
     [call (Inr v), EStatusPatch net (store (managedEntry v) net) (Inl err)]"
| recorded: "cur \<noteq> res_ID v \<Longrightarrow> resourceLog L net call cur store (Inr (n, v))
     [call (Inr v), EStatusPatch net (store (managedEntry v) net) (Inr n)]"
| known: "cur = res_ID v \<Longrightarrow> resourceLog L net call cur store (Inr (net, v)) [call (Inr v)]"

inductive_cases resourceLog_Inr: "resourceLog L net call cur store (Inr p) new"

lemma logs_recordResource:
  "logs (recordResource (traced r) net cur store v)
     (\<lambda>x new. resourceLog L net call (rs_ID cur) store x (call (Inr v) # new))"
  unfolding recordResource_def[abs_def] traced_simps
  by (intro log_rules logs_return) (auto intro: resourceLog.intros)

lemmas logs_failRet_stop = logs_failRet_call[where g = "\<lambda>ret w. (Inl ret, w)", OF logs_return]

lemma logs_ensureManagedVPC:
  assumes "length token \<le> 8"
  shows "\<exists>name. nameFor r (firstNonEmpty [vs_Name (vpcSpec net), nr_Name (clusterRef net)]) token = Some name \<and>
    logs (ensureManagedVPC (traced r) (tracedService s) token net)
      (resourceLog (Lib r) net (EEnsureVPC \<lparr>vr_ID = rs_ID (vpcStatus net), vr_Name = name,
         vr_CIDR = vs_CIDR (vpcSpec net)\<rparr>) (rs_ID (vpcStatus net)) setVPC)"
proof -
  from managedName_defined[OF assms] obtain name
    where n: "nameFor r (firstNonEmpty [vs_Name (vpcSpec net), nr_Name (clusterRef net)]) token = Some name" by blast
  show ?thesis unfolding ensureManagedVPC_def[abs_def] traced_simps tracedService_simps n option.case
    by (intro exI conjI refl log_rules logs_failRet_stop logs_return)
      (auto intro: resourceLog.intros intro!: logs_recordResource)
qed

lemma logs_ensureManagedSubnet:
  assumes "length token \<le> 8"
  shows "\<exists>name. nameFor r (firstNonEmpty [ss_Name (subnetSpec net), nr_Name (clusterRef net) @ ''-subnet'']) token = Some name \<and>
    logs (ensureManagedSubnet (traced r) (tracedService s) token vpc net)
      (resourceLog (Lib r) net (EEnsureSubnet
         \<lparr>sr_ID = rs_ID (subnetStatus net), sr_VPCID = res_ID vpc, sr_Name = name,
          sr_CIDR = ss_CIDR (subnetSpec net), sr_GatewayIP = ss_GatewayIP (subnetSpec net),
          sr_DNSNameservers = ss_DNSNameservers (subnetSpec net),
          sr_AvailabilityZone = ss_AvailabilityZone (subnetSpec net)\<rparr>) (rs_ID (subnetStatus net)) setSubnet)"
proof -
  from managedName_defined[OF assms] obtain name
    where n: "nameFor r (firstNonEmpty [ss_Name (subnetSpec net), nr_Name (clusterRef net) @ ''-subnet'']) token = Some name"
    by blast
  show ?thesis unfolding ensureManagedSubnet_def[abs_def] traced_simps tracedService_simps n option.case
    by (intro exI conjI refl log_rules logs_failRet_stop logs_return)
      (auto intro: resourceLog.intros intro!: logs_recordResource)
qed

lemma logs_obtainManagedGroup:
  "logs (obtainManagedGroup (traced r) (tracedService s) name d net)
     (resourceLog (Lib r) net (EEnsureSecurityGroup
        \<lparr>gr_ID = rs_ID (sgStatus net), gr_Name = name, gr_Description = d, gr_Rules = [], gr_RemoveRules = []\<rparr>)
        (rs_ID (sgStatus net)) setSecurityGroup)"
  unfolding obtainManagedGroup_def[abs_def] traced_simps tracedService_simps
  by (intro log_rules logs_failRet_stop logs_return)
    (auto intro: resourceLog.intros intro!: logs_recordResource)

inductive rulesLog ::
  "lib \<Rightarrow> TCloudClusterNetwork \<Rightarrow> SecurityGroupRequest \<Rightarrow> Resource \<Rightarrow>
   ret + TCloudClusterNetwork \<times> Resource \<Rightarrow> event list \<Rightarrow> bool"
  for L net q g where
  rules_failed: "rulesLog L net q g (Inl (Ret noResult (Some e)))
     [EEnsureSecurityGroup q (Inl err), EStatusPatch net (failConditions L ConditionNetwork reason err net) ans]"
| rules_applied: "rulesLog L net q g (Inr (net, g)) [EEnsureSecurityGroup q (Inr v)]"

inductive_cases rulesLog_Inr: "rulesLog L net q g (Inr p) new"

lemma logs_applyRules:
  "logs (applyRules (traced r) (tracedService s) name g net) (rulesLog (Lib r) net (rulesRequest net (res_ID g) name) g)"
  unfolding applyRules_def[abs_def] traced_simps tracedService_simps
  by (intro log_rules logs_failRet_stop logs_return) (auto intro: rulesLog.intros)

lemma logs_publishReady:
  "logs (publishReady (traced r) net mutate)
     (\<lambda>x new. (\<exists>err. x = Ret noResult (Some err) \<and> new = [EStatusPatch net (mutate net) (Inl err)]) \<or>
        (\<exists>n. x = Ret (requeueAfter (10 * Minute)) None \<and> new = [EStatusPatch net (mutate net) (Inr n)]))"
  unfolding publishReady_def[abs_def] traced_simps
  by (intro log_rules logs_return) auto

lemma logs_ensureToken:
  "logs (ensureToken (traced r) net)
     (\<lambda>x new. x = Inr net \<and> new = [] \<or> (\<exists>y n. x = Inr n \<and> new = [EStatusPatch net y (Inr n)]) \<or>
        (\<exists>y err. x = Inl (Ret noResult (Some err)) \<and> new = [EStatusPatch net y (Inl err)]))"
  unfolding ensureToken_def[abs_def] traced_simps
  by (intro log_rules logs_return) auto

text \<open>The stages of a managed reconcile, given what holds of the log of each kind of stage.\<close>

locale managed_stages = staged go stop for go stop +
  fixes L :: lib
  assumes token_kept: "go []"
    and token_stage: "go [EStatusPatch b y (Inr n)]"
    and vpc_stage: "vr_ID q = rs_ID (vpcStatus net) \<Longrightarrow>
      resourceLog L net (EEnsureVPC q) (rs_ID (vpcStatus net)) setVPC x new \<Longrightarrow> stage go stop x new"
    and subnet_stage: "sr_ID sq = rs_ID (subnetStatus net) \<Longrightarrow>
      resourceLog L net (EEnsureSubnet sq) (rs_ID (subnetStatus net)) setSubnet x new \<Longrightarrow> stage go stop x new"
    and group_stage: "gr_ID gq = rs_ID (sgStatus net) \<Longrightarrow>
      resourceLog L net (EEnsureSecurityGroup gq) (rs_ID (sgStatus net)) setSecurityGroup x new \<Longrightarrow> stage go stop x new"
    and rules_stage: "rulesLog L net (rulesRequest net (res_ID g) name) g x new \<Longrightarrow> stage go stop x new"
    and publish_stage: "ret \<noteq> GoPanic \<Longrightarrow> stop ret [EStatusPatch b y ans]"
begin

lemma token_logs: "logs (ensureToken (traced r) net) (stage go stop)"
  by (rule logs_weaken[OF logs_ensureToken]) (auto simp: token_kept token_stage publish_stage)

lemma vpc_logs:
  assumes "Lib r = L"
  shows "logs (ensureManagedVPC (traced r) (tracedService s) (tokenOf t) net) (stage go stop)"
proof -
  obtain name where "logs (ensureManagedVPC (traced r) (tracedService s) (tokenOf t) net)
      (resourceLog (Lib r) net (EEnsureVPC \<lparr>vr_ID = rs_ID (vpcStatus net), vr_Name = name,
         vr_CIDR = vs_CIDR (vpcSpec net)\<rparr>) (rs_ID (vpcStatus net)) setVPC)"
    using logs_ensureManagedVPC[OF length_tokenOf] by blast
  then show ?thesis unfolding assms by (rule logs_weaken) (rule vpc_stage, auto)
qed

lemma subnet_logs:
  assumes "Lib r = L"
  shows "logs (ensureManagedSubnet (traced r) (tracedService s) (tokenOf t) vpc net) (stage go stop)"
proof -
  obtain name where "logs (ensureManagedSubnet (traced r) (tracedService s) (tokenOf t) vpc net)
      (resourceLog (Lib r) net (EEnsureSubnet
         \<lparr>sr_ID = rs_ID (subnetStatus net), sr_VPCID = res_ID vpc, sr_Name = name,
          sr_CIDR = ss_CIDR (subnetSpec net), sr_GatewayIP = ss_GatewayIP (subnetSpec net),
          sr_DNSNameservers = ss_DNSNameservers (subnetSpec net),
          sr_AvailabilityZone = ss_AvailabilityZone (subnetSpec net)\<rparr>) (rs_ID (subnetStatus net)) setSubnet)"
    using logs_ensureManagedSubnet[OF length_tokenOf] by blast
  then show ?thesis unfolding assms by (rule logs_weaken) (rule subnet_stage, auto)
qed

lemma obtain_logs:
  assumes "Lib r = L"
  shows "logs (obtainManagedGroup (traced r) (tracedService s) name d net) (stage go stop)"
  by (rule logs_weaken[OF logs_obtainManagedGroup[of r, unfolded assms]]) (rule group_stage, auto)

lemma rules_logs:
  assumes "Lib r = L"
  shows "logs (applyRules (traced r) (tracedService s) name g net) (stage go stop)"
  by (rule logs_weaken[OF logs_applyRules[of r, unfolded assms]]) (rule rules_stage)

lemma publish_logs: "logs (publishReady (traced r) net mutate) stop"
  by (rule logs_weaken[OF logs_publishReady]) (auto simp: publish_stage)

lemma group_logs:
  assumes "Lib r = L"
  shows "logs (ensureManagedGroup (traced r) (tracedService s) (tokenOf t) net) (stage go stop)"
proof -
  obtain name where n: "nameFor r (groupBase net) (tokenOf t) = Some name"
    using managedName_defined[OF length_tokenOf] by blast
  show ?thesis unfolding ensureManagedGroup_def[abs_def] traced_simps n option.case
    by (intro stage_then obtain_logs logs_case_prod rules_logs assms)
qed

lemma reconcileManaged_logs:
  assumes "Lib r = L"
  shows "logs (reconcileManaged (traced r) net (tracedService s)) stop"
  unfolding reconcileManaged_def[abs_def] shortToken_total option.case traced_simps
  by (intro stage_last token_logs logs_case_prod vpc_logs subnet_logs group_logs publish_logs assms)

end

section \<open>Recording before going on\<close>

definition patchedWith :: "(NetworkResourceStatus \<Rightarrow> ResourceStatus) \<Rightarrow> Resource \<Rightarrow> event list \<Rightarrow> bool" where
  "patchedWith entry v es =
     (case es of EStatusPatch b y ans # rest \<Rightarrow> entry (resources y) = managedEntry v \<and> (isl ans \<longrightarrow> rest = []) | _ \<Rightarrow> False)"

text \<open>
  A call that returned a resource other than the recorded one is followed at once by a status patch
  that records it as controller-managed; if that patch fails, nothing follows. The call that only
  applies rules to a group carries rules, the one that obtains it carries none.
\<close>

definition followUp :: "event \<Rightarrow> event list \<Rightarrow> bool" where
  "followUp e es =
     (case e of
        EEnsureVPC q (Inr v) \<Rightarrow> vr_ID q = res_ID v \<or> patchedWith nrs_VPC v es
      | EEnsureSubnet q (Inr v) \<Rightarrow> sr_ID q = res_ID v \<or> patchedWith nrs_Subnet v es
      | EEnsureSecurityGroup q (Inr v) \<Rightarrow> gr_Rules q \<noteq> [] \<or> gr_ID q = res_ID v \<or> patchedWith nrs_SecurityGroup v es
      | _ \<Rightarrow> True)"

fun tracked :: "event list \<Rightarrow> bool" where
  "tracked [] = True"
| "tracked (e # es) = (followUp e es \<and> tracked es)"

fun okPatch :: "event \<Rightarrow> bool" where
  "okPatch (EStatusPatch _ _ ans) = (\<not> isl ans)"
| "okPatch _ = True"

lemma patchedWith_append: "patchedWith entry v es \<Longrightarrow> list_all okPatch es \<Longrightarrow> patchedWith entry v (es @ b)"
  by (auto simp: patchedWith_def split: list.splits event.splits)

lemma followUp_append:
  assumes "followUp e es" "list_all okPatch es" shows "followUp e (es @ b)"
  using assms patchedWith_append[OF _ assms(2)]
  by (auto simp: followUp_def split: event.splits sum.splits)

lemma tracked_append: "tracked a \<Longrightarrow> list_all okPatch a \<Longrightarrow> tracked b \<Longrightarrow> tracked (a @ b)"
  by (induction a) (auto intro: followUp_append)

lemma RKE2Rules_nonempty: "RKE2Rules g cidrs cni \<noteq> []"
  by (simp add: RKE2Rules_def)

lemmas tracked_simps = followUp_def patchedWith_def

interpretation tracking: managed_stages "\<lambda>new. tracked new \<and> list_all okPatch new" "\<lambda>x new. tracked new" L for L
proof (unfold_locales, goal_cases)
  case (5 q net x new)
  from 5(2,1) show ?case by cases (auto simp: tracked_simps)
next
  case (6 sq net x new)
  from 6(2,1) show ?case by cases (auto simp: tracked_simps)
next
  case (7 gq net x new)
  from 7(2,1) show ?case by cases (auto simp: tracked_simps)
next
  case (8 net g name x new)
  then show ?case by cases (auto simp: tracked_simps rulesRequest_def RKE2Rules_nonempty)
qed (auto simp: tracked_simps tracked_append)

section \<open>Publishing failures\<close>

text \<open>The error a cloud call answered, if it failed.\<close>

fun callError :: "event \<Rightarrow> error option" where
  "callError (EEnsureVPC _ (Inl err)) = Some err"
| "callError (EEnsureSubnet _ (Inl err)) = Some err"
| "callError (EEnsureSecurityGroup _ (Inl err)) = Some err"
| "callError (EGetVPC _ (Inl err)) = Some err"
| "callError (EGetSubnet _ (Inl err)) = Some err"
| "callError (EGetSecurityGroup _ (Inl err)) = Some err"
| "callError (EAttachedPorts _ (Inl err)) = Some err"
| "callError _ = None"

abbreviation okCall :: "event \<Rightarrow> bool" where "okCall e \<equiv> callError e = None"

definition publishes :: "lib \<Rightarrow> ret \<Rightarrow> event list \<Rightarrow> bool" where
  "publishes L x new =
     (list_all okCall new \<or>
      (\<exists>pre call err b t reason ans e.
         new = pre @ [call, EStatusPatch b (failConditions L t reason err b) ans] \<and> list_all okCall pre \<and>
         callError call = Some err \<and> x = Ret noResult (Some e)))"

lemma publishes_ok: "list_all okCall new \<Longrightarrow> publishes L x new"
  by (simp add: publishes_def)

lemma publishes_failed:
  "callError call = Some err \<Longrightarrow>
   publishes L (Ret noResult (Some e)) [call, EStatusPatch b (failConditions L t reason err b) ans]"
  unfolding publishes_def by (intro disjI2 exI[of _ "[]"] exI[of _ call] exI[of _ err]) auto

lemma publishes_append:
  assumes "list_all okCall a" "publishes L x b" shows "publishes L x (a @ b)"
proof (cases "list_all okCall b")
  case True
  with assms(1) show ?thesis by (intro publishes_ok) simp
next
  case False
  with assms(2) obtain pre call err net t reason ans e where
    "b = pre @ [call, EStatusPatch net (failConditions L t reason err net) ans]" "list_all okCall pre"
    "callError call = Some err" "x = Ret noResult (Some e)" unfolding publishes_def by blast
  with assms(1) show ?thesis unfolding publishes_def
    by (intro disjI2 exI[of _ "a @ pre"] exI[of _ call] exI[of _ err] exI[of _ net]) auto
qed

lemma publishes_Cons: "okCall e \<Longrightarrow> publishes L x b \<Longrightarrow> publishes L x (e # b)"
  using publishes_append[of "[e]"] by simp

lemma resourceLog_publishes:
  assumes "resourceLog L net call cur store x new" "\<And>err. callError (call (Inl err)) = Some err" "\<And>v. okCall (call (Inr v))"
  shows "stage (list_all okCall) (publishes L) x new"
  using assms by cases (auto intro: publishes_failed publishes_ok)

interpretation publishing: managed_stages "list_all okCall" "publishes L" L for L
proof (unfold_locales, goal_cases)
  case (8 net g name x new)
  then show ?case by cases (auto intro: publishes_failed publishes_ok)
qed (auto intro: publishes_append publishes_ok resourceLog_publishes)

text \<open>The other policies, whose reads are published the same way.\<close>

lemma logs_extends: "ensures (extends A) f Q \<Longrightarrow> logs f (\<lambda>a new. list_all A new \<and> Q a)"
  unfolding logs_def ensures_def extends_def by (metis prod.collapse snd_conv)

lemma adoptFail_logs:
  "callError call = Some err \<Longrightarrow> logs (adoptFail (traced r) net reason err) (\<lambda>x new. publishes (Lib r) x (call # new))"
  unfolding adoptFail_def[abs_def] traced_simps
  by (rule logs_weaken[OF logs_failRet]) (auto intro: publishes_failed)

lemma adoptFail_quiet_logs: "logs (adoptFail (traced r) net reason err) (publishes L)"
  unfolding adoptFail_def[abs_def] traced_simps
  by (rule logs_weaken[OF logs_failRet]) (auto intro: publishes_ok)

lemma logs_observe:
  "logs (observeVPC (traced r) (tracedService s) net) (stage (list_all okCall) (publishes (Lib r)))"
  "logs (observeSubnet (traced r) (tracedService s) net) (stage (list_all okCall) (publishes (Lib r)))"
  unfolding observeVPC_def[abs_def] observeSubnet_def[abs_def] traced_simps tracedService_simps
  by (intro log_rules logs_failRet_stop logs_return; auto intro: publishes_failed)+

lemma logs_observeGroup:
  "logs (observeGroup (traced r) (tracedService s) net) (stage (list_all okCall) (publishes (Lib r)))"
proof (cases "securityGroupManaged net")
  case True
  show ?thesis unfolding observeGroup_def[abs_def] if_P[OF True] shortToken_total option.case traced_simps
  proof (intro publishing.stage_then publishing.token_logs)
    fix n
    obtain name where n: "nameFor r (groupBase n) (tokenOf (st_OwnershipToken (Status n))) = Some name"
      using managedName_defined[OF length_tokenOf] by blast
    show "logs (\<lambda>w. case nameFor r (groupBase n) (tokenOf (st_OwnershipToken (Status n))) of
          None \<Rightarrow> (Inl GoPanic, w)
        | Some name \<Rightarrow> (case obtainManagedGroup (traced r) (tracedService s) name (managedDescription n) n w of
              (Inl ret, w) \<Rightarrow> (Inl ret, w)
            | (Inr (network, securityGroup), w) \<Rightarrow>
                applyRules (traced r) (tracedService s) (res_Name securityGroup) securityGroup network w))
        (stage (list_all okCall) (publishes (Lib r)))"
      unfolding n option.case
      by (intro publishing.stage_then publishing.obtain_logs logs_case_prod publishing.rules_logs refl)
  qed
next
  case False
  show ?thesis unfolding observeGroup_def[abs_def] if_not_P[OF False] traced_simps tracedService_simps
    by (intro log_rules logs_failRet_stop logs_return) (auto intro: publishes_failed)
qed

lemma logs_reconcileObserve: "logs (reconcileObserve (traced r) net (tracedService s)) (publishes (Lib r))"
  unfolding reconcileObserve_def[abs_def] Let_def traced_simps
  by (intro publishing.stage_last logs_observe logs_observeGroup logs_case_prod publishing.publish_logs)

interpretation ok_calls: reconciler_frame "extends okCall" "traced r" "\<lambda>_. True" "\<lambda>_. True" for r
  by unfold_locales
    (simp_all add: keeps_logging injected_now_traced record_event_traced
      tracedFactory_frame[where S = "\<lambda>_. True", simplified])

lemma logs_discover:
  "logs (discoverAdoptableResources (Codec r) (tracedKube (Client r)) (secretReader (traced r)) net) (\<lambda>a new. list_all okCall new)"
  using logs_extends[OF ok_calls.discover_frame[of "Codec r" r net]] by (simp add: logs_weaken)

lemma logs_patch_ok: "logs (\<lambda>w. case patchStatus (tracedKube k) net f w of ((Some err, _), w) \<Rightarrow> (Ret noResult (Some err), w)
    | ((None, _), w) \<Rightarrow> (Ret requeue None, w)) (publishes L)"
  by (intro log_rules logs_return) (auto intro: publishes_ok)

lemma logs_read_stop:
  assumes "\<And>err. callError (ev (Inl err)) = Some err" "\<And>v. okCall (ev (Inr v))"
    and "\<And>v. logs (g v) (publishes (Lib r))"
  shows "logs (\<lambda>w. case logging ev f w of (Inl err, w) \<Rightarrow> adoptFail (traced r) net reason err w | (Inr v, w) \<Rightarrow> g v w)
    (publishes (Lib r))"
  by (intro log_rules)
    (use assms in \<open>auto intro: adoptFail_logs logs_weaken[OF assms(3)] publishes_Cons\<close>)

lemma logs_adoptResources: "logs (adoptResources (traced r) (tracedService s) net) (publishes (Lib r))"
  unfolding adoptResources_def[abs_def] Let_def traced_simps tracedService_simps
proof (rule logs_bind[OF logs_discover], rule logs_weaken)
  fix a :: "error + NetworkResourceStatus" and new :: "event list"
  assume "list_all okCall new"
  then show "publishes (Lib r) b (new @ new')" if "publishes (Lib r) b new'" for b new'
    using that by (rule publishes_append)
qed (intro log_rules logs_read_stop adoptFail_quiet_logs logs_patch_ok; simp)

lemma logs_reconcileAdopt: "logs (reconcileAdopt (traced r) net (tracedService s)) (publishes (Lib r))"
  unfolding reconcileAdopt_def[abs_def] Let_def tracedService_simps
  by (intro log_rules logs_adoptResources logs_read_stop publishing.publish_logs) simp_all

lemma logs_reconcilePolicy: "logs (reconcilePolicy (traced r) net (tracedService s)) (publishes (Lib r))"
proof -
  have quiet: "logs (failRet L (tracedKube k) net t reason err) (publishes (Lib r))" for L k t reason err
    by (rule logs_weaken[OF logs_failRet]) (auto intro: publishes_ok)
  show ?thesis unfolding reconcilePolicy_def[abs_def] Let_def traced_simps
    by (intro log_rules publishing.reconcileManaged_logs logs_reconcileObserve logs_reconcileAdopt quiet refl)
qed

section \<open>A successful managed reconcile\<close>

text \<open>What holds of the creating calls of a stage that goes on, and of those of a reconcile that succeeds.\<close>

definition onOk :: "('a \<Rightarrow> event list \<Rightarrow> bool) \<Rightarrow> ret + 'a \<Rightarrow> event list \<Rightarrow> bool" where
  "onOk R x new = (case x of Inl ret \<Rightarrow> \<exists>e. ret = Ret noResult (Some e) | Inr v \<Rightarrow> R v (filter cloudEnsure new))"

definition finished :: "(Result \<Rightarrow> event list \<Rightarrow> event \<Rightarrow> bool) \<Rightarrow> ret \<Rightarrow> event list \<Rightarrow> bool" where
  "finished P x new = (\<forall>res. x = Ret res None \<longrightarrow> new \<noteq> [] \<and> P res (filter cloudEnsure new) (last new))"

lemma onOk_simps [simp]: "onOk R (Inl ret) new \<longleftrightarrow> (\<exists>e. ret = Ret noResult (Some e))"
  "onOk R (Inr v) new \<longleftrightarrow> R v (filter cloudEnsure new)"
  by (simp_all add: onOk_def)

lemma onOk_last:
  assumes "logs f (onOk R)" "\<And>v c. R v c \<Longrightarrow> logs (g v) (finished (\<lambda>res c' e. P res (c @ c') e))"
  shows "logs (\<lambda>w. case f w of (x, w) \<Rightarrow> case x of Inl ret \<Rightarrow> (ret, w) | Inr v \<Rightarrow> g v w) (finished P)"
proof (rule logs_bind[OF assms(1)])
  show "logs (\<lambda>w. case x of Inl ret \<Rightarrow> (ret, w) | Inr v \<Rightarrow> g v w) (\<lambda>b new'. finished P b (new @ new'))"
    if ok: "onOk R x new" for x new
  proof (cases x)
    case (Inl ret)
    with ok show ?thesis by (auto intro!: logs_return simp: finished_def)
  next
    case (Inr v)
    with ok have "R v (filter cloudEnsure new)" by simp
    from logs_weaken[OF assms(2)[OF this]] Inr show ?thesis by (auto simp: finished_def)
  qed
qed

lemma onOk_then:
  assumes "logs f (onOk R)" "\<And>v c. R v c \<Longrightarrow> logs (g v) (onOk (\<lambda>u c'. Q u (c @ c')))"
  shows "logs (\<lambda>w. case f w of (x, w) \<Rightarrow> case x of Inl ret \<Rightarrow> (Inl ret, w) | Inr v \<Rightarrow> g v w) (onOk Q)"
proof (rule logs_bind[OF assms(1)])
  show "logs (\<lambda>w. case x of Inl ret \<Rightarrow> (Inl ret, w) | Inr v \<Rightarrow> g v w) (\<lambda>b new'. onOk Q b (new @ new'))"
    if ok: "onOk R x new" for x new
  proof (cases x)
    case (Inl ret)
    with ok show ?thesis by (auto intro!: logs_return)
  next
    case (Inr v)
    with ok have R: "R v (filter cloudEnsure new)" by simp
    have "logs (g v) (\<lambda>b new'. onOk Q b (new @ new'))"
      by (rule logs_weaken[OF assms(2)[OF R]]) (auto simp: onOk_def split: sum.splits)
    with Inr show ?thesis by simp
  qed
qed

lemma resourceLog_onOk:
  assumes "resourceLog L net call cur store x new" "\<And>a. cloudEnsure (call a)"
  shows "onOk (\<lambda>(n, v) c. c = [call (Inr v)]) x new"
  using assms by cases auto

lemma token_onOk: "logs (ensureToken (traced r) net) (onOk (\<lambda>n c. c = []))"
  by (rule logs_weaken[OF logs_ensureToken]) auto

lemma group_onOk:
  "logs (ensureManagedGroup (traced r) (tracedService s) (tokenOf t) net)
     (onOk (\<lambda>(n, g) c. \<exists>gq g'. gr_Rules gq = [] \<and> c = [EEnsureSecurityGroup gq (Inr g),
        EEnsureSecurityGroup (rulesRequest n (res_ID g) (gr_Name gq)) (Inr g')]))"
proof -
  obtain name where n: "nameFor r (groupBase net) (tokenOf t) = Some name"
    using managedName_defined[OF length_tokenOf] by blast
  have obtained: "logs (obtainManagedGroup (traced r) (tracedService s) name d net)
      (onOk (\<lambda>(n, g) c. \<exists>gq. gr_Rules gq = [] \<and> gr_Name gq = name \<and> c = [EEnsureSecurityGroup gq (Inr g)]))" for d
    by (rule logs_weaken[OF logs_obtainManagedGroup], drule resourceLog_onOk)
      (auto simp: onOk_def split: sum.splits prod.splits)
  have applied: "logs (applyRules (traced r) (tracedService s) name g n)
      (onOk (\<lambda>(m, h) c. m = n \<and> h = g \<and> (\<exists>v. c = [EEnsureSecurityGroup (rulesRequest n (res_ID g) name) (Inr v)])))" for g n
    by (rule logs_weaken[OF logs_applyRules]) (auto elim: rulesLog.cases)
  show ?thesis unfolding ensureManagedGroup_def[abs_def] traced_simps n option.case
  proof (rule onOk_then[OF obtained], goal_cases)
    case (1 v c)
    obtain n g where v: "v = (n, g)" by force
    with 1 obtain gq where "gr_Rules gq = []" "gr_Name gq = name" "c = [EEnsureSecurityGroup gq (Inr g)]" by auto
    then show ?case unfolding v prod.case
      by (intro logs_weaken[OF applied]) (auto simp: onOk_def split: sum.splits)
  qed
qed

text \<open>The calls of a successful managed reconcile and the status it publishes last.\<close>

definition managedOutcome :: "lib \<Rightarrow> Result \<Rightarrow> event list \<Rightarrow> event \<Rightarrow> bool" where
  "managedOutcome L res calls published \<longleftrightarrow>
     (\<exists>q vpc sq subnet gq g g' net ans.
        calls = [EEnsureVPC q (Inr vpc), EEnsureSubnet sq (Inr subnet), EEnsureSecurityGroup gq (Inr g),
                 EEnsureSecurityGroup (rulesRequest net (res_ID g) (gr_Name gq)) (Inr g')] \<and>
        sr_VPCID sq = res_ID vpc \<and> gr_Rules gq = [] \<and>
        published = EStatusPatch net (managedReady L net) (Inr ans) \<and> res = requeueAfter (10 * Minute))"

lemma vpc_onOk:
  assumes "length token \<le> 8"
  shows "logs (ensureManagedVPC (traced r) (tracedService s) token n) (onOk (\<lambda>(n, v) c. \<exists>q. c = [EEnsureVPC q (Inr v)]))"
proof -
  obtain name where "logs (ensureManagedVPC (traced r) (tracedService s) token n)
      (resourceLog (Lib r) n (EEnsureVPC \<lparr>vr_ID = rs_ID (vpcStatus n), vr_Name = name,
         vr_CIDR = vs_CIDR (vpcSpec n)\<rparr>) (rs_ID (vpcStatus n)) setVPC)"
    using logs_ensureManagedVPC[OF assms] by blast
  then show ?thesis
    by (rule logs_weaken) (drule resourceLog_onOk, auto simp: onOk_def split: sum.splits prod.splits)
qed

lemma subnet_onOk:
  assumes "length token \<le> 8"
  shows "logs (ensureManagedSubnet (traced r) (tracedService s) token v n)
    (onOk (\<lambda>(n, u) c. \<exists>q. sr_VPCID q = res_ID v \<and> c = [EEnsureSubnet q (Inr u)]))"
proof -
  obtain name where "logs (ensureManagedSubnet (traced r) (tracedService s) token v n)
      (resourceLog (Lib r) n (EEnsureSubnet
         \<lparr>sr_ID = rs_ID (subnetStatus n), sr_VPCID = res_ID v, sr_Name = name,
          sr_CIDR = ss_CIDR (subnetSpec n), sr_GatewayIP = ss_GatewayIP (subnetSpec n),
          sr_DNSNameservers = ss_DNSNameservers (subnetSpec n),
          sr_AvailabilityZone = ss_AvailabilityZone (subnetSpec n)\<rparr>) (rs_ID (subnetStatus n)) setSubnet)"
    using logs_ensureManagedSubnet[OF assms] by blast
  then show ?thesis
    by (rule logs_weaken) (drule resourceLog_onOk, auto simp: onOk_def split: sum.splits prod.splits)
qed

lemma publish_finished:
  "logs (publishReady (traced r) n (managedReady (Lib r))) (finished (\<lambda>res c e. c = [] \<and>
     res = requeueAfter (10 * Minute) \<and> (\<exists>ans. e = EStatusPatch n (managedReady (Lib r) n) (Inr ans))))"
  by (rule logs_weaken[OF logs_publishReady]) (auto simp: finished_def)

lemma reconcileManaged_finished:
  "logs (reconcileManaged (traced r) net (tracedService s)) (finished (managedOutcome (Lib r)))"
  unfolding reconcileManaged_def[abs_def] shortToken_total option.case traced_simps
proof (rule onOk_last[OF token_onOk], goal_cases)
  case (1 n c)
  show ?case
  proof (rule onOk_last[OF vpc_onOk[OF length_tokenOf]], goal_cases)
    case (1 nv c1)
    then obtain n1 v q where nv: "nv = (n1, v)" "c1 = [EEnsureVPC q (Inr v)]" by (cases nv) auto
    show ?case unfolding nv prod.case
    proof (rule onOk_last[OF subnet_onOk[OF length_tokenOf]], goal_cases)
      case (1 nu c2)
      then obtain n2 u sq where nu: "nu = (n2, u)" "sr_VPCID sq = res_ID v" "c2 = [EEnsureSubnet sq (Inr u)]"
        by (cases nu) auto
      show ?case unfolding nu(1,3) prod.case
      proof (rule onOk_last[OF group_onOk], goal_cases)
        case (1 ng c3)
        then obtain n3 g gq g' where ng: "ng = (n3, g)" "gr_Rules gq = []" "c3 = [EEnsureSecurityGroup gq (Inr g),
            EEnsureSecurityGroup (rulesRequest n3 (res_ID g) (gr_Name gq)) (Inr g')]" by (cases ng) auto
        show ?case unfolding ng(1,3) prod.case
          by (rule logs_weaken[OF publish_finished])
            (use \<open>c = []\<close> nu(2) ng(2) in \<open>auto simp: finished_def managedOutcome_def\<close>)
      qed
    qed
  qed
qed

section \<open>Properties\<close>

context status_lib
begin

lemma readyStatus_true:
  "IsStatusConditionTrue L (st_Conditions (Status (readyStatus L reason m1 m2 n))) ConditionReady"
  "IsStatusConditionTrue L (st_Conditions (Status (readyStatus L reason m1 m2 n))) ConditionNetwork"
  by (simp_all add: readyStatus_def condition_true condition_of_withCondition ConditionReady_def ConditionNetwork_def)

end

lemma readyStatus_fields [simp]:
  "st_ObservedGeneration (Status (readyStatus L reason m1 m2 n)) = st_ObservedGeneration (Status n)"
  "st_AppliedSSHAllowedCIDRs (Status (readyStatus L reason m1 m2 n)) = st_AppliedSSHAllowedCIDRs (Status n)"
  "st_OwnershipToken (Status (readyStatus L reason m1 m2 n)) = st_OwnershipToken (Status n)"
  "resources (readyStatus L reason m1 m2 n) = resources n"
  by (simp_all add: readyStatus_def withCondition_def)

text \<open>
  C11: A managed reconcile that succeeds has made four creating calls, in this order: for the VPC, for
  a subnet in that VPC, for the security group without rules, and for the rules of that group. The
  rules are the RKE2 rules of the SSH CIDRs and the CNI of the spec. Its last call publishes, for the
  same spec, the Ready and NetworkReady conditions as true, the generation as observed and exactly
  those CIDRs as applied, and it comes back in ten minutes.
\<close>

theorem managed_success:
  assumes "status_lib (Lib r)"
    and "reconcileManaged (traced r) net (tracedService s) (w, l) = (Ret res None, (w', l'))"
  shows "\<exists>new q vpc sq subnet gq g rq g' b y ans. l' = l @ new \<and>
    filter cloudEnsure new = [EEnsureVPC q (Inr vpc), EEnsureSubnet sq (Inr subnet),
      EEnsureSecurityGroup gq (Inr g), EEnsureSecurityGroup rq (Inr g')] \<and>
    sr_VPCID sq = res_ID vpc \<and> gr_Rules gq = [] \<and> gr_ID rq = res_ID g \<and>
    gr_Rules rq = RKE2Rules (res_ID g) (gs_SSHAllowedCIDRs (sgSpec b)) (gs_CNI (sgSpec b)) \<and>
    last new = EStatusPatch b y (Inr ans) \<and>
    IsStatusConditionTrue (Lib r) (st_Conditions (Status y)) ConditionReady \<and>
    IsStatusConditionTrue (Lib r) (st_Conditions (Status y)) ConditionNetwork \<and>
    st_ObservedGeneration (Status y) = om_Generation (Meta b) \<and>
    st_AppliedSSHAllowedCIDRs (Status y) = gs_SSHAllowedCIDRs (sgSpec b) \<and>
    res = requeueAfter (10 * Minute)"
proof -
  from logsD[OF reconcileManaged_finished assms(2)] obtain new where new: "l' = l @ new"
    and fin: "finished (managedOutcome (Lib r)) (Ret res None) new" by blast
  from fin have "managedOutcome (Lib r) res (filter cloudEnsure new) (last new)" by (simp add: finished_def)
  then obtain q vpc sq subnet gq g g' b ans where
    calls: "filter cloudEnsure new = [EEnsureVPC q (Inr vpc), EEnsureSubnet sq (Inr subnet), EEnsureSecurityGroup gq (Inr g),
       EEnsureSecurityGroup (rulesRequest b (res_ID g) (gr_Name gq)) (Inr g')]"
    and reqs: "sr_VPCID sq = res_ID vpc" "gr_Rules gq = []"
    and last: "last new = EStatusPatch b (managedReady (Lib r) b) (Inr ans)" "res = requeueAfter (10 * Minute)"
    unfolding managedOutcome_def by blast
  have ready: "IsStatusConditionTrue (Lib r) (st_Conditions (Status (managedReady (Lib r) b))) ConditionReady"
    "IsStatusConditionTrue (Lib r) (st_Conditions (Status (managedReady (Lib r) b))) ConditionNetwork"
    unfolding managedReady_def by (rule status_lib.readyStatus_true[OF assms(1)])+
  have fields: "st_ObservedGeneration (Status (managedReady (Lib r) b)) = om_Generation (Meta b)"
    "st_AppliedSSHAllowedCIDRs (Status (managedReady (Lib r) b)) = gs_SSHAllowedCIDRs (sgSpec b)"
    by (simp_all add: managedReady_def recordApplied_def observeGeneration_def)
  have rules: "gr_ID (rulesRequest b (res_ID g) (gr_Name gq)) = res_ID g"
    "gr_Rules (rulesRequest b (res_ID g) (gr_Name gq)) =
       RKE2Rules (res_ID g) (gs_SSHAllowedCIDRs (sgSpec b)) (gs_CNI (sgSpec b))"
    by (simp_all add: rulesRequest_def)
  from new calls reqs rules last(1) ready fields last(2) show ?thesis by blast
qed

definition managedWorld :: mem_world where
  "managedWorld = emptyWorld\<lparr>mw_networks := [sampleNetwork]\<rparr>"

abbreviation managedRun :: "ret \<times> mem_world logged" where
  "managedRun \<equiv> reconcileManaged (traced memReconciler) sampleNetwork (tracedService memService) (managedWorld, [])"

lemma managedRun_succeeds: "fst managedRun = Ret (requeueAfter (10 * Minute)) None"
  by code_simp

lemma memReconciler_lib: "status_lib (Lib memReconciler)"
  using ref.status_lib_axioms by (simp add: memReconciler_def)

theorem managed_success_witness:
  "\<exists>rq g b y ans. EEnsureSecurityGroup rq g \<in> set (snd (snd managedRun)) \<and>
     gr_Rules rq \<noteq> [] \<and> last (snd (snd managedRun)) = EStatusPatch b y (Inr ans) \<and>
     st_AppliedSSHAllowedCIDRs (Status y) = gs_SSHAllowedCIDRs (sgSpec b)"
proof -
  have run: "managedRun = (Ret (requeueAfter (10 * Minute)) None, (fst (snd managedRun), snd (snd managedRun)))"
    using managedRun_succeeds by (metis prod.collapse)
  from managed_success[OF memReconciler_lib run] obtain q vpc sq subnet gq g rq g' b y ans where
    c: "filter cloudEnsure (snd (snd managedRun)) = [EEnsureVPC q (Inr vpc), EEnsureSubnet sq (Inr subnet),
      EEnsureSecurityGroup gq (Inr g), EEnsureSecurityGroup rq (Inr g')]"
    and r: "gr_Rules rq = RKE2Rules (res_ID g) (gs_SSHAllowedCIDRs (sgSpec b)) (gs_CNI (sgSpec b))"
    and l: "last (snd (snd managedRun)) = EStatusPatch b y (Inr ans)"
      "st_AppliedSSHAllowedCIDRs (Status y) = gs_SSHAllowedCIDRs (sgSpec b)" by auto
  from c have "EEnsureSecurityGroup rq (Inr g') \<in> set (filter cloudEnsure (snd (snd managedRun)))" by simp
  then have "EEnsureSecurityGroup rq (Inr g') \<in> set (snd (snd managedRun))" by simp
  with r l RKE2Rules_nonempty show ?thesis by metis
qed

text \<open>
  C10: A managed reconcile never goes on with a resource it has not recorded: whenever a call returns
  a VPC, subnet or security group other than the recorded one, the next call is a status patch that
  records it as controller-managed under its ID and name, and if that patch fails the reconcile makes
  no further call. So a crash or a failure leaves at most one resource unrecorded.
\<close>

theorem created_resources_recorded:
  assumes "reconcileManaged (traced r) net (tracedService s) (w, l) = (x, (w', l'))"
  shows "\<exists>new. l' = l @ new \<and> tracked new"
  using logsD[OF tracking.reconcileManaged_logs[OF refl] assms] .

theorem created_resources_recorded_witness:
  "length (filter cloudEnsure (snd (snd managedRun))) = 4 \<and> tracked (snd (snd managedRun))"
proof -
  have run: "managedRun = (fst managedRun, (fst (snd managedRun), snd (snd managedRun)))" by simp
  from created_resources_recorded[OF run] have "tracked (snd (snd managedRun))" by simp
  moreover have "length (filter cloudEnsure (snd (snd managedRun))) = 4" by code_simp
  ultimately show ?thesis by simp
qed

text \<open>
  C12: Under every policy, a failed cloud call ends the reconcile: nothing follows it but one status
  patch that sets Ready to false with the call's error as its message, and the reconcile returns an
  error, so that it is retried.
\<close>

theorem cloud_failure_published:
  assumes lib: "status_lib (Lib r)"
    and run: "reconcilePolicy (traced r) net (tracedService s) (w, l) = (x, (w', l @ new))"
    and failed: "\<not> list_all okCall new"
  shows "\<exists>pre call err b y ans c e. new = pre @ [call, EStatusPatch b y ans] \<and> list_all okCall pre \<and>
    callError call = Some err \<and> x = Ret noResult (Some e) \<and>
    condition_of (st_Conditions (Status y)) ConditionReady = Some c \<and> cn_Status c = ConditionFalse \<and>
    cn_Message c = ErrorText err"
proof -
  from logsD[OF logs_reconcilePolicy run] failed obtain pre call err b t reason ans e where
    shape: "new = pre @ [call, EStatusPatch b (failConditions (Lib r) t reason err b) ans]"
    "list_all okCall pre" "callError call = Some err" "x = Ret noResult (Some e)"
    unfolding publishes_def by blast
  have "condition_of (st_Conditions (Status (failConditions (Lib r) t reason err b))) ConditionReady =
      Some (mkCondition b ConditionReady ConditionFalse reason (ErrorText err))"
    by (rule status_lib.failConditions_ready[OF lib]) simp
  with shape show ?thesis
    by (intro exI[of _ pre] exI[of _ call] exI[of _ err] exI[of _ b]
        exI[of _ "failConditions (Lib r) t reason err b"] exI[of _ ans]) simp
qed

definition brokenService :: "mem_world Service" where
  "brokenService = memService\<lparr>EnsureSubnet := (\<lambda>q w. (Inl (LibErr ''quota''), w))\<rparr>"

abbreviation brokenRun :: "ret \<times> mem_world logged" where
  "brokenRun \<equiv> reconcilePolicy (traced memReconciler) sampleNetwork (tracedService brokenService) (managedWorld, [])"

theorem cloud_failure_published_witness:
  "\<exists>pre call err b y ans c e. snd (snd brokenRun) = pre @ [call, EStatusPatch b y ans] \<and> list_all okCall pre \<and>
    callError call = Some err \<and> fst brokenRun = Ret noResult (Some e) \<and>
    condition_of (st_Conditions (Status y)) ConditionReady = Some c \<and> cn_Status c = ConditionFalse \<and>
    cn_Message c = ErrorText err"
proof -
  have run: "brokenRun = (fst brokenRun, (fst (snd brokenRun), [] @ snd (snd brokenRun)))" by simp
  have "\<not> list_all okCall (snd (snd brokenRun))" by code_simp
  from cloud_failure_published[OF memReconciler_lib run this] show ?thesis .
qed

end
