(* ===== verification/BootstrapProps.thy ===== *)
theory BootstrapProps
  imports Bootstrap Managed "HOL-Library.Multiset"
begin

text \<open>
  Properties of the bootstrap controller: what it reads from a cluster, when it creates an adoption
  network, and what it hands to the machine configs.
\<close>

section \<open>Machine config references\<close>

text \<open>The name a pool contributes, if any.\<close>

definition poolRef :: "unstructured \<Rightarrow> (rune \<Rightarrow> rune \<Rightarrow> bool) \<Rightarrow> jvalue \<Rightarrow> string option" where
  "poolRef U orbit pool =
     (let ref = fst (NestedMap U pool [''machineConfigRef'']); name = nestedString U ref [''name''] in
      if isMap pool \<and> EqualFold orbit (nestedString U ref [''kind'']) machineConfigKind \<and> name \<noteq> '''' then Some name else None)"

lemma refsLoop_correct:
  assumes "refsLoop U orbit (set refs0) refs0 pools = Inr refs" "distinct refs0"
  shows "distinct refs \<and> set refs = set refs0 \<union> {n. \<exists>pool\<in>set pools. poolRef U orbit pool = Some n}"
  using assms
proof (induction pools arbitrary: refs0)
  case Nil
  then show ?case by simp
next
  case (Cons pool pools)
  obtain ref found err where m: "NestedMap U pool [''machineConfigRef''] = (ref, found, err)" by (metis prod.exhaust)
  let ?name = "nestedString U ref [''name'']"
  show ?case
  proof (cases "isMap pool \<and> EqualFold orbit (nestedString U ref [''kind'']) machineConfigKind \<and> ?name \<noteq> '''' \<and> ?name \<notin> set refs0")
    case True
    then have new: "poolRef U orbit pool = Some ?name" by (simp add: poolRef_def m)
    have s: "insert ?name (set refs0) = set (refs0 @ [?name])" by simp
    from Cons.prems(1) True m have "refsLoop U orbit (set (refs0 @ [?name])) (refs0 @ [?name]) pools = Inr refs"
      unfolding s[symmetric] by (cases err) (simp_all add: Let_def)
    from Cons.IH[OF this] Cons.prems(2) True new show ?thesis by auto
  next
    case False
    then have old: "poolRef U orbit pool = None \<or> poolRef U orbit pool = Some ?name \<and> ?name \<in> set refs0"
      by (auto simp: poolRef_def Let_def m)
    from Cons.prems(1) False m have "refsLoop U orbit (set refs0) refs0 pools = Inr refs"
      by (cases err) (auto simp: Let_def split: if_splits)
    from Cons.IH[OF this Cons.prems(2)] old show ?thesis by auto
  qed
qed

text \<open>
  C30: The machine config references of a cluster are the distinct non-empty names that its pools
  refer to with the T-Cloud machine config kind, compared without regard to case.
\<close>

theorem machineConfigRefs_correct:
  assumes "tcloudMachineConfigRefs U orbit cluster = Inr refs"
    and "NestedSlice U (u_Object cluster) machinePoolsPath = (pools, True, None)"
  shows "distinct refs \<and> '''' \<notin> set refs \<and> set refs = {n. \<exists>pool\<in>set pools. poolRef U orbit pool = Some n}"
proof -
  from assms have "refsLoop U orbit (set []) [] pools = Inr refs" by (simp add: tcloudMachineConfigRefs_def)
  from refsLoop_correct[OF this] show ?thesis by (auto simp: poolRef_def Let_def split: if_splits)
qed

definition samplePool :: "string \<Rightarrow> string \<Rightarrow> int \<Rightarrow> jvalue" where
  "samplePool kind name q = VMap [(''quantity'', VInt q),
     (''machineConfigRef'', VMap [(''kind'', VString kind), (''name'', VString name)])]"

definition sampleCluster :: "jvalue list \<Rightarrow> Unstructured" where
  "sampleCluster pools = \<lparr>u_Meta = zeroMeta ''c'' ''fleet'',
     u_Object = VMap [(''spec'', VMap [(''cloudCredentialSecretName'', VString ''cattle:cc''),
       (''rkeConfig'', VMap [(''machinePools'', VList pools)])])]\<rparr>"

abbreviation samplePools :: "jvalue list" where
  "samplePools \<equiv> [samplePool ''opentelekomcloudconfig'' ''a'' 1, VOther, samplePool ''OpentelekomcloudConfig'' ''a'' 2,
     samplePool ''Amazonec2Config'' ''b'' 1]"

theorem machineConfigRefs_correct_witness:
  "tcloudMachineConfigRefs refUnstructured (\<lambda>_ _. False) (sampleCluster samplePools) = Inr [''a''] \<and>
   {n. \<exists>pool\<in>set samplePools. poolRef refUnstructured (\<lambda>_ _. False) pool = Some n} = {''a''}"
proof -
  have r: "tcloudMachineConfigRefs refUnstructured (\<lambda>_ _. False) (sampleCluster samplePools) = Inr [''a'']" by code_simp
  have p: "NestedSlice refUnstructured (u_Object (sampleCluster samplePools)) machinePoolsPath = (samplePools, True, None)"
    by (simp add: refUnstructured_def refNested_def sampleCluster_def)
  from machineConfigRefs_correct[OF r p] r show ?thesis by simp
qed

section \<open>Owned machine configs\<close>

lemma refNames_eq: "refNames seen names refs = (seen \<union> set refs, names @ refs)"
  by (induction seen names refs rule: refNames.induct) simp_all

lemma ownedNames_correct:
  "distinct names \<Longrightarrow> \<exists>more. ownedNames cluster (set names) names configs = names @ more \<and> distinct (names @ more) \<and>
     set (names @ more) = set names \<union> u_name ` {c \<in> set configs. ownedByCluster c cluster}"
proof (induction configs arbitrary: names)
  case Nil
  then show ?case by simp
next
  case (Cons c configs)
  show ?case
  proof (cases "u_name c \<in> set names \<or> \<not> ownedByCluster c cluster")
    case True
    from Cons.IH[OF Cons.prems] obtain more where "ownedNames cluster (set names) names configs = names @ more"
      "distinct (names @ more)" "set (names @ more) = set names \<union> u_name ` {c \<in> set configs. ownedByCluster c cluster}"
      by blast
    with True show ?thesis by (intro exI[of _ more]) auto
  next
    case False
    let ?names = "names @ [u_name c]"
    from False Cons.prems have "distinct ?names" by simp
    from Cons.IH[OF this] obtain more where more: "ownedNames cluster (set ?names) ?names configs = ?names @ more"
      "distinct (?names @ more)" "set (?names @ more) = set ?names \<union> u_name ` {c \<in> set configs. ownedByCluster c cluster}"
      by blast
    have "ownedNames cluster (set names) names (c # configs) = names @ u_name c # more"
      using more(1) False by simp
    with more(2,3) False show ?thesis by (intro exI[of _ "u_name c # more"]) auto
  qed
qed

text \<open>
  C29: The machine configs that receive a network are the referenced ones, first and in order, and
  then every config of the namespace the cluster owns, each once.
\<close>

theorem machineConfigNames_correct:
  assumes "distinct refs" "ListConfigs (BClient r) (u_namespace cluster) w = (Inr configs, w')"
  shows "\<exists>names. machineConfigNames r cluster refs w = (Inr names, w') \<and> distinct names \<and>
    take (length refs) names = refs \<and>
    set names = set refs \<union> u_name ` {c \<in> set configs. ownedByCluster c cluster}"
proof -
  from ownedNames_correct[OF assms(1), of cluster configs] obtain more where
    "ownedNames cluster (set refs) refs configs = refs @ more" "distinct (refs @ more)"
    "set (refs @ more) = set refs \<union> u_name ` {c \<in> set configs. ownedByCluster c cluster}" by blast
  with assms(2) show ?thesis by (intro exI[of _ "refs @ more"]) (simp add: machineConfigNames_def refNames_eq)
qed

definition sampleBootstrap :: "mem_world TCloudClusterNetworkBootstrapReconciler" where
  "sampleBootstrap = \<lparr>BClient = memKube, BLib = refLib, BUnstructured = refUnstructured, MapOrder = rev\<rparr>"

definition sampleConfig :: "string \<Rightarrow> OwnerReference list \<Rightarrow> (string \<times> jvalue) list \<Rightarrow> Unstructured" where
  "sampleConfig n owners kvs = \<lparr>u_Meta = (zeroMeta n ''fleet'')\<lparr>om_OwnerReferences := owners\<rparr>, u_Object = VMap kvs\<rparr>"

definition clusterRefTo :: OwnerReference where
  "clusterRefTo = \<lparr>or_APIVersion = clusterAPIVersion, or_Kind = clusterKind, or_Name = ''c'', or_UID = ''''\<rparr>"

abbreviation sampleConfigs :: "Unstructured list" where
  "sampleConfigs \<equiv> [sampleConfig ''a'' [] [(''region'', VString ''eu-de'')], sampleConfig ''z'' [clusterRefTo] [],
     sampleConfig ''y'' [] []]"

definition configWorld :: mem_world where
  "configWorld = emptyWorld\<lparr>mw_clusters := [sampleCluster samplePools], mw_configs := sampleConfigs\<rparr>"

theorem machineConfigNames_correct_witness:
  "\<exists>names. machineConfigNames sampleBootstrap (sampleCluster samplePools) [''a''] configWorld = (Inr names, configWorld) \<and>
     distinct names \<and> set names = {''a'', ''z''}"
proof -
  have l: "ListConfigs (BClient sampleBootstrap) (u_namespace (sampleCluster samplePools)) configWorld =
      (Inr sampleConfigs, configWorld)"
    by (simp add: sampleBootstrap_def memKube_def configWorld_def sampleCluster_def sampleConfig_def zeroMeta_def)
  have "map u_name (filter (\<lambda>c. ownedByCluster c (sampleCluster samplePools)) sampleConfigs) = [''z'']" by code_simp
  from arg_cong[OF this, of set] have o: "u_name ` {c \<in> set sampleConfigs. ownedByCluster c (sampleCluster samplePools)} = {''z''}"
    by (simp only: set_map set_filter list.set)
  from machineConfigNames_correct[OF _ l, of "[''a'']"] o show ?thesis by auto
qed

section \<open>Node count\<close>

lemma countLoop_sum:
  "countLoop U c pools = c + word_of_int (\<Sum>pool\<leftarrow>filter isMap pools. fst (NestedInt64 U pool [''quantity'']))"
  by (induction pools arbitrary: c) (simp_all add: algebra_simps)

text \<open>
  C31: The desired node count is the sum of the pools' quantities, wrapped around to 64 bits: exact as
  long as the sum is in the range of \<open>int64\<close>, and always congruent to it.
\<close>

theorem desiredNodeCount_wraps:
  assumes "NestedSlice U (u_Object cluster) machinePoolsPath = (pools, True, err)"
  shows "desiredNodeCount U cluster =
    ((\<Sum>pool\<leftarrow>filter isMap pools. fst (NestedInt64 U pool [''quantity''])) + 2 ^ 63) mod 2 ^ 64 - 2 ^ 63"
  using assms
  by (simp add: desiredNodeCount_def countLoop_sum sint_sbintrunc' signed_take_bit_eq_take_bit_shift take_bit_eq_mod)

theorem desiredNodeCount_wraps_witness:
  "desiredNodeCount refUnstructured (sampleCluster [samplePool ''k'' ''a'' (2 ^ 62), samplePool ''k'' ''b'' (2 ^ 62)])
     = - (2 ^ 63)"
proof -
  let ?ps = "[samplePool ''k'' ''a'' (2 ^ 62), samplePool ''k'' ''b'' (2 ^ 62)]"
  have p: "NestedSlice refUnstructured (u_Object (sampleCluster ?ps)) machinePoolsPath = (?ps, True, None)"
    by (simp add: refUnstructured_def refNested_def sampleCluster_def)
  have q: "fst (NestedInt64 refUnstructured (samplePool k n q) [''quantity'']) = q" for k n q
    by (simp add: refUnstructured_def refNested_def samplePool_def)
  have i: "isMap (samplePool k n q)" for k n q by (simp add: samplePool_def)
  from desiredNodeCount_wraps[OF p] show ?thesis by (simp add: q i)
qed

section \<open>The fields of a machine config\<close>

context unstructured_lib
begin

lemma applyFields_correct:
  assumes "isMap obj" "distinct (map fst fs)"
  shows "\<exists>obj' ch. applyFields U fs obj c = Inr (obj', ch) \<and> isMap obj' \<and>
    (\<forall>g. topField obj' g = (case map_of fs g of Some v \<Rightarrow> Some v | None \<Rightarrow> topField obj g)) \<and>
    (ch \<longleftrightarrow> c \<or> \<not> list_all (\<lambda>(f, v). topField obj f = Some v) fs)"
  using assms
proof (induction fs arbitrary: obj c)
  case Nil
  then show ?case by simp
next
  case (Cons fv fs)
  obtain f v where fv: "fv = (f, v)" by force
  have fresh: "map_of fs f = None" using Cons.prems(2) fv by (simp add: map_of_eq_None_iff)
  show ?case
  proof (cases "topField obj f = Some v")
    case True
    with Cons.prems(1) have step: "applyFields U (fv # fs) obj c = applyFields U fs obj c"
      by (simp add: fv field_no_copy)
    from Cons.IH[of obj c] Cons.prems obtain obj' ch where ih: "applyFields U fs obj c = Inr (obj', ch)" "isMap obj'"
      "\<forall>g. topField obj' g = (case map_of fs g of Some v \<Rightarrow> Some v | None \<Rightarrow> topField obj g)"
      "ch \<longleftrightarrow> c \<or> \<not> list_all (\<lambda>(f, v). topField obj f = Some v) fs" by auto
    have "\<forall>g. topField obj' g = (case map_of (fv # fs) g of Some v \<Rightarrow> Some v | None \<Rightarrow> topField obj g)"
      using ih(3) True fresh by (simp add: fv)
    with step ih(1,2,4) True show ?thesis by (simp add: fv)
  next
    case False
    from set_field[OF Cons.prems(1)] obtain obj1 where s: "SetNestedField U obj v [f] = Inr obj1" "isMap obj1"
      "\<forall>g. topField obj1 g = (if g = f then Some v else topField obj g)" by blast
    have step: "applyFields U (fv # fs) obj c = applyFields U fs obj1 True"
      using False Cons.prems(1) s(1) by (auto simp: fv field_no_copy split: option.splits)
    from Cons.IH[of obj1 True] Cons.prems s(2) obtain obj' ch where ih: "applyFields U fs obj1 True = Inr (obj', ch)"
      "isMap obj'" "\<forall>g. topField obj' g = (case map_of fs g of Some v \<Rightarrow> Some v | None \<Rightarrow> topField obj1 g)" "ch"
      by auto
    have "\<forall>g. topField obj' g = (case map_of (fv # fs) g of Some v \<Rightarrow> Some v | None \<Rightarrow> topField obj g)"
      using ih(3) s(3) fresh by (simp add: fv split: option.split)
    with step ih(1,2,4) False show ?thesis by (intro exI[of _ obj'] exI[of _ ch]) (simp add: fv)
  qed
qed

end

lemma desiredFields_distinct: "distinct (map fst (desiredFields network))"
  by (simp add: desiredFields_def)

text \<open>Whatever order a Go map is visited in, each entry is visited once.\<close>

definition visitsAll :: "((string \<times> jvalue) list \<Rightarrow> (string \<times> jvalue) list) \<Rightarrow> bool" where
  "visitsAll order = (\<forall>kvs. mset (order kvs) = mset kvs)"

lemma visitsAll_facts:
  assumes "visitsAll order" "distinct (map fst kvs)"
  shows "distinct (map fst (order kvs))" "set (order kvs) = set kvs" "map_of (order kvs) = map_of kvs"
proof -
  have m: "mset (order kvs) = mset kvs" using assms(1) by (simp add: visitsAll_def)
  show s: "set (order kvs) = set kvs" using m by (rule mset_eq_setD)
  have "mset (map fst (order kvs)) = mset (map fst kvs)" using m by simp
  then show d: "distinct (map fst (order kvs))" using assms(2) by (metis mset_eq_imp_distinct_iff)
  show "map_of (order kvs) = map_of kvs" using d assms(2) s by (intro map_of_eqI) (auto simp: image_iff)
qed

text \<open>The object a machine config should have: the desired fields, everything else as it is.\<close>

definition hasFields :: "(string \<times> jvalue) list \<Rightarrow> jvalue \<Rightarrow> bool" where
  "hasFields kvs obj = list_all (\<lambda>(f, v). topField obj f = Some v) kvs"

definition overlaid :: "(string \<times> jvalue) list \<Rightarrow> jvalue \<Rightarrow> jvalue \<Rightarrow> bool" where
  "overlaid kvs obj obj' \<longleftrightarrow> isMap obj' \<and>
     (\<forall>g. topField obj' g = (case map_of kvs g of Some v \<Rightarrow> Some v | None \<Rightarrow> topField obj g))"

context unstructured_lib
begin

lemma applyFields_desired:
  assumes "isMap obj" "visitsAll order"
  shows "\<exists>obj'. applyFields U (order (desiredFields network)) obj False = Inr (obj', \<not> hasFields (desiredFields network) obj) \<and>
    overlaid (desiredFields network) obj obj'"
proof -
  note o = visitsAll_facts[OF assms(2) desiredFields_distinct[of network]]
  have "list_all P (order (desiredFields network)) = list_all P (desiredFields network)" for P
    using o(2) by (simp add: list_all_iff)
  with applyFields_correct[OF assms(1) o(1), of False] o(3) show ?thesis
    by (auto simp: overlaid_def hasFields_def)
qed

lemma patchMachineConfig_correct:
  assumes U: "BUnstructured r = U" and order: "visitsAll (MapOrder r)"
    and get: "GetConfig (BClient r) ns n w = (Inr config, w1)" and obj: "isMap (u_Object config)"
  shows "\<exists>obj. overlaid (desiredFields network) (u_Object config) obj \<and>
    patchMachineConfig r ns n network w =
      (if hasFields (desiredFields network) (u_Object config) then (None, w1)
       else case PatchConfig (BClient r) config (config\<lparr>u_Object := obj\<rparr>) w1 of
              (Inl err, w2) \<Rightarrow> (Some (Wrapf ''patch T-Cloud machine config %s/%s: %w'' [ArgS ns, ArgS n] err), w2)
            | (Inr _, w2) \<Rightarrow> (None, w2))"
proof -
  from applyFields_desired[OF obj order, of network] obtain obj' where
    "applyFields (BUnstructured r) (MapOrder r (desiredFields network)) (u_Object config) False =
       Inr (obj', \<not> hasFields (desiredFields network) (u_Object config))"
    "overlaid (desiredFields network) (u_Object config) obj'" unfolding U by blast
  then show ?thesis
    by (intro exI[of _ obj']) (simp add: patchMachineConfig_def machineConfig_def get)
qed

end

text \<open>
  C18: A machine config receives exactly the network's identifiers: if it already has them, nothing is
  written; otherwise one patch is sent whose object has the seven desired fields and every other
  field as before, whatever order the fields are visited in.
\<close>

theorem machineConfig_receives_network:
  assumes "unstructured_lib (BUnstructured r)" "visitsAll (MapOrder r)"
    and "GetConfig (BClient r) ns n w = (Inr config, w1)" "isMap (u_Object config)"
  shows "\<exists>obj. isMap obj \<and>
    (\<forall>f. topField obj f = (case map_of (desiredFields network) f of Some v \<Rightarrow> Some v | None \<Rightarrow> topField (u_Object config) f)) \<and>
    patchMachineConfig r ns n network w =
      (if hasFields (desiredFields network) (u_Object config) then (None, w1)
       else case PatchConfig (BClient r) config (config\<lparr>u_Object := obj\<rparr>) w1 of
              (Inl err, w2) \<Rightarrow> (Some (Wrapf ''patch T-Cloud machine config %s/%s: %w'' [ArgS ns, ArgS n] err), w2)
            | (Inr _, w2) \<Rightarrow> (None, w2))"
  using unstructured_lib.patchMachineConfig_correct[OF assms(1) refl assms(2,3,4), of network]
  unfolding overlaid_def by blast

theorem machineConfig_receives_network_witness:
  "\<exists>obj. topField obj ''vpcId'' = Some (VString ''v1'') \<and> topField obj ''region'' = Some (VString ''eu-de'') \<and>
     patchMachineConfig sampleBootstrap ''fleet'' ''a'' deletingNetwork configWorld =
       (None, configWorld\<lparr>mw_configs := replaceBy (isObj ''fleet'' ''a'')
          ((sampleConfig ''a'' [] [(''region'', VString ''eu-de'')])\<lparr>u_Object := obj\<rparr>) (mw_configs configWorld)\<rparr>)"
proof -
  let ?config = "sampleConfig ''a'' [] [(''region'', VString ''eu-de'')]"
  have lib: "unstructured_lib (BUnstructured sampleBootstrap)" "visitsAll (MapOrder sampleBootstrap)"
    using ref_unstructured.unstructured_lib_axioms by (simp_all add: sampleBootstrap_def visitsAll_def)
  have get: "GetConfig (BClient sampleBootstrap) ''fleet'' ''a'' configWorld = (Inr ?config, configWorld)"
    by (simp add: sampleBootstrap_def memKube_def lookup_def configWorld_def isObj_def sampleConfig_def zeroMeta_def)
  have obj: "isMap (u_Object ?config)" by (simp add: sampleConfig_def)
  have no: "\<not> hasFields (desiredFields deletingNetwork) (u_Object ?config)" by code_simp
  have v: "map_of (desiredFields deletingNetwork) ''vpcId'' = Some (VString ''v1'')"
    "map_of (desiredFields deletingNetwork) ''region'' = None" by code_simp+
  from machineConfig_receives_network[OF lib get obj, of deletingNetwork] obtain obj where
    t: "\<forall>f. topField obj f = (case map_of (desiredFields deletingNetwork) f of Some v \<Rightarrow> Some v
          | None \<Rightarrow> topField (u_Object ?config) f)"
    and p: "patchMachineConfig sampleBootstrap ''fleet'' ''a'' deletingNetwork configWorld =
      (if hasFields (desiredFields deletingNetwork) (u_Object ?config) then (None, configWorld)
       else case PatchConfig (BClient sampleBootstrap) ?config (?config\<lparr>u_Object := obj\<rparr>) configWorld of
         (Inl err, w2) \<Rightarrow> (Some (Wrapf ''patch T-Cloud machine config %s/%s: %w'' [ArgS ''fleet'', ArgS ''a''] err), w2)
       | (Inr _, w2) \<Rightarrow> (None, w2))" by blast
  have "patchMachineConfig sampleBootstrap ''fleet'' ''a'' deletingNetwork configWorld =
       (None, configWorld\<lparr>mw_configs := replaceBy (isObj ''fleet'' ''a'') (?config\<lparr>u_Object := obj\<rparr>) (mw_configs configWorld)\<rparr>)"
    unfolding p if_not_P[OF no] by (simp add: sampleBootstrap_def memKube_def sampleConfig_def zeroMeta_def)
  moreover have "topField obj ''vpcId'' = Some (VString ''v1'')" "topField obj ''region'' = Some (VString ''eu-de'')"
    using t v by (simp_all add: sampleConfig_def)
  ultimately show ?thesis by blast
qed

section \<open>Traces of a bootstrap\<close>

definition tracedBootstrap ::
  "'w TCloudClusterNetworkBootstrapReconciler \<Rightarrow> 'w logged TCloudClusterNetworkBootstrapReconciler" where
  "tracedBootstrap r = \<lparr>BClient = tracedKube (BClient r), BLib = BLib r, BUnstructured = BUnstructured r,
     MapOrder = MapOrder r\<rparr>"

lemma tracedBootstrap_simps [simp]:
  "BClient (tracedBootstrap r) = tracedKube (BClient r)" "BLib (tracedBootstrap r) = BLib r"
  "BUnstructured (tracedBootstrap r) = BUnstructured r" "MapOrder (tracedBootstrap r) = MapOrder r"
  by (simp_all add: tracedBootstrap_def)

fun configPatch :: "event \<Rightarrow> bool" where
  "configPatch (EPatchConfig _ _) = True"
| "configPatch _ = False"

fun networkCreate :: "event \<Rightarrow> bool" where
  "networkCreate (ECreateNetwork _) = True"
| "networkCreate _ = False"

text \<open>The calls that change neither a machine config nor create a network object.\<close>

abbreviation plain :: "event \<Rightarrow> bool" where
  "plain e \<equiv> \<not> configPatch e \<and> \<not> networkCreate e"

lemma logs_annotations:
  "logs (patchClusterNetworkAnnotations (tracedBootstrap r) cluster name policy g) (\<lambda>x new. list_all plain new)"
  unfolding patchClusterNetworkAnnotations_def[abs_def] Let_def tracedBootstrap_simps tracedKube_simps
  by (intro log_rules logs_return) auto

lemma logs_ensureProvider:
  "logs (ensureProviderAnnotation (tracedBootstrap r) cluster)
     (\<lambda>x new. list_all plain new \<and> (fst x = None \<longrightarrow> snd x = cluster \<or> (\<exists>b m. EPatchCluster b m (Inr (snd x)) \<in> set new)))"
  unfolding ensureProviderAnnotation_def[abs_def] Let_def tracedBootstrap_simps tracedKube_simps
  by (intro log_rules logs_return) auto

lemma logs_machineConfigNames:
  "logs (machineConfigNames (tracedBootstrap r) cluster refs) (\<lambda>x new. list_all plain new)"
  unfolding machineConfigNames_def[abs_def] tracedBootstrap_simps tracedKube_simps
  by (intro log_rules logs_return) auto

lemma logs_machineConfig:
  "logs (machineConfig (tracedBootstrap r) ns n)
     (\<lambda>x new. list_all plain new \<and> (\<forall>config. x = Inr config \<longrightarrow> EGetConfig ns n (Inr config) \<in> set new))"
  unfolding machineConfig_def[abs_def] tracedBootstrap_simps tracedKube_simps
  by (intro log_rules logs_return) auto

lemma logs_patchMachineConfigs:
  "logs (patchMachineConfigs (tracedBootstrap r) ns network refs) (\<lambda>x new. list_all (\<lambda>e. \<not> networkCreate e) new)"
proof (induction refs)
  case Nil
  show ?case unfolding patchMachineConfigs.simps(1)[abs_def] by (intro logs_return) simp
next
  case (Cons ref refs)
  have one: "logs (patchMachineConfig (tracedBootstrap r) ns ref network) (\<lambda>x new. list_all (\<lambda>e. \<not> networkCreate e) new)"
    unfolding patchMachineConfig_def[abs_def] machineConfig_def[abs_def] tracedBootstrap_simps tracedKube_simps
    by (rule logs_bind[where R = "\<lambda>x new. list_all (\<lambda>e. \<not> networkCreate e) new"]; intro log_rules logs_return; simp)
  show ?case unfolding patchMachineConfigs.simps(2)[abs_def]
    by (rule logs_bind[OF one], intro log_rules logs_return) (auto intro: logs_weaken[OF Cons.IH])
qed

text \<open>A network whose identifiers may be handed on.\<close>

definition settled :: "lib \<Rightarrow> TCloudClusterNetwork \<Rightarrow> bool" where
  "settled L net = (IsStatusConditionTrue L (st_Conditions (Status net)) ConditionReady \<and>
     st_ObservedGeneration (Status net) = om_Generation (Meta net) \<and> completeNetworkStatus net = None)"

lemma logs_propagate:
  "logs (bootstrapPropagate (tracedBootstrap r) cluster refs name net)
     (\<lambda>x new. x \<noteq> GoPanic \<and> list_all (\<lambda>e. \<not> networkCreate e) new \<and> (settled (BLib r) net \<or> new = []))"
proof (cases "settled (BLib r) net")
  case True
  have no: "list_all plain new \<Longrightarrow> list_all (\<lambda>e. \<not> networkCreate e) new" for new by (simp add: list_all_iff)
  have "logs (bootstrapPropagate (tracedBootstrap r) cluster refs name net)
     (\<lambda>x new. x \<noteq> GoPanic \<and> list_all (\<lambda>e. \<not> networkCreate e) new)"
    unfolding bootstrapPropagate_def[abs_def] tracedBootstrap_simps
    by (intro log_rules logs_return logs_bind[OF logs_machineConfigNames] logs_bind[OF logs_patchMachineConfigs]
        logs_bind[OF logs_annotations]) (auto simp: no)
  with True show ?thesis by (auto intro: logs_weaken)
next
  case False
  then show ?thesis unfolding bootstrapPropagate_def[abs_def] tracedBootstrap_simps
    by (intro log_rules logs_return) (auto simp: settled_def)
qed

text \<open>What justifies the creation of an adoption network for a cluster.\<close>

definition adoptionReason ::
  "unstructured \<Rightarrow> Unstructured \<Rightarrow> string \<Rightarrow> TCloudClusterNetwork \<Rightarrow> event list \<Rightarrow> bool" where
  "adoptionReason U cluster name net log \<longleftrightarrow>
     annotation cluster ClusterAnnotation = '''' \<and>
     annotation cluster NetworkPolicyAnnotation \<notin> {ManagementPolicyManaged, ManagementPolicyObserve} \<and>
     (annotation cluster NetworkPolicyAnnotation = ManagementPolicyAdopt \<or> desiredNodeCount U cluster = 1) \<and>
     (\<exists>ref config. EGetConfig (u_namespace cluster) ref (Inr config) \<in> set log \<and>
        machineScopedWithoutExistingNetwork U config \<and> newAdoptionNetwork U cluster config name = Inr net)"

lemma adoptionReason_mono: "adoptionReason U cluster name net log \<Longrightarrow> set log \<subseteq> set log' \<Longrightarrow> adoptionReason U cluster name net log'"
  unfolding adoptionReason_def by blast

lemma adoptionReason_Cons: "adoptionReason U cluster name net log \<Longrightarrow> adoptionReason U cluster name net (e # log)"
  by (erule adoptionReason_mono) auto

lemma logs_adoption:
  assumes "refs \<noteq> []"
  shows "logs (bootstrapAdoption (tracedBootstrap r) cluster refs name)
    (\<lambda>x new. x \<noteq> GoPanic \<and> list_all (\<lambda>e. \<not> configPatch e) new \<and>
       (\<forall>net. ECreateNetwork net \<in> set new \<longrightarrow> adoptionReason (BUnstructured r) cluster name net new))"
proof -
  from assms obtain ref rest where refs: "refs = ref # rest" by (cases refs) auto
  have plain: "list_all plain new \<Longrightarrow> ECreateNetwork net \<notin> set new" "list_all plain new \<Longrightarrow> list_all (\<lambda>e. \<not> configPatch e) new"
    for net new by (auto simp: list_all_iff)
  show ?thesis unfolding bootstrapAdoption_def[abs_def] tracedBootstrap_simps tracedKube_simps refs list.case
    by (intro log_rules logs_return logs_bind[OF logs_machineConfig] logs_bind[OF logs_annotations])
      (auto simp: plain adoptionReason_def)
qed

text \<open>The clusters a log shows: those read, and those a patch returned.\<close>

definition seenCluster :: "event list \<Rightarrow> Unstructured \<Rightarrow> bool" where
  "seenCluster log c \<longleftrightarrow> (\<exists>ns n. EGetCluster ns n (Inr c) \<in> set log) \<or> (\<exists>b m. EPatchCluster b m (Inr c) \<in> set log)"

definition bootstrapName :: "lib \<Rightarrow> Unstructured \<Rightarrow> string" where
  "bootstrapName L cluster = (if annotation cluster ClusterAnnotation = '''' then objectName (lib_lower L) (u_name cluster)
     else annotation cluster ClusterAnnotation)"

lemma bootstrapName_total:
  "(if annotation cluster ClusterAnnotation = '''' then networkObjectName (lib_lower L) (u_name cluster)
    else Some (annotation cluster ClusterAnnotation)) = Some (bootstrapName L cluster)"
  by (simp add: bootstrapName_def)

definition bootstrapSafe :: "lib \<Rightarrow> unstructured \<Rightarrow> Unstructured \<Rightarrow> event list \<Rightarrow> bool" where
  "bootstrapSafe L U cluster new \<longleftrightarrow>
     (list_ex configPatch new \<longrightarrow>
        (\<exists>net. EGetNetwork (u_namespace cluster) (bootstrapName L cluster) (Inr net) \<in> set new \<and> settled L net)) \<and>
     (\<forall>net. ECreateNetwork net \<in> set new \<longrightarrow>
        (\<exists>err. EGetNetwork (u_namespace cluster) (bootstrapName L cluster) (Inl err) \<in> set new \<and> apierrors_IsNotFound err) \<and>
        adoptionReason U cluster (bootstrapName L cluster) net new)"

lemma logs_bootstrapNetwork:
  assumes "refs \<noteq> []"
  shows "logs (bootstrapNetwork (tracedBootstrap r) cluster refs)
    (\<lambda>x new. x \<noteq> GoPanic \<and> bootstrapSafe (BLib r) (BUnstructured r) cluster new)"
proof -
  let ?name = "bootstrapName (BLib r) cluster"
  have found: "bootstrapSafe (BLib r) (BUnstructured r) cluster (EGetNetwork (u_namespace cluster) ?name (Inr net) # new)"
    if "list_all (\<lambda>e. \<not> networkCreate e) new" "settled (BLib r) net \<or> new = []" for net new
    using that by (auto simp: bootstrapSafe_def list_all_iff list_ex_iff)
  have missing: "bootstrapSafe (BLib r) (BUnstructured r) cluster (EGetNetwork (u_namespace cluster) ?name (Inl err) # new)"
    if "apierrors_IsNotFound err" "list_all (\<lambda>e. \<not> configPatch e) new"
      "\<forall>net. ECreateNetwork net \<in> set new \<longrightarrow> adoptionReason (BUnstructured r) cluster ?name net new" for err new
    using that by (auto simp: bootstrapSafe_def list_all_iff list_ex_iff adoptionReason_Cons)
  show ?thesis
    unfolding bootstrapNetwork_def[abs_def] Let_def tracedBootstrap_simps tracedKube_simps bootstrapName_total option.case
    by (intro log_rules logs_return logs_weaken[OF logs_adoption[OF assms]] logs_weaken[OF logs_propagate])
      (auto simp: found missing, auto simp: bootstrapSafe_def)
qed

lemma bootstrapSafe_append:
  "list_all plain a \<Longrightarrow> bootstrapSafe L U cluster b \<Longrightarrow> bootstrapSafe L U cluster (a @ b)"
  using adoptionReason_mono[of U cluster "bootstrapName L cluster" _ b "a @ b"]
  by (fastforce simp: bootstrapSafe_def list_all_iff list_ex_iff)

lemma bootstrapSafe_plain: "list_all plain new \<Longrightarrow> bootstrapSafe L U cluster new"
  by (auto simp: bootstrapSafe_def list_all_iff list_ex_iff)

lemma logs_Bootstrap:
  "logs (Bootstrap_Reconcile (tracedBootstrap r) ns n)
     (\<lambda>x new. x \<noteq> GoPanic \<and> (list_all plain new \<or> (\<exists>c. seenCluster new c \<and> bootstrapSafe (BLib r) (BUnstructured r) c new)))"
  unfolding Bootstrap_Reconcile_def[abs_def] tracedBootstrap_simps tracedKube_simps
proof (intro log_rules logs_return, goal_cases)
  case (5 a c refs)
  show ?case
  proof (rule logs_bind[OF logs_ensureProvider], goal_cases)
    case (1 x new)
    have step: "list_all plain (EGetCluster ns n a # new)" using 1 by simp
    show ?case
    proof (intro log_rules logs_return, goal_cases)
      case (1 e cluster)
      have seen: "seenCluster (EGetCluster ns n a # new @ rest) cluster" for rest
        using \<open>a = Inr c\<close> 1 \<open>list_all plain new \<and> _\<close> by (auto simp: seenCluster_def)
      have "refs \<noteq> []" using 5 by simp
      from logs_bootstrapNetwork[OF this, of r cluster] show ?case
        by (rule logs_weaken) (use seen bootstrapSafe_append[OF step] in fastforce)
    qed (use step in auto)
  qed
qed auto

section \<open>Safety of a bootstrap\<close>

text \<open>
  C16: Machine configs are only changed for a settled network: a bootstrap patches a machine config
  only after it has read the network object the cluster names, in the cluster's namespace, and that
  object was Ready for its current generation with complete identifiers.
\<close>

theorem bootstrap_patches_only_settled:
  assumes run: "Bootstrap_Reconcile (tracedBootstrap r) ns n (w, []) = (x, (w', log))" and patch: "list_ex configPatch log"
  shows "\<exists>c net. seenCluster log c \<and> EGetNetwork (u_namespace c) (bootstrapName (BLib r) c) (Inr net) \<in> set log \<and>
    settled (BLib r) net"
proof -
  from logsD[OF logs_Bootstrap run] patch obtain c where "seenCluster log c"
    "bootstrapSafe (BLib r) (BUnstructured r) c log" by (auto simp: list_all_iff list_ex_iff)
  with patch show ?thesis unfolding bootstrapSafe_def by blast
qed

definition readyNetwork :: TCloudClusterNetwork where
  "readyNetwork = deletingNetwork\<lparr>Meta := (Meta sampleNetwork)\<lparr>om_Name := ''c-network''\<rparr>,
     Status := managedStatus\<lparr>st_ObservedGeneration := 1,
       st_Conditions := [\<lparr>cn_Type = ConditionReady, cn_Status = ConditionTrue, cn_Reason = ''Reconciled'',
         cn_Message = Text '''', cn_ObservedGeneration = 1\<rparr>]\<rparr>\<rparr>"

definition readyWorld :: mem_world where
  "readyWorld = configWorld\<lparr>mw_networks := [readyNetwork]\<rparr>"

abbreviation readyRun :: "ret \<times> mem_world logged" where
  "readyRun \<equiv> Bootstrap_Reconcile (tracedBootstrap sampleBootstrap) ''fleet'' ''c'' (readyWorld, [])"

theorem bootstrap_patches_only_settled_witness:
  "length (filter configPatch (snd (snd readyRun))) = 2 \<and>
   (\<exists>c net. seenCluster (snd (snd readyRun)) c \<and>
      EGetNetwork (u_namespace c) (bootstrapName refLib c) (Inr net) \<in> set (snd (snd readyRun)) \<and> settled refLib net)"
proof -
  have run: "readyRun = (fst readyRun, (fst (snd readyRun), snd (snd readyRun)))" by simp
  have n: "length (filter configPatch (snd (snd readyRun))) = 2" by code_simp
  have "list_ex configPatch (snd (snd readyRun))" by code_simp
  from bootstrap_patches_only_settled[OF run this] n show ?thesis by (simp add: sampleBootstrap_def)
qed

lemma newAdoptionNetwork_fields:
  assumes "newAdoptionNetwork U cluster config name = Inr net"
  shows "sp_ManagementPolicy (Spec net) = ManagementPolicyAdopt \<and> nr_Name (clusterRef net) = u_name cluster \<and>
    nr_Namespace (clusterRef net) = u_namespace cluster \<and> net_name net = name \<and> net_namespace net = u_namespace cluster \<and>
    sp_Region (Spec net) \<noteq> '''' \<and> gs_SSHAllowedCIDRs (sgSpec net) \<noteq> [] \<and> '''' \<notin> set (gs_SSHAllowedCIDRs (sgSpec net))"
  using assms by (auto simp: newAdoptionNetwork_def Let_def zeroMeta_def splitNonEmpty_def split: sum.splits if_splits)

text \<open>
  C17: A network object is only created to adopt: the cluster names no network and asks for neither a
  managed nor an observed one, it asks for adoption or wants exactly one node, the object of its name
  was read as missing, and the machine config read is machine-scoped with no network of its own. The
  new object has the Adopt policy, refers to the cluster in its namespace, and has a region and at
  least one SSH CIDR, none of them empty.
\<close>

theorem bootstrap_creates_only_for_adoption:
  assumes run: "Bootstrap_Reconcile (tracedBootstrap r) ns n (w, []) = (x, (w', log))" and new: "ECreateNetwork net \<in> set log"
  shows "\<exists>c name err. seenCluster log c \<and>
    networkObjectName (lib_lower (BLib r)) (u_name c) = Some name \<and>
    EGetNetwork (u_namespace c) name (Inl err) \<in> set log \<and> apierrors_IsNotFound err \<and>
    adoptionReason (BUnstructured r) c name net log \<and>
    sp_ManagementPolicy (Spec net) = ManagementPolicyAdopt \<and> nr_Name (clusterRef net) = u_name c \<and>
    nr_Namespace (clusterRef net) = u_namespace c \<and> net_namespace net = u_namespace c \<and>
    sp_Region (Spec net) \<noteq> '''' \<and> gs_SSHAllowedCIDRs (sgSpec net) \<noteq> [] \<and> '''' \<notin> set (gs_SSHAllowedCIDRs (sgSpec net))"
proof -
  from logsD[OF logs_Bootstrap run] new obtain c where c: "seenCluster log c"
    "bootstrapSafe (BLib r) (BUnstructured r) c log" by (force simp: list_all_iff)
  with new obtain err where e: "EGetNetwork (u_namespace c) (bootstrapName (BLib r) c) (Inl err) \<in> set log"
    "apierrors_IsNotFound err" and why: "adoptionReason (BUnstructured r) c (bootstrapName (BLib r) c) net log"
    unfolding bootstrapSafe_def by blast
  have name: "networkObjectName (lib_lower (BLib r)) (u_name c) = Some (bootstrapName (BLib r) c)"
    using why by (simp add: adoptionReason_def bootstrapName_def)
  from why obtain config where "newAdoptionNetwork (BUnstructured r) c config (bootstrapName (BLib r) c) = Inr net"
    unfolding adoptionReason_def by blast
  from newAdoptionNetwork_fields[OF this] c(1) e why name show ?thesis by blast
qed

definition singleWorld :: mem_world where
  "singleWorld = emptyWorld\<lparr>mw_clusters := [sampleCluster [samplePool ''OpentelekomcloudConfig'' ''a'' 1]], mw_configs := sampleConfigs\<rparr>"

abbreviation singleRun :: "ret \<times> mem_world logged" where
  "singleRun \<equiv> Bootstrap_Reconcile (tracedBootstrap sampleBootstrap) ''fleet'' ''c'' (singleWorld, [])"

theorem bootstrap_creates_only_for_adoption_witness:
  "\<exists>net c. ECreateNetwork net \<in> set (snd (snd singleRun)) \<and> seenCluster (snd (snd singleRun)) c \<and>
     sp_ManagementPolicy (Spec net) = ManagementPolicyAdopt \<and> nr_Name (clusterRef net) = u_name c"
proof -
  have run: "singleRun = (fst singleRun, (fst (snd singleRun), snd (snd singleRun)))" by simp
  have "list_ex networkCreate (snd (snd singleRun))" by code_simp
  then obtain net where net: "ECreateNetwork net \<in> set (snd (snd singleRun))"
    by (auto simp: list_ex_iff elim!: networkCreate.elims)
  from bootstrap_creates_only_for_adoption[OF run net] net show ?thesis by blast
qed

text \<open>
  C32: No cluster makes the bootstrap panic: the reference it reads first, \<open>refs[0]\<close>, exists whenever
  that expression is reached, and the cut \<open>name[:63]\<close> of \<open>networkObjectName\<close> stays in range.
\<close>

theorem Bootstrap_never_panics: "fst (Bootstrap_Reconcile r ns n w) \<noteq> GoPanic"
proof -
  note calls = keeps_anything[THEN anything.ensures_call_any]
  have adoption: "ensures anything (bootstrapAdoption r cluster refs name) (\<lambda>x. x \<noteq> GoPanic)" if "refs \<noteq> []" for cluster refs name
  proof -
    from that obtain ref rest where refs: "refs = ref # rest" by (cases refs) auto
    show ?thesis unfolding bootstrapAdoption_def[abs_def] refs list.case
      by (intro frame_rules calls anything.ensures_return) simp_all
  qed
  have propagate: "ensures anything (bootstrapPropagate r cluster refs name net) (\<lambda>x. x \<noteq> GoPanic)" for cluster refs name net
    unfolding bootstrapPropagate_def[abs_def] by (intro frame_rules calls anything.ensures_return) simp_all
  have "ensures anything (Bootstrap_Reconcile r ns n) (\<lambda>x. x \<noteq> GoPanic)"
    unfolding Bootstrap_Reconcile_def[abs_def] bootstrapNetwork_def[abs_def] Let_def bootstrapName_total option.case
    by (intro frame_rules calls anything.ensures_return adoption propagate) simp_all
  then show ?thesis by (simp add: ensures_def)
qed

end
