(* ===== verification/Validation.thy ===== *)
theory Validation
  imports BootstrapProps
begin

text \<open>
  The validation of network objects that the kubebuilder markers in
  \<^verbatim>\<open>src/api/v1alpha1/tcloudclusternetwork_types.go\<close> ask of the API server: lengths, enumerations,
  formats and the CEL rules. A field marked \<open>omitempty\<close> is absent when it is empty and is then not
  checked. The formats \<open>cidr\<close> and \<open>ipv4\<close> are parameters.
\<close>

section \<open>Fields\<close>

definition validReference :: "NamespacedReference \<Rightarrow> bool" where
  "validReference ref = (nr_Name ref \<noteq> '''' \<and> nr_Namespace ref \<noteq> '''')"

definition optionalFormat :: "(string \<Rightarrow> bool) \<Rightarrow> string \<Rightarrow> bool" where
  "optionalFormat format s = (s = '''' \<or> format s)"

definition validVPC :: "(string \<Rightarrow> bool) \<Rightarrow> VPCSpec \<Rightarrow> bool" where
  "validVPC cidr v = optionalFormat cidr (vs_CIDR v)"

definition validSubnet :: "(string \<Rightarrow> bool) \<Rightarrow> (string \<Rightarrow> bool) \<Rightarrow> SubnetSpec \<Rightarrow> bool" where
  "validSubnet cidr ipv4 s =
     (optionalFormat cidr (ss_CIDR s) \<and> optionalFormat ipv4 (ss_GatewayIP s) \<and> list_all ipv4 (ss_DNSNameservers s))"

definition validSecurityGroup :: "(string \<Rightarrow> bool) \<Rightarrow> SecurityGroupSpec \<Rightarrow> bool" where
  "validSecurityGroup cidr g =
     (gs_ManagementPolicy g \<in> {'''', ManagementPolicyManaged, ManagementPolicyObserve} \<and>
      list_all cidr (gs_SSHAllowedCIDRs g) \<and> length (gs_SSHAllowedCIDRs g) \<le> 64 \<and> distinct (gs_SSHAllowedCIDRs g) \<and>
      gs_CNI g \<in> {'''', ''canal'', ''flannel'', ''calico''})"

section \<open>Rules on the spec\<close>

text \<open>The defaults are set before the checks.\<close>

definition withDefaults :: "TCloudClusterNetworkSpec \<Rightarrow> TCloudClusterNetworkSpec" where
  "withDefaults s = s\<lparr>
     sp_ManagementPolicy := (if sp_ManagementPolicy s = '''' then ManagementPolicyManaged else sp_ManagementPolicy s),
     sp_EndpointType := (if sp_EndpointType s = '''' then ''public'' else sp_EndpointType s),
     sp_OrphanCleanupAfter := (case sp_OrphanCleanupAfter s of None \<Rightarrow> Some Hour | Some d \<Rightarrow> Some d)\<rparr>"

definition managedRule :: "TCloudClusterNetworkSpec \<Rightarrow> bool" where
  "managedRule s = (let net = sp_Network s in
     sp_ManagementPolicy s \<noteq> ManagementPolicyManaged \<or>
     (vs_CIDR (ns_VPC net) \<noteq> '''' \<and> ss_CIDR (ns_Subnet net) \<noteq> '''' \<and> ss_GatewayIP (ns_Subnet net) \<noteq> '''' \<and>
      length (gs_SSHAllowedCIDRs (ns_SecurityGroup net)) > 0))"

definition observeRule :: "TCloudClusterNetworkSpec \<Rightarrow> bool" where
  "observeRule s = (let net = sp_Network s; g = ns_SecurityGroup net in
     sp_ManagementPolicy s \<noteq> ManagementPolicyObserve \<or>
     (vs_ID (ns_VPC net) \<noteq> '''' \<and> ss_ID (ns_Subnet net) \<noteq> '''' \<and>
      (if gs_ManagementPolicy g = '''' \<or> gs_ManagementPolicy g = ManagementPolicyObserve then gs_ID g \<noteq> ''''
       else gs_ManagementPolicy g = ManagementPolicyManaged \<and> gs_ID g = '''' \<and> gs_Name g \<noteq> '''' \<and>
            length (gs_SSHAllowedCIDRs g) > 0)))"

definition adoptRule :: "TCloudClusterNetworkSpec \<Rightarrow> bool" where
  "adoptRule s = (sp_ManagementPolicy s \<noteq> ManagementPolicyAdopt \<or>
     length (gs_SSHAllowedCIDRs (ns_SecurityGroup (sp_Network s))) > 0)"

text \<open>
  The transition rules. \<open>projectName\<close> is optional and left out of the object when empty, and a CEL
  rule that selects a field that is not there ends in an error, which rejects the update: the third
  rule holds only if both objects have the field. \<open>clusterRef\<close> and \<open>region\<close> are always there.
\<close>

definition immutableRules :: "TCloudClusterNetworkSpec \<Rightarrow> TCloudClusterNetworkSpec \<Rightarrow> bool" where
  "immutableRules old s = (sp_ClusterRef s = sp_ClusterRef old \<and> sp_Region s = sp_Region old \<and>
     sp_ProjectName s \<noteq> '''' \<and> sp_ProjectName old \<noteq> '''' \<and> sp_ProjectName s = sp_ProjectName old)"

definition validSpec :: "(string \<Rightarrow> bool) \<Rightarrow> (string \<Rightarrow> bool) \<Rightarrow> TCloudClusterNetworkSpec \<Rightarrow> bool" where
  "validSpec cidr ipv4 spec = (let s = withDefaults spec in
     validReference (sp_ClusterRef s) \<and> validReference (sp_CredentialSecretRef s) \<and>
     sp_ManagementPolicy s \<in> {ManagementPolicyManaged, ManagementPolicyObserve, ManagementPolicyAdopt, ManagementPolicyAbandon} \<and>
     sp_Region s \<noteq> '''' \<and>
     sp_EndpointType s \<in> {''public'', ''internal'', ''admin'', ''publicURL'', ''internalURL'', ''adminURL''} \<and>
     validVPC cidr (ns_VPC (sp_Network s)) \<and> validSubnet cidr ipv4 (ns_Subnet (sp_Network s)) \<and>
     validSecurityGroup cidr (ns_SecurityGroup (sp_Network s)) \<and>
     managedRule s \<and> observeRule s \<and> adoptRule s)"

lemmas validation_defs = validSpec_def withDefaults_def validReference_def validVPC_def validSubnet_def validSecurityGroup_def
  managedRule_def observeRule_def adoptRule_def optionalFormat_def

text \<open>
  The writes a reconcile may make leave the spec alone: the rules that look at one object judge them
  as before, and the transition rules admit them exactly if the object names a project.
\<close>

lemma own_write_admitted:
  assumes "ownWrite L e" "e = EStatusPatch b x ans \<or> e = EPatchNetwork b x"
  shows "(immutableRules (Spec b) (Spec x) \<longleftrightarrow> sp_ProjectName (Spec b) \<noteq> '''') \<and>
    validSpec cidr ipv4 (Spec x) = validSpec cidr ipv4 (Spec b)"
proof -
  have "Spec x = Spec b" using assms by (auto simp: statusWrite_def ownerWrite_def finalizerWrite_def)
  then show ?thesis by (simp add: immutableRules_def)
qed

section \<open>Adoption\<close>

text \<open>What of a machine config and a cluster goes unchecked into an adoption network.\<close>

definition adoptableInput :: "unstructured \<Rightarrow> (string \<Rightarrow> bool) \<Rightarrow> Unstructured \<Rightarrow> Unstructured \<Rightarrow> bool" where
  "adoptableInput U cidr cluster config =
     (let cidrs = splitNonEmpty (nestedString U (u_Object config) [''sshAllowCidr'']) in
      u_name cluster \<noteq> '''' \<and> u_namespace cluster \<noteq> '''' \<and>
      nestedString U (u_Object config) [''endpointType''] \<in> {'''', ''public'', ''internal'', ''admin'', ''publicURL'', ''internalURL'', ''adminURL''} \<and>
      nestedString U (u_Object cluster) [''spec'', ''rkeConfig'', ''machineGlobalConfig'', ''cni''] \<in> {'''', ''canal'', ''flannel'', ''calico''} \<and>
      list_all cidr cidrs \<and> length cidrs \<le> 64 \<and> distinct cidrs)"

lemma namespacedReference_parts: "namespacedReference value = Inr ref \<Longrightarrow> validReference ref"
  by (auto simp: namespacedReference_def validReference_def Let_def split: if_splits list.splits)

lemma adoption_fields:
  fixes U cluster config
  defines "endpoint \<equiv> nestedString U (u_Object config) [''endpointType'']"
    and "cidrs \<equiv> splitNonEmpty (nestedString U (u_Object config) [''sshAllowCidr''])"
    and "cni \<equiv> nestedString U (u_Object cluster) [''spec'', ''rkeConfig'', ''machineGlobalConfig'', ''cni'']"
  assumes "newAdoptionNetwork U cluster config name = Inr net"
  shows "nr_Name (clusterRef net) = u_name cluster" "nr_Namespace (clusterRef net) = u_namespace cluster"
    "validReference (sp_CredentialSecretRef (Spec net))" "sp_ManagementPolicy (Spec net) = ManagementPolicyAdopt"
    "sp_Region (Spec net) \<noteq> ''''" "sp_EndpointType (Spec net) = (if endpoint = '''' then ''public'' else endpoint)"
    "vs_CIDR (vpcSpec net) = ''''" "ss_CIDR (subnetSpec net) = ''''" "ss_GatewayIP (subnetSpec net) = ''''"
    "ss_DNSNameservers (subnetSpec net) = []" "gs_ManagementPolicy (sgSpec net) = ''''"
    "gs_SSHAllowedCIDRs (sgSpec net) = (if cidrs = [] then [''0.0.0.0/0''] else cidrs)"
    "gs_CNI (sgSpec net) = (if cni = '''' then ''canal'' else cni)"
proof -
  let ?credential = "nestedString U (u_Object cluster) [''spec'', ''cloudCredentialSecretName'']"
  obtain ref where ref: "namespacedReference ?credential = Inr ref"
    using assms(4) by (cases "namespacedReference ?credential") (simp_all add: newAdoptionNetwork_def)
  have region: "nestedString U (u_Object config) [''region''] \<noteq> ''''"
  proof
    assume "nestedString U (u_Object config) [''region''] = ''''"
    with assms(4) ref show False by (simp add: newAdoptionNetwork_def)
  qed
  note net = assms(4)[unfolded newAdoptionNetwork_def Let_def ref sum.case if_not_P[OF region] length_0_conv sum.inject, symmetric]
  show "nr_Name (clusterRef net) = u_name cluster" "nr_Namespace (clusterRef net) = u_namespace cluster"
    "validReference (sp_CredentialSecretRef (Spec net))" "sp_ManagementPolicy (Spec net) = ManagementPolicyAdopt"
    "sp_Region (Spec net) \<noteq> ''''" "sp_EndpointType (Spec net) = (if endpoint = '''' then ''public'' else endpoint)"
    "vs_CIDR (vpcSpec net) = ''''" "ss_CIDR (subnetSpec net) = ''''" "ss_GatewayIP (subnetSpec net) = ''''"
    "ss_DNSNameservers (subnetSpec net) = []" "gs_ManagementPolicy (sgSpec net) = ''''"
    "gs_SSHAllowedCIDRs (sgSpec net) = (if cidrs = [] then [''0.0.0.0/0''] else cidrs)"
    "gs_CNI (sgSpec net) = (if cni = '''' then ''canal'' else cni)"
    using namespacedReference_parts[OF ref] region by (simp_all add: net endpoint_def cidrs_def cni_def)
qed

lemma policies_differ: "ManagementPolicyAdopt \<noteq> ''''" "ManagementPolicyAdopt \<noteq> ManagementPolicyManaged"
  "ManagementPolicyAdopt \<noteq> ManagementPolicyObserve"
  by (simp_all add: ManagementPolicyManaged_def ManagementPolicyObserve_def ManagementPolicyAdopt_def)

text \<open>
  C24: The network object the bootstrap creates passes the validation of its own API exactly when the
  cluster and the machine config are adoptable in that sense. So an RKE2 cluster with another CNI, or
  a machine config that lists a CIDR twice, gives an object that the API server refuses.
\<close>

theorem adoption_network_valid:
  assumes new: "newAdoptionNetwork U cluster config name = Inr net" and any: "cidr ''0.0.0.0/0''"
  shows "validSpec cidr ipv4 (Spec net) \<longleftrightarrow> adoptableInput U cidr cluster config"
proof -
  note f = adoption_fields[OF new]
  let ?cidrs = "splitNonEmpty (nestedString U (u_Object config) [''sshAllowCidr''])"
  have cidrs: "(if ?cidrs = [] then [''0.0.0.0/0''] else ?cidrs) \<noteq> []"
    "list_all cidr (if ?cidrs = [] then [''0.0.0.0/0''] else ?cidrs) = list_all cidr ?cidrs"
    "distinct (if ?cidrs = [] then [''0.0.0.0/0''] else ?cidrs) = distinct ?cidrs"
    "length (if ?cidrs = [] then [''0.0.0.0/0''] else ?cidrs) \<le> 64 \<longleftrightarrow> length ?cidrs \<le> 64"
    using any by simp_all
  have group: "validSecurityGroup cidr (sgSpec net) \<longleftrightarrow> list_all cidr ?cidrs \<and> length ?cidrs \<le> 64 \<and> distinct ?cidrs \<and>
      nestedString U (u_Object cluster) [''spec'', ''rkeConfig'', ''machineGlobalConfig'', ''cni''] \<in> {'''', ''canal'', ''flannel'', ''calico''}"
    unfolding validSecurityGroup_def f(11-13) cidrs by auto
  have endpoint: "(if e = '''' then ''public'' else e) \<in> {''public'', ''internal'', ''admin'', ''publicURL'', ''internalURL'', ''adminURL''} \<longleftrightarrow>
      e \<in> {'''', ''public'', ''internal'', ''admin'', ''publicURL'', ''internalURL'', ''adminURL''}" for e :: string by auto
  let ?s = "withDefaults (Spec net)"
  have s: "sp_ClusterRef ?s = clusterRef net" "sp_CredentialSecretRef ?s = sp_CredentialSecretRef (Spec net)"
    "sp_ManagementPolicy ?s = ManagementPolicyAdopt" "sp_Region ?s = sp_Region (Spec net)" "sp_Network ?s = sp_Network (Spec net)"
    "sp_EndpointType ?s = sp_EndpointType (Spec net)"
    by (simp_all add: withDefaults_def f(4,6) policies_differ)
  have "validVPC cidr (vpcSpec net)" "validSubnet cidr ipv4 (subnetSpec net)" "managedRule ?s" "observeRule ?s" "adoptRule ?s"
    unfolding validVPC_def validSubnet_def managedRule_def observeRule_def adoptRule_def optionalFormat_def Let_def s f(7-10,12)
    using cidrs(1) by (simp_all add: policies_differ)
  then show ?thesis
    unfolding validSpec_def Let_def s group f(6) endpoint adoptableInput_def using f(1-3,5)
    by (auto simp: validReference_def)
qed

definition nonEmpty :: "string \<Rightarrow> bool" where
  "nonEmpty s = (s \<noteq> '''')"

definition ciliumCluster :: Unstructured where
  "ciliumCluster = (sampleCluster [])\<lparr>u_Object := VMap [(''spec'', VMap [(''cloudCredentialSecretName'', VString ''cattle:cc''),
     (''rkeConfig'', VMap [(''machineGlobalConfig'', VMap [(''cni'', VString ''cilium'')])])])]\<rparr>"

theorem adoption_network_valid_witness:
  "(\<exists>net. newAdoptionNetwork refUnstructured (sampleCluster []) (hd sampleConfigs) ''c-network'' = Inr net \<and>
      validSpec nonEmpty nonEmpty (Spec net)) \<and>
   (\<exists>net. newAdoptionNetwork refUnstructured ciliumCluster (hd sampleConfigs) ''c-network'' = Inr net \<and>
      \<not> validSpec nonEmpty nonEmpty (Spec net))"
proof -
  have c: "nonEmpty ''0.0.0.0/0''" by (simp add: nonEmpty_def)
  have ok: "adoptableInput refUnstructured nonEmpty (sampleCluster []) (hd sampleConfigs)"
    and bad: "\<not> adoptableInput refUnstructured nonEmpty ciliumCluster (hd sampleConfigs)" by code_simp+
  have "case newAdoptionNetwork refUnstructured (sampleCluster []) (hd sampleConfigs) ''c-network'' of Inl _ \<Rightarrow> False | Inr _ \<Rightarrow> True"
    "case newAdoptionNetwork refUnstructured ciliumCluster (hd sampleConfigs) ''c-network'' of Inl _ \<Rightarrow> False | Inr _ \<Rightarrow> True"
    by code_simp+
  then obtain net1 net2 where n: "newAdoptionNetwork refUnstructured (sampleCluster []) (hd sampleConfigs) ''c-network'' = Inr net1"
    "newAdoptionNetwork refUnstructured ciliumCluster (hd sampleConfigs) ''c-network'' = Inr net2" by (auto split: sum.splits)
  note valid = adoption_network_valid[of _ _ _ _ _ nonEmpty nonEmpty, OF _ c]
  from valid[OF n(1)] valid[OF n(2)] n ok bad show ?thesis by blast
qed

section \<open>Rules of a valid network\<close>

definition wellformedRule :: "(string \<Rightarrow> bool) \<Rightarrow> Rule \<Rightarrow> bool" where
  "wellformedRule cidr r =
     (ru_Protocol r \<in> {''tcp'', ''udp''} \<and> 1 \<le> ru_FromPort r \<and> ru_FromPort r \<le> ru_ToPort r \<and> ru_ToPort r \<le> 65535 \<and>
      (if ru_RemoteGroupID r = '''' then cidr (ru_CIDR r) else ru_CIDR r = ''''))"

text \<open>
  C25: The rules the reconciler asks for a valid network are well-formed: a known protocol, a port range
  within bounds, and either a source CIDR of the right format or the group itself, never both. They
  are at most 73, and a network that is managed or adopted always lets some SSH source in.
\<close>

theorem valid_network_rules:
  assumes valid: "validSpec cidr ipv4 (Spec net)" and gid: "gid \<noteq> ''''"
  shows "list_all (wellformedRule cidr) (gr_Rules (rulesRequest net gid name)) \<and>
    length (gr_Rules (rulesRequest net gid name)) \<le> 73 \<and>
    (sp_ManagementPolicy (Spec net) \<in> {'''', ManagementPolicyManaged, ManagementPolicyAdopt} \<longrightarrow>
       (\<exists>c. sshRule c \<in> set (gr_Rules (rulesRequest net gid name))))"
proof -
  have g: "list_all cidr (gs_SSHAllowedCIDRs (sgSpec net))" "length (gs_SSHAllowedCIDRs (sgSpec net)) \<le> 64"
    using valid by (simp_all add: validSpec_def Let_def withDefaults_def validSecurityGroup_def)
  have ssh: "gs_SSHAllowedCIDRs (sgSpec net) \<noteq> []"
    if "sp_ManagementPolicy (Spec net) \<in> {'''', ManagementPolicyManaged, ManagementPolicyAdopt}"
    using valid that policies_differ
    by (auto simp: validSpec_def Let_def withDefaults_def managedRule_def adoptRule_def split: if_splits)
  have "list_all (wellformedRule cidr) (gr_Rules (rulesRequest net gid name))"
    using g(1) gid by (simp add: rulesRequest_def RKE2Rules_def sshRule_def selfRule_def wellformedRule_def list.pred_map comp_def)
  moreover have "length (gr_Rules (rulesRequest net gid name)) \<le> 73"
    using g(2) by (simp add: rulesRequest_def RKE2Rules_def)
  moreover have "\<exists>c. sshRule c \<in> set (gr_Rules (rulesRequest net gid name))"
    if "sp_ManagementPolicy (Spec net) \<in> {'''', ManagementPolicyManaged, ManagementPolicyAdopt}"
    using ssh[OF that] by (auto simp: rulesRequest_def RKE2Rules_def neq_Nil_conv)
  ultimately show ?thesis by blast
qed

theorem valid_network_rules_witness:
  "list_all (wellformedRule nonEmpty) (gr_Rules (rulesRequest sampleNetwork ''g1'' ''grp'')) \<and>
   (\<exists>c. sshRule c \<in> set (gr_Rules (rulesRequest sampleNetwork ''g1'' ''grp'')))"
proof -
  have v: "validSpec nonEmpty nonEmpty (Spec sampleNetwork)" by code_simp
  have p: "sp_ManagementPolicy (Spec sampleNetwork) = ''''" by (simp add: sampleNetwork_def sampleSpec_def)
  from valid_network_rules[OF v, of "''g1''" "''grp''"] p show ?thesis by simp
qed

end
