(* ===== verification/Lifecycle.thy ===== *)
theory Lifecycle
  imports Managed
begin

text \<open>
  The deletion of a network, from the deletion timestamp to the disappearance of the object. The
  abstract machine is the list of resources still to be deleted; the locale \<open>deletion_env\<close> is an
  environment in which calls succeed, and in it every reconcile is one step of the machine, so that
  deletion comes to an end. The environment is realised by the in-memory cluster and cloud.
\<close>

section \<open>The abstract machine\<close>

datatype kind = GroupKind | SubnetKind | VPCKind

fun entry :: "kind \<Rightarrow> NetworkResourceStatus \<Rightarrow> ResourceStatus" where
  "entry GroupKind = nrs_SecurityGroup"
| "entry SubnetKind = nrs_Subnet"
| "entry VPCKind = nrs_VPC"

definition remaining :: "TCloudClusterNetwork \<Rightarrow> kind list" where
  "remaining net = filter (\<lambda>k. managedWithID (entry k (resources net))) [GroupKind, SubnetKind, VPCKind]"

definition todo :: "TCloudClusterNetwork \<Rightarrow> (kind \<times> string) list" where
  "todo net = map (\<lambda>k. (k, rs_ID (entry k (resources net)))) (remaining net)"

text \<open>
  A state of the machine is what is still to be deleted, \<open>None\<close> once the object is gone, and what
  exists in the cloud. A step deletes the next resource, or else the object.
\<close>

fun deletionStep :: "(kind \<times> string) list option \<times> (kind \<times> string) set \<Rightarrow>
    (kind \<times> string) list option \<times> (kind \<times> string) set" where
  "deletionStep (Some (x # xs), cloud) = (Some xs, cloud - {x})"
| "deletionStep (Some [], cloud) = (None, cloud)"
| "deletionStep (None, cloud) = (None, cloud)"

definition deletionState :: "('w \<Rightarrow> TCloudClusterNetwork option) \<Rightarrow> ('w \<Rightarrow> (kind \<times> string) set) \<Rightarrow> 'w \<Rightarrow>
    (kind \<times> string) list option \<times> (kind \<times> string) set" where
  "deletionState netOf present w = (map_option todo (netOf w), present w)"

text \<open>
  The work queue that drives a controller: a reconcile that returns an error or asks to be requeued is
  run again, at most \<open>fuel\<close> times; \<open>None\<close> is a queue that still holds the request then.
\<close>

definition queueDone :: "ret \<Rightarrow> bool" where
  "queueDone ret = (ret = Ret noResult None)"

fun workqueue :: "'w TCloudClusterNetworkReconciler \<Rightarrow> string \<Rightarrow> string \<Rightarrow> nat \<Rightarrow> 'w \<Rightarrow> 'w option" where
  "workqueue r ns n 0 w = None"
| "workqueue r ns n (Suc fuel) w =
     (case Reconcile r ns n w of (ret, w) \<Rightarrow> if queueDone ret then Some w else workqueue r ns n fuel w)"

fun clearEntry :: "kind \<Rightarrow> TCloudClusterNetwork \<Rightarrow> TCloudClusterNetwork" where
  "clearEntry GroupKind = setSecurityGroup noResource"
| "clearEntry SubnetKind = setSubnet noResource"
| "clearEntry VPCKind = setVPC noResource"

lemma managedWithID_noResource [simp]: "\<not> managedWithID noResource"
  by (simp add: managedWithID_def noResource_def)

lemma clearEntry_simps [simp]:
  "Meta (clearEntry k net) = Meta net" "Spec (clearEntry k net) = Spec net"
  "entry k' (resources (clearEntry k net)) = (if k' = k then noResource else entry k' (resources net))"
  by (cases k; cases k'; simp)+

lemma remaining_Cons:
  assumes "remaining net = k # ks"
  shows "managedWithID (entry k (resources net))" "remaining (clearEntry k net) = ks"
  using assms by (cases k; auto simp: remaining_def split: if_splits)+

lemma length_remaining: "length (remaining net) \<le> 3"
  by (simp add: remaining_def)

lemma length_todo: "length (todo net) \<le> 3"
  using length_remaining[of net] by (simp add: todo_def)

text \<open>The entries of the three kinds are independent: clearing the first leaves the others as they are.\<close>

lemma todo_clear:
  assumes "remaining net = k # ks"
  shows "todo net = (k, rs_ID (entry k (resources net))) # todo (clearEntry k net)"
proof -
  have "k \<notin> set ks" using assms by (cases k) (auto simp: remaining_def split: if_splits)
  then show ?thesis using assms remaining_Cons(2)[OF assms] by (auto simp: todo_def)
qed

lemma todo_Nil: "todo net = [] \<longleftrightarrow> remaining net = []"
  by (simp add: todo_def)

lemma remaining_Nil: "remaining net = [] \<longleftrightarrow> nothingLeft net"
  by (auto simp: remaining_def nothingLeft_def)

section \<open>An environment in which calls succeed\<close>

fun getOf :: "'w Service \<Rightarrow> kind \<Rightarrow> string \<Rightarrow> ('w, error + Resource) io" where
  "getOf s GroupKind i = GetSecurityGroup s i"
| "getOf s SubnetKind i = GetSubnet s i"
| "getOf s VPCKind i = GetVPC s i"

fun deleteOf :: "'w Service \<Rightarrow> kind \<Rightarrow> TCloudClusterNetwork \<Rightarrow> ('w, error option) io" where
  "deleteOf s GroupKind net = DeleteSecurityGroup s (rs_ID (sgStatus net))"
| "deleteOf s SubnetKind net = DeleteSubnet s (rs_ID (vpcStatus net)) (rs_ID (subnetStatus net))"
| "deleteOf s VPCKind net = DeleteVPC s (rs_ID (vpcStatus net))"

text \<open>
  \<open>netOf\<close> is the stored object and \<open>present\<close> the identifiers of the cloud's resources. The object is
  not abandoned, its cluster has no machines, its subnet no ports, its credentials are good, and its
  resources still have the recorded names. The object disappears with its last finalizer.
\<close>

locale deletion_env = status_lib "Lib r" for r :: "'w TCloudClusterNetworkReconciler" +
  fixes ns n :: string and service :: "'w Service" and netOf :: "'w \<Rightarrow> TCloudClusterNetwork option"
    and present :: "'w \<Rightarrow> (kind \<times> string) set" and good :: "'w \<Rightarrow> bool"
  assumes get_network: "good w \<Longrightarrow> netOf w = Some net \<Longrightarrow> GetNetwork (Client r) ns n w = (Inr net, w)"
    and get_missing: "good w \<Longrightarrow> netOf w = None \<Longrightarrow> \<exists>err. GetNetwork (Client r) ns n w = (Inl err, w) \<and> apierrors_IsNotFound err"
    and deleting: "good w \<Longrightarrow> netOf w = Some net \<Longrightarrow> om_DeletionTimestamp (Meta net) \<noteq> None \<and>
          om_Finalizers (Meta net) = [NetworkFinalizer] \<and> sp_ManagementPolicy (Spec net) \<noteq> ManagementPolicyAbandon"
    and no_machines: "good w \<Longrightarrow> netOf w = Some net \<Longrightarrow>
          ListMachines (Client r) (nr_Namespace (clusterRef net)) (nr_Name (clusterRef net)) w = (Inr [], w)"
    and credentials: "good w \<Longrightarrow> netOf w = Some net \<Longrightarrow> \<exists>secret creds.
          secretReader r (nr_Namespace (sp_CredentialSecretRef (Spec net))) (nr_Name (sp_CredentialSecretRef (Spec net))) w = (Inr secret, w) \<and>
          CredentialsFromSecret (lib_lower (Lib r)) secret (sp_Region (Spec net)) (sp_ProjectName (Spec net))
            (sp_EndpointType (Spec net)) = Inr creds \<and> NewService r creds w = (Inr service, w)"
    and no_ports: "good w \<Longrightarrow> netOf w = Some net \<Longrightarrow> AttachedPorts service (rs_ID (subnetStatus net)) w = (Inr 0, w)"
    and still_owned: "good w \<Longrightarrow> netOf w = Some net \<Longrightarrow> managedWithID (entry k (resources net)) \<Longrightarrow>
          \<exists>ans. getOf service k (rs_ID (entry k (resources net))) w = (ans, w) \<and> stillOwned (entry k (resources net)) ans"
    and delete: "good w \<Longrightarrow> netOf w = Some net \<Longrightarrow> managedWithID (entry k (resources net)) \<Longrightarrow>
          \<exists>w'. deleteOf service k net w = (None, w') \<and> good w' \<and> netOf w' = netOf w \<and>
               present w' = present w - {(k, rs_ID (entry k (resources net)))}"
    and clear_status: "good w \<Longrightarrow> netOf w = Some net \<Longrightarrow>
          \<exists>w'. StatusPatchNetwork (Client r) net (clearEntry k net) w = (Inr (clearEntry k net), w') \<and> good w' \<and>
               netOf w' = Some (clearEntry k net) \<and> present w' = present w"
    and drop_finalizer: "good w \<Longrightarrow> netOf w = Some net \<Longrightarrow>
          \<exists>a w'. PatchNetwork (Client r) net (net\<lparr>Meta := (Meta net)\<lparr>om_Finalizers := []\<rparr>\<rparr>) w = (Inr a, w') \<and> good w' \<and> netOf w' = None \<and> present w' = present w"
    and event: "good w \<Longrightarrow> good (RecordEvent r net t reason msg w) \<and> netOf (RecordEvent r net t reason msg w) = netOf w \<and>
          present (RecordEvent r net t reason msg w) = present w"
begin

lemma verified:
  assumes "good w" "netOf w = Some net" "managedWithID (entry k (resources net))"
  shows "verifyResource (entry k (resources net)) (getOf service k) w = (None, w)"
proof -
  from still_owned[OF assms] obtain ans where "getOf service k (rs_ID (entry k (resources net))) w = (ans, w)"
    "stillOwned (entry k (resources net)) ans" by blast
  with assms(3) show ?thesis
    by (auto simp: verifyResource_def managedWithID_def stillOwned_def split: sum.splits)
qed

lemma getOf_eta: "getOf service GroupKind = GetSecurityGroup service" "getOf service SubnetKind = GetSubnet service"
  "getOf service VPCKind = GetVPC service"
  by (rule ext, simp)+

text \<open>The next resource in the list is deleted and its entry cleared.\<close>

lemma deleteNext_Cons:
  assumes g: "good w" and net: "netOf w = Some net" and rem: "remaining net = k # ks"
  shows "\<exists>w'. deleteNext r net service w = (Ret requeue None, w') \<and> good w' \<and> netOf w' = Some (clearEntry k net) \<and>
    present w' = present w - {(k, rs_ID (entry k (resources net)))}"
proof -
  note m = remaining_Cons(1)[OF rem]
  from delete[OF g net m] obtain w1 where d: "deleteOf service k net w = (None, w1)" "good w1" "netOf w1 = Some net"
    "present w1 = present w - {(k, rs_ID (entry k (resources net)))}" using net by auto
  from clear_status[OF d(2,3)] obtain w2 where s: "StatusPatchNetwork (Client r) net (clearEntry k net) w1 = (Inr (clearEntry k net), w2)"
    "good w2" "netOf w2 = Some (clearEntry k net)" "present w2 = present w1" by blast
  have "deleteNext r net service w = deleteResource r net (verifyResource (entry k (resources net)) (getOf service k))
      (deleteOf service k net) (\<lambda>_. clearEntry k) w"
    using rem by (cases k) (auto simp: remaining_def deleteNext_def verifySecurityGroupOwnership_def
        verifySubnetOwnership_def verifyVPCOwnership_def getOf_eta deleteResource_def split: if_splits prod.splits option.splits)
  also have "\<dots> = (Ret requeue None, w2)"
    using verified[OF g net m] d(1) s(1) by (simp add: deleteResource_def patchStatus_def)
  finally show ?thesis using s d(4) by auto
qed

lemma finalizers_gone: "good w \<Longrightarrow> netOf w = Some net \<Longrightarrow>
    RemoveFinalizer (Lib r) (om_Finalizers (Meta net)) NetworkFinalizer = []"
  using deleting[of w net] remove_finalizer[of "[NetworkFinalizer]" NetworkFinalizer] by auto

lemma removeFinalizer_gone:
  assumes "good w" "netOf w = Some net"
  shows "\<exists>w'. removeFinalizer (Lib r) (Client r) net w = (None, w') \<and> good w' \<and> netOf w' = None \<and> present w' = present w"
  using drop_finalizer[OF assms] by (auto simp: removeFinalizer_def finalizers_gone[OF assms])

lemma deleteNext_Nil:
  assumes "good w" "netOf w = Some net" "remaining net = []"
  shows "\<exists>w'. deleteNext r net service w = (Ret noResult None, w') \<and> good w' \<and> netOf w' = None \<and> present w' = present w"
proof -
  let ?w = "RecordEvent r net ''Normal'' ''NetworkDeleted'' ''Deleted all controller-managed T-Cloud network resources'' w"
  note e = event[OF assms(1), of net "''Normal''" "''NetworkDeleted''" "''Deleted all controller-managed T-Cloud network resources''"]
  from removeFinalizer_gone[of ?w net] e assms(2) obtain w' where "removeFinalizer (Lib r) (Client r) net ?w = (None, w')"
    "good w'" "netOf w' = None" "present w' = present ?w" by auto
  with e assms(3) show ?thesis by (auto simp: deleteNext_def remaining_def Let_def split: if_splits)
qed

text \<open>Past the guards the reconcile is the deletion of the next resource.\<close>

lemma deleteInCloud_runs:
  assumes "good w" "netOf w = Some net"
  shows "deleteInCloud r net w = deleteNext r net service w"
proof -
  from credentials[OF assms] have "cloudService r net w = (Inr service, w)"
    by (auto simp: cloudService_def Let_def)
  with no_ports[OF assms] show ?thesis by (simp add: deleteInCloud_def portsGate_def)
qed

lemma reconcileDelete_runs:
  assumes "good w" "netOf w = Some net"
  shows "reconcileDelete r net w =
    (if \<not> rs_ControllerManaged (vpcStatus net) \<and> \<not> rs_ControllerManaged (subnetStatus net) \<and>
        \<not> rs_ControllerManaged (sgStatus net)
     then (case removeFinalizer (Lib r) (Client r) net w of (err, w) \<Rightarrow> (Ret noResult err, w))
     else deleteNext r net service w)"
  using deleting[OF assms] no_machines[OF assms] deleteInCloud_runs[OF assms]
  by (simp add: reconcileDelete_def machineCount_def contains_finalizer)

lemma reconcileDelete_Cons:
  assumes "good w" "netOf w = Some net" "remaining net = k # ks"
  shows "\<exists>w'. reconcileDelete r net w = (Ret requeue None, w') \<and> good w' \<and> netOf w' = Some (clearEntry k net) \<and>
    present w' = present w - {(k, rs_ID (entry k (resources net)))}"
proof -
  from remaining_Cons(1)[OF assms(3)] have "rs_ControllerManaged (entry k (resources net))"
    by (simp add: managedWithID_def)
  then have "reconcileDelete r net w = deleteNext r net service w"
    using reconcileDelete_runs[OF assms(1,2)] by (cases k) auto
  with deleteNext_Cons[OF assms] show ?thesis by simp
qed

lemma reconcileDelete_Nil:
  assumes "good w" "netOf w = Some net" "remaining net = []"
  shows "\<exists>w'. reconcileDelete r net w = (Ret noResult None, w') \<and> good w' \<and> netOf w' = None \<and> present w' = present w"
  using reconcileDelete_runs[OF assms(1,2)] deleteNext_Nil[OF assms] removeFinalizer_gone[OF assms(1,2)] by auto

lemma Reconcile_deleting:
  "good w \<Longrightarrow> netOf w = Some net \<Longrightarrow> Reconcile r ns n w = reconcileDelete r net w"
  using get_network[of w net] deleting[of w net] by (simp add: Reconcile_def)

lemma Reconcile_absent: "good w \<Longrightarrow> netOf w = None \<Longrightarrow> Reconcile r ns n w = (Ret noResult None, w)"
  using get_missing[of w] by (auto simp: Reconcile_def IgnoreNotFound_def)

section \<open>Refinement and termination\<close>

lemma Reconcile_step:
  assumes g: "good w"
  shows "\<exists>ret w'. Reconcile r ns n w = (ret, w') \<and> good w' \<and> deletionState netOf present w' = deletionStep (deletionState netOf present w) \<and>
    (queueDone ret \<longleftrightarrow> fst (deletionState netOf present w') = None)"
proof (cases "netOf w")
  case None
  with Reconcile_absent[OF g None] g show ?thesis by (simp add: deletionState_def queueDone_def)
next
  case (Some net)
  note run = Reconcile_deleting[OF g Some]
  show ?thesis
  proof (cases "remaining net")
    case Nil
    with reconcileDelete_Nil[OF g Some Nil] run Some show ?thesis by (auto simp: deletionState_def queueDone_def todo_def)
  next
    case (Cons k ks)
    from reconcileDelete_Cons[OF g Some Cons] run obtain w' where "Reconcile r ns n w = (Ret requeue None, w')" "good w'"
      "netOf w' = Some (clearEntry k net)" "present w' = present w - {(k, rs_ID (entry k (resources net)))}" by auto
    with todo_clear[OF Cons] Some show ?thesis by (simp add: deletionState_def queueDone_def)
  qed
qed

lemma workqueue_empties:
  "good w \<Longrightarrow> deletionState netOf present w = (Some xs, cloud) \<Longrightarrow> length xs < fuel \<Longrightarrow>
   \<exists>w'. workqueue r ns n fuel w = Some w' \<and> good w' \<and> deletionState netOf present w' = (None, cloud - set xs)"
proof (induction xs arbitrary: w cloud fuel)
  case (Nil w)
  then obtain f where "fuel = Suc f" by (cases fuel) auto
  with Reconcile_step[OF Nil(1)] Nil(2) show ?case by auto
next
  case (Cons x xs w)
  then obtain f where f: "fuel = Suc f" "length xs < f" by (cases fuel) auto
  from Reconcile_step[OF Cons.prems(1)] Cons.prems(2) obtain ret w1 where run: "Reconcile r ns n w = (ret, w1)" "good w1"
    "deletionState netOf present w1 = (Some xs, cloud - {x})" "\<not> queueDone ret" by auto
  from Cons.IH[OF run(2,3) f(2)] run f(1) show ?case by (simp add: Diff_insert2[of cloud x "set xs"])
qed

end

section \<open>The in-memory cluster and cloud\<close>

definition memNetwork :: "mem_world \<Rightarrow> TCloudClusterNetwork option" where
  "memNetwork w = find (isNet ''fleet'' ''n'') (mw_networks w)"

fun nameOf :: "kind \<Rightarrow> mem_cloud \<Rightarrow> string \<Rightarrow> string option" where
  "nameOf GroupKind c i = map_option sg_Name (map_of (mc_groups c) i)"
| "nameOf SubnetKind c i = map_option sn_Name (map_of (mc_subnets c) i)"
| "nameOf VPCKind c i = map_option sv_Name (map_of (mc_vpcs c) i)"

definition memPresent :: "mem_world \<Rightarrow> (kind \<times> string) set" where
  "memPresent w = {(k, i). nameOf k (mw_cloud w) i \<noteq> None}"

text \<open>The recorded names are those of the cloud, as far as the resources exist.\<close>

definition namesKept :: "mem_cloud \<Rightarrow> TCloudClusterNetwork \<Rightarrow> bool" where
  "namesKept c net = (\<forall>k. managedWithID (entry k (resources net)) \<longrightarrow>
     nameOf k c (rs_ID (entry k (resources net))) \<in> {None, Some (rs_Name (entry k (resources net)))})"

definition memDeleting :: "TCloudClusterNetwork \<Rightarrow> bool" where
  "memDeleting net = (isNet ''fleet'' ''n'' net \<and> om_DeletionTimestamp (Meta net) \<noteq> None \<and>
     om_Finalizers (Meta net) = [NetworkFinalizer] \<and> Spec net = sampleSpec)"

definition memGood :: "mem_world \<Rightarrow> bool" where
  "memGood w = (mw_machines w = [] \<and> mw_secrets w = [sampleCredentials] \<and> (\<forall>i. mc_ports (mw_cloud w) i = []) \<and>
     (mw_networks w = [] \<or> (\<exists>net. mw_networks w = [net] \<and> memDeleting net \<and> namesKept (mw_cloud w) net)))"

lemma memGood_Some:
  assumes "memGood w" "memNetwork w = Some net"
  shows "mw_networks w = [net]" "memDeleting net" "namesKept (mw_cloud w) net"
  using assms by (auto simp: memGood_def memNetwork_def split: if_splits)

lemma memGood_None: "memGood w \<Longrightarrow> memNetwork w = None \<Longrightarrow> mw_networks w = []"
  by (auto simp: memGood_def memNetwork_def memDeleting_def)

lemma memService_simps:
  "GetVPC memService i = onCloud (tcloud_GetVPC memSdk i)" "GetSubnet memService i = onCloud (tcloud_GetSubnet memSdk i)"
  "GetSecurityGroup memService i = onCloud (tcloud_GetSecurityGroup memSdk i)"
  "AttachedPorts memService i = onCloud (tcloud_AttachedPorts memSdk i)"
  "DeleteSecurityGroup memService i = onCloud (tcloud_DeleteSecurityGroup memSdk i)"
  "DeleteSubnet memService v i = onCloud (tcloud_DeleteSubnet memSdk v i)"
  "DeleteVPC memService i = onCloud (tcloud_DeleteVPC memSdk i)"
  by (simp_all add: memService_def Let_def)

text \<open>What the reads and deletions of the T-Cloud service do on the in-memory cloud, kind by kind.\<close>

lemma getOf_mem:
  "\<exists>ans. getOf memService k i w = (ans, w) \<and>
     (case nameOf k (mw_cloud w) i of None \<Rightarrow> ans = Inl (Sdk404 i) | Some nm \<Rightarrow> (\<exists>res. ans = Inr res \<and> res_Name res = nm))"
  by (cases k) (auto simp: memService_simps onCloud_def tcloud_GetVPC_def tcloud_GetSubnet_def tcloud_GetSecurityGroup_def
      memSdk_def lookupOr404_def vpcResource_def subnetResource_def groupResource_def split: option.splits)

lemma deleteOf_mem:
  "\<exists>c. deleteOf memService k net w = (None, w\<lparr>mw_cloud := c\<rparr>) \<and> mc_ports c = mc_ports (mw_cloud w) \<and>
     (\<forall>k' j. nameOf k' c j = (if k' = k \<and> j = rs_ID (entry k (resources net)) then None else nameOf k' (mw_cloud w) j))"
proof -
  have "\<exists>c. deleteOf memService k net w = (None, w\<lparr>mw_cloud := c\<rparr>) \<and> mc_ports c = mc_ports (mw_cloud w) \<and>
     (nameOf k' c j = (if k' = k \<and> j = rs_ID (entry k (resources net)) then None else nameOf k' (mw_cloud w) j))" for k' j
    by (cases k; cases k') (auto simp: memService_simps onCloud_def tcloud_DeleteVPC_def tcloud_DeleteSubnet_def
        tcloud_DeleteSecurityGroup_def memSdk_def IsNotFound_opt_def delete_conv')
  moreover have "c = c'" if "w\<lparr>mw_cloud := c\<rparr> = w\<lparr>mw_cloud := c'\<rparr>" for c c' :: mem_cloud
    using arg_cong[OF that, of mw_cloud] by simp
  ultimately show ?thesis by (metis prod.inject)
qed

lemma memPresent_delete:
  assumes "\<forall>k' j. nameOf k' c j = (if k' = k \<and> j = i then None else nameOf k' (mw_cloud w) j)"
  shows "memPresent (w\<lparr>mw_cloud := c\<rparr>) = memPresent w - {(k, i)}"
  using assms by (auto simp: memPresent_def split: if_splits)

lemma memGood_delete:
  assumes "memGood w" "mc_ports c = mc_ports (mw_cloud w)"
    and "\<forall>k' j. nameOf k' c j = (if k' = k \<and> j = i then None else nameOf k' (mw_cloud w) j)"
  shows "memGood (w\<lparr>mw_cloud := c\<rparr>)"
  using assms by (auto simp: memGood_def namesKept_def)

lemma memGood_clear:
  assumes "memGood w" "memNetwork w = Some net"
  shows "memGood (w\<lparr>mw_networks := [clearEntry k net]\<rparr>)"
  using memGood_Some[OF assms] assms(1) by (auto simp: memGood_def namesKept_def memDeleting_def isNet_def)

lemma sample_credentials:
  "\<exists>creds. CredentialsFromSecret (lib_lower refLib) sampleCredentials (sp_Region sampleSpec) (sp_ProjectName sampleSpec)
     (sp_EndpointType sampleSpec) = Inr creds"
proof -
  have "case CredentialsFromSecret (lib_lower refLib) sampleCredentials (sp_Region sampleSpec) (sp_ProjectName sampleSpec)
     (sp_EndpointType sampleSpec) of Inl _ \<Rightarrow> False | Inr _ \<Rightarrow> True" by code_simp
  then show ?thesis by (simp split: sum.splits)
qed

lemma memReconciler_simps:
  "Client memReconciler = memKube" "Lib memReconciler = refLib" "secretReader memReconciler = GetSecret memKube"
  "NewService memReconciler creds w = (Inr memService, w)" "RecordEvent memReconciler net t reason msg w = w"
  by (simp_all add: memReconciler_def secretReader_def)

text \<open>What the in-memory client does with the one network under deletion.\<close>

lemma memChange_clear:
  assumes "memGood w" "memNetwork w = Some net"
  shows "StatusPatchNetwork memKube net (clearEntry k net) w = (Inr (clearEntry k net), w\<lparr>mw_networks := [clearEntry k net]\<rparr>)"
proof -
  have "net\<lparr>Status := Status (clearEntry k net)\<rparr> = clearEntry k net" by (cases k) simp_all
  with memGood_Some[OF assms] show ?thesis
    by (auto simp: memKube_def mem_change_def lookup_def storeNetwork_def replaceBy_def memDeleting_def isNet_def Let_def)
qed

lemma memChange_finalizer:
  assumes "memGood w" "memNetwork w = Some net"
  shows "\<exists>a. PatchNetwork memKube net (net\<lparr>Meta := (Meta net)\<lparr>om_Finalizers := []\<rparr>\<rparr>) w = (Inr a, w\<lparr>mw_networks := []\<rparr>)"
  using memGood_Some[OF assms]
  by (auto simp: memKube_def mem_change_def lookup_def storeNetwork_def memDeleting_def isNet_def Let_def)

lemma memSecret:
  assumes "memGood w" "memDeleting net"
  shows "secretReader memReconciler (nr_Namespace (sp_CredentialSecretRef (Spec net)))
    (nr_Name (sp_CredentialSecretRef (Spec net))) w = (Inr sampleCredentials, w)"
  using assms by (simp add: memReconciler_simps memKube_def lookup_def memGood_def memDeleting_def sampleSpec_def sampleCredentials_def)

lemma memPorts: "memGood w \<Longrightarrow> AttachedPorts memService i w = (Inr 0, w)"
  by (auto simp: memService_simps onCloud_def tcloud_AttachedPorts_def memSdk_def lookupOr404_def memGood_def
      countAttached_eq split: option.splits)

interpretation mem_deletion: deletion_env memReconciler "''fleet''" "''n''" memService memNetwork memPresent memGood
proof (intro deletion_env.intro deletion_env_axioms.intro, goal_cases)
  case 1
  show ?case by (simp add: memReconciler_simps ref.status_lib_axioms)
next
  case (2 w net)
  from memGood_Some[OF 2] show ?case by (simp add: memReconciler_simps memKube_def lookup_def memDeleting_def)
next
  case (3 w)
  from memGood_None[OF 3] show ?case by (simp add: memReconciler_simps memKube_def lookup_def apierrors_IsNotFound_def)
next
  case (4 w net)
  from memGood_Some(2)[OF 4] show ?case by (simp add: memDeleting_def sampleSpec_def ManagementPolicyAbandon_def)
next
  case (5 w net)
  from 5 show ?case by (simp add: memReconciler_simps memKube_def memGood_def)
next
  case (6 w net)
  note m = memGood_Some(2)[OF 6]
  from sample_credentials m obtain creds where "CredentialsFromSecret (lib_lower (Lib memReconciler)) sampleCredentials
     (sp_Region (Spec net)) (sp_ProjectName (Spec net)) (sp_EndpointType (Spec net)) = Inr creds"
    by (auto simp: memDeleting_def memReconciler_simps)
  with memSecret[OF 6(1) m] show ?case by (auto simp: memReconciler_simps)
next
  case (7 w net)
  then show ?case by (simp add: memPorts)
next
  case (8 w net k)
  from memGood_Some(3)[OF 8(1,2)] 8(3) have "nameOf k (mw_cloud w) (rs_ID (entry k (resources net)))
      \<in> {None, Some (rs_Name (entry k (resources net)))}" by (simp add: namesKept_def)
  with getOf_mem[of k "rs_ID (entry k (resources net))" w] show ?case
    by (auto simp: stillOwned_def split: option.splits)
next
  case (9 w net k)
  from deleteOf_mem[of k net w] obtain c where c: "deleteOf memService k net w = (None, w\<lparr>mw_cloud := c\<rparr>)"
    "mc_ports c = mc_ports (mw_cloud w)"
    "\<forall>k' j. nameOf k' c j = (if k' = k \<and> j = rs_ID (entry k (resources net)) then None else nameOf k' (mw_cloud w) j)" by blast
  from c(1) memGood_delete[OF 9(1) c(2,3)] memPresent_delete[OF c(3)] show ?case by (simp add: memNetwork_def)
next
  case (10 w net k)
  from memChange_clear[OF 10] memGood_clear[OF 10] memGood_Some(2)[OF 10] show ?case
    by (simp add: memReconciler_simps memNetwork_def memPresent_def memDeleting_def isNet_def)
next
  case (11 w net)
  from memChange_finalizer[OF 11] 11(1) show ?case
    by (auto simp: memReconciler_simps memNetwork_def memPresent_def memGood_def)
next
  case (12 w net t reason msg)
  then show ?case by (simp add: memReconciler_simps)
qed

lemma memGood_deletingWorld: "memGood deletingWorld" "memNetwork deletingWorld = Some deletingNetwork"
proof -
  have "managedWithID (entry k (resources deletingNetwork)) \<longrightarrow> nameOf k sampleCloud (rs_ID (entry k (resources deletingNetwork)))
      \<in> {None, Some (rs_Name (entry k (resources deletingNetwork)))}" for k
    by (cases k) (simp_all add: deletingNetwork_def managedStatus_def sampleCloud_def emptyCloud_def)
  moreover have "isNet ''fleet'' ''n'' deletingNetwork" by code_simp
  ultimately show "memGood deletingWorld" "memNetwork deletingWorld = Some deletingNetwork"
    by (simp_all add: memGood_def namesKept_def memDeleting_def deletingWorld_def deletingNetwork_def sampleNetwork_def
        emptyWorld_def sampleCloud_def emptyCloud_def memNetwork_def)
qed

lemma todo_deletingNetwork: "todo deletingNetwork = [(GroupKind, ''g1''), (SubnetKind, ''s1''), (VPCKind, ''v1'')]"
  by code_simp

lemma memPresent_deletingWorld: "memPresent deletingWorld = {(GroupKind, ''g1''), (SubnetKind, ''s1''), (VPCKind, ''v1'')}"
proof -
  have "(k, i) \<in> memPresent deletingWorld \<longleftrightarrow> (k, i) \<in> {(GroupKind, ''g1''), (SubnetKind, ''s1''), (VPCKind, ''v1'')}" for k i
    by (cases k) (auto simp: memPresent_def deletingWorld_def sampleCloud_def emptyCloud_def)
  then show ?thesis by auto
qed

section \<open>Properties\<close>

text \<open>
  C4: Deletion refines the abstract machine: in an environment where calls succeed and the cluster's
  machines and ports are gone, every reconcile of a network under deletion is one step of
  \<open>deletionStep\<close>. It removes the next recorded resource from the cloud and from the status (group,
  subnet, VPC), or the object itself when none is left, and the environment stays as it is.
\<close>

theorem deletion_refines:
  assumes "deletion_env r ns n service netOf present good" "good w"
  shows "good (snd (Reconcile r ns n w)) \<and>
    deletionState netOf present (snd (Reconcile r ns n w)) = deletionStep (deletionState netOf present w)"
  using deletion_env.Reconcile_step[OF assms] by auto

theorem deletion_refines_witness:
  "deletionState memNetwork memPresent (snd (Reconcile memReconciler ''fleet'' ''n'' deletingWorld)) =
     (Some [(SubnetKind, ''s1''), (VPCKind, ''v1'')], {(SubnetKind, ''s1''), (VPCKind, ''v1'')})"
  using deletion_refines[OF mem_deletion.deletion_env_axioms memGood_deletingWorld(1)]
  by (simp add: deletionState_def memGood_deletingWorld memPresent_deletingWorld todo_deletingNetwork insert_Diff_if)

text \<open>
  C5: Deletion completes: in such an environment the work queue is empty after at most four
  reconciles, the object is gone, and exactly the resources its status recorded as controller-managed
  are gone from the cloud.
\<close>

theorem deletion_completes:
  assumes env: "deletion_env r ns n service netOf present good" and "good w" "netOf w = Some net"
  shows "\<exists>w'. workqueue r ns n 4 w = Some w' \<and> netOf w' = None \<and> present w' = present w - set (todo net)"
  using deletion_env.workqueue_empties[OF env assms(2), of "todo net" "present w" 4] assms(3) length_todo[of net]
  by (auto simp: deletionState_def)

theorem deletion_completes_witness:
  "\<exists>w'. workqueue memReconciler ''fleet'' ''n'' 4 deletingWorld = Some w' \<and> memNetwork w' = None \<and> memPresent w' = {}"
  using deletion_completes[OF mem_deletion.deletion_env_axioms memGood_deletingWorld]
  by (simp add: memPresent_deletingWorld todo_deletingNetwork)

end
