(* ===== verification/Convergence.thy ===== *)
theory Convergence
  imports BootstrapProps Lifecycle
begin

text \<open>
  The way of a network from a new object to a published one. In the locale \<open>live_env\<close>, an environment
  in which the Kubernetes calls succeed, every reconcile advances the object by one phase, the
  finalizer and the owner, until what is left is the policy's own work; \<open>steady_env\<close> adds that this
  work succeeds too. For the Managed policy, \<open>creation_env\<close>, the object is settled from the third
  reconcile on in the sense of the bootstrap controller, which may then hand it to the machine configs.
\<close>

section \<open>Phases\<close>

datatype phase = NeedsFinalizer | NeedsOwner | Bound

definition phaseOf :: "string \<Rightarrow> TCloudClusterNetwork \<Rightarrow> phase" where
  "phaseOf uid net =
     (if NetworkFinalizer \<notin> set (om_Finalizers (Meta net)) then NeedsFinalizer
      else if \<not> hasOwner uid (om_OwnerReferences (Meta net)) then NeedsOwner else Bound)"

fun nextPhases :: "phase \<Rightarrow> phase set" where
  "nextPhases NeedsFinalizer = {NeedsOwner, Bound}"
| "nextPhases NeedsOwner = {Bound}"
| "nextPhases Bound = {Bound}"

lemma hasOwner_iff: "hasOwner uid owners \<longleftrightarrow> (\<exists>owner\<in>set owners. or_UID owner = uid)"
  by (induction owners) auto

lemma phaseOf_cong: "Meta a = Meta b \<Longrightarrow> phaseOf uid a = phaseOf uid b"
  by (simp add: phaseOf_def)

text \<open>
  What the status records exists: every recorded identifier is one of the cloud's, and a recorded
  group has a name.
\<close>

definition consistent :: "TCloudClusterNetwork \<Rightarrow> (kind \<times> string) set \<Rightarrow> bool" where
  "consistent net cloud =
     ((\<forall>k. rs_ID (entry k (resources net)) \<noteq> '''' \<longrightarrow> (k, rs_ID (entry k (resources net))) \<in> cloud) \<and>
      (rs_ID (sgStatus net) \<noteq> '''' \<longrightarrow> rs_Name (sgStatus net) \<noteq> ''''))"

fun setEntry :: "kind \<Rightarrow> ResourceStatus \<Rightarrow> TCloudClusterNetwork \<Rightarrow> TCloudClusterNetwork" where
  "setEntry GroupKind = setSecurityGroup"
| "setEntry SubnetKind = setSubnet"
| "setEntry VPCKind = setVPC"

lemma setEntry_simps [simp]:
  "Meta (setEntry k s net) = Meta net" "Spec (setEntry k s net) = Spec net"
  "entry k' (resources (setEntry k s net)) = (if k' = k then s else entry k' (resources net))"
  "st_OwnershipToken (Status (setEntry k s net)) = st_OwnershipToken (Status net)"
  "sgStatus (setEntry k s net) = (if k = GroupKind then s else sgStatus net)"
  by (cases k; cases k'; simp)+

lemma consistent_mono: "consistent net A \<Longrightarrow> A \<subseteq> B \<Longrightarrow> consistent net B"
  unfolding consistent_def by blast

lemma consistent_cong: "resources a = resources b \<Longrightarrow> consistent a A = consistent b A"
  by (simp add: consistent_def)

lemma consistent_setEntry:
  "consistent net A \<Longrightarrow> (k, rs_ID s) \<in> A \<Longrightarrow> (k = GroupKind \<Longrightarrow> rs_Name s \<noteq> '''') \<Longrightarrow> consistent (setEntry k s net) A"
  by (auto simp: consistent_def)

text \<open>What no step of a reconcile undoes.\<close>

definition advances :: "TCloudClusterNetwork \<Rightarrow> TCloudClusterNetwork \<Rightarrow> bool" where
  "advances net net' = (Meta net' = Meta net \<and> Spec net' = Spec net \<and>
     (\<forall>k. rs_ID (entry k (resources net)) \<noteq> '''' \<longrightarrow> entry k (resources net') = entry k (resources net)))"

lemma advances_refl: "Meta net' = Meta net \<Longrightarrow> Spec net' = Spec net \<Longrightarrow> resources net' = resources net \<Longrightarrow> advances net net'"
  by (simp add: advances_def)

lemma advances_trans: "advances a b \<Longrightarrow> advances b c \<Longrightarrow> advances a c"
  by (simp add: advances_def)

definition recorded :: "TCloudClusterNetwork \<Rightarrow> bool" where
  "recorded net = (\<forall>k. rs_ID (entry k (resources net)) \<noteq> '''')"

lemma recorded_kinds: "recorded net \<Longrightarrow> rs_ID (vpcStatus net) \<noteq> '''' \<and> rs_ID (subnetStatus net) \<noteq> '''' \<and> rs_ID (sgStatus net) \<noteq> ''''"
  unfolding recorded_def by (metis entry.simps)

lemma advances_recorded: "advances a b \<Longrightarrow> recorded a \<Longrightarrow> recorded b"
  by (simp add: advances_def recorded_def)

lemma advances_resources: "advances a b \<Longrightarrow> recorded a \<Longrightarrow> resources b = resources a"
  unfolding advances_def recorded_def by (metis NetworkResourceStatus.equality entry.simps old.unit.exhaust)

lemma settled_recorded: "settled L net \<Longrightarrow> recorded net"
proof -
  assume "settled L net"
  then have "rs_ID (entry k (resources net)) \<noteq> ''''" for k
    by (cases k) (auto simp: settled_def completeNetworkStatus_def split: if_splits)
  then show "recorded net" by (simp add: recorded_def)
qed

lemma managedName_ok: "\<exists>name. managedName lower v base (tokenOf t) = Some name \<and> name \<noteq> ''''"
proof -
  have "length (tokenOf t) \<le> 61" using length_tokenOf[of t] by simp
  then obtain p where "managedName lower v base (tokenOf t) = Some (p @ ''-'' @ tokenOf t)" by (rule managedName_shape)
  then show ?thesis by auto
qed

section \<open>An environment in which calls succeed\<close>

locale live_env = status_lib "Lib r" for r :: "'w TCloudClusterNetworkReconciler" +
  fixes ns n :: string and service :: "'w Service" and cluster :: Unstructured
    and netOf :: "'w \<Rightarrow> TCloudClusterNetwork" and present :: "'w \<Rightarrow> (kind \<times> string) set" and good :: "'w \<Rightarrow> bool"
  assumes finalizer_kept: "f \<in> set fs \<Longrightarrow> AddFinalizer (Lib r) fs f = (fs, False)"
    and get_network: "good w \<Longrightarrow> GetNetwork (Client r) ns n w = (Inr (netOf w), w)"
    and live: "good w \<Longrightarrow> om_DeletionTimestamp (Meta (netOf w)) = None \<and>
          consistent (netOf w) (present w)"
    and get_cluster: "good w \<Longrightarrow> GetCluster (Client r) (firstNonEmpty [nr_Namespace (clusterRef (netOf w)), net_namespace (netOf w)])
          (nr_Name (clusterRef (netOf w))) w = (Inr cluster, w)"
    and credentials: "good w \<Longrightarrow> \<exists>secret creds.
          secretReader r (nr_Namespace (sp_CredentialSecretRef (Spec (netOf w)))) (nr_Name (sp_CredentialSecretRef (Spec (netOf w)))) w
            = (Inr secret, w) \<and>
          CredentialsFromSecret (lib_lower (Lib r)) secret (sp_Region (Spec (netOf w))) (sp_ProjectName (Spec (netOf w)))
            (sp_EndpointType (Spec (netOf w))) = Inr creds \<and> NewService r creds w = (Inr service, w)"
    and update: "good w \<Longrightarrow> x = (netOf w)\<lparr>Meta := (Meta (netOf w))\<lparr>om_Finalizers := fs\<rparr>\<rparr> \<Longrightarrow>
          \<exists>a w'. UpdateNetwork (Client r) x w = (Inr a, w') \<and> good w' \<and> netOf w' = x \<and> present w' = present w"
    and patch_owner: "good w \<Longrightarrow> ownerWrite (netOf w) x \<Longrightarrow>
          \<exists>w'. PatchNetwork (Client r) (netOf w) x w = (Inr x, w') \<and> good w' \<and> netOf w' = x \<and> present w' = present w"
    and patch_status: "good w \<Longrightarrow> Meta x = Meta (netOf w) \<Longrightarrow> Spec x = Spec (netOf w) \<Longrightarrow> consistent x (present w) \<Longrightarrow>
          \<exists>w'. StatusPatchNetwork (Client r) (netOf w) x w = (Inr x, w') \<and> good w' \<and> netOf w' = x \<and> present w' = present w"
begin

text \<open>A status patch that keeps what is recorded consistent leaves the object with the patched status.\<close>

lemma patchStatus_ok:
  assumes "good w" "netOf w = net" "Meta (f net) = Meta net" "Spec (f net) = Spec net" "consistent (f net) (present w)"
  shows "\<exists>w'. patchStatus (Client r) net f w = ((None, f net), w') \<and> good w' \<and> netOf w' = f net \<and> present w' = present w"
  using patch_status[of w "f net"] assms by (auto simp: patchStatus_def)

lemma setCondition_ok:
  assumes "good w" "netOf w = net"
  shows "\<exists>net' w'. setCondition (Lib r) (Client r) net t s reason msg w = (net', w') \<and> good w' \<and> netOf w' = net' \<and>
    present w' = present w \<and> advances net net' \<and> resources net' = resources net"
proof -
  let ?f = "withCondition (Lib r) (mkCondition net t s reason msg)"
  have "consistent (?f net) (present w)" using live[OF assms(1)] assms(2) by (simp cong: consistent_cong)
  with patchStatus_ok[OF assms, of ?f] show ?thesis by (auto simp: setCondition_def advances_refl)
qed

lemma requestable: "good w \<Longrightarrow> rs_ID (entry k (resources (netOf w))) = '''' \<or> (k, rs_ID (entry k (resources (netOf w)))) \<in> present w"
  using live[of w] by (auto simp: consistent_def)

lemma bindClusterOwner_patch:
  assumes "good w" "netOf w = net" "\<not> hasOwner (u_uid cluster) (om_OwnerReferences (Meta net))"
  shows "\<exists>x w'. bindClusterOwner r net w = (((False, Some requeue, None), x), w') \<and> good w' \<and> netOf w' = x \<and>
    om_Finalizers (Meta x) = om_Finalizers (Meta net) \<and> hasOwner (u_uid cluster) (om_OwnerReferences (Meta x)) \<and>
    resources x = resources net \<and> present w' = present w"
proof -
  let ?x = "net\<lparr>Meta := (Meta net)\<lparr>om_OwnerReferences := om_OwnerReferences (Meta net) @ [clusterOwner cluster]\<rparr>\<rparr>"
  from patch_owner[OF assms(1), of ?x] assms(2) obtain w' where "PatchNetwork (Client r) net ?x w = (Inr ?x, w')" "good w'" "netOf w' = ?x"
    "present w' = present w" by auto
  with get_cluster[OF assms(1)] assms(2,3) show ?thesis
    by (simp add: bindClusterOwner_def Let_def hasOwner_iff clusterOwner_def)
qed

lemma markBound_ok:
  assumes "good w" "netOf w = net"
  shows "\<exists>net' w'. markBound r net w = (((True, None, None), net'), w') \<and> good w' \<and> netOf w' = net' \<and> advances net net' \<and>
    present w' = present w \<and> resources net' = resources net"
  using setCondition_ok[OF assms, of ConditionOwnerBound ConditionTrue "''ClusterBound''"
      "Text ''Bound to the Rancher provisioning Cluster''"] by (auto simp: markBound_def)

lemma bindClusterOwner_bound:
  assumes "good w" "netOf w = net" "hasOwner (u_uid cluster) (om_OwnerReferences (Meta net))"
  shows "\<exists>net' w'. bindClusterOwner r net w = (((True, None, None), net'), w') \<and> good w' \<and> netOf w' = net' \<and>
    advances net net' \<and> present w' = present w \<and> resources net' = resources net"
proof (cases "st_ClusterUID (Status net) = u_uid cluster")
  case True
  with get_cluster[OF assms(1)] assms(2,3) markBound_ok[OF assms(1,2)] show ?thesis
    by (simp add: bindClusterOwner_def Let_def clusterOwner_def)
next
  case False
  let ?f = "\<lambda>n. n\<lparr>Status := (Status n)\<lparr>st_ClusterUID := u_uid cluster\<rparr>\<rparr>"
  have "consistent (?f net) (present w)" using live[OF assms(1)] assms(2) by (simp cong: consistent_cong)
  with patchStatus_ok[OF assms(1,2), of ?f] obtain w1 where p: "patchStatus (Client r) net ?f w = ((None, ?f net), w1)"
    "good w1" "netOf w1 = ?f net" "present w1 = present w" by auto
  have "advances net (?f net)" by (simp add: advances_def)
  note adv = advances_trans[OF this]
  from markBound_ok[OF p(2,3)] obtain net' w' where m: "markBound r (?f net) w1 = (((True, None, None), net'), w')" "good w'"
    "netOf w' = net'" "advances (?f net) net'" "present w' = present w1" "resources net' = resources (?f net)" by blast
  from False get_cluster[OF assms(1)] assms(2,3) p(1) m(1)
  have "bindClusterOwner r net w = (((True, None, None), net'), w')" by (simp add: bindClusterOwner_def Let_def clusterOwner_def)
  with m(2,3,5,6) adv[OF m(4)] p(4) show ?thesis by simp
qed

lemma Reconcile_new:
  assumes g: "good w" and p: "NetworkFinalizer \<notin> set (om_Finalizers (Meta (netOf w)))"
  shows "\<exists>w'. Reconcile r ns n w = (Ret requeue None, w') \<and> good w' \<and> NetworkFinalizer \<in> set (om_Finalizers (Meta (netOf w'))) \<and>
    resources (netOf w') = resources (netOf w) \<and> present w' = present w"
proof -
  obtain fs added where f: "AddFinalizer (Lib r) (om_Finalizers (Meta (netOf w))) NetworkFinalizer = (fs, added)" by force
  from add_finalizer[OF f] p have a: "added" "NetworkFinalizer \<in> set fs" by auto
  from update[OF g refl, of fs] obtain ans w' where
    u: "UpdateNetwork (Client r) ((netOf w)\<lparr>Meta := (Meta (netOf w))\<lparr>om_Finalizers := fs\<rparr>\<rparr>) w = (Inr ans, w')" "good w'"
      "netOf w' = (netOf w)\<lparr>Meta := (Meta (netOf w))\<lparr>om_Finalizers := fs\<rparr>\<rparr>" "present w' = present w" by blast
  from u a f get_network[OF g] live[OF g] show ?thesis by (simp add: Reconcile_def Let_def)
qed

lemma Reconcile_live:
  assumes g: "good w" and f: "NetworkFinalizer \<in> set (om_Finalizers (Meta (netOf w)))"
  shows "Reconcile r ns n w = reconcileLive r (netOf w) w"
  using get_network[OF g] live[OF g] finalizer_kept[OF f] by (simp add: Reconcile_def Let_def)

lemma Reconcile_early:
  assumes g: "good w" and p: "phaseOf (u_uid cluster) (netOf w) \<noteq> Bound"
  shows "\<exists>w'. Reconcile r ns n w = (Ret requeue None, w') \<and> good w' \<and> resources (netOf w') = resources (netOf w) \<and>
    present w' = present w \<and> phaseOf (u_uid cluster) (netOf w') \<in> nextPhases (phaseOf (u_uid cluster) (netOf w))"
proof (cases "phaseOf (u_uid cluster) (netOf w)")
  case NeedsFinalizer
  then have "NetworkFinalizer \<notin> set (om_Finalizers (Meta (netOf w)))" by (simp add: phaseOf_def split: if_splits)
  from Reconcile_new[OF g this] NeedsFinalizer show ?thesis by (auto simp: phaseOf_def)
next
  case NeedsOwner
  then have f: "NetworkFinalizer \<in> set (om_Finalizers (Meta (netOf w)))"
    and o: "\<not> hasOwner (u_uid cluster) (om_OwnerReferences (Meta (netOf w)))" by (simp_all add: phaseOf_def split: if_splits)
  from bindClusterOwner_patch[OF g refl o] obtain w' where "bindClusterOwner r (netOf w) w = (((False, Some requeue, None), netOf w'), w')"
    and w': "good w'" "om_Finalizers (Meta (netOf w')) = om_Finalizers (Meta (netOf w))"
      "hasOwner (u_uid cluster) (om_OwnerReferences (Meta (netOf w')))" "resources (netOf w') = resources (netOf w)" "present w' = present w" by blast
  then have run: "Reconcile r ns n w = (Ret requeue None, w')" unfolding Reconcile_live[OF g f] by (simp add: reconcileLive_def)
  have "phaseOf (u_uid cluster) (netOf w') = Bound" using w' f by (simp add: phaseOf_def)
  with run w' NeedsOwner show ?thesis by simp
qed (use p in simp)

text \<open>A bound object is left to its policy.\<close>

lemma Reconcile_bound:
  assumes g: "good w" and p: "phaseOf (u_uid cluster) (netOf w) = Bound"
  shows "\<exists>w1. Reconcile r ns n w = reconcilePolicy r (netOf w1) service w1 \<and> good w1 \<and> advances (netOf w) (netOf w1) \<and>
    present w1 = present w \<and> resources (netOf w1) = resources (netOf w)"
proof -
  from p have f: "NetworkFinalizer \<in> set (om_Finalizers (Meta (netOf w)))"
    and o: "hasOwner (u_uid cluster) (om_OwnerReferences (Meta (netOf w)))" by (simp_all add: phaseOf_def split: if_splits)
  from bindClusterOwner_bound[OF g refl o] obtain net' w1 where b: "bindClusterOwner r (netOf w) w = (((True, None, None), net'), w1)"
    "good w1" "netOf w1 = net'" "advances (netOf w) net'" "present w1 = present w"
    "resources net' = resources (netOf w)" by blast
  from credentials[OF b(2)] b(3) have c: "cloudService r net' w1 = (Inr service, w1)"
    by (auto simp: cloudService_def Let_def)
  from setCondition_ok[OF b(2,3)] obtain net2 w2 where
    s: "setCondition (Lib r) (Client r) net' ConditionCredentials ConditionTrue ''CredentialsAccepted''
          (Text ''Cloud credentials are usable'') w1 = (net2, w2)" "good w2" "netOf w2 = net2" "advances net' net2" "present w2 = present w1"
      "resources net2 = resources net'" by blast
  have "Reconcile r ns n w = reconcilePolicy r (netOf w2) service w2"
    unfolding Reconcile_live[OF g f] using b(1) c s(1,3) by (simp add: reconcileLive_def reconcileCloud_def)
  with s advances_trans[OF b(4) s(4)] b(5,6) show ?thesis by (intro exI[of _ w2]) simp
qed

end

section \<open>Repeated reconciles\<close>

text \<open>The world after a number of reconciles of an object.\<close>

fun reconciles :: "'w TCloudClusterNetworkReconciler \<Rightarrow> string \<Rightarrow> string \<Rightarrow> nat \<Rightarrow> 'w \<Rightarrow> 'w" where
  "reconciles r ns n 0 w = w"
| "reconciles r ns n (Suc k) w = snd (Reconcile r ns n (reconciles r ns n k w))"

text \<open>The policy's work succeeds and keeps the object's metadata.\<close>

locale steady_env = live_env +
  assumes policy_step: "good w \<Longrightarrow> \<exists>res w'. reconcilePolicy r (netOf w) service w = (Ret res None, w') \<and> good w' \<and>
    Meta (netOf w') = Meta (netOf w)"
begin

lemma Reconcile_step:
  assumes g: "good w"
  shows "\<exists>res w'. Reconcile r ns n w = (Ret res None, w') \<and> good w' \<and>
    phaseOf (u_uid cluster) (netOf w') \<in> nextPhases (phaseOf (u_uid cluster) (netOf w))"
proof (cases "phaseOf (u_uid cluster) (netOf w) = Bound")
  case True
  from Reconcile_bound[OF g True] obtain w1 where w1: "Reconcile r ns n w = reconcilePolicy r (netOf w1) service w1" "good w1"
    "advances (netOf w) (netOf w1)" by blast
  from policy_step[OF w1(2)] obtain res w' where w': "reconcilePolicy r (netOf w1) service w1 = (Ret res None, w')" "good w'"
    "Meta (netOf w') = Meta (netOf w1)" by blast
  then have "Meta (netOf w') = Meta (netOf w)" using w1(3) by (simp add: advances_def)
  from phaseOf_cong[OF this] True w1(1) w' show ?thesis by simp
next
  case False
  from Reconcile_early[OF g False] show ?thesis by blast
qed

lemma Reconcile_next:
  assumes "good w"
  shows "good (snd (Reconcile r ns n w))"
    "phaseOf (u_uid cluster) (netOf (snd (Reconcile r ns n w))) \<in> nextPhases (phaseOf (u_uid cluster) (netOf w))"
  using Reconcile_step[OF assms] by auto

lemma reconciles_good: "good w \<Longrightarrow> good (reconciles r ns n k w)"
  by (induction k) (simp_all add: Reconcile_next(1))

lemma reconciles_bound:
  assumes "good w"
  shows "phaseOf (u_uid cluster) (netOf (reconciles r ns n (Suc (Suc k)) w)) = Bound"
proof (induction k)
  case 0
  note steps = Reconcile_next(2)[OF assms] Reconcile_next(2)[OF reconciles_good[OF assms, of "Suc 0"]]
  show ?case using steps by (cases "phaseOf (u_uid cluster) (netOf w)"; cases "phaseOf (u_uid cluster) (netOf (reconciles r ns n (Suc 0) w))") simp_all
next
  case (Suc k)
  from Reconcile_next(2)[OF reconciles_good[OF assms, of "Suc (Suc k)"]] show ?case
    unfolding Suc by (simp only: reconciles.simps nextPhases.simps singleton_iff)
qed

end

section \<open>Managed networks\<close>

text \<open>The outcome of a call that ensures a resource of a kind: requested by ID, or found or created by name.\<close>

definition ensured ::
  "('w \<Rightarrow> bool) \<Rightarrow> ('w \<Rightarrow> TCloudClusterNetwork) \<Rightarrow> ('w \<Rightarrow> (kind \<times> string) set) \<Rightarrow> kind \<Rightarrow> string \<Rightarrow> string \<Rightarrow>
   ('w, error + Resource) io \<Rightarrow> 'w \<Rightarrow> bool" where
  "ensured good netOf present k i nm call w \<longleftrightarrow>
     (\<exists>res w'. call w = (Inr res, w') \<and> good w' \<and> netOf w' = netOf w \<and> present w \<subseteq> present w' \<and>
        (k, res_ID res) \<in> present w' \<and> res_ID res \<noteq> '''' \<and>
        (if i = '''' then res_Name res = nm else res_ID res = i \<and> present w' = present w))"

locale creation_env = live_env +
  assumes managed_policy: "good w \<Longrightarrow> sp_ManagementPolicy (Spec (netOf w)) \<in> {'''', ManagementPolicyManaged}"
    and ensure_vpc: "good w \<Longrightarrow> vr_ID q = '''' \<or> (VPCKind, vr_ID q) \<in> present w \<Longrightarrow>
          ensured good netOf present VPCKind (vr_ID q) (vr_Name q) (EnsureVPC service q) w"
    and ensure_subnet: "good w \<Longrightarrow> sr_ID q' = '''' \<or> (SubnetKind, sr_ID q') \<in> present w \<Longrightarrow>
          ensured good netOf present SubnetKind (sr_ID q') (sr_Name q') (EnsureSubnet service q') w"
    and ensure_group: "good w \<Longrightarrow> gr_ID g = '''' \<or> (GroupKind, gr_ID g) \<in> present w \<Longrightarrow>
          ensured good netOf present GroupKind (gr_ID g) (gr_Name g) (EnsureSecurityGroup service g) w"
begin

lemma recordResource_ok:
  assumes "good w" "netOf w = net" "(k, res_ID res) \<in> present w" "res_ID res \<noteq> ''''"
    and "if rs_ID (entry k (resources net)) = '''' then res_Name res \<noteq> '''' else res_ID res = rs_ID (entry k (resources net))"
  shows "\<exists>net' w'. recordResource r net (entry k (resources net)) (setEntry k) res w = (Inr (net', res), w') \<and>
    good w' \<and> netOf w' = net' \<and> present w' = present w \<and> advances net net' \<and> rs_ID (entry k (resources net')) = res_ID res \<and> res_ID res \<noteq> ''''"
proof (cases "rs_ID (entry k (resources net)) = res_ID res")
  case True
  with assms(1-4) show ?thesis by (simp add: recordResource_def advances_refl)
next
  case False
  with assms(5) have e: "rs_ID (entry k (resources net)) = ''''" "res_Name res \<noteq> ''''" by (simp_all split: if_splits)
  let ?f = "setEntry k \<lparr>rs_ID = res_ID res, rs_Name = res_Name res, rs_ControllerManaged = True\<rparr>"
  have "consistent (?f net) (present w)"
    using live[OF assms(1)] assms(2,3) e(2) by (intro consistent_setEntry) simp_all
  with patchStatus_ok[OF assms(1,2), of ?f] obtain w' where
    "patchStatus (Client r) net ?f w = ((None, ?f net), w')" "good w'" "netOf w' = ?f net" "present w' = present w" by auto
  moreover have "advances net (?f net)" using e(1) by (simp add: advances_def)
  ultimately show ?thesis using False assms(4) by (simp add: recordResource_def)
qed

text \<open>A call that ensures the resource of a kind, followed by its record.\<close>

lemma ensure_and_record:
  assumes g: "good w" "netOf w = net"
    and call: "ensured good netOf present k (rs_ID (entry k (resources net))) nm call w" and nm: "nm \<noteq> ''''"
  shows "\<exists>res net' w1 w'. call w = (Inr res, w1) \<and>
    recordResource r net (entry k (resources net)) (setEntry k) res w1 = (Inr (net', res), w') \<and>
    good w' \<and> netOf w' = net' \<and> (rs_ID (entry k (resources net)) \<noteq> '''' \<longrightarrow> present w' = present w) \<and> advances net net' \<and> rs_ID (entry k (resources net')) = res_ID res \<and> res_ID res \<noteq> ''''"
proof -
  from call obtain res w1 where res: "call w = (Inr res, w1)" "good w1" "netOf w1 = netOf w" "(k, res_ID res) \<in> present w1"
    "res_ID res \<noteq> ''''" "if rs_ID (entry k (resources net)) = '''' then res_Name res = nm
       else res_ID res = rs_ID (entry k (resources net)) \<and> present w1 = present w"
    unfolding ensured_def by blast
  have id: "if rs_ID (entry k (resources net)) = '''' then res_Name res \<noteq> '''' else res_ID res = rs_ID (entry k (resources net))"
    using res(6) nm by (auto split: if_splits)
  have "netOf w1 = net" using res(3) g(2) by simp
  from recordResource_ok[OF res(2) this res(4,5) id] res(1,6) show ?thesis by auto
qed

lemma ensureManagedVPC_ok:
  assumes "good w" "netOf w = net"
  shows "\<exists>res net' w'. ensureManagedVPC r service (tokenOf t) net w = (Inr (net', res), w') \<and> good w' \<and> netOf w' = net' \<and>
    (rs_ID (vpcStatus net) \<noteq> '''' \<longrightarrow> present w' = present w) \<and> advances net net' \<and> rs_ID (vpcStatus net') \<noteq> ''''"
proof -
  obtain name where name: "nameFor r (firstNonEmpty [vs_Name (vpcSpec net), nr_Name (clusterRef net)]) (tokenOf t) = Some name" "name \<noteq> ''''"
    using managedName_ok by blast
  let ?q = "\<lparr>vr_ID = rs_ID (vpcStatus net), vr_Name = name, vr_CIDR = vs_CIDR (vpcSpec net)\<rparr>"
  from requestable[OF assms(1), of VPCKind] ensure_vpc[OF assms(1), of ?q] assms(2)
  have "ensured good netOf present VPCKind (rs_ID (entry VPCKind (resources net))) name (EnsureVPC service ?q) w" by simp
  from ensure_and_record[OF assms this name(2)] name(1) show ?thesis by (auto simp: ensureManagedVPC_def)
qed

lemma ensureManagedSubnet_ok:
  assumes "good w" "netOf w = net"
  shows "\<exists>res net' w'. ensureManagedSubnet r service (tokenOf t) vpc net w = (Inr (net', res), w') \<and> good w' \<and> netOf w' = net' \<and>
    (rs_ID (subnetStatus net) \<noteq> '''' \<longrightarrow> present w' = present w) \<and> advances net net' \<and> rs_ID (subnetStatus net') \<noteq> ''''"
proof -
  obtain name where name: "nameFor r (firstNonEmpty [ss_Name (subnetSpec net), nr_Name (clusterRef net) @ ''-subnet'']) (tokenOf t) = Some name" "name \<noteq> ''''"
    using managedName_ok by blast
  let ?q = "\<lparr>sr_ID = rs_ID (subnetStatus net), sr_VPCID = res_ID vpc, sr_Name = name,
     sr_CIDR = ss_CIDR (subnetSpec net), sr_GatewayIP = ss_GatewayIP (subnetSpec net),
     sr_DNSNameservers = ss_DNSNameservers (subnetSpec net), sr_AvailabilityZone = ss_AvailabilityZone (subnetSpec net)\<rparr>"
  from requestable[OF assms(1), of SubnetKind] ensure_subnet[OF assms(1), of ?q] assms(2)
  have "ensured good netOf present SubnetKind (rs_ID (entry SubnetKind (resources net))) name (EnsureSubnet service ?q) w" by simp
  from ensure_and_record[OF assms this name(2)] name(1) show ?thesis by (auto simp: ensureManagedSubnet_def)
qed

lemma ensureManagedGroup_ok:
  assumes "good w" "netOf w = net"
  shows "\<exists>res net' w'. ensureManagedGroup r service (tokenOf t) net w = (Inr (net', res), w') \<and> good w' \<and> netOf w' = net' \<and>
    (rs_ID (sgStatus net) \<noteq> '''' \<longrightarrow> present w' = present w) \<and> advances net net' \<and> rs_ID (sgStatus net') \<noteq> ''''"
proof -
  obtain name where name: "nameFor r (groupBase net) (tokenOf t) = Some name" "name \<noteq> ''''"
    using managedName_ok by blast
  let ?d = "managedDescription net @ '' ('' @ tokenOf t @ '')''"
  let ?q = "\<lparr>gr_ID = rs_ID (sgStatus net), gr_Name = name, gr_Description = ?d, gr_Rules = [], gr_RemoveRules = []\<rparr>"
  from requestable[OF assms(1), of GroupKind] ensure_group[OF assms(1), of ?q] assms(2)
  have "ensured good netOf present GroupKind (rs_ID (entry GroupKind (resources net))) name (EnsureSecurityGroup service ?q) w" by simp
  from ensure_and_record[OF assms this name(2)] obtain res net' w' where
    o: "obtainManagedGroup r service name ?d net w = (Inr (net', res), w')" and w': "good w'" "netOf w' = net'"
      "rs_ID (sgStatus net) \<noteq> '''' \<longrightarrow> present w' = present w"
    and adv: "advances net net'" "rs_ID (sgStatus net') = res_ID res" "res_ID res \<noteq> ''''"
    by (auto simp: obtainManagedGroup_def)
  have p: "(GroupKind, res_ID res) \<in> present w'" using requestable[OF w'(1), of GroupKind] w'(2) adv by simp
  from ensure_group[OF w'(1), of "rulesRequest net' (res_ID res) name"] p adv(3) obtain res2 w2 where
    w2: "EnsureSecurityGroup service (rulesRequest net' (res_ID res) name) w' = (Inr res2, w2)" "good w2" "netOf w2 = net'"
      "present w2 = present w'"
    using w'(2) by (auto simp: ensured_def rulesRequest_def)
  then have "applyRules r service name res net' w' = (Inr (net', res), w2)" by (simp add: applyRules_def)
  with o name(1) have "ensureManagedGroup r service (tokenOf t) net w = (Inr (net', res), w2)" by (simp add: ensureManagedGroup_def)
  with w2 w'(3) adv show ?thesis by (intro exI[of _ res] exI[of _ net'] exI[of _ w2]) simp
qed

lemma ensureToken_ok:
  assumes "good w" "netOf w = net"
  shows "\<exists>net' w'. ensureToken r net w = (Inr net', w') \<and> good w' \<and> netOf w' = net' \<and>
    present w' = present w \<and> advances net net'"
proof -
  let ?f = "\<lambda>n. n\<lparr>Status := (Status n)\<lparr>st_OwnershipToken := net_uid n\<rparr>\<rparr>"
  have "consistent (?f net) (present w)" using live[OF assms(1)] assms(2) by (simp cong: consistent_cong)
  with patchStatus_ok[OF assms, of ?f] assms show ?thesis by (auto simp: ensureToken_def advances_def)
qed

text \<open>The last patch makes the object settled.\<close>

lemma managedReady_settled:
  assumes "rs_ID (vpcStatus net) \<noteq> ''''" "rs_ID (subnetStatus net) \<noteq> ''''" "rs_ID (sgStatus net) \<noteq> ''''" "rs_Name (sgStatus net) \<noteq> ''''"
  shows "settled (Lib r) (managedReady (Lib r) net)"
  using assms
  by (auto simp: settled_def managedReady_def completeNetworkStatus_def condition_true readyStatus_def condition_of_withCondition
      observeGeneration_def recordApplied_def withCondition_def set_condition)

lemma reconcileManaged_ok:
  assumes "good w" "netOf w = net"
  shows "\<exists>w'. reconcileManaged r net service w = (Ret (requeueAfter (10 * Minute)) None, w') \<and> good w' \<and>
    advances net (netOf w') \<and> settled (Lib r) (netOf w') \<and> (recorded net \<longrightarrow> present w' = present w)"
proof -
  from ensureToken_ok[OF assms] obtain n0 w0 where 0: "ensureToken r net w = (Inr n0, w0)" "good w0" "netOf w0 = n0" "advances net n0"
    "present w0 = present w" by blast
  let ?t = "tokenOf (st_OwnershipToken (Status n0))"
  from ensureManagedVPC_ok[OF 0(2,3)] obtain v n1 w1 where 1: "ensureManagedVPC r service ?t n0 w0 = (Inr (n1, v), w1)"
    "good w1" "netOf w1 = n1" "advances n0 n1" "rs_ID (vpcStatus n1) \<noteq> ''''" "rs_ID (vpcStatus n0) \<noteq> '''' \<longrightarrow> present w1 = present w0" by blast
  from ensureManagedSubnet_ok[OF 1(2,3)] obtain s n2 w2 where 2: "ensureManagedSubnet r service ?t v n1 w1 = (Inr (n2, s), w2)"
    "good w2" "netOf w2 = n2" "advances n1 n2" "rs_ID (subnetStatus n2) \<noteq> ''''" "rs_ID (subnetStatus n1) \<noteq> '''' \<longrightarrow> present w2 = present w1" by blast
  from ensureManagedGroup_ok[OF 2(2,3)] obtain g n3 w3 where 3: "ensureManagedGroup r service ?t n2 w2 = (Inr (n3, g), w3)"
    "good w3" "netOf w3 = n3" "advances n2 n3" "rs_ID (sgStatus n3) \<noteq> ''''" "rs_ID (sgStatus n2) \<noteq> '''' \<longrightarrow> present w3 = present w2" by blast
  have "rs_ID (entry VPCKind (resources n3)) \<noteq> ''''" "rs_ID (entry SubnetKind (resources n3)) \<noteq> ''''"
    using 1(5) 2(4,5) 3(4) unfolding advances_def by (metis entry.simps)+
  then have ids: "rs_ID (vpcStatus n3) \<noteq> ''''" "rs_ID (subnetStatus n3) \<noteq> ''''" by simp_all
  have "rs_Name (sgStatus n3) \<noteq> ''''" using live[OF 3(2)] 3(3,5) by (simp add: consistent_def)
  note ready = managedReady_settled[OF ids 3(5) this]
  have frame: "Meta (managedReady (Lib r) n3) = Meta n3" "Spec (managedReady (Lib r) n3) = Spec n3"
    "resources (managedReady (Lib r) n3) = resources n3"
    by (simp_all add: managedReady_def readyStatus_def recordApplied_def observeGeneration_def)
  have "consistent (managedReady (Lib r) n3) (present w3)" using live[OF 3(2)] 3(3) frame(3) by (simp cong: consistent_cong)
  with patchStatus_ok[OF 3(2,3), of "managedReady (Lib r)"] frame(1,2) obtain w4 where
    "publishReady r n3 (managedReady (Lib r)) w3 = (Ret (requeueAfter (10 * Minute)) None, w4)" and 4: "good w4"
    "netOf w4 = managedReady (Lib r) n3" "present w4 = present w3" by (auto simp: publishReady_def)
  then have run: "reconcileManaged r net service w = (Ret (requeueAfter (10 * Minute)) None, w4)"
    using 0(1) 1(1) 2(1) 3(1) by (simp add: reconcileManaged_def Let_def)
  note adv = 0(4) advances_trans[OF 0(4) 1(4)] advances_trans[OF advances_trans[OF 0(4) 1(4)] 2(4)]
  have "present w4 = present w" if "recorded net"
    using adv[THEN advances_recorded, OF that, THEN recorded_kinds] 0(5) 1(6) 2(6) 3(6) 4(3) by simp
  moreover have "advances net (netOf w4)" unfolding 4(2)
    by (rule advances_trans[OF advances_trans[OF adv(3) 3(4)] advances_refl[OF frame]])
  ultimately show ?thesis using run 4(1,2) ready by simp
qed

lemma policy_managed: "good w \<Longrightarrow> reconcilePolicy r (netOf w) service w = reconcileManaged r (netOf w) service w"
  using managed_policy[of w] by (auto simp: reconcilePolicy_def)

end

sublocale creation_env \<subseteq> steady_env
proof unfold_locales
  fix w assume "good w"
  from reconcileManaged_ok[OF this refl] policy_managed[OF this]
  show "\<exists>res w'. reconcilePolicy r (netOf w) service w = (Ret res None, w') \<and> good w' \<and> Meta (netOf w') = Meta (netOf w)"
    by (auto simp: advances_def)
qed

context creation_env
begin

lemma Reconcile_managed:
  assumes g: "good w" and p: "phaseOf (u_uid cluster) (netOf w) = Bound"
  shows "settled (Lib r) (netOf (snd (Reconcile r ns n w)))" "advances (netOf w) (netOf (snd (Reconcile r ns n w)))"
    "recorded (netOf w) \<Longrightarrow> present (snd (Reconcile r ns n w)) = present w"
proof -
  from Reconcile_bound[OF g p] obtain w1 where w1: "Reconcile r ns n w = reconcilePolicy r (netOf w1) service w1" "good w1"
    "advances (netOf w) (netOf w1)" "present w1 = present w" by blast
  from reconcileManaged_ok[OF w1(2) refl] w1(1) policy_managed[OF w1(2)] obtain w' where run: "snd (Reconcile r ns n w) = w'"
    "advances (netOf w1) (netOf w')" "settled (Lib r) (netOf w')" "recorded (netOf w1) \<longrightarrow> present w' = present w1" by auto
  show "settled (Lib r) (netOf (snd (Reconcile r ns n w)))" unfolding run(1) by (rule run(3))
  show "advances (netOf w) (netOf (snd (Reconcile r ns n w)))" unfolding run(1) by (rule advances_trans[OF w1(3) run(2)])
  show "recorded (netOf w) \<Longrightarrow> present (snd (Reconcile r ns n w)) = present w"
    unfolding run(1) using run(4) advances_recorded[OF w1(3)] w1(4) by simp
qed

lemma reconciles_settled:
  assumes "good w"
  shows "settled (Lib r) (netOf (reconciles r ns n (Suc (Suc (Suc k))) w))"
  using Reconcile_managed(1)[OF reconciles_good[OF assms, of "Suc (Suc k)"] reconciles_bound[OF assms, of k]]
  by (simp only: reconciles.simps)

lemma reconciles_consistent:
  "good w \<Longrightarrow> consistent (netOf (reconciles r ns n k w)) (present (reconciles r ns n k w))"
  using live[OF reconciles_good] by blast

text \<open>From then on nothing is created and no recorded resource changes.\<close>

lemma reconciles_stable:
  assumes "good w"
  shows "present (reconciles r ns n (Suc (Suc (Suc (Suc k)))) w) = present (reconciles r ns n (Suc (Suc (Suc k))) w)"
    "resources (netOf (reconciles r ns n (Suc (Suc (Suc (Suc k)))) w)) = resources (netOf (reconciles r ns n (Suc (Suc (Suc k))) w))"
proof -
  note rec = settled_recorded[OF reconciles_settled[OF assms, of k]]
  note step = Reconcile_managed[OF reconciles_good[OF assms, of "Suc (Suc (Suc k))"] reconciles_bound[OF assms, of "Suc k"]]
  from step(3) advances_resources[OF step(2)] rec show
    "present (reconciles r ns n (Suc (Suc (Suc (Suc k)))) w) = present (reconciles r ns n (Suc (Suc (Suc k))) w)"
    "resources (netOf (reconciles r ns n (Suc (Suc (Suc (Suc k)))) w)) = resources (netOf (reconciles r ns n (Suc (Suc (Suc k))) w))"
    by (simp_all only: reconciles.simps)
qed

end

end
