(* ===== verification/ConvergenceMem.thy ===== *)
theory ConvergenceMem
  imports Convergence
begin

text \<open>
  The creation environment realised: the T-Cloud service on the in-memory cloud beside the in-memory
  cluster. The rows of a kind are its resources as key, identifier and name; in a good cloud no two
  resources of a kind share a name and every identifier is its key and older than the next one.
\<close>

section \<open>The cloud\<close>

fun rows :: "kind \<Rightarrow> mem_cloud \<Rightarrow> (string \<times> string \<times> string) list" where
  "rows GroupKind c = map (\<lambda>(i, g). (i, sg_ID g, sg_Name g)) (mc_groups c)"
| "rows SubnetKind c = map (\<lambda>(i, s). (i, sn_ID s, sn_Name s)) (mc_subnets c)"
| "rows VPCKind c = map (\<lambda>(i, v). (i, sv_ID v, sv_Name v)) (mc_vpcs c)"

definition rowsOk :: "nat \<Rightarrow> (string \<times> string \<times> string) list \<Rightarrow> bool" where
  "rowsOk next rs = (distinct (map fst rs) \<and> distinct (map (snd \<circ> snd) rs) \<and>
     (\<forall>(i, j, nm)\<in>set rs. j = i \<and> i \<noteq> '''' \<and> length i \<le> next))"

definition cloudOk :: "mem_cloud \<Rightarrow> bool" where
  "cloudOk c = (\<forall>k. rowsOk (mc_next c) (rows k c))"

lemma rowsOk_later: "rowsOk n rs \<Longrightarrow> n \<le> m \<Longrightarrow> rowsOk m rs"
  unfolding rowsOk_def by fastforce

lemma rowsOk_fresh:
  assumes "rowsOk n rs" "nm \<notin> set (map (snd \<circ> snd) rs)"
  shows "rowsOk (Suc n) ((freshID n, freshID n, nm) # rs)"
proof -
  have "freshID n \<notin> fst ` set rs" using assms(1) length_freshID[of n] by (fastforce simp: rowsOk_def)
  moreover have "freshID n \<noteq> ''''" by (simp add: freshID_def)
  ultimately show ?thesis using assms rowsOk_later[of n rs "Suc n"] by (auto simp: rowsOk_def)
qed

lemma cloudOk_same: "cloudOk c \<Longrightarrow> (\<And>k. rows k c' = rows k c) \<Longrightarrow> mc_next c \<le> mc_next c' \<Longrightarrow> cloudOk c'"
  by (auto simp: cloudOk_def intro: rowsOk_later)

lemma cloudOk_new:
  assumes "cloudOk c" "\<And>k'. rows k' c' = (if k' = k then (freshID (mc_next c), freshID (mc_next c), nm) # rows k c else rows k' c)"
    "mc_next c' = Suc (mc_next c)" "nm \<notin> set (map (snd \<circ> snd) (rows k c))"
  shows "cloudOk c'"
  unfolding cloudOk_def
proof
  fix k'
  show "rowsOk (mc_next c') (rows k' c')"
    using assms(1,4) rowsOk_fresh[of "mc_next c" "rows k c" nm] rowsOk_later[of "mc_next c" "rows k' c" "Suc (mc_next c)"]
    unfolding assms(2,3) cloudOk_def by auto
qed

lemma nameOf_rows: "nameOf k c i = map_option snd (map_of (rows k c) i)"
  by (cases k) (simp_all add: map_of_map[of "\<lambda>v. (sv_ID v, sv_Name v)"] map_of_map[of "\<lambda>v. (sn_ID v, sn_Name v)"]
      map_of_map[of "\<lambda>v. (sg_ID v, sg_Name v)"] option.map_comp comp_def)

lemma memPresent_rows: "(k, i) \<in> memPresent w \<longleftrightarrow> i \<in> fst ` set (rows k (mw_cloud w))"
  by (simp add: memPresent_def nameOf_rows map_of_eq_None_iff)

section \<open>Ensuring a resource\<close>

definition memEnsured :: "kind \<Rightarrow> string \<Rightarrow> string \<Rightarrow> (mem_cloud, error + Resource) io \<Rightarrow> mem_cloud \<Rightarrow> bool" where
  "memEnsured k i nm call c \<longleftrightarrow>
     (\<exists>res c'. call c = (Inr res, c') \<and> cloudOk c' \<and> (\<forall>k'. set (rows k' c) \<subseteq> set (rows k' c')) \<and>
        (res_ID res, res_ID res, res_Name res) \<in> set (rows k c') \<and>
        (if i = '''' then res_Name res = nm else res_ID res = i \<and> (\<forall>k'. rows k' c' = rows k' c)))"

lemma memEnsured_found:
  "cloudOk c \<Longrightarrow> call c = (Inr res, c) \<Longrightarrow> (j, res_ID res, res_Name res) \<in> set (rows k c) \<Longrightarrow>
   (if i = '''' then res_Name res = nm else j = i) \<Longrightarrow> memEnsured k i nm call c"
  unfolding memEnsured_def cloudOk_def rowsOk_def by fastforce

lemma memEnsured_created:
  assumes "cloudOk c" "call c = (Inr \<lparr>res_ID = freshID (mc_next c), res_Name = nm\<rparr>, c')"
    "\<And>k'. rows k' c' = (if k' = k then (freshID (mc_next c), freshID (mc_next c), nm) # rows k c else rows k' c)"
    "mc_next c' = Suc (mc_next c)" "nm \<notin> set (map (snd \<circ> snd) (rows k c))"
  shows "memEnsured k '''' nm call c"
  using assms(2) cloudOk_new[OF assms(1,3-5)] unfolding memEnsured_def by (auto simp: assms(3))

lemma filter_names:
  assumes "distinct (map f xs)"
  shows "filter (\<lambda>x. f x = nm) xs = (case find (\<lambda>x. f x = nm) xs of None \<Rightarrow> [] | Some x \<Rightarrow> [x])"
  using assms
proof (induction xs)
  case (Cons a xs)
  have "filter (\<lambda>x. f x = nm) xs = []" if "f a = nm" using Cons.prems that by (auto simp: filter_empty_conv image_iff)
  with Cons show ?case by auto
qed simp

lemma map_of_rows_found:
  "map_of (mc_vpcs c) i = Some v \<Longrightarrow> (i, sv_ID v, sv_Name v) \<in> set (rows VPCKind c)"
  "map_of (mc_subnets c) i = Some s \<Longrightarrow> (i, sn_ID s, sn_Name s) \<in> set (rows SubnetKind c)"
  "map_of (mc_groups c) i = Some g \<Longrightarrow> (i, sg_ID g, sg_Name g) \<in> set (rows GroupKind c)"
  by (force dest: map_of_SomeD)+

lemma names_rows: "cloudOk c \<Longrightarrow> distinct (map sv_Name (map snd (mc_vpcs c)))"
  "cloudOk c \<Longrightarrow> distinct (map sn_Name (map snd (mc_subnets c)))"
  "cloudOk c \<Longrightarrow> distinct (map sg_Name (map snd (mc_groups c)))"
proof -
  have n: "map (snd \<circ> snd) (rows VPCKind c) = map sv_Name (map snd (mc_vpcs c))"
    "map (snd \<circ> snd) (rows SubnetKind c) = map sn_Name (map snd (mc_subnets c))"
    "map (snd \<circ> snd) (rows GroupKind c) = map sg_Name (map snd (mc_groups c))" by auto
  assume "cloudOk c"
  then have "distinct (map (snd \<circ> snd) (rows k c))" for k by (simp add: cloudOk_def rowsOk_def)
  from this[of VPCKind] this[of SubnetKind] this[of GroupKind] show "distinct (map sv_Name (map snd (mc_vpcs c)))"
    "distinct (map sn_Name (map snd (mc_subnets c)))" "distinct (map sg_Name (map snd (mc_groups c)))"
    unfolding n by simp_all
qed

lemma present_id: "cloudOk c \<Longrightarrow> i \<in> fst ` set (rows k c) \<Longrightarrow> i \<noteq> ''''"
  unfolding cloudOk_def rowsOk_def by fastforce

lemma memSdk_simps:
  "vpcs_List memSdk n c = (Inr (filter (\<lambda>v. sv_Name v = n) (map snd (mc_vpcs c))), c)" "vpcs_Create memSdk = mem_CreateVPC"
  "vpcs_Get memSdk i c = (lookupOr404 (\<lambda>v. v) (mc_vpcs c) i, c)"
  "subnets_List memSdk v n c = (Inr (filter (\<lambda>s. sn_Name s = n) (map snd (mc_subnets c))), c)" "subnets_Create memSdk = mem_CreateSubnet"
  "subnets_Get memSdk i c = (lookupOr404 (\<lambda>v. v) (mc_subnets c) i, c)"
  "secgroups_Get memSdk i c = (lookupOr404 (\<lambda>v. v) (mc_groups c) i, c)"
  "secgroups_AllPages memSdk c = (Inr (Inr (map snd (mc_groups c))), c)"
  "secgroups_Create memSdk = mem_CreateGroup" "secgroups_CreateRule memSdk = mem_CreateRule"
  "secgroups_DeleteRule memSdk = mem_DeleteRule"
  by (simp_all add: memSdk_def)

lemma rows_created:
  "rows k (snd (mem_CreateVPC n cidr c)) = (if k = VPCKind then (freshID (mc_next c), freshID (mc_next c), n) # rows VPCKind c else rows k c)"
  "rows k (snd (mem_CreateSubnet opts c)) =
     (if k = SubnetKind then (freshID (mc_next c), freshID (mc_next c), so_Name opts) # rows SubnetKind c else rows k c)"
  "rows k (snd (mem_CreateGroup n d c)) = (if k = GroupKind then (freshID (mc_next c), freshID (mc_next c), n) # rows GroupKind c else rows k c)"
  by (cases k; simp add: mem_CreateVPC_def mem_CreateSubnet_def mem_CreateGroup_def Let_def)+

lemma next_created:
  "mc_next (snd (mem_CreateVPC n cidr c)) = Suc (mc_next c)" "mc_next (snd (mem_CreateSubnet opts c)) = Suc (mc_next c)"
  "mc_next (snd (mem_CreateGroup n d c)) = Suc (mc_next c)"
  by (simp_all add: mem_CreateVPC_def mem_CreateSubnet_def mem_CreateGroup_def Let_def)

text \<open>A call that reads by ID, else takes the resource of the name, else creates it.\<close>

lemma memEnsured_lookup:
  assumes ok: "cloudOk c" and i: "i = '''' \<or> i \<in> fst ` set (rows k c)"
    and rows: "rows k c = map (\<lambda>(i, v). (i, idf v, namef v)) al"
    and by_id: "\<And>v. i \<noteq> '''' \<Longrightarrow> map_of al i = Some v \<Longrightarrow> call c = (Inr \<lparr>res_ID = idf v, res_Name = namef v\<rparr>, c)"
    and by_name: "\<And>v. i = '''' \<Longrightarrow> find (\<lambda>v. namef v = nm) (map snd al) = Some v \<Longrightarrow>
      call c = (Inr \<lparr>res_ID = idf v, res_Name = namef v\<rparr>, c)"
    and create: "i = '''' \<Longrightarrow> find (\<lambda>v. namef v = nm) (map snd al) = None \<Longrightarrow> call c = (Inr \<lparr>res_ID = freshID (mc_next c), res_Name = nm\<rparr>, c')"
    and new: "\<And>k'. rows k' c' = (if k' = k then (freshID (mc_next c), freshID (mc_next c), nm) # rows k c else rows k' c)"
      "mc_next c' = Suc (mc_next c)"
  shows "memEnsured k i nm call c"
proof (cases "i = ''''")
  case False
  with i obtain v where v: "map_of al i = Some v" by (force simp: rows dest: weak_map_of_SomeI)
  then have "(i, idf v, namef v) \<in> set (rows k c)" unfolding rows by (force dest: map_of_SomeD)
  with False show ?thesis by (intro memEnsured_found[where call = call, OF ok by_id[OF False v]]) simp_all
next
  case True
  show ?thesis
  proof (cases "find (\<lambda>v. namef v = nm) (map snd al)")
    case (Some v)
    then have v: "v \<in> snd ` set al" "namef v = nm" by (auto simp: find_Some_iff)
    then obtain j where "(j, idf v, namef v) \<in> set (rows k c)" unfolding rows by force
    with True v(2) show ?thesis by (intro memEnsured_found[where call = call, OF ok by_name[OF True Some]]) simp_all
  next
    case None
    then have "nm \<notin> set (map (snd \<circ> snd) (rows k c))" unfolding rows by (auto simp: find_None_iff)
    from memEnsured_created[where call = call, OF ok create[OF True None] new this] True show ?thesis by simp
  qed
qed

lemma mem_EnsureVPC:
  assumes "cloudOk c" "vr_ID q = '''' \<or> vr_ID q \<in> fst ` set (rows VPCKind c)"
  shows "memEnsured VPCKind (vr_ID q) (vr_Name q) (tcloud_EnsureVPC memSdk q) c"
  using filter_names[OF names_rows(1)[OF assms(1)], of "vr_Name q"]
  by (intro memEnsured_lookup[OF assms rows.simps(3) _ _ _ rows_created(1) next_created(1)])
    (simp_all add: tcloud_EnsureVPC_def tcloud_GetVPC_def memSdk_simps lookupOr404_def vpcResource_def mem_CreateVPC_def Let_def)

lemma mem_EnsureSubnet:
  assumes "cloudOk c" "sr_ID q = '''' \<or> sr_ID q \<in> fst ` set (rows SubnetKind c)"
  shows "memEnsured SubnetKind (sr_ID q) (sr_Name q) (tcloud_EnsureSubnet memSdk q) c"
proof -
  let ?opts = "\<lparr>so_VpcID = sr_VPCID q, so_Name = sr_Name q, so_CIDR = sr_CIDR q, so_GatewayIP = sr_GatewayIP q,
    so_DNSList = (if length (sr_DNSNameservers q) = 0 then defaultDNS else sr_DNSNameservers q),
    so_AvailabilityZone = sr_AvailabilityZone q, so_EnableDHCP = True\<rparr>"
  show ?thesis
    using filter_names[OF names_rows(2)[OF assms(1)], of "sr_Name q"] rows_created(2)[of _ ?opts c]
    by (intro memEnsured_lookup[OF assms rows.simps(2), where c' = "snd (mem_CreateSubnet ?opts c)"])
      (simp_all add: tcloud_EnsureSubnet_def tcloud_GetSubnet_def memSdk_simps lookupOr404_def subnetResource_def
        mem_CreateSubnet_def Let_def)
qed

text \<open>The loops over the rules change no row and succeed on a group that exists.\<close>

lemma map_update_same:
  assumes "map_of al i = Some v" "f (i, v') = f (i, v)"
  shows "map f (AList.update i v' al) = map f al"
  using assms by (induction al) auto

lemma mem_CreateRule_ok:
  assumes "map_of (mc_groups c) (ro_ParentGroupID opts) \<noteq> None"
  shows "\<exists>c'. mem_CreateRule opts c = (None, c') \<and> (\<forall>k. rows k c' = rows k c) \<and> mc_next c \<le> mc_next c'"
proof -
  have "rows k (snd (mem_CreateRule opts c)) = rows k c" for k
    using assms by (cases k) (auto simp: mem_CreateRule_def Let_def map_update_same split: option.splits)
  moreover have "fst (mem_CreateRule opts c) = None" "mc_next c \<le> mc_next (snd (mem_CreateRule opts c))"
    using assms by (auto simp: mem_CreateRule_def Let_def split: option.splits)
  ultimately show ?thesis by (metis prod.collapse)
qed

lemma rows_group: "map_of (mc_groups c) i \<noteq> None \<longleftrightarrow> i \<in> fst ` set (rows GroupKind c)"
  by (force simp: map_of_eq_None_iff)

lemma addRules_mem:
  "sg_ID g \<in> fst ` set (rows GroupKind c) \<Longrightarrow>
   \<exists>c'. addRules orbit memSdk g rules c = (None, c') \<and> (\<forall>k. rows k c' = rows k c) \<and> mc_next c \<le> mc_next c'"
proof (induction rules arbitrary: c)
  case (Cons rule rules)
  show ?case
  proof (cases "hasRule orbit g rule")
    case True
    with Cons show ?thesis by simp
  next
    case False
    have "map_of (mc_groups c) (ro_ParentGroupID (ruleOpts g rule)) \<noteq> None"
      using Cons.prems by (simp only: rows_group ruleOpts_def CreateRuleOpts.select_convs)
    from mem_CreateRule_ok[OF this] obtain c1 where c1: "mem_CreateRule (ruleOpts g rule) c = (None, c1)"
      "\<forall>k. rows k c1 = rows k c" "mc_next c \<le> mc_next c1" by blast
    from Cons.IH[of c1] Cons.prems c1 False show ?thesis by (force simp: memSdk_simps)
  qed
qed simp

lemma mem_DeleteRule_ok: "\<exists>c'. mem_DeleteRule i c = (None, c') \<and> (\<forall>k. rows k c' = rows k c) \<and> mc_next c' = mc_next c"
proof -
  have "rows k (snd (mem_DeleteRule i c)) = rows k c" for k by (cases k) (auto simp: mem_DeleteRule_def)
  then show ?thesis by (simp add: mem_DeleteRule_def)
qed

lemma removeMatching_mem:
  "\<exists>c'. removeMatching orbit memSdk g obsolete rs c = (None, c') \<and> (\<forall>k. rows k c' = rows k c) \<and> mc_next c' = mc_next c"
proof (induction rs arbitrary: c)
  case (Cons r rs)
  from mem_DeleteRule_ok[of "sk_ID r" c] obtain c1 where "mem_DeleteRule (sk_ID r) c = (None, c1)" "\<forall>k. rows k c1 = rows k c"
    "mc_next c1 = mc_next c" by blast
  with Cons[of c] Cons[of c1] show ?case by (auto simp: memSdk_simps)
qed simp

lemma removeRules_mem:
  "\<exists>c'. removeRules orbit memSdk g rules c = (None, c') \<and> (\<forall>k. rows k c' = rows k c) \<and> mc_next c' = mc_next c"
proof (induction rules arbitrary: c)
  case (Cons rule rules)
  from removeMatching_mem[of orbit g rule "sg_Rules g" c] obtain c1 where
    "removeMatching orbit memSdk g rule (sg_Rules g) c = (None, c1)" "\<forall>k. rows k c1 = rows k c" "mc_next c1 = mc_next c" by blast
  with Cons[of c1] show ?case by auto
qed simp

lemma findByName_mem:
  "distinct (map sg_Name gs) \<Longrightarrow> findByName nm None gs = Inr (find (\<lambda>g. sg_Name g = nm) gs)"
proof (induction gs)
  case (Cons g gs)
  have "findByName nm (Some g0) gs = Inr (Some g0)" if "nm \<notin> sg_Name ` set gs" for g0 using that by (induction gs) auto
  with Cons show ?case by auto
qed simp

definition obtainedGroup :: "SecurityGroupRequest \<Rightarrow> (mem_cloud, error + Resource) io" where
  "obtainedGroup q c = (case obtainGroup memSdk q c of (Inl err, c) \<Rightarrow> (Inl err, c) | (Inr g, c) \<Rightarrow> (Inr (groupResource g), c))"

lemma mem_obtainGroup:
  assumes "cloudOk c" "gr_ID q = '''' \<or> gr_ID q \<in> fst ` set (rows GroupKind c)"
  shows "memEnsured GroupKind (gr_ID q) (gr_Name q) (obtainedGroup q) c"
  using findByName_mem[OF names_rows(3)[OF assms(1)], of "gr_Name q"]
  by (intro memEnsured_lookup[OF assms rows.simps(1) _ _ _ rows_created(3) next_created(3)])
    (simp_all add: obtainedGroup_def obtainGroup_def memSdk_simps lookupOr404_def groupResource_def mem_CreateGroup_def Let_def)

lemma mem_EnsureSecurityGroup:
  assumes "cloudOk c" "gr_ID q = '''' \<or> gr_ID q \<in> fst ` set (rows GroupKind c)"
  shows "memEnsured GroupKind (gr_ID q) (gr_Name q) (tcloud_EnsureSecurityGroup orbit memSdk q) c"
proof -
  from mem_obtainGroup[OF assms] obtain res c1 where r: "obtainedGroup q c = (Inr res, c1)" "cloudOk c1"
    "\<forall>k. set (rows k c) \<subseteq> set (rows k c1)" "(res_ID res, res_ID res, res_Name res) \<in> set (rows GroupKind c1)"
    "if gr_ID q = '''' then res_Name res = gr_Name q else res_ID res = gr_ID q \<and> (\<forall>k. rows k c1 = rows k c)"
    unfolding memEnsured_def by blast
  then obtain g where g: "obtainGroup memSdk q c = (Inr g, c1)" "res = groupResource g"
    by (auto simp: obtainedGroup_def split: prod.splits sum.splits)
  have "sg_ID g \<in> fst ` set (rows GroupKind c1)" using r(4) g(2) by (force simp: groupResource_def simp del: rows.simps)
  from addRules_mem[OF this, of orbit "gr_Rules q"] obtain c2 where a: "addRules orbit memSdk g (gr_Rules q) c1 = (None, c2)"
    "\<forall>k. rows k c2 = rows k c1" "mc_next c1 \<le> mc_next c2" by blast
  from removeRules_mem[of orbit g "gr_RemoveRules q" c2] obtain c3 where
    d: "removeRules orbit memSdk g (gr_RemoveRules q) c2 = (None, c3)" "\<forall>k. rows k c3 = rows k c2" "mc_next c3 = mc_next c2" by blast
  have "tcloud_EnsureSecurityGroup orbit memSdk q c = (Inr res, c3)" using g a(1) d(1) by (simp add: tcloud_EnsureSecurityGroup_def)
  moreover have "cloudOk c3" using cloudOk_same[OF r(2), of c3] a(2,3) d(2,3) by (simp del: rows.simps)
  ultimately show ?thesis using r(3-5) a(2) d(2) unfolding memEnsured_def by (intro exI[of _ res] exI[of _ c3]) (simp del: rows.simps)
qed

section \<open>The cluster\<close>

definition memNet :: "mem_world \<Rightarrow> TCloudClusterNetwork" where
  "memNet w = hd (mw_networks w)"

text \<open>
  The object's policy and name, its cluster, and the machines, further Secrets and machine configs
  beside it are parameters, and so is what is known of the cloud.
\<close>

definition memState :: "ManagementPolicy \<Rightarrow> Unstructured list \<Rightarrow> Secret list \<Rightarrow> (mem_cloud \<Rightarrow> bool) \<Rightarrow> string \<Rightarrow> Unstructured \<Rightarrow>
  Unstructured list \<Rightarrow> mem_world \<Rightarrow> bool" where
  "memState pol ms ss C nm cl cfgs w = (mw_secrets w = sampleCredentials # ss \<and> mw_clusters w = [cl] \<and> isObj ''fleet'' ''c'' cl \<and>
     mw_machines w = ms \<and> mw_configs w = cfgs \<and> cloudOk (mw_cloud w) \<and> C (mw_cloud w) \<and>
     mw_networks w = [memNet w] \<and> isNet ''fleet'' nm (memNet w) \<and> om_DeletionTimestamp (Meta (memNet w)) = None \<and>
     Spec (memNet w) = sampleSpec\<lparr>sp_ManagementPolicy := pol\<rparr> \<and> consistent (memNet w) (memPresent w))"

abbreviation memLive :: "string \<Rightarrow> Unstructured \<Rightarrow> Unstructured list \<Rightarrow> mem_world \<Rightarrow> bool" where
  "memLive \<equiv> memState '''' [] [] (\<lambda>_. True)"

lemma ensured_mem:
  assumes w: "memLive nm cl cfgs w" and c: "memEnsured k i name call (mw_cloud w)"
  shows "ensured (memLive nm cl cfgs) memNet memPresent k i name (onCloud call) w"
proof -
  from c obtain res c' where r: "call (mw_cloud w) = (Inr res, c')" "cloudOk c'" "\<forall>k'. set (rows k' (mw_cloud w)) \<subseteq> set (rows k' c')"
    "(res_ID res, res_ID res, res_Name res) \<in> set (rows k c')" "if i = '''' then res_Name res = name else res_ID res = i \<and> (\<forall>k'. rows k' c' = rows k' (mw_cloud w))"
    unfolding memEnsured_def by blast
  let ?w = "w\<lparr>mw_cloud := c'\<rparr>"
  have sub: "memPresent w \<subseteq> memPresent ?w"
  proof
    fix x assume "x \<in> memPresent w"
    then have "snd x \<in> fst ` set (rows (fst x) (mw_cloud w))" using memPresent_rows[of "fst x" "snd x" w] by simp
    with r(3) have "snd x \<in> fst ` set (rows (fst x) c')" by (meson image_mono subsetD)
    then show "x \<in> memPresent ?w" using memPresent_rows[of "fst x" "snd x" ?w] by simp
  qed
  have net: "memNet ?w = memNet w" by (simp add: memNet_def)
  have "res_ID res \<in> fst ` set (rows k c')" using r(4) by (force simp del: rows.simps)
  then have p: "(k, res_ID res) \<in> memPresent ?w" "res_ID res \<noteq> ''''" using r(2) present_id by (auto simp: memPresent_rows simp del: rows.simps)
  have "memLive nm cl cfgs ?w" using w r(2) consistent_mono[OF _ sub] by (simp add: memState_def net)
  moreover have "memPresent ?w = memPresent w" if "\<forall>k'. rows k' c' = rows k' (mw_cloud w)"
    using that memPresent_rows[of _ _ w] memPresent_rows[of _ _ ?w] by (auto simp del: rows.simps)
  ultimately show ?thesis using r(1,5) sub net p unfolding ensured_def onCloud_def
    by (intro exI[of _ res] exI[of _ ?w]) (simp del: rows.simps)
qed

lemma memState_store:
  assumes "memState pol ms ss C nm cl cfgs w" "Spec x = sampleSpec\<lparr>sp_ManagementPolicy := pol\<rparr>" "net_name x = net_name (memNet w)" "net_namespace x = net_namespace (memNet w)"
    "om_DeletionTimestamp (Meta x) = None" "consistent x (memPresent w)"
  shows "memState pol ms ss C nm cl cfgs (w\<lparr>mw_networks := [x]\<rparr>)" "memNet (w\<lparr>mw_networks := [x]\<rparr>) = x"
proof -
  have "memPresent (w\<lparr>mw_networks := [x]\<rparr>) = memPresent w" by (simp add: memPresent_def)
  then show "memState pol ms ss C nm cl cfgs (w\<lparr>mw_networks := [x]\<rparr>)" "memNet (w\<lparr>mw_networks := [x]\<rparr>) = x"
    using assms by (simp_all add: memState_def memNet_def isNet_def)
qed

lemma mem_change_live:
  assumes "memState pol ms ss C nm cl cfgs w" "net_name x = net_name (memNet w)" "net_namespace x = net_namespace (memNet w)"
    "f (memNet w) = x" "om_DeletionTimestamp (Meta x) = None"
  shows "mem_change f x w = (Inr x, w\<lparr>mw_networks := [x]\<rparr>)"
proof -
  have "mw_networks w = [memNet w]" using assms(1) by (simp add: memState_def)
  then have "lookup (isNet (net_namespace x) (net_name x)) (net_name x) (mw_networks w) = Inr (memNet w)"
    using assms(2,3) by (simp add: lookup_def isNet_def)
  moreover have "replaceBy (isNet (net_namespace x) (net_name x)) x (mw_networks w) = [x]"
    unfolding \<open>mw_networks w = [memNet w]\<close> using assms(2,3) by (simp add: replaceBy_def isNet_def)
  ultimately show ?thesis using assms(4,5) by (simp add: mem_change_def storeNetwork_def Let_def)
qed

lemma memStateD: "memState pol ms ss C nm cl cfgs w \<Longrightarrow> om_DeletionTimestamp (Meta (memNet w)) = None \<and> Spec (memNet w) = sampleSpec\<lparr>sp_ManagementPolicy := pol\<rparr> \<and>
    consistent (memNet w) (memPresent w)"
  by (simp add: memState_def)

lemma mem_write:
  assumes "memState pol ms ss C nm cl cfgs w" "Spec x = Spec (memNet w)" "net_name x = net_name (memNet w)" "net_namespace x = net_namespace (memNet w)"
    "om_DeletionTimestamp (Meta x) = None" "consistent x (memPresent w)" "f (memNet w) = x"
  shows "\<exists>w'. mem_change f x w = (Inr x, w') \<and> memState pol ms ss C nm cl cfgs w' \<and> memNet w' = x \<and> memPresent w' = memPresent w"
  using mem_change_live[of pol ms ss C nm cl cfgs w x f] memState_store[of pol ms ss C nm cl cfgs w x] memStateD[of pol ms ss C nm cl cfgs w] assms by (auto simp: memPresent_def)

interpretation mem_live: live_env memReconciler "''fleet''" nm memService cl memNet memPresent "memState pol ms ss C nm cl cfgs" for pol ms ss C nm cl cfgs
proof (intro live_env.intro live_env_axioms.intro, goal_cases)
  case 1
  show ?case by (simp add: memReconciler_simps ref.status_lib_axioms)
next
  case (2 f fs)
  then show ?case by (simp add: memReconciler_simps refLib_def)
next
  case (3 w)
  then have "mw_networks w = [memNet w]" "isNet ''fleet'' nm (memNet w)" by (simp_all add: memState_def)
  then show ?case by (simp add: memReconciler_simps memKube_def lookup_def)
next
  case (4 w)
  then show ?case by (simp add: memState_def sampleSpec_def)
next
  case (5 w)
  then show ?case by (simp add: memState_def memReconciler_simps memKube_def lookup_def sampleSpec_def)
next
  case (6 w)
  from sample_credentials obtain creds where "CredentialsFromSecret (lib_lower (Lib memReconciler)) sampleCredentials
     (sp_Region sampleSpec) (sp_ProjectName sampleSpec) (sp_EndpointType sampleSpec) = Inr creds"
    by (auto simp: memReconciler_simps)
  moreover have "secretReader memReconciler (nr_Namespace (sp_CredentialSecretRef sampleSpec)) (nr_Name (sp_CredentialSecretRef sampleSpec)) w
      = (Inr sampleCredentials, w)"
    using 6 by (simp add: memState_def memReconciler_simps memKube_def lookup_def sampleSpec_def sampleCredentials_def)
  ultimately show ?case using 6 by (auto simp: memState_def memReconciler_simps)
next
  case (7 w x fs)
  then have "consistent x (memPresent w)" using consistent_cong[of x "memNet w"] memStateD by simp
  with 7(2) mem_write[OF 7(1), of x "\<lambda>s. s\<lparr>Meta := Meta x, Spec := Spec x\<rparr>"] memStateD[OF 7(1)] show ?case
    by (auto simp: memReconciler_simps memKube_def)
next
  case (8 w x)
  then obtain owner where x: "x = (memNet w)\<lparr>Meta := (Meta (memNet w))\<lparr>om_OwnerReferences := om_OwnerReferences (Meta (memNet w)) @ [owner]\<rparr>\<rparr>"
    by (auto simp: ownerWrite_def)
  then have "consistent x (memPresent w)" using 8 consistent_cong[of x "memNet w"] memStateD by simp
  with x mem_write[OF 8(1), of x "\<lambda>s. s\<lparr>Meta := Meta x, Spec := Spec x\<rparr>"] memStateD[OF 8(1)] show ?case
    by (auto simp: memReconciler_simps memKube_def)
next
  case (9 w x)
  have "(memNet w)\<lparr>Status := Status x\<rparr> = x" using 9(2,3) by (cases x; cases "memNet w") simp
  with 9(2-4) mem_write[OF 9(1), of x "\<lambda>s. s\<lparr>Status := Status x\<rparr>"] memStateD[OF 9(1)] show ?case
    by (simp add: memReconciler_simps memKube_def)
qed

interpretation mem_creation: creation_env memReconciler "''fleet''" nm memService cl memNet memPresent "memLive nm cl cfgs" for nm cl cfgs
proof (unfold_locales, goal_cases)
  case (1 w)
  then show ?case by (simp add: memState_def)
next
  case (2 w q)
  then have "cloudOk (mw_cloud w)" by (simp add: memState_def)
  from ensured_mem[OF 2(1) mem_EnsureVPC[OF this]] 2(2) show ?case
    by (simp add: memService_def Let_def memPresent_rows del: rows.simps)
next
  case (3 w q)
  then have "cloudOk (mw_cloud w)" by (simp add: memState_def)
  from ensured_mem[OF 3(1) mem_EnsureSubnet[OF this]] 3(2) show ?case
    by (simp add: memService_def Let_def memPresent_rows del: rows.simps)
next
  case (4 w q)
  then have "cloudOk (mw_cloud w)" by (simp add: memState_def)
  from ensured_mem[OF 4(1) mem_EnsureSecurityGroup[OF this]] 4(2) show ?case
    by (simp add: memService_def Let_def memPresent_rows del: rows.simps)
qed

section \<open>Properties\<close>

text \<open>
  C3: A managed network converges: in an environment where calls succeed, from the third reconcile of a
  new object on, the object is Ready for its generation with complete identifiers, which is what the
  bootstrap controller waits for, and further reconciles create no VPC, subnet or group in the cloud
  and change none of the recorded resources.
\<close>

theorem managed_converges:
  assumes env: "creation_env r ns n service cluster netOf present good" and "good w" and "3 \<le> k"
  shows "settled (Lib r) (netOf (reconciles r ns n k w)) \<and>
    present (reconciles r ns n (Suc k) w) = present (reconciles r ns n k w) \<and>
    resources (netOf (reconciles r ns n (Suc k) w)) = resources (netOf (reconciles r ns n k w))"
proof -
  have k: "k = Suc (Suc (Suc (k - 3)))" using assms(3) by simp
  show ?thesis
    using creation_env.reconciles_settled[OF env assms(2), of "k - 3"] creation_env.reconciles_stable[OF env assms(2), of "k - 3"]
    unfolding k[symmetric] by simp
qed

definition freshWorld :: "string \<Rightarrow> Unstructured \<Rightarrow> Unstructured list \<Rightarrow> mem_world" where
  "freshWorld nm cl cfgs = emptyWorld\<lparr>mw_networks := [sampleNetwork\<lparr>Meta := (Meta sampleNetwork)\<lparr>om_Name := nm\<rparr>\<rparr>],
     mw_clusters := [cl], mw_configs := cfgs, mw_secrets := [sampleCredentials]\<rparr>"

lemma memLive_freshWorld:
  assumes "isObj ''fleet'' ''c'' cl"
  shows "memLive nm cl cfgs (freshWorld nm cl cfgs)"
proof -
  let ?net = "sampleNetwork\<lparr>Meta := (Meta sampleNetwork)\<lparr>om_Name := nm\<rparr>\<rparr>"
  have "rows k emptyCloud = []" for k by (cases k) (simp_all add: emptyCloud_def)
  then have c: "cloudOk (mw_cloud (freshWorld nm cl cfgs))" by (simp add: cloudOk_def rowsOk_def freshWorld_def emptyWorld_def)
  have "entry k (resources ?net) = noResource" for k by (cases k) (simp_all add: sampleNetwork_def sampleStatus_def)
  then have "consistent ?net P" for P by (simp add: consistent_def sampleNetwork_def sampleStatus_def noResource_def)
  moreover have "isNet ''fleet'' nm ?net" "om_DeletionTimestamp (Meta ?net) = None" "Spec ?net = sampleSpec\<lparr>sp_ManagementPolicy := ''''\<rparr>"
    by (simp_all add: isNet_def sampleNetwork_def sampleSpec_def)
  ultimately show ?thesis using c assms by (simp add: emptyWorld_def memState_def memNet_def freshWorld_def)
qed

abbreviation newWorld :: mem_world where
  "newWorld \<equiv> freshWorld ''n'' (sampleCluster []) []"

lemma memLive_newWorld: "memLive ''n'' (sampleCluster []) [] newWorld"
  by (rule memLive_freshWorld) (simp add: isObj_def sampleCluster_def zeroMeta_def)

theorem managed_converges_witness:
  "settled refLib (memNet (reconciles memReconciler ''fleet'' ''n'' 3 newWorld)) \<and>
   memPresent (reconciles memReconciler ''fleet'' ''n'' 4 newWorld) = memPresent (reconciles memReconciler ''fleet'' ''n'' 3 newWorld)"
  using managed_converges[OF mem_creation.creation_env_axioms memLive_newWorld, of 3]
  by (simp add: memReconciler_simps eval_nat_numeral)

end
