(* ===== verification/AdoptConvergence.thy ===== *)
theory AdoptConvergence
  imports ConvergenceMem
begin

text \<open>
  The way of an adopted network. In the locale \<open>adoption_env\<close> the machine state of the cluster yields
  three resources that exist in the cloud. The third reconcile records them, the fourth publishes the
  object; no VPC, subnet or security group is created or deleted at any time (the rules of the adopted
  group are brought in line), and the records carry the mark that makes the controller the owner of
  the resources.
\<close>

section \<open>The environment\<close>

locale adoption_env = live_env +
  fixes found :: NetworkResourceStatus
  assumes adopt_policy: "good w \<Longrightarrow> sp_ManagementPolicy (Spec (netOf w)) = ManagementPolicyAdopt"
    and discover: "good w \<Longrightarrow> discoverAdoptableResources (Codec r) (Client r) (secretReader r) (netOf w) w = (Inr found, w)"
    and get_found: "good w \<Longrightarrow> (k, rs_ID (entry k found)) \<in> present w \<and>
          (\<exists>res. getOf service k (rs_ID (entry k found)) w = (Inr res, w) \<and> res_Name res \<noteq> '''')"
    and apply_rules: "good w \<Longrightarrow> gr_ID g \<noteq> '''' \<Longrightarrow> (GroupKind, gr_ID g) \<in> present w \<Longrightarrow>
          \<exists>res w'. EnsureSecurityGroup service g w = (Inr res, w') \<and> good w' \<and> netOf w' = netOf w \<and> present w' = present w"

text \<open>The object records the discovered resources as controller-managed.\<close>

definition adopts :: "NetworkResourceStatus \<Rightarrow> TCloudClusterNetwork \<Rightarrow> bool" where
  "adopts found net \<longleftrightarrow> (\<forall>k. rs_ID (entry k (resources net)) = rs_ID (entry k found) \<and>
     rs_ControllerManaged (entry k (resources net)))"

lemma adoptable_entry: "adoptable found \<Longrightarrow> rs_ID (entry k found) \<noteq> '''' \<and> rs_ControllerManaged (entry k found)"
  by (cases k) (simp_all add: adoptable_def)

lemma adopts_recorded: "adoptable found \<Longrightarrow> adopts found net \<Longrightarrow> recorded net"
  using adoptable_entry by (simp add: adopts_def recorded_def)

lemma adopts_advances: "advances net net' \<Longrightarrow> recorded net \<Longrightarrow> adopts found net \<Longrightarrow> adopts found net'"
  by (simp add: advances_def adopts_def recorded_def)

context adoption_env
begin

lemma found_adoptable: "good w \<Longrightarrow> adoptable found"
  by (rule discoverAdoptableResources_adoptable[OF discover])

lemma adoptResources_ok:
  assumes "good w" "netOf w = net"
  shows "\<exists>w'. adoptResources r service net w = (Ret requeue None, w') \<and> good w' \<and> Meta (netOf w') = Meta net \<and>
    adopts found (netOf w') \<and> present w' = present w"
proof -
  obtain v where v: "GetVPC service (rs_ID (nrs_VPC found)) w = (Inr v, w)" using get_found[OF assms(1), of VPCKind] by auto
  obtain s where s: "GetSubnet service (rs_ID (nrs_Subnet found)) w = (Inr s, w)" using get_found[OF assms(1), of SubnetKind] by auto
  obtain g where g: "GetSecurityGroup service (rs_ID (nrs_SecurityGroup found)) w = (Inr g, w)" "res_Name g \<noteq> ''''"
    using get_found[OF assms(1), of GroupKind] by auto
  let ?named = "\<lparr>nrs_VPC = (nrs_VPC found)\<lparr>rs_Name := res_Name v\<rparr>, nrs_Subnet = (nrs_Subnet found)\<lparr>rs_Name := res_Name s\<rparr>,
     nrs_SecurityGroup = (nrs_SecurityGroup found)\<lparr>rs_Name := res_Name g\<rparr>\<rparr>"
  let ?f = "\<lambda>n. n\<lparr>Status := (Status n)\<lparr>st_OwnershipToken := net_uid n, st_Resources := ?named\<rparr>\<rparr>"
  have e: "rs_ID (entry k ?named) = rs_ID (entry k found)" "rs_ControllerManaged (entry k ?named)" for k
    using adoptable_entry[OF found_adoptable[OF assms(1)], of k] by (cases k; simp)+
  have "consistent (?f net) (present w)" using get_found[OF assms(1)] e(1) g(2) by (simp add: consistent_def)
  with patchStatus_ok[OF assms, of ?f] obtain w' where p: "patchStatus (Client r) net ?f w = ((None, ?f net), w')"
    "good w'" "netOf w' = ?f net" "present w' = present w" by auto
  have "adopts found (?f net)" using e by (simp add: adopts_def)
  with p discover[OF assms(1)] assms(2) v s g(1) show ?thesis by (simp add: adoptResources_def Let_def)
qed

lemma adoptedReady_settled:
  assumes "recorded net" "rs_Name (sgStatus net) \<noteq> ''''"
  shows "settled (Lib r) (adoptedReady (Lib r) net)"
  using recorded_kinds[OF assms(1)] assms(2)
  by (auto simp: settled_def adoptedReady_def completeNetworkStatus_def condition_true readyStatus_def condition_of_withCondition
      observeGeneration_def recordApplied_def withCondition_def set_condition)

lemma reconcileAdopt_recorded:
  assumes "good w" "netOf w = net" "recorded net"
  shows "\<exists>w'. reconcileAdopt r net service w = (Ret (requeueAfter (10 * Minute)) None, w') \<and> good w' \<and>
    advances net (netOf w') \<and> settled (Lib r) (netOf w') \<and> present w' = present w"
proof -
  let ?q = "rulesRequest net (rs_ID (sgStatus net)) (rs_Name (sgStatus net))"
  note ids = recorded_kinds[OF assms(3)]
  from requestable[OF assms(1), of GroupKind] assms(2) ids have "(GroupKind, gr_ID ?q) \<in> present w" "gr_ID ?q \<noteq> ''''"
    by (simp_all add: rulesRequest_def)
  from apply_rules[OF assms(1) this(2,1)] obtain res w1 where 1: "EnsureSecurityGroup service ?q w = (Inr res, w1)" "good w1"
    "netOf w1 = net" "present w1 = present w" using assms(2) by auto
  have frame: "Meta (adoptedReady (Lib r) net) = Meta net" "Spec (adoptedReady (Lib r) net) = Spec net"
    "resources (adoptedReady (Lib r) net) = resources net"
    by (simp_all add: adoptedReady_def readyStatus_def recordApplied_def observeGeneration_def)
  have c: "consistent net (present w1)" using live[OF 1(2)] 1(3) by simp
  with frame(3) have "consistent (adoptedReady (Lib r) net) (present w1)" by (simp cong: consistent_cong)
  with patchStatus_ok[OF 1(2,3), of "adoptedReady (Lib r)"] frame(1,2) obtain w' where
    p: "publishReady r net (adoptedReady (Lib r)) w1 = (Ret (requeueAfter (10 * Minute)) None, w')" "good w'"
      "netOf w' = adoptedReady (Lib r) net" "present w' = present w1" by (auto simp: publishReady_def)
  have "rs_Name (sgStatus net) \<noteq> ''''" using c ids by (simp add: consistent_def)
  note ready = adoptedReady_settled[OF assms(3) this]
  have "reconcileAdopt r net service w = (Ret (requeueAfter (10 * Minute)) None, w')"
    using ids 1(1) p(1) by (simp add: reconcileAdopt_def Let_def)
  with p(2-4) 1(4) ready advances_refl[OF frame] show ?thesis by (intro exI[of _ w']) simp
qed

lemma reconcileAdopt_new:
  assumes "good w" "netOf w = net" "\<not> recorded net"
  shows "\<exists>w'. reconcileAdopt r net service w = (Ret requeue None, w') \<and> good w' \<and> Meta (netOf w') = Meta net \<and>
    adopts found (netOf w') \<and> present w' = present w"
proof -
  from assms(3) obtain k where "rs_ID (entry k (resources net)) = ''''" by (auto simp: recorded_def)
  then have "reconcileAdopt r net service w = adoptResources r service net w"
    by (cases k) (simp_all add: reconcileAdopt_def Let_def)
  with adoptResources_ok[OF assms(1,2)] show ?thesis by simp
qed

lemma policy_adopt: "good w \<Longrightarrow> reconcilePolicy r (netOf w) service w = reconcileAdopt r (netOf w) service w"
  using adopt_policy[of w] by (simp add: reconcilePolicy_def policy_defs)

end

sublocale adoption_env \<subseteq> steady_env
proof unfold_locales
  fix w assume g: "good w"
  show "\<exists>res w'. reconcilePolicy r (netOf w) service w = (Ret res None, w') \<and> good w' \<and> Meta (netOf w') = Meta (netOf w)"
    unfolding policy_adopt[OF g]
    using reconcileAdopt_recorded[OF g refl] reconcileAdopt_new[OF g refl] by (cases "recorded (netOf w)") (auto simp: advances_def)
qed

section \<open>Convergence\<close>

context adoption_env
begin

lemma Reconcile_adopt:
  assumes g: "good w" and p: "phaseOf (u_uid cluster) (netOf w) = Bound"
  shows "present (snd (Reconcile r ns n w)) = present w"
    "recorded (netOf w) \<Longrightarrow> settled (Lib r) (netOf (snd (Reconcile r ns n w))) \<and> advances (netOf w) (netOf (snd (Reconcile r ns n w)))"
    "\<not> recorded (netOf w) \<Longrightarrow> adopts found (netOf (snd (Reconcile r ns n w)))"
proof -
  from Reconcile_bound[OF g p] obtain w1 where w1: "Reconcile r ns n w = reconcileAdopt r (netOf w1) service w1" "good w1"
    "advances (netOf w) (netOf w1)" "present w1 = present w" "resources (netOf w1) = resources (netOf w)"
    using policy_adopt by metis
  then have rec: "recorded (netOf w1) = recorded (netOf w)" by (simp add: recorded_def)
  note ok = reconcileAdopt_recorded[OF w1(2) refl, unfolded rec] reconcileAdopt_new[OF w1(2) refl, unfolded rec]
  show "present (snd (Reconcile r ns n w)) = present w" using ok w1(1,4) by (cases "recorded (netOf w)") auto
  show "recorded (netOf w) \<Longrightarrow> settled (Lib r) (netOf (snd (Reconcile r ns n w))) \<and> advances (netOf w) (netOf (snd (Reconcile r ns n w)))"
    using ok(1) w1(1) advances_trans[OF w1(3)] by auto
  show "\<not> recorded (netOf w) \<Longrightarrow> adopts found (netOf (snd (Reconcile r ns n w)))" using ok(2) w1(1) by auto
qed

text \<open>An object that has recorded nothing, or what was found, goes on to record what was found.\<close>

definition onTrack :: "TCloudClusterNetwork \<Rightarrow> bool" where
  "onTrack net \<longleftrightarrow> \<not> recorded net \<or> adopts found net"

lemma Reconcile_onTrack:
  assumes "good w" "onTrack (netOf w)"
  shows "onTrack (netOf (snd (Reconcile r ns n w)))" "present (snd (Reconcile r ns n w)) = present w"
proof -
  have "onTrack (netOf (snd (Reconcile r ns n w))) \<and> present (snd (Reconcile r ns n w)) = present w"
  proof (cases "phaseOf (u_uid cluster) (netOf w) = Bound")
    case True
    note step = Reconcile_adopt[OF assms(1) True]
    show ?thesis
    proof (cases "recorded (netOf w)")
      case True
      with assms(2) have "adopts found (netOf w)" by (simp add: onTrack_def)
      from adopts_advances[OF conjunct2[OF step(2)[OF True]] True this] step(1) show ?thesis by (simp add: onTrack_def)
    next
      case False
      from step(3)[OF False] step(1) show ?thesis by (simp add: onTrack_def)
    qed
  next
    case False
    from Reconcile_early[OF assms(1) False] obtain w' where w': "snd (Reconcile r ns n w) = w'"
      "resources (netOf w') = resources (netOf w)" "present w' = present w" by fastforce
    from assms(2) have "onTrack (netOf w')" unfolding onTrack_def adopts_def recorded_def w'(2) .
    then show ?thesis using w'(3) unfolding w'(1) ..
  qed
  then show "onTrack (netOf (snd (Reconcile r ns n w)))" "present (snd (Reconcile r ns n w)) = present w" by blast+
qed

lemma reconciles_onTrack:
  assumes "good w" "onTrack (netOf w)"
  shows "onTrack (netOf (reconciles r ns n k w)) \<and> present (reconciles r ns n k w) = present w"
  by (induction k) (use assms reconciles_good Reconcile_onTrack in auto)

lemma reconciles_recorded:
  assumes "good w"
  shows "recorded (netOf (reconciles r ns n (Suc (Suc (Suc k))) w))"
proof -
  let ?w = "reconciles r ns n (Suc (Suc k)) w"
  note step = Reconcile_adopt[OF reconciles_good[OF assms, of "Suc (Suc k)"] reconciles_bound[OF assms, of k]]
  show ?thesis
  proof (cases "recorded (netOf ?w)")
    case True
    with step(2) advances_recorded show ?thesis unfolding reconciles.simps(2)[of r ns n "Suc (Suc k)"] by blast
  next
    case False
    with step(3) adopts_recorded[OF found_adoptable[OF assms]] show ?thesis
      unfolding reconciles.simps(2)[of r ns n "Suc (Suc k)"] by blast
  qed
qed

lemma reconciles_adopted:
  assumes "good w"
  shows "settled (Lib r) (netOf (reconciles r ns n (Suc (Suc (Suc (Suc k)))) w))"
  using Reconcile_adopt(2)[OF reconciles_good[OF assms, of "Suc (Suc (Suc k))"] reconciles_bound[OF assms, of "Suc k"]
      reconciles_recorded[OF assms, of k]]
  unfolding reconciles.simps(2)[of r ns n "Suc (Suc (Suc k))"] by blast

end

text \<open>
  C14: An adopted network converges: where the machine state yields resources that exist in the cloud,
  from the fourth reconcile of a new object on, the object is Ready for its generation with complete
  identifiers, those are the discovered ones and marked controller-managed, and the cloud has the same
  VPCs, subnets and security groups as before. Nothing is said of the rules of the adopted group: the
  reconcile adds the requested ones and removes obsolete SSH rules.
\<close>

theorem adopted_converges:
  assumes env: "adoption_env r ns n service cluster netOf present good found" and "good w" "\<not> recorded (netOf w)" "4 \<le> k"
  shows "settled (Lib r) (netOf (reconciles r ns n k w)) \<and> adopts found (netOf (reconciles r ns n k w)) \<and>
    present (reconciles r ns n k w) = present w"
proof -
  have k: "k = Suc (Suc (Suc (Suc (k - 4))))" using assms(4) by simp
  note ready = adoption_env.reconciles_adopted[OF env assms(2), of "k - 4", folded k]
  have "adoption_env.onTrack found (netOf w)" using assms(3) by (simp add: adoption_env.onTrack_def[OF env])
  from adoption_env.reconciles_onTrack[OF env assms(2) this, of k] settled_recorded[OF ready] ready show ?thesis
    by (simp add: adoption_env.onTrack_def[OF env])
qed

section \<open>A legacy cluster\<close>

text \<open>One machine whose state names the resources of the sample cloud.\<close>

definition legacyMachine :: Unstructured where
  "legacyMachine = sampleMachine ''m'' 0 None"

definition legacySecret :: Secret where
  "legacySecret = \<lparr>sec_Name = ''m-machine-state'', sec_Namespace = ''fleet'', sec_Data = [''extractedConfig'' \<mapsto> ''gz'']\<rparr>"

definition legacyCloud :: mem_cloud where
  "legacyCloud = sampleCloud\<lparr>mc_next := 2\<rparr>"

definition legacyFound :: NetworkResourceStatus where
  "legacyFound = \<lparr>nrs_VPC = \<lparr>rs_ID = ''v1'', rs_Name = '''', rs_ControllerManaged = True\<rparr>,
     nrs_Subnet = \<lparr>rs_ID = ''s1'', rs_Name = '''', rs_ControllerManaged = True\<rparr>,
     nrs_SecurityGroup = \<lparr>rs_ID = ''g1'', rs_Name = '''', rs_ControllerManaged = True\<rparr>\<rparr>"

abbreviation sameResources :: "mem_cloud \<Rightarrow> bool" where
  "sameResources c \<equiv> \<forall>k. rows k c = rows k legacyCloud"

abbreviation memLegacy :: "string \<Rightarrow> Unstructured \<Rightarrow> Unstructured list \<Rightarrow> mem_world \<Rightarrow> bool" where
  "memLegacy \<equiv> memState ManagementPolicyAdopt [legacyMachine] [legacySecret] sameResources"

lemma legacy_discovered:
  assumes "memLegacy nm cl cfgs w"
  shows "discoverAdoptableResources (Codec memReconciler) (Client memReconciler) (secretReader memReconciler) (memNet w) w = (Inr legacyFound, w)"
proof -
  have w: "mw_machines w = [legacyMachine]" "mw_secrets w = [sampleCredentials, legacySecret]"
    "clusterRef (memNet w) = \<lparr>nr_Name = ''c'', nr_Namespace = ''fleet''\<rparr>"
    using assms by (simp_all add: memState_def sampleSpec_def)
  have m: "stateSecretName legacyMachine = ''m-machine-state''" "u_name legacyMachine = ''m''" "u_namespace legacyMachine = ''fleet''"
    "om_Labels (u_Meta legacyMachine) clusterNameLabel = Some ''c''" "candidateMachines [legacyMachine] = [legacyMachine]"
    by (simp_all add: legacyMachine_def sampleMachine_def stateSecretName_def candidateMachines_def)
  have d: "adoptableResourcesFromState ''m'' sampleState = Inr legacyFound"
    by (simp add: adoptableResourcesFromState_def sampleState_def legacyFound_def)
  have s: "lookup (\<lambda>s. sec_Namespace s = ''fleet'' \<and> sec_Name s = ''m-machine-state'') ''m-machine-state'' [sampleCredentials, legacySecret]
      = Inr legacySecret" "mget (sec_Data legacySecret) ''extractedConfig'' = ''gz''"
    by (simp_all add: lookup_def sampleCredentials_def legacySecret_def mget_def)
  have "secretReader memReconciler = GetSecret memKube" "Codec memReconciler = sampleCodec" "Client memReconciler = memKube"
    by (simp_all add: memReconciler_def secretReader_def)
  then show ?thesis by (simp add: discoverAdoptableResources_def w memKube_def m d s decode_sample Let_def)
qed

lemma legacy_rows:
  "rows GroupKind legacyCloud = [(''g1'', ''g1'', ''grp'')]" "rows SubnetKind legacyCloud = [(''s1'', ''s1'', ''net'')]"
  "rows VPCKind legacyCloud = [(''v1'', ''v1'', ''vpc'')]"
  by (simp_all add: legacyCloud_def sampleCloud_def)

lemma legacy_row: "\<exists>nm. rows k legacyCloud = [(rs_ID (entry k legacyFound), rs_ID (entry k legacyFound), nm)] \<and> nm \<noteq> '''' \<and>
    rs_ID (entry k legacyFound) \<noteq> '''' \<and> length (rs_ID (entry k legacyFound)) = 2"
  by (cases k) (simp_all add: legacy_rows legacyFound_def del: rows.simps)

interpretation mem_adoption: adoption_env memReconciler "''fleet''" nm memService cl memNet memPresent "memLegacy nm cl cfgs" legacyFound
  for nm cl cfgs
proof (unfold_locales, goal_cases)
  case (1 w)
  then show ?case by (simp add: memState_def)
next
  case (2 w)
  then show ?case by (rule legacy_discovered)
next
  case (3 w k)
  from legacy_row[of k] obtain nm' where row: "rows k legacyCloud = [(rs_ID (entry k legacyFound), rs_ID (entry k legacyFound), nm')]" "nm' \<noteq> ''''"
    by blast
  with 3 have c: "rows k (mw_cloud w) = [(rs_ID (entry k legacyFound), rs_ID (entry k legacyFound), nm')]" by (simp add: memState_def)
  then have "nameOf k (mw_cloud w) (rs_ID (entry k legacyFound)) = Some nm'" by (simp add: nameOf_rows)
  with getOf_mem[of k "rs_ID (entry k legacyFound)" w] row(2) c show ?case by (auto simp: memPresent_rows)
next
  case (4 w g)
  then have ok: "cloudOk (mw_cloud w)" "gr_ID g \<in> fst ` set (rows GroupKind (mw_cloud w))" by (simp_all add: memState_def memPresent_rows)
  then obtain res c' where c': "tcloud_EnsureSecurityGroup (\<lambda>_ _. False) memSdk g (mw_cloud w) = (Inr res, c')" "cloudOk c'"
    "\<forall>k. rows k c' = rows k (mw_cloud w)"
    using mem_EnsureSecurityGroup[of "mw_cloud w" g "\<lambda>_ _. False"] 4(2) unfolding memEnsured_def by auto
  let ?w = "w\<lparr>mw_cloud := c'\<rparr>"
  have p: "memPresent ?w = memPresent w" using c'(3) by (auto simp: memPresent_rows simp del: rows.simps)
  have n: "memNet ?w = memNet w" by (simp add: memNet_def)
  have "EnsureSecurityGroup memService g w = (Inr res, ?w)" using c'(1) by (simp add: memService_def Let_def onCloud_def)
  moreover have "memLegacy nm cl cfgs ?w" using 4(1) c'(2,3) p n by (simp add: memState_def del: rows.simps)
  ultimately show ?case using p n by blast
qed

abbreviation legacyWorld :: mem_world where
  "legacyWorld \<equiv> emptyWorld\<lparr>mw_networks := [sampleNetwork\<lparr>Spec := sampleSpec\<lparr>sp_ManagementPolicy := ManagementPolicyAdopt\<rparr>\<rparr>],
     mw_clusters := [sampleCluster []], mw_machines := [legacyMachine], mw_secrets := [sampleCredentials, legacySecret], mw_cloud := legacyCloud\<rparr>"

lemma legacyWorld_good: "memLegacy ''n'' (sampleCluster []) [] legacyWorld"
proof -
  let ?net = "sampleNetwork\<lparr>Spec := sampleSpec\<lparr>sp_ManagementPolicy := ManagementPolicyAdopt\<rparr>\<rparr>"
  have "rowsOk 2 (rows k legacyCloud)" for k using legacy_row[of k] by (auto simp: rowsOk_def)
  then have c: "cloudOk legacyCloud" by (simp add: cloudOk_def legacyCloud_def)
  have "entry k (resources ?net) = noResource" for k by (cases k) (simp_all add: sampleNetwork_def sampleStatus_def)
  then have "consistent ?net P" for P by (simp add: consistent_def sampleNetwork_def sampleStatus_def noResource_def)
  moreover have "isNet ''fleet'' ''n'' ?net" "om_DeletionTimestamp (Meta ?net) = None" "isObj ''fleet'' ''c'' (sampleCluster [])"
    by (simp_all add: isNet_def sampleNetwork_def isObj_def sampleCluster_def zeroMeta_def)
  ultimately show ?thesis using c by (simp add: memState_def memNet_def emptyWorld_def)
qed

theorem adopted_converges_witness:
  "settled refLib (memNet (reconciles memReconciler ''fleet'' ''n'' 4 legacyWorld)) \<and>
   rs_ID (subnetStatus (memNet (reconciles memReconciler ''fleet'' ''n'' 4 legacyWorld))) = ''s1'' \<and>
   memPresent (reconciles memReconciler ''fleet'' ''n'' 4 legacyWorld) = memPresent legacyWorld"
proof -
  have "rs_ID (entry VPCKind (resources (memNet legacyWorld))) = ''''"
    by (simp add: memNet_def sampleNetwork_def sampleStatus_def noResource_def)
  then have "\<not> recorded (memNet legacyWorld)" unfolding recorded_def by blast
  from adopted_converges[OF mem_adoption.adoption_env_axioms legacyWorld_good this order.refl]
  have "settled (Lib memReconciler) (memNet (reconciles memReconciler ''fleet'' ''n'' 4 legacyWorld))"
    "adopts legacyFound (memNet (reconciles memReconciler ''fleet'' ''n'' 4 legacyWorld))"
    "memPresent (reconciles memReconciler ''fleet'' ''n'' 4 legacyWorld) = memPresent legacyWorld" by blast+
  moreover from this(2) have "rs_ID (entry SubnetKind (resources (memNet (reconciles memReconciler ''fleet'' ''n'' 4 legacyWorld)))) = ''s1''"
    by (simp only: adopts_def) (simp add: legacyFound_def)
  ultimately show ?thesis by (simp only: memReconciler_simps entry.simps)
qed

end
