(* ===== verification/Propagation.thy ===== *)
theory Propagation
  imports BootstrapProps
begin

text \<open>
  The hand-over of a settled network: in the locale \<open>propagation_env\<close>, an environment in which calls
  succeed, one bootstrap gives every machine config of the cluster the network's identifiers and the
  cluster its annotations, and the next bootstrap writes nothing.
\<close>

section \<open>Annotations and names\<close>

lemma setAnnotations_frame [simp]:
  "u_Object (setAnnotations kvs u) = u_Object u" "u_name (setAnnotations kvs u) = u_name u"
  "u_namespace (setAnnotations kvs u) = u_namespace u" "u_uid (setAnnotations kvs u) = u_uid u"
  "om_DeletionTimestamp (u_Meta (setAnnotations kvs u)) = om_DeletionTimestamp (u_Meta u)"
  by (simp_all add: setAnnotations_def)

lemma annotation_set:
  "distinct (map fst kvs) \<Longrightarrow> annotation (setAnnotations kvs u) k = (case map_of kvs k of Some v \<Rightarrow> v | None \<Rightarrow> annotation u k)"
proof -
  assume d: "distinct (map fst kvs)"
  then have "map_of (rev kvs) = map_of kvs" by (intro map_of_eqI) (auto simp: image_iff rev_map[symmetric])
  then show ?thesis by (simp add: setAnnotations_def mget_def map_add_def split: option.splits)
qed

definition annotated :: "(string \<times> string) list \<Rightarrow> Unstructured \<Rightarrow> bool" where
  "annotated kvs u = list_all (\<lambda>(k, v). annotation u k = v) kvs"

lemma annotated_set: "distinct (map fst kvs) \<Longrightarrow> annotated kvs (setAnnotations kvs u)"
  by (auto simp: annotated_def list_all_iff annotation_set)

lemma networkAnnotations_keys: "distinct (map fst (networkAnnotations name policy g))"
  by (simp add: networkAnnotations_def Let_def ClusterAnnotation_def NetworkPolicyAnnotation_def UIProviderAnnotation_def
      SSHAllowedCIDRsAnnotation_def SecurityGroupPolicyAnnotation_def SecurityGroupNameAnnotation_def)

text \<open>The machine configs a cluster owns depend on their metadata only.\<close>

lemma ownedByClusterLoop_cong:
  "u_name c = u_name c' \<Longrightarrow> u_uid c = u_uid c' \<Longrightarrow> ownedByClusterLoop owners c = ownedByClusterLoop owners c'"
  by (induction owners) auto

lemma ownedNames_cong:
  assumes "map u_Meta cs = map u_Meta cs'" "u_name c = u_name c'" "u_uid c = u_uid c'"
  shows "ownedNames c seen names cs = ownedNames c' seen names cs'"
  using assms(1)
proof (induction cs arbitrary: cs' seen names)
  case (Cons x cs)
  then obtain y ys where cs': "cs' = y # ys" "u_Meta x = u_Meta y" "map u_Meta cs = map u_Meta ys" by auto
  have "ownedByCluster x c = ownedByCluster y c'"
    unfolding ownedByCluster_def cs'(2) by (rule ownedByClusterLoop_cong[OF assms(2,3)])
  then show ?case using cs' Cons.IH[OF cs'(3)] by simp
qed simp

lemma ownedNames_set:
  "set (ownedNames c seen names cs) \<subseteq> set names \<union> u_name ` set cs"
  by (induction cs arbitrary: seen names) (auto, fastforce+)

lemma hasFields_overlaid: "distinct (map fst kvs) \<Longrightarrow> overlaid kvs obj obj' \<Longrightarrow> hasFields kvs obj'"
  by (auto simp: overlaid_def hasFields_def list_all_iff)

text \<open>The configs of the given names exist and have the network's identifiers.\<close>

definition served :: "('w \<Rightarrow> string \<rightharpoonup> Unstructured) \<Rightarrow> TCloudClusterNetwork \<Rightarrow> string list \<Rightarrow> 'w \<Rightarrow> bool" where
  "served configOf net names w \<longleftrightarrow>
     (\<forall>c\<in>set names. \<exists>config. configOf w c = Some config \<and> hasFields (desiredFields net) (u_Object config))"

text \<open>The machine configs of a cluster: the referenced ones and those it owns.\<close>

definition targets :: "string \<Rightarrow> string \<Rightarrow> string \<Rightarrow> string list \<Rightarrow> ObjectMeta list \<Rightarrow> string list" where
  "targets ns n uid refs metas =
     ownedNames \<lparr>u_Meta = (zeroMeta n ns)\<lparr>om_UID := uid\<rparr>, u_Object = VOther\<rparr> (set refs) refs
       (map (\<lambda>m. \<lparr>u_Meta = m, u_Object = VOther\<rparr>) metas)"

definition clusterAnnotations :: "string \<Rightarrow> TCloudClusterNetwork \<Rightarrow> (string \<times> string) list" where
  "clusterAnnotations name net = networkAnnotations name (sp_ManagementPolicy (Spec net)) (sgSpec net)"

lemma bootstrapName_set:
  assumes "distinct (map fst kvs)" "case map_of kvs ClusterAnnotation of None \<Rightarrow> True | Some v \<Rightarrow> v = bootstrapName L u \<and> v \<noteq> ''''"
  shows "bootstrapName L (setAnnotations kvs u) = bootstrapName L u"
  using assms(2) by (auto simp: bootstrapName_def annotation_set[OF assms(1)] split: option.splits)

section \<open>An environment in which calls succeed\<close>

locale propagation_env = unstructured_lib "BUnstructured r" for r :: "'w TCloudClusterNetworkBootstrapReconciler" +
  fixes ns n uid :: string and net :: TCloudClusterNetwork and refs :: "string list" and metas :: "ObjectMeta list"
    and clusterOf :: "'w \<Rightarrow> Unstructured" and configOf :: "'w \<Rightarrow> string \<rightharpoonup> Unstructured" and good :: "'w \<Rightarrow> bool"
  assumes order: "visitsAll (MapOrder r)"
    and some_refs: "refs \<noteq> []"
    and get_cluster: "good w \<Longrightarrow> GetCluster (BClient r) ns n w = (Inr (clusterOf w), w)"
    and cluster_shape: "good w \<Longrightarrow> u_namespace (clusterOf w) = ns \<and> u_name (clusterOf w) = n \<and> u_uid (clusterOf w) = uid \<and>
          om_DeletionTimestamp (u_Meta (clusterOf w)) = None \<and>
          tcloudMachineConfigRefs (BUnstructured r) (lib_orbit (BLib r)) (clusterOf w) = Inr refs \<and>
          bootstrapName (BLib r) (clusterOf w) \<noteq> ''''"
    and get_network: "good w \<Longrightarrow> GetNetwork (BClient r) ns (bootstrapName (BLib r) (clusterOf w)) w = (Inr net, w)"
    and list_configs: "good w \<Longrightarrow> \<exists>cs. ListConfigs (BClient r) ns w = (Inr cs, w) \<and> map u_Meta cs = metas"
    and known_configs: "good w \<Longrightarrow> c \<in> set refs \<union> om_Name ` set metas \<Longrightarrow> configOf w c \<noteq> None"
    and get_config: "good w \<Longrightarrow> configOf w c = Some config \<Longrightarrow>
          GetConfig (BClient r) ns c w = (Inr config, w) \<and> isMap (u_Object config)"
    and patch_config: "good w \<Longrightarrow> configOf w c = Some config \<Longrightarrow> isMap obj \<Longrightarrow>
          \<exists>a w'. PatchConfig (BClient r) config (config\<lparr>u_Object := obj\<rparr>) w = (Inr a, w') \<and> good w' \<and>
            configOf w' = (configOf w)(c \<mapsto> config\<lparr>u_Object := obj\<rparr>) \<and> clusterOf w' = clusterOf w"
    and patch_cluster: "good w \<Longrightarrow> x = setAnnotations kvs (clusterOf w) \<Longrightarrow>
          bootstrapName (BLib r) x = bootstrapName (BLib r) (clusterOf w) \<Longrightarrow>
          \<exists>w'. PatchCluster (BClient r) (clusterOf w) x w = (Inr x, w') \<and> good w' \<and> clusterOf w' = x \<and> configOf w' = configOf w"
begin

lemma patchMachineConfig_ok:
  assumes g: "good w" and c: "configOf w c = Some config"
  shows "\<exists>obj w'. patchMachineConfig r ns c net w = (None, w') \<and> good w' \<and> clusterOf w' = clusterOf w \<and>
    configOf w' = (configOf w)(c \<mapsto> config\<lparr>u_Object := obj\<rparr>) \<and> hasFields (desiredFields net) obj \<and>
    (hasFields (desiredFields net) (u_Object config) \<longrightarrow> w' = w)"
proof -
  note get = get_config[OF g c]
  from patchMachineConfig_correct[OF refl order conjunct1[OF get] conjunct2[OF get], of net] obtain obj where
    o: "overlaid (desiredFields net) (u_Object config) obj" and run: "patchMachineConfig r ns c net w =
      (if hasFields (desiredFields net) (u_Object config) then (None, w)
       else case PatchConfig (BClient r) config (config\<lparr>u_Object := obj\<rparr>) w of
              (Inl err, w2) \<Rightarrow> (Some (Wrapf ''patch T-Cloud machine config %s/%s: %w'' [ArgS ns, ArgS c] err), w2)
            | (Inr _, w2) \<Rightarrow> (None, w2))" by blast
  show ?thesis
  proof (cases "hasFields (desiredFields net) (u_Object config)")
    case True
    with run g c show ?thesis by (intro exI[of _ "u_Object config"] exI[of _ w]) (simp add: map_upd_triv)
  next
    case False
    have "isMap obj" using o by (simp add: overlaid_def)
    from patch_config[OF g c this] obtain a w' where "PatchConfig (BClient r) config (config\<lparr>u_Object := obj\<rparr>) w = (Inr a, w')"
      "good w'" "configOf w' = (configOf w)(c \<mapsto> config\<lparr>u_Object := obj\<rparr>)" "clusterOf w' = clusterOf w" by blast
    with run False hasFields_overlaid[OF desiredFields_distinct o] show ?thesis
      by (intro exI[of _ obj] exI[of _ w']) simp
  qed
qed

text \<open>The loop over the configs, and the loop over configs that have the fields.\<close>

lemma patchMachineConfigs_ok:
  assumes "good w" "\<forall>c\<in>set names. configOf w c \<noteq> None"
  shows "\<exists>w'. patchMachineConfigs r ns net names w = (None, w') \<and> good w' \<and> clusterOf w' = clusterOf w \<and> served configOf net names w' \<and>
    (\<forall>c. served configOf net [c] w \<longrightarrow> served configOf net [c] w') \<and> dom (configOf w') = dom (configOf w)"
  using assms
proof (induction names arbitrary: w)
  case Nil
  then show ?case by (simp add: served_def)
next
  case (Cons c names)
  then obtain config where c: "configOf w c = Some config" by auto
  from patchMachineConfig_ok[OF Cons.prems(1) c] obtain obj w1 where 1: "patchMachineConfig r ns c net w = (None, w1)" "good w1"
    "clusterOf w1 = clusterOf w" "configOf w1 = (configOf w)(c \<mapsto> config\<lparr>u_Object := obj\<rparr>)" "hasFields (desiredFields net) obj" by blast
  have dom: "dom (configOf w1) = dom (configOf w)" using 1(4) c by auto
  then have "\<forall>d\<in>set names. configOf w1 d \<noteq> None" using Cons.prems(2) by (auto simp: domIff set_eq_iff)
  from Cons.IH[OF 1(2) this] obtain w' where 2: "patchMachineConfigs r ns net names w1 = (None, w')" "good w'"
    "clusterOf w' = clusterOf w1" "served configOf net names w'" "\<forall>c. served configOf net [c] w1 \<longrightarrow> served configOf net [c] w'" "dom (configOf w') = dom (configOf w1)"
    by blast
  have step: "served configOf net [d] w1" if "d = c \<or> served configOf net [d] w" for d using that 1(4,5) by (auto simp: served_def)
  have "patchMachineConfigs r ns net (c # names) w = (None, w')" using 1(1) 2(1) by simp
  moreover have "served configOf net (c # names) w'" using 2(4) 2(5) step[of c] by (auto simp: served_def)
  moreover have "\<forall>d. served configOf net [d] w \<longrightarrow> served configOf net [d] w'" using 2(5) step by blast
  ultimately show ?case using 2(2,3,6) 1(3) dom by (intro exI[of _ w']) simp
qed

lemma patchMachineConfigs_quiet:
  assumes "good w" "served configOf net names w"
  shows "patchMachineConfigs r ns net names w = (None, w)"
  using assms(2)
proof (induction names)
  case (Cons c names)
  then obtain config where c: "configOf w c = Some config" "hasFields (desiredFields net) (u_Object config)" by (auto simp: served_def)
  from patchMachineConfig_ok[OF assms(1) c(1)] c(2) have "patchMachineConfig r ns c net w = (None, w)" by blast
  with Cons show ?case by (simp add: served_def)
qed simp

lemma machineConfigNames_ok:
  assumes "good w"
  shows "machineConfigNames r (clusterOf w) refs w = (Inr (targets ns n uid refs metas), w)"
proof -
  from list_configs[OF assms] obtain cs where cs: "ListConfigs (BClient r) ns w = (Inr cs, w)" "map u_Meta cs = metas" by blast
  have "ownedNames (clusterOf w) (set refs) refs cs = targets ns n uid refs metas"
    unfolding targets_def using cluster_shape[OF assms] cs(2)
    by (intro ownedNames_cong) (simp_all add: zeroMeta_def comp_def)
  with cs(1) cluster_shape[OF assms] show ?thesis by (simp add: machineConfigNames_def refNames_eq)
qed

lemma targets_known:
  assumes "good w"
  shows "\<forall>c\<in>set (targets ns n uid refs metas). configOf w c \<noteq> None"
proof
  fix c assume "c \<in> set (targets ns n uid refs metas)"
  then have "c \<in> set refs \<union> u_name ` set (map (\<lambda>m. \<lparr>u_Meta = m, u_Object = VOther\<rparr>) metas)"
    unfolding targets_def by (rule subsetD[OF ownedNames_set])
  then have "c \<in> set refs \<union> om_Name ` set metas" by auto
  then show "configOf w c \<noteq> None" by (rule known_configs[OF assms])
qed

lemma annotations_ok:
  assumes g: "good w" and name: "name = bootstrapName (BLib r) (clusterOf w)" and c: "u_namespace c = ns" "u_name c = n"
  shows "\<exists>w'. patchClusterNetworkAnnotations r c name (sp_ManagementPolicy (Spec net)) (sgSpec net) w = (None, w') \<and> good w' \<and>
    configOf w' = configOf w \<and> annotated (clusterAnnotations name net) (clusterOf w') \<and>
    bootstrapName (BLib r) (clusterOf w') = name \<and> (annotated (clusterAnnotations name net) (clusterOf w) \<longrightarrow> w' = w)"
proof (cases "annotated (clusterAnnotations name net) (clusterOf w)")
  case True
  with g name c get_cluster[OF g] show ?thesis
    by (intro exI[of _ w]) (simp add: patchClusterNetworkAnnotations_def annotated_def clusterAnnotations_def)
next
  case False
  let ?x = "setAnnotations (clusterAnnotations name net) (clusterOf w)"
  note d = networkAnnotations_keys[of name "sp_ManagementPolicy (Spec net)" "sgSpec net", folded clusterAnnotations_def]
  have "map_of (clusterAnnotations name net) ClusterAnnotation = Some name"
    by (simp add: clusterAnnotations_def networkAnnotations_def Let_def)
  then have b: "bootstrapName (BLib r) ?x = bootstrapName (BLib r) (clusterOf w)"
    using cluster_shape[OF g] name by (intro bootstrapName_set[OF d]) simp
  from patch_cluster[OF g refl b] obtain w' where "PatchCluster (BClient r) (clusterOf w) ?x w = (Inr ?x, w')" "good w'"
    "clusterOf w' = ?x" "configOf w' = configOf w" by blast
  with False annotated_set[OF d] b name c get_cluster[OF g] show ?thesis
    by (intro exI[of _ w']) (simp add: patchClusterNetworkAnnotations_def annotated_def clusterAnnotations_def)
qed

lemma propagate_ok:
  assumes net_settled: "settled (BLib r) net" and g: "good w" and name: "name = bootstrapName (BLib r) (clusterOf w)"
  shows "\<exists>w'. bootstrapPropagate r (clusterOf w) refs name net w = (Ret (requeueAfter (10 * Minute)) None, w') \<and> good w' \<and>
    served configOf net (targets ns n uid refs metas) w' \<and> annotated (clusterAnnotations name net) (clusterOf w') \<and>
    bootstrapName (BLib r) (clusterOf w') = name \<and>
    (served configOf net (targets ns n uid refs metas) w \<longrightarrow> annotated (clusterAnnotations name net) (clusterOf w) \<longrightarrow> w' = w)"
proof -
  let ?t = "targets ns n uid refs metas"
  from patchMachineConfigs_ok[OF g targets_known[OF g]] obtain w1 where 1: "patchMachineConfigs r ns net ?t w = (None, w1)" "good w1"
    "clusterOf w1 = clusterOf w" "served configOf net ?t w1" by blast
  have q: "served configOf net ?t w \<longrightarrow> w1 = w" using patchMachineConfigs_quiet[OF g] 1(1) by auto
  from annotations_ok[OF 1(2), of name "clusterOf w"] name 1(3) cluster_shape[OF g] obtain w2 where
    2: "patchClusterNetworkAnnotations r (clusterOf w) name (sp_ManagementPolicy (Spec net)) (sgSpec net) w1 = (None, w2)" "good w2"
    "configOf w2 = configOf w1" "annotated (clusterAnnotations name net) (clusterOf w2)" "bootstrapName (BLib r) (clusterOf w2) = name"
    "annotated (clusterAnnotations name net) (clusterOf w1) \<longrightarrow> w2 = w1" by auto
  have "bootstrapPropagate r (clusterOf w) refs name net w = (Ret (requeueAfter (10 * Minute)) None, w2)"
    using net_settled machineConfigNames_ok[OF g] 1(1) 2(1) cluster_shape[OF g] by (simp add: bootstrapPropagate_def settled_def)
  moreover have "served configOf net ?t w2" using 1(4) 2(3) by (simp add: served_def)
  ultimately show ?thesis using 2 q 1(3) by auto
qed

lemma provider_ok:
  assumes g: "good w"
  shows "\<exists>w'. ensureProviderAnnotation r (clusterOf w) w = ((None, clusterOf w'), w') \<and> good w' \<and>
    bootstrapName (BLib r) (clusterOf w') = bootstrapName (BLib r) (clusterOf w) \<and>
    (annotation (clusterOf w) UIProviderAnnotation = TCloudProviderID \<longrightarrow> w' = w)"
proof (cases "annotation (clusterOf w) UIProviderAnnotation = TCloudProviderID")
  case True
  with g show ?thesis by (auto simp: ensureProviderAnnotation_def)
next
  case False
  let ?x = "setAnnotations [(UIProviderAnnotation, TCloudProviderID)] (clusterOf w)"
  have b: "bootstrapName (BLib r) ?x = bootstrapName (BLib r) (clusterOf w)"
    by (rule bootstrapName_set) (simp_all add: ClusterAnnotation_def UIProviderAnnotation_def)
  from patch_cluster[OF g refl b] False b show ?thesis by (auto simp: ensureProviderAnnotation_def Let_def)
qed

lemma provider_annotated: "annotated (clusterAnnotations name net) u \<Longrightarrow> annotation u UIProviderAnnotation = TCloudProviderID"
  by (simp add: annotated_def clusterAnnotations_def networkAnnotations_def Let_def)

lemma Bootstrap_ok:
  assumes net_settled: "settled (BLib r) net" and g: "good w"
  defines "name \<equiv> bootstrapName (BLib r) (clusterOf w)"
  shows "\<exists>w'. Bootstrap_Reconcile r ns n w = (Ret (requeueAfter (10 * Minute)) None, w') \<and> good w' \<and>
    served configOf net (targets ns n uid refs metas) w' \<and> annotated (clusterAnnotations name net) (clusterOf w') \<and>
    bootstrapName (BLib r) (clusterOf w') = name \<and>
    (served configOf net (targets ns n uid refs metas) w \<longrightarrow> annotated (clusterAnnotations name net) (clusterOf w) \<longrightarrow> w' = w)"
proof -
  from provider_ok[OF g] obtain w1 where 1: "ensureProviderAnnotation r (clusterOf w) w = ((None, clusterOf w1), w1)" "good w1"
    "bootstrapName (BLib r) (clusterOf w1) = name"
    "annotation (clusterOf w) UIProviderAnnotation = TCloudProviderID \<longrightarrow> w1 = w" unfolding name_def by blast
  from propagate_ok[OF net_settled 1(2), of name] 1(3) obtain w2 where 2:
    "bootstrapPropagate r (clusterOf w1) refs name net w1 = (Ret (requeueAfter (10 * Minute)) None, w2)" "good w2"
    "served configOf net (targets ns n uid refs metas) w2" "annotated (clusterAnnotations name net) (clusterOf w2)"
    "bootstrapName (BLib r) (clusterOf w2) = name"
    "served configOf net (targets ns n uid refs metas) w1 \<longrightarrow> annotated (clusterAnnotations name net) (clusterOf w1) \<longrightarrow> w2 = w1" by auto
  have "bootstrapNetwork r (clusterOf w1) refs w1 = (Ret (requeueAfter (10 * Minute)) None, w2)"
    using get_network[OF 1(2)] cluster_shape[OF 1(2)] 1(3) 2(1)
    by (simp add: bootstrapNetwork_def Let_def bootstrapName_total)
  then have "Bootstrap_Reconcile r ns n w = (Ret (requeueAfter (10 * Minute)) None, w2)"
    using get_cluster[OF g] cluster_shape[OF g] some_refs 1(1) by (simp add: Bootstrap_Reconcile_def)
  with 2 1(4) provider_annotated show ?thesis by blast
qed

end

section \<open>The in-memory cluster\<close>

definition memCluster :: "mem_world \<Rightarrow> Unstructured" where
  "memCluster w = hd (mw_clusters w)"

definition memConfig :: "mem_world \<Rightarrow> string \<rightharpoonup> Unstructured" where
  "memConfig w c = find (isObj ''fleet'' c) (mw_configs w)"

definition memHandover :: "TCloudClusterNetwork \<Rightarrow> mem_world \<Rightarrow> bool" where
  "memHandover net w = (mw_networks w = [net] \<and> isNet ''fleet'' ''c-network'' net \<and>
     (\<exists>m. mw_clusters w = [(sampleCluster samplePools)\<lparr>u_Meta := (zeroMeta ''c'' ''fleet'')\<lparr>om_Annotations := m\<rparr>\<rparr>]) \<and>
     bootstrapName refLib (memCluster w) = ''c-network'' \<and>
     map u_Meta (mw_configs w) = map u_Meta sampleConfigs \<and> (\<forall>config\<in>set (mw_configs w). isMap (u_Object config)))"

lemma refs_same: "u_Object u = u_Object u' \<Longrightarrow> tcloudMachineConfigRefs U o1 u = tcloudMachineConfigRefs U o1 u'"
  by (simp add: tcloudMachineConfigRefs_def)

lemma memHandoverD:
  assumes "memHandover net w"
  shows "mw_networks w = [net]" "mw_clusters w = [memCluster w]" "u_Object (memCluster w) = u_Object (sampleCluster samplePools)"
    "u_name (memCluster w) = ''c''" "u_namespace (memCluster w) = ''fleet''" "u_uid (memCluster w) = ''''"
    "om_DeletionTimestamp (u_Meta (memCluster w)) = None" "bootstrapName refLib (memCluster w) = ''c-network''"
    "map u_Meta (mw_configs w) = map u_Meta sampleConfigs" "\<forall>config\<in>set (mw_configs w). isMap (u_Object config)"
    "isNet ''fleet'' ''c-network'' net"
  using assms by (auto simp: memHandover_def memCluster_def zeroMeta_def)

lemma config_sample:
  assumes "memHandover net w" "config \<in> set (mw_configs w)"
  shows "u_Meta config \<in> set (map u_Meta sampleConfigs)"
proof -
  have "u_Meta config \<in> set (map u_Meta (mw_configs w))" using assms(2) by simp
  then show ?thesis by (simp only: memHandoverD(9)[OF assms(1)])
qed

lemma config_meta: "memHandover net w \<Longrightarrow> config \<in> set (mw_configs w) \<Longrightarrow> u_namespace config = ''fleet''"
proof -
  assume "memHandover net w" "config \<in> set (mw_configs w)"
  from config_sample[OF this] show ?thesis by (auto simp: sampleConfig_def zeroMeta_def)
qed

lemma memConfig_known:
  assumes "memHandover net w" "c \<in> om_Name ` set (map u_Meta sampleConfigs)"
  shows "memConfig w c \<noteq> None"
proof -
  from assms obtain config where "config \<in> set (mw_configs w)" "u_name config = c"
    unfolding memHandoverD(9)[OF assms(1), symmetric] by auto
  with config_meta[OF assms(1)] show ?thesis by (auto simp: memConfig_def find_None_iff isObj_def)
qed

lemma memConfig_patch:
  assumes "memHandover net w" "memConfig w c = Some config" "isMap obj"
  defines "x \<equiv> config\<lparr>u_Object := obj\<rparr>"
  defines "w' \<equiv> w\<lparr>mw_configs := replaceBy (isObj ''fleet'' c) x (mw_configs w)\<rparr>"
  shows "memHandover net w'" "memConfig w' = (memConfig w)(c \<mapsto> x)" "memCluster w' = memCluster w"
proof -
  have c: "isObj ''fleet'' c config" "config \<in> set (mw_configs w)" using assms(2) by (auto simp: memConfig_def find_Some_iff)
  then have x: "isObj ''fleet'' d x \<longleftrightarrow> d = c" for d by (auto simp: x_def isObj_def)
  have "u_Meta y = u_Meta config" if "y \<in> set (mw_configs w)" "isObj ''fleet'' c y" for y
  proof -
    note m = config_sample[OF assms(1) that(1)] config_sample[OF assms(1) c(2)]
    from m that(2) c(1) show ?thesis by (auto simp: isObj_def sampleConfig_def zeroMeta_def)
  qed
  then have "map u_Meta (replaceBy (isObj ''fleet'' c) x (mw_configs w)) = map u_Meta (mw_configs w)"
    by (auto simp: replaceBy_def x_def)
  then show "memHandover net w'" using assms(1,3) by (auto simp: memHandover_def w'_def memCluster_def replaceBy_def x_def)
  have "find (isObj ''fleet'' d) (replaceBy (isObj ''fleet'' c) x l) =
      (if d = c \<and> find (isObj ''fleet'' c) l \<noteq> None then Some x else find (isObj ''fleet'' d) l)" for d l
    by (induction l) (auto simp: replaceBy_def x, auto simp: isObj_def)
  then show "memConfig w' = (memConfig w)(c \<mapsto> x)" using assms(2) by (auto simp: memConfig_def w'_def)
  show "memCluster w' = memCluster w" by (simp add: w'_def memCluster_def)
qed

lemma memCluster_patch:
  assumes "memHandover net w" "x = setAnnotations kvs (memCluster w)" "bootstrapName refLib x = bootstrapName refLib (memCluster w)"
  shows "memHandover net (w\<lparr>mw_clusters := [x]\<rparr>)" "memCluster (w\<lparr>mw_clusters := [x]\<rparr>) = x" "memConfig (w\<lparr>mw_clusters := [x]\<rparr>) = memConfig w"
proof -
  show "memCluster (w\<lparr>mw_clusters := [x]\<rparr>) = x" "memConfig (w\<lparr>mw_clusters := [x]\<rparr>) = memConfig w"
    by (simp_all add: memCluster_def memConfig_def fun_eq_iff)
  from assms(1) obtain m where "memCluster w = (sampleCluster samplePools)\<lparr>u_Meta := (zeroMeta ''c'' ''fleet'')\<lparr>om_Annotations := m\<rparr>\<rparr>"
    by (auto simp: memHandover_def memCluster_def)
  then have "\<exists>m. x = (sampleCluster samplePools)\<lparr>u_Meta := (zeroMeta ''c'' ''fleet'')\<lparr>om_Annotations := m\<rparr>\<rparr>"
    using assms(2) by (auto simp: setAnnotations_def)
  with assms(1,3) show "memHandover net (w\<lparr>mw_clusters := [x]\<rparr>)" by (auto simp: memHandover_def memCluster_def)
qed

lemma readyNetwork_settled: "settled refLib readyNetwork"
  by code_simp

lemma sample_refs: "tcloudMachineConfigRefs refUnstructured (lib_orbit refLib) (sampleCluster samplePools) = Inr [''a'']"
  by code_simp

lemma sampleBootstrap_simps: "BClient sampleBootstrap = memKube" "BLib sampleBootstrap = refLib"
  "BUnstructured sampleBootstrap = refUnstructured" "MapOrder sampleBootstrap = rev"
  by (simp_all add: sampleBootstrap_def)

interpretation mem_handover: propagation_env sampleBootstrap "''fleet''" "''c''" "''''" net "[''a'']"
    "map u_Meta sampleConfigs" memCluster memConfig "memHandover net" for net
proof (intro propagation_env.intro propagation_env_axioms.intro, goal_cases)
  case 1
  show ?case unfolding sampleBootstrap_simps by (rule ref_unstructured.unstructured_lib_axioms)
next
  case 2
  show ?case by (simp add: sampleBootstrap_simps visitsAll_def)
next
  case 3
  show ?case by simp
next
  case (4 w)
  from memHandoverD[OF 4] have "find (isObj ''fleet'' ''c'') (mw_clusters w) = Some (memCluster w)"
    by (metis find.simps(2) isObj_def)
  then show ?case by (simp add: sampleBootstrap_simps memKube_def lookup_def)
next
  case (5 w)
  from memHandoverD[OF 5] refs_same[of "memCluster w" "sampleCluster samplePools"] sample_refs show ?case
    by (simp add: sampleBootstrap_simps)
next
  case (6 w)
  from memHandoverD(1,8,11)[OF 6] show ?case by (simp add: sampleBootstrap_simps memKube_def lookup_def)
next
  case (7 w)
  from config_meta[OF 7] have "filter (\<lambda>u. u_namespace u = ''fleet'') (mw_configs w) = mw_configs w" by (simp add: filter_id_conv)
  with memHandoverD(9)[OF 7] show ?case by (simp add: sampleBootstrap_simps memKube_def)
next
  case (8 w c)
  then have "c \<in> om_Name ` set (map u_Meta sampleConfigs)" by (auto simp: sampleConfig_def zeroMeta_def)
  with memConfig_known[OF 8(1)] show ?case by blast
next
  case (9 w c config)
  then have "config \<in> set (mw_configs w)" by (auto simp: memConfig_def find_Some_iff)
  with memHandoverD(10)[OF 9(1)] 9(2) show ?case by (simp add: sampleBootstrap_simps memKube_def lookup_def memConfig_def)
next
  case (10 w c config obj)
  have "u_namespace config = ''fleet''" "u_name config = c" using 10(2) by (auto simp: memConfig_def find_Some_iff isObj_def)
  with memConfig_patch[OF 10] show ?case by (simp add: sampleBootstrap_simps memKube_def)
next
  case (11 w x kvs)
  have "replaceBy (isObj (u_namespace x) (u_name x)) x (mw_clusters w) = [x]"
    unfolding memHandoverD(2)[OF 11(1)] using 11(2) by (simp add: replaceBy_def isObj_def)
  with memCluster_patch[OF 11(1,2)] 11(3) show ?case by (simp add: sampleBootstrap_simps memKube_def)
qed

section \<open>Property\<close>

text \<open>
  C15: A settled network reaches the machines: where calls succeed, one bootstrap gives every referenced
  or owned machine config of the cluster the network's identifiers and the cluster its annotations,
  and comes back in ten minutes; a second bootstrap leaves the world exactly as it is.
\<close>

theorem bootstrap_hands_over:
  assumes "propagation_env r ns n uid net refs metas clusterOf configOf good" "settled (BLib r) net" "good w"
  shows "\<exists>w'. Bootstrap_Reconcile r ns n w = (Ret (requeueAfter (10 * Minute)) None, w') \<and>
    served configOf net (targets ns n uid refs metas) w' \<and>
    annotated (clusterAnnotations (bootstrapName (BLib r) (clusterOf w)) net) (clusterOf w') \<and>
    Bootstrap_Reconcile r ns n w' = (Ret (requeueAfter (10 * Minute)) None, w')"
proof -
  note ok = propagation_env.Bootstrap_ok[OF assms(1,2)]
  from ok[OF assms(3)] obtain w' where w': "Bootstrap_Reconcile r ns n w = (Ret (requeueAfter (10 * Minute)) None, w')" "good w'"
    "served configOf net (targets ns n uid refs metas) w'"
    "annotated (clusterAnnotations (bootstrapName (BLib r) (clusterOf w)) net) (clusterOf w')"
    "bootstrapName (BLib r) (clusterOf w') = bootstrapName (BLib r) (clusterOf w)" by blast
  from ok[OF w'(2)] w'(3-5) have "Bootstrap_Reconcile r ns n w' = (Ret (requeueAfter (10 * Minute)) None, w')" by metis
  with w' show ?thesis by blast
qed

theorem bootstrap_hands_over_witness:
  "\<exists>w'. Bootstrap_Reconcile sampleBootstrap ''fleet'' ''c'' readyWorld = (Ret (requeueAfter (10 * Minute)) None, w') \<and>
     served memConfig readyNetwork [''a'', ''z''] w' \<and>
     Bootstrap_Reconcile sampleBootstrap ''fleet'' ''c'' w' = (Ret (requeueAfter (10 * Minute)) None, w')"
proof -
  have "bootstrapName refLib (memCluster readyWorld) = ''c-network''" by code_simp
  moreover have "isNet ''fleet'' ''c-network'' readyNetwork" by code_simp
  ultimately have g: "memHandover readyNetwork readyWorld"
    by (auto simp: memHandover_def readyWorld_def configWorld_def sampleCluster_def sampleConfig_def zeroMeta_def memCluster_def
        intro!: exI[of _ Map.empty])
  have "targets ''fleet'' ''c'' '''' [''a''] (map u_Meta sampleConfigs) = [''a'', ''z'']" by code_simp
  with bootstrap_hands_over[OF mem_handover.propagation_env_axioms _ g] readyNetwork_settled show ?thesis
    by (auto simp: sampleBootstrap_simps)
qed

end
