(* ===== verification/GoHeap.thy ===== *)
theory GoHeap
  imports Prelude
begin

text \<open>
  Go memory, for the code whose point is aliasing: the generated deep copies. A heap is the list of
  the cells allocated so far, an address is a position in it, and allocation appends; cells are
  never freed, as in a collected language. A slice refers to a part of a backing array. The locale
  \<open>deep_copy\<close> says what a \<open>DeepCopyInto\<close> method promises; the lemmas in it carry the promise from
  fields to structs, from elements to slices, and from a struct to the pointer \<open>DeepCopy\<close> returns.
\<close>

section \<open>Cells and addresses\<close>

type_synonym addr = nat

definition alloc :: "'c \<Rightarrow> 'c list \<Rightarrow> addr \<times> 'c list" where
  [go_defs]: "alloc c h = (length h, h @ [c])"

text \<open>The cells of \<open>S\<close> are still there with the same contents.\<close>

definition unchanged :: "addr set \<Rightarrow> 'c list \<Rightarrow> 'c list \<Rightarrow> bool" where
  "unchanged S h h' \<longleftrightarrow> (\<forall>a\<in>S. a < length h' \<and> h' ! a = h ! a)"

abbreviation allocated :: "'c list \<Rightarrow> addr set" where "allocated h \<equiv> {..<length h}"
abbreviation extends :: "'c list \<Rightarrow> 'c list \<Rightarrow> bool" where "extends h \<equiv> unchanged (allocated h) h"

text \<open>The cells allocated between two points in time.\<close>

abbreviation fresh :: "'c list \<Rightarrow> 'c list \<Rightarrow> addr set" where "fresh h h' \<equiv> {length h..<length h'}"

lemma extends_length: "extends h h' \<Longrightarrow> length h \<le> length h'"
  unfolding unchanged_def by (meson lessThan_iff linorder_not_le order_less_irrefl)

lemma extends_refl [simp]: "extends h h" by (simp add: unchanged_def)

lemma extends_trans [trans]:
  assumes "extends h h1" "extends h1 h2"
  shows "extends h h2"
proof -
  have "allocated h \<subseteq> allocated h1" using extends_length[OF assms(1)] by auto
  with assms show ?thesis unfolding unchanged_def by (auto simp: subset_iff)
qed

lemma extends_append [simp]: "extends h (h @ cs)" by (simp add: unchanged_def nth_append)

lemma extends_update: "extends h h' \<Longrightarrow> length h \<le> a \<Longrightarrow> extends h (h'[a := c])"
  by (auto simp: unchanged_def)

lemma unchanged_mono: "unchanged T h h' \<Longrightarrow> S \<subseteq> T \<Longrightarrow> unchanged S h h'"
  by (auto simp: unchanged_def)

lemma unchanged_fresh: "extends h1 h2 \<Longrightarrow> unchanged (fresh h h1) h1 h2"
  by (auto simp: unchanged_def)

section \<open>Slices\<close>

text \<open>A slice that is not nil: its backing array, its offset in it, and its length.\<close>

record slice =
  sl_array :: addr
  sl_off :: nat
  sl_len :: nat

text \<open>
  \<open>arr\<close> reads the array in a cell, and \<open>cell\<close> makes a cell of an array.
\<close>

definition elems :: "('c \<Rightarrow> 'a list) \<Rightarrow> 'c list \<Rightarrow> slice \<Rightarrow> 'a list" where
  [go_defs]: "elems arr h s = take (sl_len s) (drop (sl_off s) (arr (h ! sl_array s)))"

definition inBounds :: "('c \<Rightarrow> 'a list) \<Rightarrow> 'c list \<Rightarrow> slice \<Rightarrow> bool" where
  [go_defs]: "inBounds arr h s \<longleftrightarrow> sl_off s + sl_len s \<le> length (arr (h ! sl_array s))"

text \<open>\<open>make([]T, n)\<close> for a type with the given zero value.\<close>

definition makeSlice :: "('a list \<Rightarrow> 'c) \<Rightarrow> 'a \<Rightarrow> nat \<Rightarrow> 'c list \<Rightarrow> slice \<times> 'c list" where
  [go_defs]: "makeSlice cell zero n h =
     (case alloc (cell (replicate n zero)) h of (a, h) \<Rightarrow> (\<lparr>sl_array = a, sl_off = 0, sl_len = n\<rparr>, h))"

text \<open>\<open>make\<close> and \<open>copy(*out, *in)\<close>: the elements are copied as they are.\<close>

definition copySlice :: "('c \<Rightarrow> 'a list) \<Rightarrow> ('a list \<Rightarrow> 'c) \<Rightarrow> 'a \<Rightarrow> slice \<Rightarrow> 'c list \<Rightarrow> slice \<times> 'c list" where
  [go_defs]: "copySlice arr cell zero s h =
     (case makeSlice cell zero (sl_len s) h of
        (t, h) \<Rightarrow> (t, h[sl_array t := cell (elems arr h s)]))"

text \<open>
  \<open>make\<close> and the loop \<open>for i := range *in { (*in)[i].DeepCopyInto(&(*out)[i]) }\<close>: both slices are
  read and the new one is written at every step.
\<close>

fun copyLoop :: "('a \<Rightarrow> 'a \<Rightarrow> 'c list \<Rightarrow> 'a \<times> 'c list) \<Rightarrow> ('c \<Rightarrow> 'a list) \<Rightarrow> ('a list \<Rightarrow> 'c) \<Rightarrow> slice \<Rightarrow> slice \<Rightarrow>
  nat list \<Rightarrow> 'c list \<Rightarrow> 'c list" where
  "copyLoop into arr cell s t [] h = h"
| "copyLoop into arr cell s t (i # is) h =
     (case into (elems arr h s ! i) (elems arr h t ! i) h of
        (y, h) \<Rightarrow> copyLoop into arr cell s t is
                   (h[sl_array t := cell ((arr (h ! sl_array t))[sl_off t + i := y])]))"

definition copyEach :: "('a \<Rightarrow> 'a \<Rightarrow> 'c list \<Rightarrow> 'a \<times> 'c list) \<Rightarrow> ('c \<Rightarrow> 'a list) \<Rightarrow> ('a list \<Rightarrow> 'c) \<Rightarrow> 'a \<Rightarrow> slice \<Rightarrow>
  'c list \<Rightarrow> slice \<times> 'c list" where
  [go_defs]: "copyEach into arr cell zero s h =
     (case makeSlice cell zero (sl_len s) h of
        (t, h) \<Rightarrow> (t, copyLoop into arr cell s t [0..<sl_len s] h))"

text \<open>
  The statement \<open>if in.F != nil { in, out := &in.F, &out.F; ... }\<close>, after \<open>*out = *in\<close>: the field of
  \<open>out\<close> is replaced by a copy where it is not nil, and is nil otherwise.
\<close>

definition ifNotNil :: "'r option \<Rightarrow> ('r \<Rightarrow> 'c list \<Rightarrow> 'r \<times> 'c list) \<Rightarrow> 'c list \<Rightarrow> 'r option \<times> 'c list" where
  [go_defs]: "ifNotNil p f h = (case p of None \<Rightarrow> (None, h) | Some r \<Rightarrow> (case f r h of (t, h) \<Rightarrow> (Some t, h)))"

text \<open>The body of a \<open>DeepCopy\<close> method: nil for nil, otherwise \<open>DeepCopyInto\<close> into a new struct.\<close>

definition copyPointer :: "('a \<Rightarrow> 'a \<Rightarrow> 'c list \<Rightarrow> 'a \<times> 'c list) \<Rightarrow> ('c \<Rightarrow> 'a) \<Rightarrow> ('a \<Rightarrow> 'c) \<Rightarrow> 'a \<Rightarrow> addr option \<Rightarrow>
  'c list \<Rightarrow> addr option \<times> 'c list" where
  [go_defs]: "copyPointer into get cell zero p h =
     (case p of
        None \<Rightarrow> (None, h)
      | Some a \<Rightarrow>
          (case alloc (cell zero) h of (q, h) \<Rightarrow>
             (case into (get (h ! a)) (get (h ! q)) h of (y, h) \<Rightarrow> (Some q, h[q := cell y]))))"

section \<open>The contract\<close>

text \<open>
  \<open>within S h x\<close>: every reference in \<open>x\<close>, followed in \<open>h\<close>, stays in \<open>S\<close>, and slices are in bounds;
  \<open>val h x\<close>: the value \<open>x\<close> stands for. Both depend on the cells of \<open>S\<close> only. A copy changes nothing
  that exists, has the same value, and refers to cells allocated by the copying only.
\<close>

locale deep_copy =
  fixes into :: "'a \<Rightarrow> 'a \<Rightarrow> 'c list \<Rightarrow> 'a \<times> 'c list"
    and within :: "addr set \<Rightarrow> 'c list \<Rightarrow> 'a \<Rightarrow> bool"
    and val :: "'c list \<Rightarrow> 'a \<Rightarrow> 'v"
  assumes within_mono: "within S h x \<Longrightarrow> S \<subseteq> T \<Longrightarrow> within T h x"
    and within_frame: "within S h x \<Longrightarrow> unchanged S h h' \<Longrightarrow> within S h' x"
    and val_frame: "within S h x \<Longrightarrow> unchanged S h h' \<Longrightarrow> val h' x = val h x"
    and copies: "within (allocated h) h x \<Longrightarrow> into x y h = (z, h') \<Longrightarrow>
      extends h h' \<and> within (fresh h h') h' z \<and> val h' z = val h x"
begin

text \<open>What was there before a step is there after it.\<close>

lemma later:
  assumes "within (allocated h) h x" "extends h h1"
  shows "within (allocated h1) h1 x" "val h1 x = val h x"
proof -
  have "allocated h \<subseteq> allocated h1" using extends_length[OF assms(2)] by auto
  with within_frame[OF assms] show "within (allocated h1) h1 x" by (rule within_mono)
  show "val h1 x = val h x" using val_frame[OF assms] .
qed

text \<open>What a step copied is still a fresh copy after the next step.\<close>

lemma keep:
  assumes "within (fresh h0 h1) h1 z" "extends h1 h2"
  shows "within (fresh h0 h2) h2 z" "val h2 z = val h1 z"
proof -
  note u = unchanged_fresh[OF assms(2)]
  have "fresh h0 h1 \<subseteq> fresh h0 h2" using extends_length[OF assms(2)] by auto
  with within_frame[OF assms(1) u] show "within (fresh h0 h2) h2 z" by (rule within_mono)
  show "val h2 z = val h1 z" using val_frame[OF assms(1) u] .
qed

lemma widen: "within (fresh h1 h2) h z \<Longrightarrow> length h0 \<le> length h1 \<Longrightarrow> within (fresh h0 h2) h z"
  by (erule within_mono) auto

end

section \<open>Slices of copied elements\<close>

definition sliceWithin :: "(addr set \<Rightarrow> 'c list \<Rightarrow> 'a \<Rightarrow> bool) \<Rightarrow> ('c \<Rightarrow> 'a list) \<Rightarrow> addr set \<Rightarrow> 'c list \<Rightarrow> slice option \<Rightarrow> bool" where
  "sliceWithin W arr S h s \<longleftrightarrow> (case s of None \<Rightarrow> True
     | Some s \<Rightarrow> sl_array s \<in> S \<and> inBounds arr h s \<and> list_all (W S h) (elems arr h s))"

definition sliceVal :: "('c list \<Rightarrow> 'a \<Rightarrow> 'v) \<Rightarrow> ('c \<Rightarrow> 'a list) \<Rightarrow> 'c list \<Rightarrow> slice option \<Rightarrow> 'v list" where
  "sliceVal V arr h s = (case s of None \<Rightarrow> [] | Some s \<Rightarrow> map (V h) (elems arr h s))"

lemma length_elems: "inBounds arr h s \<Longrightarrow> length (elems arr h s) = sl_len s"
  by (simp add: elems_def inBounds_def)

lemma elems_cong: "h' ! sl_array s = h ! sl_array s \<Longrightarrow> elems arr h' s = elems arr h s"
  by (simp add: elems_def)

locale array_copy = deep_copy into within val
  for into :: "'a \<Rightarrow> 'a \<Rightarrow> 'c list \<Rightarrow> 'a \<times> 'c list" and within and val :: "'c list \<Rightarrow> 'a \<Rightarrow> 'v" +
  fixes arr :: "'c \<Rightarrow> 'a list" and cell :: "'a list \<Rightarrow> 'c" and zero :: 'a
  assumes arr_cell [simp]: "arr (cell xs) = xs"
begin

lemma slice_frame:
  assumes "sliceWithin within arr S h s" "unchanged S h h'"
  shows "sliceWithin within arr S h' s" "sliceVal val arr h' s = sliceVal val arr h s"
proof -
  have "sliceWithin within arr S h' s \<and> sliceVal val arr h' s = sliceVal val arr h s"
  proof (cases s)
    case (Some t)
    with assms have t: "sl_array t \<in> S" "inBounds arr h t" "list_all (within S h) (elems arr h t)"
      by (auto simp: sliceWithin_def)
    from t(1) assms(2) have same: "h' ! sl_array t = h ! sl_array t" by (auto simp: unchanged_def)
    with t within_frame[OF _ assms(2)] val_frame[OF _ assms(2)] Some show ?thesis
      by (auto simp: sliceWithin_def sliceVal_def list_all_iff inBounds_def elems_cong[OF same])
  qed (simp add: sliceWithin_def sliceVal_def)
  then show "sliceWithin within arr S h' s" "sliceVal val arr h' s = sliceVal val arr h s" by auto
qed

lemma slice_mono: "sliceWithin within arr S h s \<Longrightarrow> S \<subseteq> T \<Longrightarrow> sliceWithin within arr T h s"
  using within_mono by (fastforce simp: sliceWithin_def list_all_iff split: option.splits)

text \<open>
  The state of the loop before step \<open>i\<close>: nothing old has changed, and the first \<open>i\<close> elements of the
  new array are copies, which do not refer to that array.
\<close>

definition copied :: "'c list \<Rightarrow> slice \<Rightarrow> slice \<Rightarrow> nat \<Rightarrow> 'c list \<Rightarrow> bool" where
  "copied h0 s t i h \<longleftrightarrow> extends h0 h \<and> sl_array t = length h0 \<and> length h0 < length h \<and>
     length (arr (h ! length h0)) = sl_len s \<and>
     (\<forall>j<i. within {Suc (length h0)..<length h} h (arr (h ! length h0) ! j) \<and>
            val h (arr (h ! length h0) ! j) = val h0 (elems arr h0 s ! j))"

lemma copied_step:
  assumes c: "copied h0 s t i h" and s: "sliceWithin within arr (allocated h0) h0 (Some s)" and i: "i < sl_len s"
    and t: "sl_off t = 0" "sl_len t = sl_len s"
    and run: "into (elems arr h s ! i) (elems arr h t ! i) h = (y, h1)"
  shows "copied h0 s t (Suc i) (h1[sl_array t := cell ((arr (h1 ! sl_array t))[sl_off t + i := y])])"
proof -
  let ?a = "length h0"
  let ?ys = "(arr (h1 ! ?a))[i := y]"
  let ?h = "h1[?a := cell ?ys]"
  have ext: "extends h0 h" and a: "sl_array t = ?a" "?a < length h" "length (arr (h ! ?a)) = sl_len s"
    and prev: "\<And>j. j < i \<Longrightarrow> within {Suc ?a..<length h} h (arr (h ! ?a) ! j) \<and>
            val h (arr (h ! ?a) ! j) = val h0 (elems arr h0 s ! j)"
    using c by (auto simp: copied_def)
  from s ext have es: "elems arr h s = elems arr h0 s"
    by (intro elems_cong) (auto simp: sliceWithin_def unchanged_def)
  from s i have "within (allocated h0) h0 (elems arr h0 s ! i)"
    by (auto simp: sliceWithin_def list_all_iff length_elems)
  from later[OF this ext] run es
  have x: "within (allocated h) h (elems arr h s ! i)" "val h (elems arr h s ! i) = val h0 (elems arr h0 s ! i)" by auto
  from copies[OF x(1) run] have y: "extends h h1" "within (fresh h h1) h1 y" "val h1 y = val h (elems arr h s ! i)" by auto
  from y(1) a have same: "h1 ! ?a = h ! ?a" and len: "length h \<le> length h1"
    using extends_length[OF y(1)] by (auto simp: unchanged_def)
  have out: "unchanged S h1 ?h" if "?a \<notin> S" "S \<subseteq> allocated h1" for S
    using that unfolding unchanged_def by (metis length_list_update lessThan_iff nth_list_update_neq subsetD)
  have Y: "within {Suc ?a..<length ?h} ?h y \<and> val ?h y = val h0 (elems arr h0 s ! i)"
  proof -
    have "unchanged (fresh h h1) h1 ?h" using a(2) by (intro out) auto
    from within_frame[OF y(2) this] val_frame[OF y(2) this] y(3) x(2)
    show ?thesis using a(2) by (auto intro: within_mono)
  qed
  have Old: "within {Suc ?a..<length ?h} ?h z \<and> val ?h z = v" if "within {Suc ?a..<length h} h z \<and> val h z = v" for z v
  proof -
    have u: "unchanged {Suc ?a..<length h} h h1" using y(1) by (rule unchanged_mono) auto
    from that have z: "within {Suc ?a..<length h} h z" by simp
    have u': "unchanged {Suc ?a..<length h} h1 ?h" using len by (intro out) auto
    note w = within_frame[OF z u]
    have "{Suc ?a..<length h} \<subseteq> {Suc ?a..<length ?h}" using len by auto
    with within_frame[OF w u'] val_frame[OF w u'] val_frame[OF z u] that show ?thesis by (auto intro: within_mono)
  qed
  have "extends h0 ?h" using extends_update[OF extends_trans[OF ext y(1)]] by simp
  moreover have "within {Suc ?a..<length ?h} ?h (?ys ! j) \<and> val ?h (?ys ! j) = val h0 (elems arr h0 s ! j)" if "j < Suc i" for j
  proof (cases "j = i")
    case True
    with Y a(3) same i show ?thesis by simp
  next
    case False
    with that prev[of j] have "within {Suc ?a..<length h} h (?ys ! j) \<and> val h (?ys ! j) = val h0 (elems arr h0 s ! j)"
      by (simp add: same)
    then show ?thesis by (rule Old)
  qed
  ultimately show ?thesis using a len same t(1) by (simp add: copied_def)
qed

lemma copyLoop_copied:
  assumes "copied h0 s t i h" "sliceWithin within arr (allocated h0) h0 (Some s)" "i \<le> sl_len s"
    "sl_off t = 0" "sl_len t = sl_len s"
  shows "copied h0 s t (sl_len s) (copyLoop into arr cell s t [i..<sl_len s] h)"
  using assms(1,3)
proof (induction "sl_len s - i" arbitrary: i h)
  case (Suc n)
  then have i: "i < sl_len s" "[i..<sl_len s] = i # [Suc i..<sl_len s]" by (auto simp: upt_conv_Cons)
  obtain y h1 where run: "into (elems arr h s ! i) (elems arr h t ! i) h = (y, h1)" by fastforce
  from copied_step[OF Suc.prems(1) assms(2) i(1) assms(4,5) run] Suc show ?case by (simp add: i run)
qed simp

lemma copyEach_copies:
  assumes s: "sliceWithin within arr (allocated h) h s" and run: "ifNotNil s (copyEach into arr cell zero) h = (z, h')"
  shows "extends h h' \<and> sliceWithin within arr (fresh h h') h' z \<and> sliceVal val arr h' z = sliceVal val arr h s"
proof (cases s)
  case None
  with run show ?thesis by (simp add: ifNotNil_def sliceWithin_def sliceVal_def)
next
  case (Some s')
  let ?t = "\<lparr>sl_array = length h, sl_off = 0, sl_len = sl_len s'\<rparr>"
  let ?h = "h @ [cell (replicate (sl_len s') zero)]"
  from run Some have z: "z = Some ?t" and h': "h' = copyLoop into arr cell s' ?t [0..<sl_len s'] ?h"
    by (simp_all add: ifNotNil_def copyEach_def makeSlice_def alloc_def)
  have "copied h s' ?t 0 ?h" by (simp add: copied_def)
  from copyLoop_copied[OF this] s Some have c: "copied h s' ?t (sl_len s') h'" by (simp add: h')
  let ?ys = "arr (h' ! length h)"
  from c have ys: "elems arr h' ?t = ?ys" "length ?ys = sl_len s'" by (auto simp: copied_def elems_def)
  from s Some have xs: "length (elems arr h s') = sl_len s'" by (simp add: sliceWithin_def length_elems)
  have "within (fresh h h') h' y" if "y \<in> set ?ys" for y
    using that c ys(2) by (auto simp: copied_def in_set_conv_nth intro: within_mono)
  moreover have "map (val h') ?ys = map (val h) (elems arr h s')"
    using c ys(2) xs by (auto simp: copied_def intro!: nth_equalityI)
  ultimately show ?thesis using c ys
    by (auto simp: z Some sliceWithin_def sliceVal_def copied_def inBounds_def list_all_iff)
qed

end

sublocale array_copy \<subseteq> slices: deep_copy "\<lambda>s out. ifNotNil s (copyEach into arr cell zero)"
  "sliceWithin within arr" "sliceVal val arr"
  by unfold_locales (erule slice_mono slice_frame copyEach_copies, assumption)+

text \<open>Elements without references are copied as they are.\<close>

locale flat_array =
  fixes arr :: "'c \<Rightarrow> 'a list" and cell :: "'a list \<Rightarrow> 'c" and zero :: 'a
  assumes arr_cell [simp]: "arr (cell xs) = xs"
begin

lemma copySlice_copies:
  assumes s: "sliceWithin (\<lambda>_ _ _. True) arr (allocated h) h s" and run: "ifNotNil s (copySlice arr cell zero) h = (z, h')"
  shows "extends h h' \<and> sliceWithin (\<lambda>_ _ _. True) arr (fresh h h') h' z \<and>
    sliceVal (\<lambda>_ x. x) arr h' z = sliceVal (\<lambda>_ x. x) arr h s"
proof (cases s)
  case (Some s')
  let ?h = "h @ [cell (replicate (sl_len s') zero)]"
  from s Some have b: "sl_array s' < length h" "inBounds arr h s'" by (auto simp: sliceWithin_def)
  then have e: "elems arr ?h s' = elems arr h s'" by (intro elems_cong) (simp add: nth_append)
  from run Some have "z = Some \<lparr>sl_array = length h, sl_off = 0, sl_len = sl_len s'\<rparr>" "h' = h @ [cell (elems arr h s')]"
    by (simp_all add: ifNotNil_def copySlice_def makeSlice_def alloc_def e)
  with b Some show ?thesis
    by (simp add: sliceWithin_def sliceVal_def inBounds_def elems_def list_all_iff)
qed (use run in \<open>simp add: ifNotNil_def sliceWithin_def sliceVal_def\<close>)

end

sublocale flat_array \<subseteq> slices: deep_copy "\<lambda>s out. ifNotNil s (copySlice arr cell zero)"
  "sliceWithin (\<lambda>_ _ _. True) arr" "sliceVal (\<lambda>_ x. x) arr"
proof unfold_locales
  fix S h h' s assume "sliceWithin (\<lambda>_ _ _. True) arr S h s" "unchanged S h h'"
  then show "sliceWithin (\<lambda>_ _ _. True) arr S h' s" "sliceVal (\<lambda>_ x. x) arr h' s = sliceVal (\<lambda>_ x. x) arr h s"
    by (auto simp: sliceWithin_def sliceVal_def unchanged_def inBounds_def elems_def list_all_iff split: option.splits)
qed (force simp: sliceWithin_def list_all_iff split: option.splits, erule copySlice_copies, assumption)

text \<open>The statements \<open>*out = new(T)\<close> and \<open>**out = **in\<close>, for a type without references.\<close>

definition newCopy :: "('c \<Rightarrow> 'a) \<Rightarrow> ('a \<Rightarrow> 'c) \<Rightarrow> 'a \<Rightarrow> addr \<Rightarrow> 'c list \<Rightarrow> addr \<times> 'c list" where
  [go_defs]: "newCopy get cell zero a h =
     (case alloc (cell zero) h of (q, h) \<Rightarrow> (q, h[q := cell (get (h ! a))]))"

locale flat_pointer =
  fixes get :: "'c \<Rightarrow> 'a" and cell :: "'a \<Rightarrow> 'c" and zero :: 'a
  assumes get_cell [simp]: "get (cell x) = x"

sublocale flat_pointer \<subseteq> pointers: deep_copy "\<lambda>p out. ifNotNil p (newCopy get cell zero)"
  "\<lambda>S h p. set_option p \<subseteq> S" "\<lambda>h p. map_option (\<lambda>a. get (h ! a)) p"
proof unfold_locales
  fix S and h h' :: "'c list" and p assume "set_option p \<subseteq> S" "unchanged S h h'"
  then show "map_option (\<lambda>a. get (h' ! a)) p = map_option (\<lambda>a. get (h ! a)) p" by (cases p) (auto simp: unchanged_def)
next
  fix h p z h' assume "set_option p \<subseteq> allocated h" "ifNotNil p (newCopy get cell zero) h = (z, h')"
  then show "extends h h' \<and> set_option z \<subseteq> fresh h h' \<and>
      map_option (\<lambda>a. get (h' ! a)) z = map_option (\<lambda>a. get (h ! a)) p"
    by (cases p) (auto simp: ifNotNil_def newCopy_def alloc_def nth_append)
qed auto

section \<open>Structs\<close>

text \<open>Two copies in a row; a copy of the parts of a struct that hold references is a copy of the struct.\<close>

definition copyBoth :: "('a \<Rightarrow> 'a \<Rightarrow> 'c list \<Rightarrow> 'a \<times> 'c list) \<Rightarrow> ('b \<Rightarrow> 'b \<Rightarrow> 'c list \<Rightarrow> 'b \<times> 'c list) \<Rightarrow>
  'a \<times> 'b \<Rightarrow> 'a \<times> 'b \<Rightarrow> 'c list \<Rightarrow> ('a \<times> 'b) \<times> 'c list" where
  [go_defs]: "copyBoth I J x y h =
     (case I (fst x) (fst y) h of (a, h) \<Rightarrow> (case J (snd x) (snd y) h of (b, h) \<Rightarrow> ((a, b), h)))"

locale pair_copy = one: deep_copy I W V + two: deep_copy J X U
  for I :: "'a \<Rightarrow> 'a \<Rightarrow> 'c list \<Rightarrow> 'a \<times> 'c list" and W and V :: "'c list \<Rightarrow> 'a \<Rightarrow> 'v"
    and J :: "'b \<Rightarrow> 'b \<Rightarrow> 'c list \<Rightarrow> 'b \<times> 'c list" and X and U :: "'c list \<Rightarrow> 'b \<Rightarrow> 'u"
begin

lemma copyBoth_copies:
  assumes w: "W (allocated h) h (fst x)" "X (allocated h) h (snd x)" and run: "copyBoth I J x y h = (z, h')"
  shows "extends h h' \<and> (W (fresh h h') h' (fst z) \<and> X (fresh h h') h' (snd z)) \<and>
    (V h' (fst z), U h' (snd z)) = (V h (fst x), U h (snd x))"
proof -
  obtain a h1 b where one: "I (fst x) (fst y) h = (a, h1)" and two: "J (snd x) (snd y) h1 = (b, h')" and z: "z = (a, b)"
    using run by (auto simp: copyBoth_def split: prod.splits)
  note a = one.copies[OF w(1) one]
  then have "extends h h1" by blast
  note b = two.copies[OF two.later(1)[OF w(2) this] two]
  then have "extends h1 h'" by blast
  with a one.keep[OF _ this] have "extends h h' \<and> W (fresh h h') h' a \<and> V h' a = V h (fst x)"
    by (metis extends_trans)
  moreover have "X (fresh h h') h' b" using two.widen[of h1 h' h' b h] b extends_length[OF \<open>extends h h1\<close>] by blast
  moreover have "U h' b = U h (snd x)" using b two.later(2)[OF w(2) \<open>extends h h1\<close>] by simp
  ultimately show ?thesis by (simp add: z)
qed

end

sublocale pair_copy \<subseteq> both: deep_copy "copyBoth I J" "\<lambda>S h x. W S h (fst x) \<and> X S h (snd x)"
  "\<lambda>h x. (V h (fst x), U h (snd x))"
proof unfold_locales
  fix h x y z h' assume "W (allocated h) h (fst x) \<and> X (allocated h) h (snd x)" "copyBoth I J x y h = (z, h')"
  then show "extends h h' \<and> (W (fresh h h') h' (fst z) \<and> X (fresh h h') h' (snd z)) \<and>
    (V h' (fst z), U h' (snd z)) = (V h (fst x), U h (snd x))" by (elim conjE copyBoth_copies)
next
  fix S T h x assume "W S h (fst x) \<and> X S h (snd x)" "S \<subseteq> T"
  then show "W T h (fst x) \<and> X T h (snd x)" using one.within_mono two.within_mono by blast
next
  fix S h x h' assume "W S h (fst x) \<and> X S h (snd x)" "unchanged S h h'"
  then show "W S h' (fst x) \<and> X S h' (snd x)" "(V h' (fst x), U h' (snd x)) = (V h (fst x), U h (snd x))"
    using one.within_frame two.within_frame one.val_frame two.val_frame by (blast, metis)
qed

lemma flat_deep_copy: "deep_copy (\<lambda>x out h. (x, h)) (\<lambda>S h x. True) (\<lambda>h x. x)"
  by unfold_locales auto

lemma deep_copy_struct:
  assumes "deep_copy I W V"
    and into: "\<And>x y h. into x y h = (case I (refs x) (refs x) h of (a, h) \<Rightarrow> (put a x, h))"
    and put: "\<And>x a. refs (put a x) = a"
    and within: "\<And>S h x. within S h x = W S h (refs x)"
    and val: "\<And>h x. val h x = mk x (V h (refs x))" "\<And>x a v. mk (put a x) v = mk x v"
  shows "deep_copy into within val"
proof -
  note laws = deep_copy.within_mono[OF assms(1)] deep_copy.within_frame[OF assms(1)] deep_copy.val_frame[OF assms(1)]
  show ?thesis
  proof
    fix h x y z h' assume w: "within (allocated h) h x" and run: "into x y h = (z, h')"
    then obtain a where a: "I (refs x) (refs x) h = (a, h')" and z: "z = put a x" by (auto simp: into split: prod.splits)
    from deep_copy.copies[OF assms(1) w[unfolded within] a]
    show "extends h h' \<and> within (fresh h h') h' z \<and> val h' z = val h x" by (simp add: within val z put)
  next
    fix S T h x assume "within S h x" "S \<subseteq> T"
    then show "within T h x" unfolding within by (rule laws)
  next
    fix S h x h' assume w: "within S h x" and u: "unchanged S h h'"
    from laws(2)[OF w[unfolded within] u] show "within S h' x" unfolding within .
    from laws(3)[OF w[unfolded within] u] show "val h' x = val h x" unfolding val(1) by simp
  qed
qed

section \<open>Pointers to copied structs\<close>

locale pointer_copy = deep_copy into within val
  for into :: "'a \<Rightarrow> 'a \<Rightarrow> 'c list \<Rightarrow> 'a \<times> 'c list" and within and val :: "'c list \<Rightarrow> 'a \<Rightarrow> 'v" +
  fixes get :: "'c \<Rightarrow> 'a" and cell :: "'a \<Rightarrow> 'c" and zero :: 'a
  assumes get_cell [simp]: "get (cell x) = x"
begin

text \<open>A copy through a pointer is a fresh struct with the same value, and nothing old changes.\<close>

lemma copyPointer_fresh:
  assumes a: "a < length h" "within (allocated h) h (get (h ! a))"
    and run: "copyPointer into get cell zero (Some a) h = (r, h')"
  shows "\<exists>q. r = Some q \<and> q \<in> fresh h h' \<and> extends h h' \<and> within (fresh h h') h' (get (h' ! q)) \<and>
    val h' (get (h' ! q)) = val h (get (h ! a))"
proof -
  let ?q = "length h"
  let ?h = "h @ [cell zero]"
  obtain y h2 where into: "into (get (?h ! a)) (get (?h ! ?q)) ?h = (y, h2)" by fastforce
  with run have r: "r = Some ?q" and h': "h' = h2[?q := cell y]" by (auto simp: copyPointer_def alloc_def)
  from a have x: "get (?h ! a) = get (h ! a)" "within (allocated h) h (get (h ! a))"
    by (auto simp: nth_append)
  note l = later[OF x(2) extends_append[of h "[cell zero]"]]
  from copies[OF l(1) into[unfolded x(1)]]
  have y: "extends ?h h2" "within (fresh ?h h2) h2 y" "val h2 y = val ?h (get (h ! a))" by auto
  have len: "?q < length h2" using extends_length[OF y(1)] by simp
  have u: "unchanged (fresh ?h h2) h2 h'" by (auto simp: unchanged_def h')
  have "extends h h'" unfolding h'
    using extends_update[OF extends_trans[OF extends_append y(1)]] by simp
  moreover have "within (fresh h h') h' y" using within_frame[OF y(2) u] by (rule within_mono) (auto simp: h')
  moreover have "h' ! ?q = cell y" using len by (simp add: h')
  moreover have "val h' y = val h (get (h ! a))" using val_frame[OF y(2) u] y(3) l(2) by simp
  ultimately show ?thesis using len by (simp add: r h')
qed

text \<open>
  From then on, the copy keeps its value as long as the cells made for it are left alone, and the
  original as long as the older cells are.
\<close>

lemma copyPointer_independent:
  assumes a: "a < length h" "within (allocated h) h (get (h ! a))"
    and run: "copyPointer into get cell zero (Some a) h = (r, h')"
  shows "\<exists>q. r = Some q \<and> q \<in> fresh h h' \<and> extends h h' \<and>
    (\<forall>h''. unchanged (fresh h h') h' h'' \<longrightarrow> val h'' (get (h'' ! q)) = val h (get (h ! a))) \<and>
    (\<forall>h''. extends h h'' \<longrightarrow> val h'' (get (h'' ! a)) = val h (get (h ! a)))"
proof -
  from copyPointer_fresh[OF assms] obtain q where q: "r = Some q" "q \<in> fresh h h'" "extends h h'"
    "within (fresh h h') h' (get (h' ! q))" "val h' (get (h' ! q)) = val h (get (h ! a))" by blast
  have "val h'' (get (h'' ! q)) = val h (get (h ! a))" if u: "unchanged (fresh h h') h' h''" for h''
    using val_frame[OF q(4) u] q(2,5) u by (auto simp: unchanged_def)
  moreover have "val h'' (get (h'' ! a)) = val h (get (h ! a))" if u: "extends h h''" for h''
    using val_frame[OF a(2) u] a(1) u by (auto simp: unchanged_def)
  ultimately show ?thesis using q(1-3) by blast
qed

end

end
