(* ===== verification/DeepCopy.thy ===== *)
theory DeepCopy
  imports GoHeap KubeMem
begin

text \<open>
  The generated deep copies of \<^verbatim>\<open>src/api/v1alpha1/zz_generated.deepcopy.go\<close> on Go memory. The
  structs that hold slices or pointers have a memory form here; \<open>..._val\<close> reads the value of theory
  \<open>Api\<close> from it, with a nil slice for the empty list, and \<open>..._within\<close> says where its references
  lead. The copy methods of the library's \<open>ObjectMeta\<close>, \<open>ListMeta\<close> and \<open>Condition\<close> are parameters
  (record \<open>copyLib\<close>); the locale \<open>api_copy\<close> asks of them what \<open>deep_copy\<close> says. All methods are shown
  to be deep copies, and so the value semantics of \<open>patchStatus\<close> in theory \<open>Kube\<close> is what the source
  does through pointers.
\<close>

section \<open>Structs in memory\<close>

record SubnetSpecMem =
  mss_ID :: string
  mss_Name :: string
  mss_CIDR :: string
  mss_GatewayIP :: string
  mss_DNSNameservers :: "slice option"
  mss_AvailabilityZone :: string

record SecurityGroupSpecMem =
  mgs_ID :: string
  mgs_Name :: string
  mgs_ManagementPolicy :: ManagementPolicy
  mgs_SSHAllowedCIDRs :: "slice option"
  mgs_CNI :: string

record NetworkSpecMem =
  mns_VPC :: VPCSpec
  mns_Subnet :: SubnetSpecMem
  mns_SecurityGroup :: SecurityGroupSpecMem

record TCloudClusterNetworkSpecMem =
  msp_ClusterRef :: NamespacedReference
  msp_CredentialSecretRef :: NamespacedReference
  msp_ManagementPolicy :: ManagementPolicy
  msp_Region :: string
  msp_ProjectName :: string
  msp_EndpointType :: string
  msp_Network :: NetworkSpecMem
  msp_OrphanCleanupAfter :: "addr option"

record TCloudClusterNetworkStatusMem =
  mst_ObservedGeneration :: int
  mst_ClusterUID :: string
  mst_OwnershipToken :: string
  mst_Resources :: NetworkResourceStatus
  mst_AppliedSSHAllowedCIDRs :: "slice option"
  mst_Conditions :: "slice option"

record TypeMeta =
  tm_Kind :: string
  tm_APIVersion :: string

text \<open>\<open>'m\<close> and \<open>'l\<close> are the library's \<open>ObjectMeta\<close> and \<open>ListMeta\<close> structs.\<close>

record 'm TCloudClusterNetworkMem =
  mn_TypeMeta :: TypeMeta
  mn_Meta :: 'm
  mn_Spec :: TCloudClusterNetworkSpecMem
  mn_Status :: TCloudClusterNetworkStatusMem

record 'l TCloudClusterNetworkListMem =
  ml_TypeMeta :: TypeMeta
  ml_Meta :: 'l
  ml_Items :: "slice option"

text \<open>
  A cell holds a backing array, a value behind a pointer, a struct, or memory of the library
  (\<open>'x\<close>).
\<close>

datatype ('m, 'l, 'x) memcell =
    Strings (stringsOf: "string list")
  | DurationCell (durationOf: duration)
  | Conditions (conditionsOf: "Condition list")
  | Networks (networksOf: "'m TCloudClusterNetworkMem list")
  | NamespacedReferenceCell (theNamespacedReference: NamespacedReference)
  | VPCSpecCell (theVPCSpec: VPCSpec)
  | SubnetSpecCell (theSubnetSpec: SubnetSpecMem)
  | SecurityGroupSpecCell (theSecurityGroupSpec: SecurityGroupSpecMem)
  | NetworkSpecCell (theNetworkSpec: NetworkSpecMem)
  | ResourceStatusCell (theResourceStatus: ResourceStatus)
  | NetworkResourceStatusCell (theNetworkResourceStatus: NetworkResourceStatus)
  | SpecCell (theSpec: TCloudClusterNetworkSpecMem)
  | StatusCell (theStatus: TCloudClusterNetworkStatusMem)
  | NetworkCell (theNetwork: "'m TCloudClusterNetworkMem")
  | ListCell (theList: "'l TCloudClusterNetworkListMem")
  | LibCell (theLib: 'x)

type_synonym ('m, 'l, 'x) heap = "('m, 'l, 'x) memcell list"
type_synonym ('a, 'm, 'l, 'x) copier = "'a \<Rightarrow> 'a \<Rightarrow> ('m, 'l, 'x) heap \<Rightarrow> 'a \<times> ('m, 'l, 'x) heap"

record ('m, 'l, 'x) copyLib =
  ObjectMeta_DeepCopyInto :: "('m, 'm, 'l, 'x) copier"
  ListMeta_DeepCopyInto :: "('l, 'm, 'l, 'x) copier"
  Condition_DeepCopyInto :: "(Condition, 'm, 'l, 'x) copier"
  zeroObjectMeta :: 'm
  zeroListMeta :: 'l
  zeroCondition :: Condition

section \<open>Zero values\<close>

definition zeroRef :: NamespacedReference where
  [go_defs]: "zeroRef = \<lparr>nr_Name = '''', nr_Namespace = ''''\<rparr>"
definition zeroVPCSpec :: VPCSpec where
  [go_defs]: "zeroVPCSpec = \<lparr>vs_ID = '''', vs_Name = '''', vs_CIDR = ''''\<rparr>"
definition zeroSubnetSpec :: SubnetSpecMem where
  [go_defs]: "zeroSubnetSpec = \<lparr>mss_ID = '''', mss_Name = '''', mss_CIDR = '''', mss_GatewayIP = '''',
     mss_DNSNameservers = None, mss_AvailabilityZone = ''''\<rparr>"
definition zeroSecurityGroupSpec :: SecurityGroupSpecMem where
  [go_defs]: "zeroSecurityGroupSpec = \<lparr>mgs_ID = '''', mgs_Name = '''', mgs_ManagementPolicy = '''',
     mgs_SSHAllowedCIDRs = None, mgs_CNI = ''''\<rparr>"
definition zeroNetworkSpec :: NetworkSpecMem where
  [go_defs]: "zeroNetworkSpec = \<lparr>mns_VPC = zeroVPCSpec, mns_Subnet = zeroSubnetSpec, mns_SecurityGroup = zeroSecurityGroupSpec\<rparr>"
definition zeroSpec :: TCloudClusterNetworkSpecMem where
  [go_defs]: "zeroSpec = \<lparr>msp_ClusterRef = zeroRef, msp_CredentialSecretRef = zeroRef, msp_ManagementPolicy = '''',
     msp_Region = '''', msp_ProjectName = '''', msp_EndpointType = '''', msp_Network = zeroNetworkSpec,
     msp_OrphanCleanupAfter = None\<rparr>"
definition zeroResources :: NetworkResourceStatus where
  [go_defs]: "zeroResources = \<lparr>nrs_VPC = noResource, nrs_Subnet = noResource, nrs_SecurityGroup = noResource\<rparr>"
definition zeroStatus :: TCloudClusterNetworkStatusMem where
  [go_defs]: "zeroStatus = \<lparr>mst_ObservedGeneration = 0, mst_ClusterUID = '''', mst_OwnershipToken = '''',
     mst_Resources = zeroResources, mst_AppliedSSHAllowedCIDRs = None, mst_Conditions = None\<rparr>"
definition zeroTypeMeta :: TypeMeta where
  [go_defs]: "zeroTypeMeta = \<lparr>tm_Kind = '''', tm_APIVersion = ''''\<rparr>"
definition zeroNetwork :: "('m, 'l, 'x) copyLib \<Rightarrow> 'm TCloudClusterNetworkMem" where
  [go_defs]: "zeroNetwork L = \<lparr>mn_TypeMeta = zeroTypeMeta, mn_Meta = zeroObjectMeta L, mn_Spec = zeroSpec, mn_Status = zeroStatus\<rparr>"
definition zeroList :: "('m, 'l, 'x) copyLib \<Rightarrow> 'l TCloudClusterNetworkListMem" where
  [go_defs]: "zeroList L = \<lparr>ml_TypeMeta = zeroTypeMeta, ml_Meta = zeroListMeta L, ml_Items = None\<rparr>"

section \<open>The methods\<close>

text \<open>
  \<open>T_DeepCopyInto inp out h\<close> is \<open>in.DeepCopyInto(out)\<close> with the structs behind the two pointers before
  the call; it returns the struct behind \<open>out\<close> after it. A call on fields, as in
  \<open>in.Subnet.DeepCopyInto(&out.Subnet)\<close>, gets and sets the field.
\<close>

abbreviation copyStrings :: "slice \<Rightarrow> ('m, 'l, 'x) heap \<Rightarrow> slice \<times> ('m, 'l, 'x) heap" where
  "copyStrings \<equiv> copySlice stringsOf Strings ''''"

definition NamespacedReference_DeepCopyInto :: "(NamespacedReference, 'm, 'l, 'x) copier" where
  [go_defs]: "NamespacedReference_DeepCopyInto inp out h = (let out = inp in (out, h))"

definition NamespacedReference_DeepCopy :: "addr option \<Rightarrow> ('m, 'l, 'x) heap \<Rightarrow> addr option \<times> ('m, 'l, 'x) heap" where
  [go_defs]: "NamespacedReference_DeepCopy =
     copyPointer NamespacedReference_DeepCopyInto theNamespacedReference NamespacedReferenceCell zeroRef"

definition NetworkResourceStatus_DeepCopyInto :: "(NetworkResourceStatus, 'm, 'l, 'x) copier" where
  [go_defs]: "NetworkResourceStatus_DeepCopyInto inp out h =
     (let out = inp;
          out = out\<lparr>nrs_VPC := nrs_VPC inp\<rparr>;
          out = out\<lparr>nrs_Subnet := nrs_Subnet inp\<rparr>;
          out = out\<lparr>nrs_SecurityGroup := nrs_SecurityGroup inp\<rparr> in (out, h))"

definition NetworkResourceStatus_DeepCopy :: "addr option \<Rightarrow> ('m, 'l, 'x) heap \<Rightarrow> addr option \<times> ('m, 'l, 'x) heap" where
  [go_defs]: "NetworkResourceStatus_DeepCopy =
     copyPointer NetworkResourceStatus_DeepCopyInto theNetworkResourceStatus NetworkResourceStatusCell zeroResources"

definition SecurityGroupSpec_DeepCopyInto :: "(SecurityGroupSpecMem, 'm, 'l, 'x) copier" where
  [go_defs]: "SecurityGroupSpec_DeepCopyInto inp out h =
     (let out = inp in
      case ifNotNil (mgs_SSHAllowedCIDRs inp) copyStrings h of (cidrs, h) \<Rightarrow>
        (out\<lparr>mgs_SSHAllowedCIDRs := cidrs\<rparr>, h))"

definition SecurityGroupSpec_DeepCopy :: "addr option \<Rightarrow> ('m, 'l, 'x) heap \<Rightarrow> addr option \<times> ('m, 'l, 'x) heap" where
  [go_defs]: "SecurityGroupSpec_DeepCopy =
     copyPointer SecurityGroupSpec_DeepCopyInto theSecurityGroupSpec SecurityGroupSpecCell zeroSecurityGroupSpec"

definition SubnetSpec_DeepCopyInto :: "(SubnetSpecMem, 'm, 'l, 'x) copier" where
  [go_defs]: "SubnetSpec_DeepCopyInto inp out h =
     (let out = inp in
      case ifNotNil (mss_DNSNameservers inp) copyStrings h of (servers, h) \<Rightarrow>
        (out\<lparr>mss_DNSNameservers := servers\<rparr>, h))"

definition SubnetSpec_DeepCopy :: "addr option \<Rightarrow> ('m, 'l, 'x) heap \<Rightarrow> addr option \<times> ('m, 'l, 'x) heap" where
  [go_defs]: "SubnetSpec_DeepCopy = copyPointer SubnetSpec_DeepCopyInto theSubnetSpec SubnetSpecCell zeroSubnetSpec"

definition NetworkSpec_DeepCopyInto :: "(NetworkSpecMem, 'm, 'l, 'x) copier" where
  [go_defs]: "NetworkSpec_DeepCopyInto inp out h =
     (let out = inp; out = out\<lparr>mns_VPC := mns_VPC inp\<rparr> in
      case SubnetSpec_DeepCopyInto (mns_Subnet inp) (mns_Subnet out) h of (subnet, h) \<Rightarrow>
        (let out = out\<lparr>mns_Subnet := subnet\<rparr> in
         case SecurityGroupSpec_DeepCopyInto (mns_SecurityGroup inp) (mns_SecurityGroup out) h of (securityGroup, h) \<Rightarrow>
           (out\<lparr>mns_SecurityGroup := securityGroup\<rparr>, h)))"

definition NetworkSpec_DeepCopy :: "addr option \<Rightarrow> ('m, 'l, 'x) heap \<Rightarrow> addr option \<times> ('m, 'l, 'x) heap" where
  [go_defs]: "NetworkSpec_DeepCopy = copyPointer NetworkSpec_DeepCopyInto theNetworkSpec NetworkSpecCell zeroNetworkSpec"

definition ResourceStatus_DeepCopyInto :: "(ResourceStatus, 'm, 'l, 'x) copier" where
  [go_defs]: "ResourceStatus_DeepCopyInto inp out h = (let out = inp in (out, h))"

definition ResourceStatus_DeepCopy :: "addr option \<Rightarrow> ('m, 'l, 'x) heap \<Rightarrow> addr option \<times> ('m, 'l, 'x) heap" where
  [go_defs]: "ResourceStatus_DeepCopy = copyPointer ResourceStatus_DeepCopyInto theResourceStatus ResourceStatusCell noResource"

definition VPCSpec_DeepCopyInto :: "(VPCSpec, 'm, 'l, 'x) copier" where
  [go_defs]: "VPCSpec_DeepCopyInto inp out h = (let out = inp in (out, h))"

definition VPCSpec_DeepCopy :: "addr option \<Rightarrow> ('m, 'l, 'x) heap \<Rightarrow> addr option \<times> ('m, 'l, 'x) heap" where
  [go_defs]: "VPCSpec_DeepCopy = copyPointer VPCSpec_DeepCopyInto theVPCSpec VPCSpecCell zeroVPCSpec"

definition TCloudClusterNetworkSpec_DeepCopyInto :: "(TCloudClusterNetworkSpecMem, 'm, 'l, 'x) copier" where
  [go_defs]: "TCloudClusterNetworkSpec_DeepCopyInto inp out h =
     (let out = inp;
          out = out\<lparr>msp_ClusterRef := msp_ClusterRef inp\<rparr>;
          out = out\<lparr>msp_CredentialSecretRef := msp_CredentialSecretRef inp\<rparr> in
      case NetworkSpec_DeepCopyInto (msp_Network inp) (msp_Network out) h of (network, h) \<Rightarrow>
        (let out = out\<lparr>msp_Network := network\<rparr> in
         case ifNotNil (msp_OrphanCleanupAfter inp) (newCopy durationOf DurationCell 0) h of (timeout, h) \<Rightarrow>
           (out\<lparr>msp_OrphanCleanupAfter := timeout\<rparr>, h)))"

definition TCloudClusterNetworkSpec_DeepCopy :: "addr option \<Rightarrow> ('m, 'l, 'x) heap \<Rightarrow> addr option \<times> ('m, 'l, 'x) heap" where
  [go_defs]: "TCloudClusterNetworkSpec_DeepCopy =
     copyPointer TCloudClusterNetworkSpec_DeepCopyInto theSpec SpecCell zeroSpec"

definition TCloudClusterNetworkStatus_DeepCopyInto ::
  "('m, 'l, 'x) copyLib \<Rightarrow> (TCloudClusterNetworkStatusMem, 'm, 'l, 'x) copier" where
  [go_defs]: "TCloudClusterNetworkStatus_DeepCopyInto L inp out h =
     (let out = inp; out = out\<lparr>mst_Resources := mst_Resources inp\<rparr> in
      case ifNotNil (mst_AppliedSSHAllowedCIDRs inp) copyStrings h of (applied, h) \<Rightarrow>
        (let out = out\<lparr>mst_AppliedSSHAllowedCIDRs := applied\<rparr> in
         case ifNotNil (mst_Conditions inp)
                (copyEach (Condition_DeepCopyInto L) conditionsOf Conditions (zeroCondition L)) h of (conds, h) \<Rightarrow>
           (out\<lparr>mst_Conditions := conds\<rparr>, h)))"

definition TCloudClusterNetworkStatus_DeepCopy ::
  "('m, 'l, 'x) copyLib \<Rightarrow> addr option \<Rightarrow> ('m, 'l, 'x) heap \<Rightarrow> addr option \<times> ('m, 'l, 'x) heap" where
  [go_defs]: "TCloudClusterNetworkStatus_DeepCopy L =
     copyPointer (TCloudClusterNetworkStatus_DeepCopyInto L) theStatus StatusCell zeroStatus"

definition TCloudClusterNetwork_DeepCopyInto ::
  "('m, 'l, 'x) copyLib \<Rightarrow> ('m TCloudClusterNetworkMem, 'm, 'l, 'x) copier" where
  [go_defs]: "TCloudClusterNetwork_DeepCopyInto L inp out h =
     (let out = inp; out = out\<lparr>mn_TypeMeta := mn_TypeMeta inp\<rparr> in
      case ObjectMeta_DeepCopyInto L (mn_Meta inp) (mn_Meta out) h of (meta, h) \<Rightarrow>
        (let out = out\<lparr>mn_Meta := meta\<rparr> in
         case TCloudClusterNetworkSpec_DeepCopyInto (mn_Spec inp) (mn_Spec out) h of (spec, h) \<Rightarrow>
           (let out = out\<lparr>mn_Spec := spec\<rparr> in
            case TCloudClusterNetworkStatus_DeepCopyInto L (mn_Status inp) (mn_Status out) h of (status, h) \<Rightarrow>
              (out\<lparr>mn_Status := status\<rparr>, h))))"

definition TCloudClusterNetwork_DeepCopy ::
  "('m, 'l, 'x) copyLib \<Rightarrow> addr option \<Rightarrow> ('m, 'l, 'x) heap \<Rightarrow> addr option \<times> ('m, 'l, 'x) heap" where
  [go_defs]: "TCloudClusterNetwork_DeepCopy L =
     copyPointer (TCloudClusterNetwork_DeepCopyInto L) theNetwork NetworkCell (zeroNetwork L)"

definition TCloudClusterNetworkList_DeepCopyInto ::
  "('m, 'l, 'x) copyLib \<Rightarrow> ('l TCloudClusterNetworkListMem, 'm, 'l, 'x) copier" where
  [go_defs]: "TCloudClusterNetworkList_DeepCopyInto L inp out h =
     (let out = inp; out = out\<lparr>ml_TypeMeta := ml_TypeMeta inp\<rparr> in
      case ListMeta_DeepCopyInto L (ml_Meta inp) (ml_Meta out) h of (meta, h) \<Rightarrow>
        (let out = out\<lparr>ml_Meta := meta\<rparr> in
         case ifNotNil (ml_Items inp)
                (copyEach (TCloudClusterNetwork_DeepCopyInto L) networksOf Networks (zeroNetwork L)) h of (items, h) \<Rightarrow>
           (out\<lparr>ml_Items := items\<rparr>, h)))"

definition TCloudClusterNetworkList_DeepCopy ::
  "('m, 'l, 'x) copyLib \<Rightarrow> addr option \<Rightarrow> ('m, 'l, 'x) heap \<Rightarrow> addr option \<times> ('m, 'l, 'x) heap" where
  [go_defs]: "TCloudClusterNetworkList_DeepCopy L =
     copyPointer (TCloudClusterNetworkList_DeepCopyInto L) theList ListCell (zeroList L)"

text \<open>A \<open>runtime.Object\<close> that is not nil: a pointer with its type.\<close>

datatype runtimeObject = NetworkObject addr | ListObject addr

definition TCloudClusterNetwork_DeepCopyObject ::
  "('m, 'l, 'x) copyLib \<Rightarrow> addr option \<Rightarrow> ('m, 'l, 'x) heap \<Rightarrow> runtimeObject option \<times> ('m, 'l, 'x) heap" where
  [go_defs]: "TCloudClusterNetwork_DeepCopyObject L p h =
     (case TCloudClusterNetwork_DeepCopy L p h of
        (Some c, h) \<Rightarrow> (Some (NetworkObject c), h)
      | (None, h) \<Rightarrow> (None, h))"

definition TCloudClusterNetworkList_DeepCopyObject ::
  "('m, 'l, 'x) copyLib \<Rightarrow> addr option \<Rightarrow> ('m, 'l, 'x) heap \<Rightarrow> runtimeObject option \<times> ('m, 'l, 'x) heap" where
  [go_defs]: "TCloudClusterNetworkList_DeepCopyObject L p h =
     (case TCloudClusterNetworkList_DeepCopy L p h of
        (Some c, h) \<Rightarrow> (Some (ListObject c), h)
      | (None, h) \<Rightarrow> (None, h))"

section \<open>Values and references\<close>

abbreviation stringsWithin :: "addr set \<Rightarrow> ('m, 'l, 'x) heap \<Rightarrow> slice option \<Rightarrow> bool" where
  "stringsWithin \<equiv> sliceWithin (\<lambda>_ _ _. True) stringsOf"
abbreviation stringsVal :: "('m, 'l, 'x) heap \<Rightarrow> slice option \<Rightarrow> string list" where
  "stringsVal \<equiv> sliceVal (\<lambda>_ x. x) stringsOf"

definition SubnetSpec_val :: "('m, 'l, 'x) heap \<Rightarrow> SubnetSpecMem \<Rightarrow> SubnetSpec" where
  "SubnetSpec_val h x = \<lparr>ss_ID = mss_ID x, ss_Name = mss_Name x, ss_CIDR = mss_CIDR x, ss_GatewayIP = mss_GatewayIP x,
     ss_DNSNameservers = stringsVal h (mss_DNSNameservers x), ss_AvailabilityZone = mss_AvailabilityZone x\<rparr>"

definition SubnetSpec_within :: "addr set \<Rightarrow> ('m, 'l, 'x) heap \<Rightarrow> SubnetSpecMem \<Rightarrow> bool" where
  "SubnetSpec_within S h x = stringsWithin S h (mss_DNSNameservers x)"

definition SecurityGroupSpec_val :: "('m, 'l, 'x) heap \<Rightarrow> SecurityGroupSpecMem \<Rightarrow> SecurityGroupSpec" where
  "SecurityGroupSpec_val h x = \<lparr>gs_ID = mgs_ID x, gs_Name = mgs_Name x, gs_ManagementPolicy = mgs_ManagementPolicy x,
     gs_SSHAllowedCIDRs = stringsVal h (mgs_SSHAllowedCIDRs x), gs_CNI = mgs_CNI x\<rparr>"

definition SecurityGroupSpec_within :: "addr set \<Rightarrow> ('m, 'l, 'x) heap \<Rightarrow> SecurityGroupSpecMem \<Rightarrow> bool" where
  "SecurityGroupSpec_within S h x = stringsWithin S h (mgs_SSHAllowedCIDRs x)"

definition NetworkSpec_val :: "('m, 'l, 'x) heap \<Rightarrow> NetworkSpecMem \<Rightarrow> NetworkSpec" where
  "NetworkSpec_val h x = \<lparr>ns_VPC = mns_VPC x, ns_Subnet = SubnetSpec_val h (mns_Subnet x),
     ns_SecurityGroup = SecurityGroupSpec_val h (mns_SecurityGroup x)\<rparr>"

definition NetworkSpec_within :: "addr set \<Rightarrow> ('m, 'l, 'x) heap \<Rightarrow> NetworkSpecMem \<Rightarrow> bool" where
  "NetworkSpec_within S h x \<longleftrightarrow> SubnetSpec_within S h (mns_Subnet x) \<and> SecurityGroupSpec_within S h (mns_SecurityGroup x)"

definition Spec_val :: "('m, 'l, 'x) heap \<Rightarrow> TCloudClusterNetworkSpecMem \<Rightarrow> TCloudClusterNetworkSpec" where
  "Spec_val h x = \<lparr>sp_ClusterRef = msp_ClusterRef x, sp_CredentialSecretRef = msp_CredentialSecretRef x,
     sp_ManagementPolicy = msp_ManagementPolicy x, sp_Region = msp_Region x, sp_ProjectName = msp_ProjectName x,
     sp_EndpointType = msp_EndpointType x, sp_Network = NetworkSpec_val h (msp_Network x),
     sp_OrphanCleanupAfter = map_option (\<lambda>a. durationOf (h ! a)) (msp_OrphanCleanupAfter x)\<rparr>"

definition Spec_within :: "addr set \<Rightarrow> ('m, 'l, 'x) heap \<Rightarrow> TCloudClusterNetworkSpecMem \<Rightarrow> bool" where
  "Spec_within S h x \<longleftrightarrow> NetworkSpec_within S h (msp_Network x) \<and> set_option (msp_OrphanCleanupAfter x) \<subseteq> S"

definition Status_val :: "('m, 'l, 'x) heap \<Rightarrow> TCloudClusterNetworkStatusMem \<Rightarrow> TCloudClusterNetworkStatus" where
  "Status_val h x = \<lparr>st_ObservedGeneration = mst_ObservedGeneration x, st_ClusterUID = mst_ClusterUID x,
     st_OwnershipToken = mst_OwnershipToken x, st_Resources = mst_Resources x,
     st_AppliedSSHAllowedCIDRs = stringsVal h (mst_AppliedSSHAllowedCIDRs x),
     st_Conditions = sliceVal (\<lambda>_ x. x) conditionsOf h (mst_Conditions x)\<rparr>"

definition Status_within :: "addr set \<Rightarrow> ('m, 'l, 'x) heap \<Rightarrow> TCloudClusterNetworkStatusMem \<Rightarrow> bool" where
  "Status_within S h x \<longleftrightarrow> stringsWithin S h (mst_AppliedSSHAllowedCIDRs x) \<and>
     sliceWithin (\<lambda>_ _ _. True) conditionsOf S h (mst_Conditions x)"

text \<open>The last two take what the library's metadata stands for.\<close>

definition Network_val ::
  "(('m, 'l, 'x) heap \<Rightarrow> 'm \<Rightarrow> ObjectMeta) \<Rightarrow> ('m, 'l, 'x) heap \<Rightarrow> 'm TCloudClusterNetworkMem \<Rightarrow>
   TypeMeta \<times> TCloudClusterNetwork" where
  "Network_val mv h x =
     (mn_TypeMeta x, \<lparr>Meta = mv h (mn_Meta x), Spec = Spec_val h (mn_Spec x), Status = Status_val h (mn_Status x)\<rparr>)"

definition Network_within ::
  "(addr set \<Rightarrow> ('m, 'l, 'x) heap \<Rightarrow> 'm \<Rightarrow> bool) \<Rightarrow> addr set \<Rightarrow> ('m, 'l, 'x) heap \<Rightarrow> 'm TCloudClusterNetworkMem \<Rightarrow> bool" where
  "Network_within mw S h x \<longleftrightarrow> mw S h (mn_Meta x) \<and> Spec_within S h (mn_Spec x) \<and> Status_within S h (mn_Status x)"

definition List_val ::
  "(('m, 'l, 'x) heap \<Rightarrow> 'm \<Rightarrow> ObjectMeta) \<Rightarrow> (('m, 'l, 'x) heap \<Rightarrow> 'l \<Rightarrow> 'v) \<Rightarrow> ('m, 'l, 'x) heap \<Rightarrow>
   'l TCloudClusterNetworkListMem \<Rightarrow> TypeMeta \<times> 'v \<times> (TypeMeta \<times> TCloudClusterNetwork) list" where
  "List_val mv lv h x = (ml_TypeMeta x, lv h (ml_Meta x), sliceVal (Network_val mv) networksOf h (ml_Items x))"

definition List_within ::
  "(addr set \<Rightarrow> ('m, 'l, 'x) heap \<Rightarrow> 'm \<Rightarrow> bool) \<Rightarrow> (addr set \<Rightarrow> ('m, 'l, 'x) heap \<Rightarrow> 'l \<Rightarrow> bool) \<Rightarrow>
   addr set \<Rightarrow> ('m, 'l, 'x) heap \<Rightarrow> 'l TCloudClusterNetworkListMem \<Rightarrow> bool" where
  "List_within mw lw S h x \<longleftrightarrow> lw S h (ml_Meta x) \<and> sliceWithin (Network_within mw) networksOf S h (ml_Items x)"

section \<open>Every method is a deep copy\<close>

interpretation strings: flat_array stringsOf Strings "''''" by unfold_locales simp
interpretation durations: flat_pointer durationOf DurationCell 0 by unfold_locales simp

interpretation subnet: deep_copy SubnetSpec_DeepCopyInto SubnetSpec_within SubnetSpec_val
  by (rule deep_copy_struct[OF strings.slices.deep_copy_axioms, where refs = mss_DNSNameservers and
        put = "\<lambda>s x. x\<lparr>mss_DNSNameservers := s\<rparr>" and
        mk = "\<lambda>x s. \<lparr>ss_ID = mss_ID x, ss_Name = mss_Name x, ss_CIDR = mss_CIDR x, ss_GatewayIP = mss_GatewayIP x,
          ss_DNSNameservers = s, ss_AvailabilityZone = mss_AvailabilityZone x\<rparr>"])
    (simp_all add: SubnetSpec_DeepCopyInto_def SubnetSpec_within_def SubnetSpec_val_def)

interpretation securityGroup: deep_copy SecurityGroupSpec_DeepCopyInto SecurityGroupSpec_within SecurityGroupSpec_val
  by (rule deep_copy_struct[OF strings.slices.deep_copy_axioms, where refs = mgs_SSHAllowedCIDRs and
        put = "\<lambda>s x. x\<lparr>mgs_SSHAllowedCIDRs := s\<rparr>" and
        mk = "\<lambda>x s. \<lparr>gs_ID = mgs_ID x, gs_Name = mgs_Name x, gs_ManagementPolicy = mgs_ManagementPolicy x,
          gs_SSHAllowedCIDRs = s, gs_CNI = mgs_CNI x\<rparr>"])
    (simp_all add: SecurityGroupSpec_DeepCopyInto_def SecurityGroupSpec_within_def SecurityGroupSpec_val_def)

interpretation specParts: pair_copy SubnetSpec_DeepCopyInto SubnetSpec_within SubnetSpec_val
  SecurityGroupSpec_DeepCopyInto SecurityGroupSpec_within SecurityGroupSpec_val ..

interpretation networkSpec: deep_copy NetworkSpec_DeepCopyInto NetworkSpec_within NetworkSpec_val
  by (rule deep_copy_struct[OF specParts.both.deep_copy_axioms, where refs = "\<lambda>x. (mns_Subnet x, mns_SecurityGroup x)" and
        put = "\<lambda>p x. x\<lparr>mns_Subnet := fst p, mns_SecurityGroup := snd p\<rparr>" and
        mk = "\<lambda>x p. \<lparr>ns_VPC = mns_VPC x, ns_Subnet = fst p, ns_SecurityGroup = snd p\<rparr>"])
    (simp_all add: NetworkSpec_DeepCopyInto_def NetworkSpec_within_def NetworkSpec_val_def copyBoth_def split: prod.splits)

interpretation networkParts: pair_copy NetworkSpec_DeepCopyInto NetworkSpec_within NetworkSpec_val
  "\<lambda>p out. ifNotNil p (newCopy durationOf DurationCell 0)" "\<lambda>S h p. set_option p \<subseteq> S"
  "\<lambda>h p. map_option (\<lambda>a. durationOf (h ! a)) p" ..

interpretation spec: deep_copy TCloudClusterNetworkSpec_DeepCopyInto Spec_within Spec_val
  by (rule deep_copy_struct[OF networkParts.both.deep_copy_axioms, where
        refs = "\<lambda>x. (msp_Network x, msp_OrphanCleanupAfter x)" and
        put = "\<lambda>p x. x\<lparr>msp_Network := fst p, msp_OrphanCleanupAfter := snd p\<rparr>" and
        mk = "\<lambda>x p. \<lparr>sp_ClusterRef = msp_ClusterRef x, sp_CredentialSecretRef = msp_CredentialSecretRef x,
          sp_ManagementPolicy = msp_ManagementPolicy x, sp_Region = msp_Region x, sp_ProjectName = msp_ProjectName x,
          sp_EndpointType = msp_EndpointType x, sp_Network = fst p, sp_OrphanCleanupAfter = snd p\<rparr>"])
    (simp_all add: TCloudClusterNetworkSpec_DeepCopyInto_def Spec_within_def Spec_val_def copyBoth_def split: prod.splits)

text \<open>The library's methods are deep copies; a condition holds no references.\<close>

locale api_copy = meta: deep_copy "ObjectMeta_DeepCopyInto L" mw mv + listMeta: deep_copy "ListMeta_DeepCopyInto L" lw lv +
    cond: deep_copy "Condition_DeepCopyInto L" "\<lambda>_ _ _. True" "\<lambda>_ c. c"
  for L :: "('m, 'l, 'x) copyLib" and mw and mv :: "('m, 'l, 'x) heap \<Rightarrow> 'm \<Rightarrow> ObjectMeta"
    and lw and lv :: "('m, 'l, 'x) heap \<Rightarrow> 'l \<Rightarrow> 'v"

sublocale api_copy \<subseteq> conds: array_copy "Condition_DeepCopyInto L" "\<lambda>_ _ _. True" "\<lambda>_ c. c" conditionsOf Conditions "zeroCondition L"
  by unfold_locales simp

sublocale api_copy \<subseteq> statusParts: pair_copy "\<lambda>s out. ifNotNil s copyStrings" stringsWithin stringsVal
  "\<lambda>s out. ifNotNil s (copyEach (Condition_DeepCopyInto L) conditionsOf Conditions (zeroCondition L))"
  "sliceWithin (\<lambda>_ _ _. True) conditionsOf" "sliceVal (\<lambda>_ c. c) conditionsOf" ..

sublocale api_copy \<subseteq> status: deep_copy "TCloudClusterNetworkStatus_DeepCopyInto L" Status_within Status_val
  by (rule deep_copy_struct[OF statusParts.both.deep_copy_axioms, where
        refs = "\<lambda>x. (mst_AppliedSSHAllowedCIDRs x, mst_Conditions x)" and
        put = "\<lambda>p x. x\<lparr>mst_AppliedSSHAllowedCIDRs := fst p, mst_Conditions := snd p\<rparr>" and
        mk = "\<lambda>x p. \<lparr>st_ObservedGeneration = mst_ObservedGeneration x, st_ClusterUID = mst_ClusterUID x,
          st_OwnershipToken = mst_OwnershipToken x, st_Resources = mst_Resources x,
          st_AppliedSSHAllowedCIDRs = fst p, st_Conditions = snd p\<rparr>"])
    (simp_all add: TCloudClusterNetworkStatus_DeepCopyInto_def Status_within_def Status_val_def copyBoth_def split: prod.splits)

sublocale api_copy \<subseteq> bodyParts: pair_copy TCloudClusterNetworkSpec_DeepCopyInto Spec_within Spec_val
  "TCloudClusterNetworkStatus_DeepCopyInto L" Status_within Status_val ..

sublocale api_copy \<subseteq> objectParts: pair_copy "ObjectMeta_DeepCopyInto L" mw mv
  "copyBoth TCloudClusterNetworkSpec_DeepCopyInto (TCloudClusterNetworkStatus_DeepCopyInto L)"
  "\<lambda>S h x. Spec_within S h (fst x) \<and> Status_within S h (snd x)" "\<lambda>h x. (Spec_val h (fst x), Status_val h (snd x))" ..

sublocale api_copy \<subseteq> network: pointer_copy "TCloudClusterNetwork_DeepCopyInto L" "Network_within mw" "Network_val mv"
  theNetwork NetworkCell "zeroNetwork L"
proof (intro_locales)
  show "deep_copy (TCloudClusterNetwork_DeepCopyInto L) (Network_within mw) (Network_val mv)"
    by (rule deep_copy_struct[OF objectParts.both.deep_copy_axioms, where
          refs = "\<lambda>x. (mn_Meta x, mn_Spec x, mn_Status x)" and
          put = "\<lambda>p x. x\<lparr>mn_Meta := fst p, mn_Spec := fst (snd p), mn_Status := snd (snd p)\<rparr>" and
          mk = "\<lambda>x p. (mn_TypeMeta x, \<lparr>Meta = fst p, Spec = fst (snd p), Status = snd (snd p)\<rparr>)"])
      (simp_all add: TCloudClusterNetwork_DeepCopyInto_def Network_within_def Network_val_def copyBoth_def split: prod.splits)
qed (simp add: pointer_copy_axioms_def)

sublocale api_copy \<subseteq> items: array_copy "TCloudClusterNetwork_DeepCopyInto L" "Network_within mw" "Network_val mv"
  networksOf Networks "zeroNetwork L"
  by unfold_locales simp

sublocale api_copy \<subseteq> listParts: pair_copy "ListMeta_DeepCopyInto L" lw lv
  "\<lambda>s out. ifNotNil s (copyEach (TCloudClusterNetwork_DeepCopyInto L) networksOf Networks (zeroNetwork L))"
  "sliceWithin (Network_within mw) networksOf" "sliceVal (Network_val mv) networksOf" ..

sublocale api_copy \<subseteq> list: pointer_copy "TCloudClusterNetworkList_DeepCopyInto L" "List_within mw lw" "List_val mv lv"
  theList ListCell "zeroList L"
proof (intro_locales)
  show "deep_copy (TCloudClusterNetworkList_DeepCopyInto L) (List_within mw lw) (List_val mv lv)"
    by (rule deep_copy_struct[OF listParts.both.deep_copy_axioms, where
          refs = "\<lambda>x. (ml_Meta x, ml_Items x)" and
          put = "\<lambda>p x. x\<lparr>ml_Meta := fst p, ml_Items := snd p\<rparr>" and
          mk = "\<lambda>x p. (ml_TypeMeta x, fst p, snd p)"])
      (simp_all add: TCloudClusterNetworkList_DeepCopyInto_def List_within_def List_val_def copyBoth_def split: prod.splits)
qed (simp add: pointer_copy_axioms_def)

text \<open>The structs without references, and the pointers to the parts of a spec.\<close>

lemma flat_pointer_copy:
  assumes "\<And>x y h. into x y h = (x, h)" "\<And>x. get (cell x) = x"
  shows "pointer_copy into (\<lambda>S h x. True) (\<lambda>h x. x) get cell"
proof -
  have "into = (\<lambda>x y h. (x, h))" using assms(1) by (intro ext)
  then show ?thesis using flat_deep_copy assms(2) by (simp add: pointer_copy_def pointer_copy_axioms_def)
qed

interpretation namespacedReference: pointer_copy NamespacedReference_DeepCopyInto "\<lambda>_ _ _. True" "\<lambda>_ x. x"
  theNamespacedReference NamespacedReferenceCell zeroRef
  by (rule flat_pointer_copy) (simp_all add: NamespacedReference_DeepCopyInto_def)
interpretation networkResources: pointer_copy NetworkResourceStatus_DeepCopyInto "\<lambda>_ _ _. True" "\<lambda>_ x. x"
  theNetworkResourceStatus NetworkResourceStatusCell zeroResources
  by (rule flat_pointer_copy) (simp_all add: NetworkResourceStatus_DeepCopyInto_def Let_def)
interpretation resourceStatus: pointer_copy ResourceStatus_DeepCopyInto "\<lambda>_ _ _. True" "\<lambda>_ x. x"
  theResourceStatus ResourceStatusCell noResource
  by (rule flat_pointer_copy) (simp_all add: ResourceStatus_DeepCopyInto_def)
interpretation vpcSpec: pointer_copy VPCSpec_DeepCopyInto "\<lambda>_ _ _. True" "\<lambda>_ x. x" theVPCSpec VPCSpecCell zeroVPCSpec
  by (rule flat_pointer_copy) (simp_all add: VPCSpec_DeepCopyInto_def)
interpretation subnetPointer: pointer_copy SubnetSpec_DeepCopyInto SubnetSpec_within SubnetSpec_val
  theSubnetSpec SubnetSpecCell zeroSubnetSpec by unfold_locales simp
interpretation groupPointer: pointer_copy SecurityGroupSpec_DeepCopyInto SecurityGroupSpec_within SecurityGroupSpec_val
  theSecurityGroupSpec SecurityGroupSpecCell zeroSecurityGroupSpec by unfold_locales simp
interpretation networkSpecPointer: pointer_copy NetworkSpec_DeepCopyInto NetworkSpec_within NetworkSpec_val
  theNetworkSpec NetworkSpecCell zeroNetworkSpec by unfold_locales simp
interpretation specPointer: pointer_copy TCloudClusterNetworkSpec_DeepCopyInto Spec_within Spec_val
  theSpec SpecCell zeroSpec by unfold_locales simp

section \<open>A reference library\<close>

text \<open>
  Metadata as the library lays it out, for the parts of \<open>ObjectMeta\<close> the program uses: two maps, a
  slice of owner references and a slice of strings. A list's metadata is taken without references.
\<close>

record MetaMem =
  mm_Scalars :: ObjectMeta
  mm_Labels :: "addr option"
  mm_Annotations :: "addr option"
  mm_OwnerReferences :: "slice option"
  mm_Finalizers :: "slice option"

datatype metacell = StringMap (stringMap: "string \<rightharpoonup> string") | Owners (owners: "OwnerReference list")

type_synonym refHeap = "(MetaMem, string, metacell) heap"

abbreviation mapCell :: "(string \<rightharpoonup> string) \<Rightarrow> (MetaMem, string, metacell) memcell" where "mapCell m \<equiv> LibCell (StringMap m)"
abbreviation mapOf :: "(MetaMem, string, metacell) memcell \<Rightarrow> string \<rightharpoonup> string" where "mapOf c \<equiv> stringMap (theLib c)"
abbreviation ownersCell :: "OwnerReference list \<Rightarrow> (MetaMem, string, metacell) memcell" where "ownersCell xs \<equiv> LibCell (Owners xs)"
abbreviation ownersOf :: "(MetaMem, string, metacell) memcell \<Rightarrow> OwnerReference list" where "ownersOf c \<equiv> owners (theLib c)"
abbreviation zeroOwner :: OwnerReference where
  "zeroOwner \<equiv> \<lparr>or_APIVersion = '''', or_Kind = '''', or_Name = '''', or_UID = ''''\<rparr>"

abbreviation copyMap :: "addr option \<Rightarrow> addr option \<Rightarrow> refHeap \<Rightarrow> addr option \<times> refHeap" where
  "copyMap p out \<equiv> ifNotNil p (newCopy mapOf mapCell Map.empty)"
abbreviation copyOwners :: "slice option \<Rightarrow> slice option \<Rightarrow> refHeap \<Rightarrow> slice option \<times> refHeap" where
  "copyOwners s out \<equiv> ifNotNil s (copySlice ownersOf ownersCell zeroOwner)"
abbreviation copyFinalizers :: "slice option \<Rightarrow> slice option \<Rightarrow> refHeap \<Rightarrow> slice option \<times> refHeap" where
  "copyFinalizers s out \<equiv> ifNotNil s copyStrings"

definition metaRefs :: "MetaMem \<Rightarrow> (addr option \<times> addr option) \<times> (slice option \<times> slice option)" where
  "metaRefs x = ((mm_Labels x, mm_Annotations x), (mm_OwnerReferences x, mm_Finalizers x))"

definition refMetaInto :: "MetaMem \<Rightarrow> MetaMem \<Rightarrow> refHeap \<Rightarrow> MetaMem \<times> refHeap" where
  "refMetaInto inp out h =
     (case copyBoth (copyBoth copyMap copyMap) (copyBoth copyOwners copyFinalizers) (metaRefs inp) (metaRefs inp) h of
        (((l, a), (o', f)), h) \<Rightarrow>
          (inp\<lparr>mm_Labels := l, mm_Annotations := a, mm_OwnerReferences := o', mm_Finalizers := f\<rparr>, h))"

abbreviation mapVal :: "refHeap \<Rightarrow> addr option \<Rightarrow> string \<rightharpoonup> string" where
  "mapVal h p \<equiv> case_option Map.empty id (map_option (\<lambda>a. mapOf (h ! a)) p)"

definition refMetaVal :: "refHeap \<Rightarrow> MetaMem \<Rightarrow> ObjectMeta" where
  "refMetaVal h x = (mm_Scalars x)\<lparr>om_Finalizers := stringsVal h (mm_Finalizers x),
     om_OwnerReferences := sliceVal (\<lambda>_ x. x) ownersOf h (mm_OwnerReferences x),
     om_Labels := mapVal h (mm_Labels x), om_Annotations := mapVal h (mm_Annotations x)\<rparr>"

definition refMetaWithin :: "addr set \<Rightarrow> refHeap \<Rightarrow> MetaMem \<Rightarrow> bool" where
  "refMetaWithin S h x \<longleftrightarrow> (set_option (mm_Labels x) \<subseteq> S \<and> set_option (mm_Annotations x) \<subseteq> S) \<and>
     sliceWithin (\<lambda>_ _ _. True) ownersOf S h (mm_OwnerReferences x) \<and> stringsWithin S h (mm_Finalizers x)"

definition refCopyLib :: "(MetaMem, string, metacell) copyLib" where
  "refCopyLib = \<lparr>ObjectMeta_DeepCopyInto = refMetaInto, ListMeta_DeepCopyInto = (\<lambda>inp out h. (inp, h)),
     Condition_DeepCopyInto = (\<lambda>inp out h. (inp, h)),
     zeroObjectMeta = \<lparr>mm_Scalars = \<lparr>om_Name = '''', om_Namespace = '''', om_UID = '''', om_Generation = 0, om_CreationTimestamp = 0,
         om_DeletionTimestamp = None, om_Finalizers = [], om_OwnerReferences = [], om_Labels = Map.empty, om_Annotations = Map.empty\<rparr>,
       mm_Labels = None, mm_Annotations = None, mm_OwnerReferences = None, mm_Finalizers = None\<rparr>,
     zeroListMeta = '''',
     zeroCondition = \<lparr>cn_Type = '''', cn_Status = ConditionUnknown, cn_Reason = '''', cn_Message = Text '''', cn_ObservedGeneration = 0\<rparr>\<rparr>"

interpretation maps: flat_pointer mapOf mapCell Map.empty by unfold_locales simp
interpretation ownerRefs: flat_array ownersOf ownersCell zeroOwner by unfold_locales simp

interpretation mapParts: pair_copy copyMap "\<lambda>S h p. set_option p \<subseteq> S" "\<lambda>h p. map_option (\<lambda>a. mapOf (h ! a)) p"
  copyMap "\<lambda>S h p. set_option p \<subseteq> S" "\<lambda>h p. map_option (\<lambda>a. mapOf (h ! a)) p" ..
interpretation sliceParts: pair_copy copyOwners "sliceWithin (\<lambda>_ _ _. True) ownersOf" "sliceVal (\<lambda>_ x. x) ownersOf"
  copyFinalizers stringsWithin stringsVal ..
interpretation metaParts: pair_copy "copyBoth copyMap copyMap"
  "\<lambda>S h x. set_option (fst x) \<subseteq> S \<and> set_option (snd x) \<subseteq> S"
  "\<lambda>h x. (map_option (\<lambda>a. mapOf (h ! a)) (fst x), map_option (\<lambda>a. mapOf (h ! a)) (snd x))"
  "copyBoth copyOwners copyFinalizers"
  "\<lambda>S h x. sliceWithin (\<lambda>_ _ _. True) ownersOf S h (fst x) \<and> stringsWithin S h (snd x)"
  "\<lambda>h x. (sliceVal (\<lambda>_ x. x) ownersOf h (fst x), stringsVal h (snd x))" ..

lemma refMeta_copies: "deep_copy refMetaInto refMetaWithin refMetaVal"
  by (rule deep_copy_struct[OF metaParts.both.deep_copy_axioms, where refs = metaRefs and
        put = "\<lambda>p x. x\<lparr>mm_Labels := fst (fst p), mm_Annotations := snd (fst p), mm_OwnerReferences := fst (snd p),
          mm_Finalizers := snd (snd p)\<rparr>" and
        mk = "\<lambda>x p. (mm_Scalars x)\<lparr>om_Finalizers := snd (snd p), om_OwnerReferences := fst (snd p),
          om_Labels := case_option Map.empty id (fst (fst p)), om_Annotations := case_option Map.empty id (snd (fst p))\<rparr>"])
    (simp_all add: refMetaInto_def refMetaWithin_def refMetaVal_def metaRefs_def split: prod.splits)

interpretation ref_copy: api_copy refCopyLib refMetaWithin refMetaVal "\<lambda>_ _ _. True" "\<lambda>_ l. l"
  by (simp add: api_copy_def refCopyLib_def refMeta_copies flat_deep_copy)

section \<open>A network in memory\<close>

text \<open>What the struct behind a pointer stands for.\<close>

abbreviation networkAt :: "(('m, 'l, 'x) heap \<Rightarrow> 'm \<Rightarrow> ObjectMeta) \<Rightarrow> ('m, 'l, 'x) heap \<Rightarrow> addr \<Rightarrow> TypeMeta \<times> TCloudClusterNetwork" where
  "networkAt mv h p \<equiv> Network_val mv h (theNetwork (h ! p))"
abbreviation listAt where
  "listAt mv lv h p \<equiv> List_val mv lv h (theList (h ! p))"

definition wholeSlice :: "addr \<Rightarrow> nat \<Rightarrow> slice option" where
  "wholeSlice a n = Some \<lparr>sl_array = a, sl_off = 0, sl_len = n\<rparr>"

text \<open>A decoder that lays an object out anew behind a pointer.\<close>

definition refDecode :: "TCloudClusterNetwork \<Rightarrow> addr \<Rightarrow> refHeap \<Rightarrow> refHeap" where
  "refDecode x n h =
     (let b = length h; sp = Spec x; st = Status x; m = Meta x; sn = subnetSpec x; g = sgSpec x in
      h[n := NetworkCell \<lparr>mn_TypeMeta = zeroTypeMeta,
          mn_Meta = \<lparr>mm_Scalars = m, mm_Labels = Some b, mm_Annotations = Some (b + 1),
            mm_OwnerReferences = wholeSlice (b + 2) (length (om_OwnerReferences m)),
            mm_Finalizers = wholeSlice (b + 3) (length (om_Finalizers m))\<rparr>,
          mn_Spec = \<lparr>msp_ClusterRef = sp_ClusterRef sp, msp_CredentialSecretRef = sp_CredentialSecretRef sp,
            msp_ManagementPolicy = sp_ManagementPolicy sp, msp_Region = sp_Region sp, msp_ProjectName = sp_ProjectName sp,
            msp_EndpointType = sp_EndpointType sp,
            msp_Network = \<lparr>mns_VPC = vpcSpec x,
              mns_Subnet = \<lparr>mss_ID = ss_ID sn, mss_Name = ss_Name sn, mss_CIDR = ss_CIDR sn, mss_GatewayIP = ss_GatewayIP sn,
                mss_DNSNameservers = wholeSlice (b + 4) (length (ss_DNSNameservers sn)), mss_AvailabilityZone = ss_AvailabilityZone sn\<rparr>,
              mns_SecurityGroup = \<lparr>mgs_ID = gs_ID g, mgs_Name = gs_Name g, mgs_ManagementPolicy = gs_ManagementPolicy g,
                mgs_SSHAllowedCIDRs = wholeSlice (b + 5) (length (gs_SSHAllowedCIDRs g)), mgs_CNI = gs_CNI g\<rparr>\<rparr>,
            msp_OrphanCleanupAfter = map_option (\<lambda>_. b + 6) (sp_OrphanCleanupAfter sp)\<rparr>,
          mn_Status = \<lparr>mst_ObservedGeneration = st_ObservedGeneration st, mst_ClusterUID = st_ClusterUID st,
            mst_OwnershipToken = st_OwnershipToken st, mst_Resources = st_Resources st,
            mst_AppliedSSHAllowedCIDRs = wholeSlice (b + 7) (length (st_AppliedSSHAllowedCIDRs st)),
            mst_Conditions = wholeSlice (b + 8) (length (st_Conditions st))\<rparr>\<rparr>] @
      [mapCell (om_Labels m), mapCell (om_Annotations m), ownersCell (om_OwnerReferences m), Strings (om_Finalizers m),
       Strings (ss_DNSNameservers sn), Strings (gs_SSHAllowedCIDRs g), DurationCell (case_option 0 id (sp_OrphanCleanupAfter sp)),
       Strings (st_AppliedSSHAllowedCIDRs st), Conditions (st_Conditions st)])"

abbreviation refEncode :: "refHeap \<Rightarrow> addr \<Rightarrow> TCloudClusterNetwork" where
  "refEncode h p \<equiv> snd (networkAt refMetaVal h p)"

lemma refDecode_inverse: "n < length h \<Longrightarrow> refEncode (refDecode x n h) n = x"
  by (cases "sp_OrphanCleanupAfter (Spec x)")
    (simp_all add: refDecode_def Let_def nth_append Network_val_def Spec_val_def Status_val_def NetworkSpec_val_def
      SubnetSpec_val_def SecurityGroupSpec_val_def refMetaVal_def sliceVal_def elems_def wholeSlice_def)

text \<open>A sample: a Managed network with an SSH range and a condition, alone and in a list.\<close>

definition notReady :: Condition where
  "notReady = \<lparr>cn_Type = ''Ready'', cn_Status = ConditionFalse, cn_Reason = ''Pending'', cn_Message = Text '''', cn_ObservedGeneration = 1\<rparr>"

definition memoryNetwork :: TCloudClusterNetwork where
  "memoryNetwork =
     \<lparr>Meta = (mm_Scalars (zeroObjectMeta refCopyLib))\<lparr>om_Name := ''n'', om_Finalizers := [NetworkFinalizer]\<rparr>,
      Spec = Spec_val ([] :: refHeap) zeroSpec\<lparr>sp_ManagementPolicy := ManagementPolicyManaged, sp_OrphanCleanupAfter := Some Hour\<rparr>,
      Status = (Status_val ([] :: refHeap) zeroStatus)\<lparr>st_AppliedSSHAllowedCIDRs := [''10.0.0.0/8''], st_Conditions := [notReady]\<rparr>\<rparr>"

definition memoryHeap :: refHeap where
  "memoryHeap = refDecode memoryNetwork 0 [NetworkCell (zeroNetwork refCopyLib)]"

definition listHeap :: refHeap where
  "listHeap = memoryHeap @ [Networks [theNetwork (memoryHeap ! 0)],
     ListCell \<lparr>ml_TypeMeta = zeroTypeMeta, ml_Meta = '''', ml_Items = wholeSlice 10 1\<rparr>]"

lemmas memory_defs = listHeap_def memoryHeap_def memoryNetwork_def refDecode_def wholeSlice_def sliceWithin_def inBounds_def
  elems_def List_within_def Network_within_def Spec_within_def Status_within_def NetworkSpec_within_def SubnetSpec_within_def
  SecurityGroupSpec_within_def refMetaWithin_def zeroStatus_def zeroSpec_def zeroNetworkSpec_def zeroSubnetSpec_def
  zeroSecurityGroupSpec_def Spec_val_def Status_val_def NetworkSpec_val_def SubnetSpec_val_def SecurityGroupSpec_val_def
  sliceVal_def refCopyLib_def

lemma length_memoryHeap: "length memoryHeap = 10" "length listHeap = 12"
  by (simp_all add: memory_defs Let_def)

lemma memoryHeap_within: "Network_within refMetaWithin (allocated memoryHeap) memoryHeap (theNetwork (memoryHeap ! 0))"
  by (simp add: memory_defs Let_def)

lemma listHeap_within: "List_within refMetaWithin (\<lambda>_ _ _. True) (allocated listHeap) listHeap (theList (listHeap ! 11))"
  by (simp add: memory_defs Let_def)

section \<open>Independence\<close>

context api_copy
begin

lemmas network_independent = network.copyPointer_independent[folded TCloudClusterNetwork_DeepCopy_def]
lemmas list_independent = list.copyPointer_independent[folded TCloudClusterNetworkList_DeepCopy_def]

end

text \<open>
  C20: Deep copies are independent: the copy of a list of networks is a new object, making it changes
  nothing that exists, and it has the value of the original. Its value stays that, whatever happens to
  memory other than the copy's; the original's value stays, whatever happens to memory allocated since.
\<close>

theorem DeepCopy_independent:
  assumes "api_copy L mw mv lw lv" "a < length h" "List_within mw lw (allocated h) h (theList (h ! a))"
    and run: "TCloudClusterNetworkList_DeepCopyObject L (Some a) h = (r, h')"
  shows "\<exists>q. r = Some (ListObject q) \<and> q \<in> fresh h h' \<and> extends h h' \<and>
    (\<forall>h''. unchanged (fresh h h') h' h'' \<longrightarrow> listAt mv lv h'' q = listAt mv lv h a) \<and>
    (\<forall>h''. extends h h'' \<longrightarrow> listAt mv lv h'' a = listAt mv lv h a)"
proof -
  obtain p where p: "TCloudClusterNetworkList_DeepCopy L (Some a) h = (p, h')" and r: "r = map_option ListObject p"
    using run by (auto simp: TCloudClusterNetworkList_DeepCopyObject_def split: prod.splits option.splits)
  from api_copy.list_independent[OF assms(1-3) p] r show ?thesis by auto
qed

theorem DeepCopy_independent_witness:
  "\<exists>q h'. TCloudClusterNetworkList_DeepCopyObject refCopyLib (Some 11) listHeap = (Some (ListObject q), h') \<and> 12 \<le> q \<and>
     (\<forall>c. listAt refMetaVal (\<lambda>_ l. l) (h'[9 := c]) q = listAt refMetaVal (\<lambda>_ l. l) listHeap 11)"
proof -
  obtain r h' where run: "TCloudClusterNetworkList_DeepCopyObject refCopyLib (Some 11) listHeap = (r, h')" by fastforce
  have "11 < length listHeap" by (simp add: length_memoryHeap)
  from DeepCopy_independent[OF ref_copy.api_copy_axioms this listHeap_within run] obtain q where
    q: "r = Some (ListObject q)" "q \<in> fresh listHeap h'" and
    same: "\<And>h''. unchanged (fresh listHeap h') h' h'' \<Longrightarrow> listAt refMetaVal (\<lambda>_ l. l) h'' q = listAt refMetaVal (\<lambda>_ l. l) listHeap 11"
    by blast
  have "unchanged (fresh listHeap h') h' (h'[9 := c])" for c by (auto simp: unchanged_def length_memoryHeap)
  from same[OF this] run q show ?thesis by (auto simp: length_memoryHeap simp del: nth_list_update_neq)
qed

section \<open>Status patches through pointers\<close>

text \<open>
  \<open>patchStatus\<close> of the network reconciler as the source has it: \<open>network\<close> is a pointer, \<open>base\<close> a deep
  copy, \<open>mutate\<close> a closure that writes through \<open>network\<close>, and the client reads both objects at the
  time of the call and decodes the answer into \<open>network\<close> when it succeeds. \<open>None\<close> is the panic of a nil
  \<open>network\<close>.
\<close>

definition patchStatusMem ::
  "('m, 'l, 'x) copyLib \<Rightarrow> (('m, 'l, 'x) heap \<Rightarrow> addr \<Rightarrow> TCloudClusterNetwork) \<Rightarrow>
   (TCloudClusterNetwork \<Rightarrow> addr \<Rightarrow> ('m, 'l, 'x) heap \<Rightarrow> ('m, 'l, 'x) heap) \<Rightarrow> 'w Kube \<Rightarrow> addr option \<Rightarrow>
   (('m, 'l, 'x) heap \<Rightarrow> ('m, 'l, 'x) heap) \<Rightarrow> ('m, 'l, 'x) heap \<Rightarrow> 'w \<Rightarrow>
   ((error option \<times> ('m, 'l, 'x) heap) \<times> 'w) option" where
  [go_defs]: "patchStatusMem L encode decode k network mutate h w =
     (case network of None \<Rightarrow> None | Some n \<Rightarrow>
        (case TCloudClusterNetwork_DeepCopy L network h of
           (None, h) \<Rightarrow> None
         | (Some base, h) \<Rightarrow>
             (let h = mutate h in
              Some (case StatusPatchNetwork k (encode h base) (encode h n) w of
                      (Inl err, w) \<Rightarrow> ((Some err, h), w)
                    | (Inr answer, w) \<Rightarrow> ((None, decode answer n h), w)))))"

text \<open>
  C19: The pointer program is the value program: where the closure does to the network what \<open>f\<close> does to
  its value and leaves the copy alone, \<open>patchStatus\<close> through pointers makes the call and has the
  outcome of \<open>patchStatus\<close> on values. So the base of every merge patch is the object as it was before
  the closure ran, also where the closure writes into the arrays of the old status.
\<close>

theorem patchStatus_through_pointers:
  assumes api: "api_copy L mw mv lw lv"
    and n: "n < length h" "Network_within mw (allocated h) h (theNetwork (h ! n))"
    and encode: "\<And>h p. encode h p = snd (networkAt mv h p)"
    and decode: "\<And>answer h. n < length h \<Longrightarrow> encode (decode answer n h) n = answer"
    and mutate: "\<And>g. extends h g \<Longrightarrow> encode (mutate g) n = f (encode g n) \<and> unchanged (fresh h g) g (mutate g)"
  shows "\<exists>err h' w'. patchStatusMem L encode decode k (Some n) mutate h w = Some ((err, h'), w') \<and>
    patchStatus k (encode h n) f w = ((err, encode h' n), w')"
proof -
  obtain r g where copy: "TCloudClusterNetwork_DeepCopy L (Some n) h = (r, g)" by fastforce
  from api_copy.network_independent[OF api n copy] obtain q where q: "r = Some q" "extends h g" "q \<in> fresh h g"
    and copied: "\<And>h''. unchanged (fresh h g) g h'' \<Longrightarrow> networkAt mv h'' q = networkAt mv h n"
    and kept: "networkAt mv g n = networkAt mv h n" by blast
  note m = mutate[OF q(2)]
  have base: "encode (mutate g) q = encode h n" using copied[of "mutate g"] m by (simp add: encode)
  have after: "encode (mutate g) n = f (encode h n)" using m kept by (simp add: encode)
  have "q < length (mutate g)" using m q(3) by (simp add: unchanged_def)
  with q(3) n(1) have "n < length (mutate g)" by simp
  with decode show ?thesis
    by (auto simp: patchStatusMem_def copy q(1) patchStatus_def base after decode Let_def split: prod.splits sum.splits)
qed

text \<open>A closure that overwrites the condition in the array of the old status.\<close>

definition nowReady :: Condition where
  "nowReady = notReady\<lparr>cn_Status := ConditionTrue, cn_Reason := ''Reconciled''\<rparr>"

lemma overwrite_condition:
  assumes "extends memoryHeap g"
  shows "refEncode (g[9 := Conditions [nowReady]]) 0 = withCondition refLib nowReady (refEncode g 0) \<and>
    unchanged (fresh memoryHeap g) g (g[9 := Conditions [nowReady]])"
proof -
  let ?h = "memoryHeap[9 := Conditions [nowReady]]"
  let ?g = "g[9 := Conditions [nowReady]]"
  have enc: "refEncode g' 0 = refEncode h' 0"
    if "extends h' g'" "Network_within refMetaWithin (allocated h') h' (theNetwork (h' ! 0))" "length h' = 10" for h' g' :: refHeap
    using ref_copy.network.val_frame[OF that(2,1)] that(1,3) by (auto simp: unchanged_def)
  have new: "?h = refDecode (withCondition refLib nowReady memoryNetwork) 0 [NetworkCell (zeroNetwork refCopyLib)]"
    by (simp add: memory_defs Let_def withCondition_def refLib_def nowReady_def notReady_def)
  have "extends ?h ?g" using assms by (auto simp: unchanged_def length_memoryHeap nth_list_update)
  moreover have "Network_within refMetaWithin (allocated ?h) ?h (theNetwork (?h ! 0))" by (simp add: memory_defs Let_def)
  ultimately have "refEncode ?g 0 = refEncode ?h 0" by (rule enc) (simp add: length_memoryHeap)
  also have "\<dots> = withCondition refLib nowReady memoryNetwork" unfolding new by (rule refDecode_inverse) simp
  also have "memoryNetwork = refEncode memoryHeap 0" unfolding memoryHeap_def by (rule refDecode_inverse[symmetric]) simp
  also have "\<dots> = refEncode g 0" by (rule enc[OF assms memoryHeap_within, symmetric]) (simp add: length_memoryHeap)
  finally show ?thesis by (auto simp: unchanged_def length_memoryHeap)
qed

theorem patchStatus_through_pointers_witness:
  "\<exists>h' w'. patchStatusMem refCopyLib refEncode refDecode memKube (Some 0) (\<lambda>g. g[9 := Conditions [nowReady]]) memoryHeap
       (emptyWorld\<lparr>mw_networks := [memoryNetwork]\<rparr>) = Some ((None, h'), w') \<and>
     refEncode h' 0 = withCondition refLib nowReady memoryNetwork"
proof -
  let ?w = "emptyWorld\<lparr>mw_networks := [memoryNetwork]\<rparr>"
  have n: "0 < length memoryHeap" by (simp add: length_memoryHeap)
  have "memoryNetwork = refEncode memoryHeap 0" unfolding memoryHeap_def by (rule refDecode_inverse[symmetric]) simp
  moreover have "fst (patchStatus memKube memoryNetwork (withCondition refLib nowReady) ?w) =
      (None, withCondition refLib nowReady memoryNetwork)"
    by (simp add: patchStatus_def memKube_def mem_change_def lookup_def isNet_def withCondition_def Let_def)
  ultimately show ?thesis
    using patchStatus_through_pointers[where encode = refEncode and decode = refDecode and f = "withCondition refLib nowReady" and
        mutate = "\<lambda>g. g[9 := Conditions [nowReady]]" and k = memKube and w = ?w,
        OF ref_copy.api_copy_axioms n memoryHeap_within refl refDecode_inverse overwrite_condition] by fastforce
qed

end
