(* ===== verification/Manager.thy ===== *)
theory Manager
  imports BootstrapProps
begin

text \<open>
  The manager process, \<^verbatim>\<open>src/cmd/main.go\<close>, and the registration of types and controllers:
  \<^verbatim>\<open>src/api/v1alpha1/groupversion_info.go\<close> and the two \<open>SetupWithManager\<close> methods. The
  controller-runtime manager, the flag values and the scheme are third-party code: records of
  functions that are arguments here. A controller is what its builder was given: the kind it is for
  and, for every watched kind, the function from an object to requests.
\<close>

section \<open>Kinds and registration\<close>

record GroupVersionKind =
  gvk_Group :: string
  gvk_Version :: string
  gvk_Kind :: string

definition provisioningClusterGVK :: GroupVersionKind where
  [go_defs]: "provisioningClusterGVK = \<lparr>gvk_Group = ''provisioning.cattle.io'', gvk_Version = ''v1'', gvk_Kind = ''Cluster''\<rparr>"
definition tcloudMachineGVK :: GroupVersionKind where
  [go_defs]: "tcloudMachineGVK = \<lparr>gvk_Group = ''rke-machine.cattle.io'', gvk_Version = ''v1'', gvk_Kind = ''OpentelekomcloudMachine''\<rparr>"
definition tcloudMachineConfigGVK :: GroupVersionKind where
  [go_defs]: "tcloudMachineConfigGVK =
     \<lparr>gvk_Group = ''rke-machine-config.cattle.io'', gvk_Version = ''v1'', gvk_Kind = ''OpentelekomcloudConfig''\<rparr>"

definition GroupVersion :: "string \<times> string" where
  [go_defs]: "GroupVersion = (''infrastructure.otc.t-systems.com'', ''v1alpha1'')"

text \<open>
  A registered Go type has the kind of its name in the builder's group and version; the package's
  \<open>init\<close> registers two.
\<close>

definition registeredKind :: "string \<Rightarrow> GroupVersionKind" where
  [go_defs]: "registeredKind name = \<lparr>gvk_Group = fst GroupVersion, gvk_Version = snd GroupVersion, gvk_Kind = name\<rparr>"

definition registeredTypes :: "GroupVersionKind list" where
  [go_defs]: "registeredTypes = map registeredKind [''TCloudClusterNetwork'', ''TCloudClusterNetworkList'']"

definition networkGVK :: GroupVersionKind where
  [go_defs]: "networkGVK = registeredKind ''TCloudClusterNetwork''"

section \<open>Controllers\<close>

text \<open>An object a watch delivers: a typed network, or an unstructured object with its kind.\<close>

datatype object = NetworkEvent TCloudClusterNetwork | UnstructuredEvent GroupVersionKind Unstructured

fun kindOf :: "object \<Rightarrow> GroupVersionKind" where
  "kindOf (NetworkEvent n) = networkGVK"
| "kindOf (UnstructuredEvent k u) = k"

fun metaOf :: "object \<Rightarrow> ObjectMeta" where
  "metaOf (NetworkEvent n) = Meta n"
| "metaOf (UnstructuredEvent k u) = u_Meta u"

abbreviation keyOf :: "object \<Rightarrow> string \<times> string" where
  "keyOf object \<equiv> (om_Namespace (metaOf object), om_Name (metaOf object))"

text \<open>The map functions read an object through \<open>client.Object\<close>, that is, its metadata.\<close>

abbreviation asUnstructured :: "object \<Rightarrow> Unstructured" where
  "asUnstructured object \<equiv> \<lparr>u_Meta = metaOf object, u_Object = VMap []\<rparr>"

type_synonym request = "string \<times> string"

record 'w Controller =
  ctl_Named :: string
  ctl_For :: GroupVersionKind
  ctl_Watches :: "(GroupVersionKind \<times> (object \<Rightarrow> ('w, request list) io)) list"
  ctl_Reconciler :: "request \<Rightarrow> ('w, ret) io"

text \<open>The builder of the network reconciler; \<open>builder.WithPredicates()\<close> adds no predicate.\<close>

definition networkController :: "'w TCloudClusterNetworkReconciler \<Rightarrow> 'w Controller" where
  [go_defs]: "networkController r =
     \<lparr>ctl_Named = '''', ctl_For = networkGVK,
      ctl_Watches =
        [(provisioningClusterGVK, \<lambda>object. requestsForCluster r (om_Namespace (metaOf object)) (om_Name (metaOf object))),
         (tcloudMachineGVK, \<lambda>object. requestsForMachine r (asUnstructured object))],
      ctl_Reconciler = (\<lambda>(namespace, name). Reconcile r namespace name)\<rparr>"

definition bootstrapController :: "'w TCloudClusterNetworkBootstrapReconciler \<Rightarrow> 'w Controller" where
  [go_defs]: "bootstrapController r =
     \<lparr>ctl_Named = ''tcloud-cluster-network-bootstrap'', ctl_For = provisioningClusterGVK,
      ctl_Watches =
        [(tcloudMachineGVK, \<lambda>object w. (Bootstrap_requestsForMachine (asUnstructured object), w)),
         (tcloudMachineConfigGVK, \<lambda>object w. (requestForMachineConfig (asUnstructured object), w)),
         (networkGVK, \<lambda>object w. (case object of NetworkEvent n \<Rightarrow> requestForNetwork n | _ \<Rightarrow> [], w))],
      ctl_Reconciler = (\<lambda>(namespace, name). Bootstrap_Reconcile r namespace name)\<rparr>"

section \<open>The manager\<close>

record Options =
  opt_MetricsBindAddress :: string
  opt_HealthProbeBindAddress :: string
  opt_LeaderElection :: bool
  opt_LeaderElectionID :: string

text \<open>\<open>Complete\<close> is the builder's last call; \<open>GetEventRecorderFor\<close> takes the recorder's name.\<close>

record 'w Manager =
  GetClient :: "'w Kube"
  GetAPIReader :: "'w SecretReader"
  GetEventRecorderFor :: "string \<Rightarrow> TCloudClusterNetwork \<Rightarrow> string \<Rightarrow> string \<Rightarrow> string \<Rightarrow> 'w \<Rightarrow> 'w"
  Complete :: "'w Controller \<Rightarrow> ('w, error option) io"
  AddHealthzCheck :: "string \<Rightarrow> ('w, error option) io"
  AddReadyzCheck :: "string \<Rightarrow> ('w, error option) io"
  Start :: "('w, error option) io"

text \<open>What the process gets from outside: the constructor of managers, the scheme, the SDK, library and clock.\<close>

record 'w platform =
  AddToScheme :: "string \<Rightarrow> ('w, error option) io"
  NewManager :: "Options \<Rightarrow> ('w, error + 'w Manager) io"
  TCloudFactory :: "'w Factory"
  timeNow :: "('w, time) io"
  theLibrary :: lib
  theCodec :: codec
  theUnstructured :: unstructured
  theMapOrder :: "(string \<times> jvalue) list \<Rightarrow> (string \<times> jvalue) list"

definition SetupWithManager :: "'w TCloudClusterNetworkReconciler \<Rightarrow> 'w Manager \<Rightarrow> ('w, error option) io" where
  [go_defs]: "SetupWithManager r manager = Complete manager (networkController r)"

definition Bootstrap_SetupWithManager :: "'w TCloudClusterNetworkBootstrapReconciler \<Rightarrow> 'w Manager \<Rightarrow> ('w, error option) io" where
  [go_defs]: "Bootstrap_SetupWithManager r manager = Complete manager (bootstrapController r)"

section \<open>The process\<close>

text \<open>
  \<open>flag.StringVar\<close> and \<open>flag.BoolVar\<close> with \<open>flag.Parse\<close>: the value the command line gives, or the
  default.
\<close>

datatype flagValue = StringFlag string | BoolFlag bool

definition stringVar :: "(string \<rightharpoonup> flagValue) \<Rightarrow> string \<Rightarrow> string \<Rightarrow> string" where
  [go_defs]: "stringVar args name dflt = (case args name of Some (StringFlag s) \<Rightarrow> s | _ \<Rightarrow> dflt)"

definition boolVar :: "(string \<rightharpoonup> flagValue) \<Rightarrow> string \<Rightarrow> bool \<Rightarrow> bool" where
  [go_defs]: "boolVar args name dflt = (case args name of Some (BoolFlag b) \<Rightarrow> b | _ \<Rightarrow> dflt)"

definition managerOptions :: "(string \<rightharpoonup> flagValue) \<Rightarrow> Options" where
  [go_defs]: "managerOptions args =
     (let metricsAddress = stringVar args ''metrics-bind-address'' '':8080'';
          probeAddress = stringVar args ''health-probe-bind-address'' '':8081'';
          leaderElection = boolVar args ''leader-elect'' True in
      \<lparr>opt_MetricsBindAddress = metricsAddress, opt_HealthProbeBindAddress = probeAddress,
       opt_LeaderElection = leaderElection,
       opt_LeaderElectionID = ''t-cloud-network-controller.infrastructure.otc.t-systems.com''\<rparr>)"

definition mainReconciler :: "'w platform \<Rightarrow> 'w Manager \<Rightarrow> 'w TCloudClusterNetworkReconciler" where
  [go_defs]: "mainReconciler p manager =
     \<lparr>Client = GetClient manager, APIReader = Some (GetAPIReader manager), NewService = TCloudFactory p,
      RecordEvent = GetEventRecorderFor manager ''t-cloud-network-controller'', Now = None, SystemNow = timeNow p,
      Lib = theLibrary p, Codec = theCodec p\<rparr>"

definition mainBootstrap :: "'w platform \<Rightarrow> 'w Manager \<Rightarrow> 'w TCloudClusterNetworkBootstrapReconciler" where
  [go_defs]: "mainBootstrap p manager =
     \<lparr>BClient = GetClient manager, BLib = theLibrary p, BUnstructured = theUnstructured p, MapOrder = theMapOrder p\<rparr>"

text \<open>How the process ends: with a status, or with a panic of \<open>utilruntime.Must\<close>.\<close>

datatype exit = Exit nat | MustPanic error

fun initScheme :: "'w platform \<Rightarrow> string list \<Rightarrow> ('w, error option) io" where
  "initScheme p [] w = (None, w)"
| "initScheme p (package # packages) w =
     (case AddToScheme p package w of
        (Some err, w) \<Rightarrow> (Some err, w)
      | (None, w) \<Rightarrow> initScheme p packages w)"

definition main :: "'w platform \<Rightarrow> (string \<rightharpoonup> flagValue) \<Rightarrow> ('w, exit) io" where
  [go_defs]: "main p args w =
     (case NewManager p (managerOptions args) w of
        (Inl err, w) \<Rightarrow> (Exit 1, w)
      | (Inr manager, w) \<Rightarrow>
     (case SetupWithManager (mainReconciler p manager) manager w of
        (Some err, w) \<Rightarrow> (Exit 1, w)
      | (None, w) \<Rightarrow>
     (case Bootstrap_SetupWithManager (mainBootstrap p manager) manager w of
        (Some err, w) \<Rightarrow> (Exit 1, w)
      | (None, w) \<Rightarrow>
     (case AddHealthzCheck manager ''healthz'' w of
        (Some err, w) \<Rightarrow> (Exit 1, w)
      | (None, w) \<Rightarrow>
     (case AddReadyzCheck manager ''readyz'' w of
        (Some err, w) \<Rightarrow> (Exit 1, w)
      | (None, w) \<Rightarrow>
     (case Start manager w of
        (Some err, w) \<Rightarrow> (Exit 1, w)
      | (None, w) \<Rightarrow> (Exit 0, w)))))))"

definition process :: "'w platform \<Rightarrow> (string \<rightharpoonup> flagValue) \<Rightarrow> ('w, exit) io" where
  [go_defs]: "process p args w =
     (case initScheme p [''clientgoscheme'', ''corev1'', ''infrav1''] w of
        (Some err, w) \<Rightarrow> (MustPanic err, w)
      | (None, w) \<Rightarrow> main p args w)"

section \<open>Start-up\<close>

text \<open>What a builder declares of a controller: its name, its kind, the watched kinds.\<close>

definition shape :: "'w Controller \<Rightarrow> string \<times> GroupVersionKind \<times> GroupVersionKind list" where
  "shape c = (ctl_Named c, ctl_For c, map fst (ctl_Watches c))"

lemma shapes:
  "shape (networkController r) = ('''', networkGVK, [provisioningClusterGVK, tcloudMachineGVK])"
  "shape (bootstrapController b) = (''tcloud-cluster-network-bootstrap'', provisioningClusterGVK,
     [tcloudMachineGVK, tcloudMachineConfigGVK, networkGVK])"
  by (simp_all add: shape_def networkController_def bootstrapController_def)

text \<open>
  What the start-up relies on: a new manager has nothing registered, a successful registration adds
  to what is registered, and only \<open>Start\<close> starts controllers.
\<close>

locale manager_runtime =
  fixes p :: "'w platform" and registered :: "'w \<Rightarrow> (string \<times> GroupVersionKind \<times> GroupVersionKind list) list"
    and checks :: "'w \<Rightarrow> string list" and started :: "'w \<Rightarrow> bool"
  assumes scheme: "AddToScheme p package w = (e, w') \<Longrightarrow> started w' = started w"
    and new_error: "NewManager p opts w = (Inl err, w') \<Longrightarrow> started w' = started w"
    and new: "NewManager p opts w = (Inr m, w') \<Longrightarrow> started w' = started w \<and> registered w' = [] \<and> checks w' = []"
    and complete: "NewManager p opts w0 = (Inr m, w1) \<Longrightarrow> Complete m c w = (e, w') \<Longrightarrow> started w' = started w \<and>
      (e = None \<longrightarrow> registered w' = registered w @ [shape c] \<and> checks w' = checks w)"
    and healthz: "NewManager p opts w0 = (Inr m, w1) \<Longrightarrow> AddHealthzCheck m n w = (e, w') \<Longrightarrow> started w' = started w \<and>
      (e = None \<longrightarrow> registered w' = registered w \<and> checks w' = checks w @ [n])"
    and readyz: "NewManager p opts w0 = (Inr m, w1) \<Longrightarrow> AddReadyzCheck m n w = (e, w') \<Longrightarrow> started w' = started w \<and>
      (e = None \<longrightarrow> registered w' = registered w \<and> checks w' = checks w @ [n])"
begin

lemma initScheme_started: "initScheme p packages w = (e, w') \<Longrightarrow> started w' = started w"
  by (induction packages arbitrary: w) (auto split: prod.splits option.splits dest: scheme)

text \<open>Nothing is started before everything is registered.\<close>

lemma main_started:
  assumes "\<not> started w" "main p args w = (e, w')" "started w'"
  shows "\<exists>m w0 ws r. NewManager p (managerOptions args) w = (Inr m, w0) \<and> \<not> started ws \<and> checks ws = [''healthz'', ''readyz''] \<and>
    registered ws = [shape (networkController (mainReconciler p m)), shape (bootstrapController (mainBootstrap p m))] \<and>
    Start m ws = (r, w') \<and> e = (case r of None \<Rightarrow> Exit 0 | Some err \<Rightarrow> Exit 1)"
proof -
  from assms new_error obtain m w0 where m: "NewManager p (managerOptions args) w = (Inr m, w0)"
    by (fastforce simp: main_def split: prod.splits sum.splits)
  note step = complete[OF m] healthz[OF m] readyz[OF m]
  from new[OF m] assms(1) have w0: "\<not> started w0" "registered w0 = []" "checks w0 = []" by auto
  obtain e1 w1 where 1: "Complete m (networkController (mainReconciler p m)) w0 = (e1, w1)" by fastforce
  obtain e2 w2 where 2: "Complete m (bootstrapController (mainBootstrap p m)) w1 = (e2, w2)" by fastforce
  obtain e3 w3 where 3: "AddHealthzCheck m ''healthz'' w2 = (e3, w3)" by fastforce
  obtain e4 w4 where 4: "AddReadyzCheck m ''readyz'' w3 = (e4, w4)" by fastforce
  obtain r w5 where 5: "Start m w4 = (r, w5)" by fastforce
  note run = assms(2)[unfolded main_def SetupWithManager_def Bootstrap_SetupWithManager_def m prod.case sum.case 1 2 3 4 5]
  from step(1)[OF 1] step(1)[OF 2] step(2)[OF 3] step(3)[OF 4] w0
  have off: "\<not> started w1" "\<not> started w2" "\<not> started w3" "\<not> started w4" by auto
  with run assms(3) have none: "e1 = None" "e2 = None" "e3 = None" "e4 = None" by (auto split: option.splits)
  from step(1)[OF 1] step(1)[OF 2] step(2)[OF 3] step(3)[OF 4] w0 none
  have "registered w4 = [shape (networkController (mainReconciler p m)), shape (bootstrapController (mainBootstrap p m))]"
    "checks w4 = [''healthz'', ''readyz'']" by auto
  moreover from run none have "w' = w5" "e = (case r of None \<Rightarrow> Exit 0 | Some err \<Rightarrow> Exit 1)" by (auto split: option.splits)
  ultimately show ?thesis using m 5 off(4) by blast
qed

end

text \<open>
  C23: The process never runs half configured: whatever fails during start-up, controllers are started
  only when both are registered, for networks with watches on clusters and machines and for clusters
  with watches on machines, machine configs and networks, and both probes are served. They are started
  by the manager that was made with the options of the command line after the scheme was set up, and
  the exit status is zero when \<open>Start\<close> of this manager returns without an error and one when it
  returns an error.
\<close>

theorem process_starts_complete:
  assumes "manager_runtime (p :: 'w platform) registered checks started" "\<not> started w" "process p args w = (e, w')" "started w'"
  shows "\<exists>(m :: 'w Manager) w0 wm ws r.
    initScheme p [''clientgoscheme'', ''corev1'', ''infrav1''] w = (None, w0) \<and>
    NewManager p (managerOptions args) w0 = (Inr m, wm) \<and>
    \<not> started ws \<and> checks ws = [''healthz'', ''readyz''] \<and>
    registered ws = [('''', networkGVK, [provisioningClusterGVK, tcloudMachineGVK]),
      (''tcloud-cluster-network-bootstrap'', provisioningClusterGVK, [tcloudMachineGVK, tcloudMachineConfigGVK, networkGVK])] \<and>
    Start m ws = (r, w') \<and> e = (case r of None \<Rightarrow> Exit 0 | Some err \<Rightarrow> Exit 1)"
proof -
  obtain x w1 where i: "initScheme p [''clientgoscheme'', ''corev1'', ''infrav1''] w = (x, w1)" by fastforce
  from manager_runtime.initScheme_started[OF assms(1) i] assms(2) have "\<not> started w1" by simp
  moreover from assms(3,4) i this have "x = None" "main p args w1 = (e, w')" by (auto simp: process_def split: option.splits)
  ultimately show ?thesis using i manager_runtime.main_started[OF assms(1) _ _ assms(4), of w1 args e]
    unfolding shapes by blast
qed

text \<open>A manager that keeps a list of what was registered.\<close>

record startup =
  su_registered :: "(string \<times> GroupVersionKind \<times> GroupVersionKind list) list"
  su_checks :: "string list"
  su_started :: bool

definition listManager :: "startup Kube \<Rightarrow> startup Manager" where
  "listManager k = \<lparr>GetClient = k, GetAPIReader = GetSecret k, GetEventRecorderFor = (\<lambda>_ _ _ _ _ w. w),
     Complete = (\<lambda>c w. (None, w\<lparr>su_registered := su_registered w @ [shape c]\<rparr>)),
     AddHealthzCheck = (\<lambda>n w. (None, w\<lparr>su_checks := su_checks w @ [n]\<rparr>)),
     AddReadyzCheck = (\<lambda>n w. (None, w\<lparr>su_checks := su_checks w @ [n]\<rparr>)),
     Start = (\<lambda>w. (None, w\<lparr>su_started := True\<rparr>))\<rparr>"

definition listPlatform :: "startup Kube \<Rightarrow> startup platform" where
  "listPlatform k = \<lparr>AddToScheme = (\<lambda>_ w. (None, w)),
     NewManager = (\<lambda>opts w. if opt_MetricsBindAddress opts = '''' then (Inl (LibErr ''no address''), w)
                            else (Inr (listManager k), w\<lparr>su_registered := [], su_checks := []\<rparr>)),
     TCloudFactory = (\<lambda>_ w. (Inl (LibErr ''offline''), w)), timeNow = (\<lambda>w. (0, w)), theLibrary = refLib, theCodec = sampleCodec,
     theUnstructured = refUnstructured, theMapOrder = rev\<rparr>"

interpretation list_manager: manager_runtime "listPlatform k" su_registered su_checks su_started for k
  by unfold_locales (auto simp: listPlatform_def listManager_def split: if_splits)

theorem process_starts_complete_witness:
  "\<forall>k. \<exists>w'. process (listPlatform k) Map.empty \<lparr>su_registered = [], su_checks = [], su_started = False\<rparr> = (Exit 0, w') \<and>
     su_started w' \<and> (\<exists>ws. su_checks ws = [''healthz'', ''readyz''] \<and> Start (listManager k) ws = (None, w'))"
proof
  fix k
  let ?w = "\<lparr>su_registered = [], su_checks = [], su_started = False\<rparr>"
  obtain e w' where run: "process (listPlatform k) Map.empty ?w = (e, w')" by fastforce
  then have e: "e = Exit 0" "su_started w'"
    by (auto simp: process_def main_def listPlatform_def listManager_def managerOptions_def stringVar_def Let_def
        SetupWithManager_def Bootstrap_SetupWithManager_def)
  have "\<not> su_started ?w" by simp
  from process_starts_complete[OF list_manager.manager_runtime_axioms this run e(2)] obtain m w0 wm ws r where
    m: "NewManager (listPlatform k) (managerOptions Map.empty) w0 = (Inr m, wm)" and ws: "su_checks ws = [''healthz'', ''readyz'']"
    "Start m ws = (r, w')" "e = (case r of None \<Rightarrow> Exit 0 | Some err \<Rightarrow> Exit 1)" by blast
  from m have "m = listManager k" by (auto simp: listPlatform_def split: if_splits)
  moreover from ws(3) e(1) have "r = None" by (auto split: option.splits)
  ultimately show "\<exists>w'. process (listPlatform k) Map.empty ?w = (Exit 0, w') \<and> su_started w' \<and>
      (\<exists>ws. su_checks ws = [''healthz'', ''readyz''] \<and> Start (listManager k) ws = (None, w'))"
    using run e ws(1,2) by auto
qed

section \<open>Wake-ups\<close>

text \<open>
  What controller-runtime does with an event: an object of the controller's kind is requested
  itself, and every watch of the object's kind adds what its map function returns.
\<close>

fun watchRequests :: "(GroupVersionKind \<times> (object \<Rightarrow> ('w, request list) io)) list \<Rightarrow> object \<Rightarrow> ('w, request list) io" where
  "watchRequests [] object w = ([], w)"
| "watchRequests ((kind, f) # watches) object w =
     (if kindOf object = kind
      then (case f object w of (requests, w) \<Rightarrow>
              (case watchRequests watches object w of (others, w) \<Rightarrow> (requests @ others, w)))
      else watchRequests watches object w)"

definition enqueued :: "'w Controller \<Rightarrow> object \<Rightarrow> ('w, request list) io" where
  "enqueued c object w =
     (case watchRequests (ctl_Watches c) object w of
        (requests, w) \<Rightarrow> ((if kindOf object = ctl_For c then [keyOf object] else []) @ requests, w))"

lemmas gvk_defs = networkGVK_def registeredKind_def GroupVersion_def provisioningClusterGVK_def tcloudMachineGVK_def
  tcloudMachineConfigGVK_def

lemma gvk_distinct [simp]:
  "networkGVK \<noteq> provisioningClusterGVK" "networkGVK \<noteq> tcloudMachineGVK" "networkGVK \<noteq> tcloudMachineConfigGVK"
  "provisioningClusterGVK \<noteq> networkGVK" "provisioningClusterGVK \<noteq> tcloudMachineGVK" "provisioningClusterGVK \<noteq> tcloudMachineConfigGVK"
  "tcloudMachineGVK \<noteq> networkGVK" "tcloudMachineGVK \<noteq> provisioningClusterGVK" "tcloudMachineGVK \<noteq> tcloudMachineConfigGVK"
  "tcloudMachineConfigGVK \<noteq> networkGVK" "tcloudMachineConfigGVK \<noteq> provisioningClusterGVK" "tcloudMachineConfigGVK \<noteq> tcloudMachineGVK"
  by (simp_all add: gvk_defs)

text \<open>The constants the reconcilers compare owner references with are those of the watched kinds.\<close>

lemma gvk_constants:
  "clusterAPIVersion = gvk_Group provisioningClusterGVK @ ''/'' @ gvk_Version provisioningClusterGVK"
  "clusterKind = gvk_Kind provisioningClusterGVK" "machineConfigKind = gvk_Kind tcloudMachineConfigGVK"
  by (simp_all add: gvk_defs clusterAPIVersion_def clusterKind_def machineConfigKind_def)

text \<open>
  The objects a reconcile of a network depends on: the network, its cluster (\<open>bindClusterOwner\<close>), and
  the machines \<open>machineCount\<close> counts and adoption reads.
\<close>

definition concernsNetwork :: "TCloudClusterNetwork \<Rightarrow> object \<Rightarrow> bool" where
  "concernsNetwork net object =
     (let ref = clusterRef net in
      case object of
        NetworkEvent n \<Rightarrow> net_namespace n = net_namespace net \<and> net_name n = net_name net
      | UnstructuredEvent kind u \<Rightarrow>
          u_namespace u = nr_Namespace ref \<and> nr_Name ref \<noteq> '''' \<and>
          (kind = provisioningClusterGVK \<and> u_name u = nr_Name ref \<or>
           kind = tcloudMachineGVK \<and> om_Labels (u_Meta u) clusterNameLabel = Some (nr_Name ref)))"

text \<open>
  C21: No wake-up is lost: an event on a network, on its cluster or on one of the cluster's machines
  requests a reconcile of the network, where the network lives in its cluster's namespace and the
  client lists it.
\<close>

theorem network_woken:
  assumes "concernsNetwork net object" "nr_Namespace (clusterRef net) = net_namespace net"
    and "ListNetworks (Client r) (net_namespace net) w = (Inr items, w1)" "net \<in> set items"
  shows "(net_namespace net, net_name net) \<in> set (fst (enqueued (networkController r) object w))"
proof (cases object)
  case (NetworkEvent n)
  with assms(1) show ?thesis by (auto simp: concernsNetwork_def enqueued_def networkController_def)
next
  case (UnstructuredEvent kind u)
  with assms show ?thesis
    by (auto simp: concernsNetwork_def enqueued_def networkController_def requestsForMachine_def requestsForCluster_def
        mget_def Let_def)
qed

text \<open>
  Outside its cluster's namespace a network is not woken by its cluster: the map function lists the
  networks of the cluster's namespace only, while \<open>bindClusterOwner\<close> and \<open>machineCount\<close> look where the
  reference says.
\<close>

lemma other_namespace_not_woken:
  assumes "nr_Namespace (clusterRef net) \<noteq> net_namespace net" "u_namespace u = nr_Namespace (clusterRef net)"
    and "\<And>ns w items w1. ListNetworks (Client r) ns w = (Inr items, w1) \<Longrightarrow> \<forall>x\<in>set items. net_namespace x = ns"
  shows "(net_namespace net, net_name net) \<notin> set (fst (enqueued (networkController r) (UnstructuredEvent provisioningClusterGVK u) w))"
  using assms by (fastforce simp: enqueued_def networkController_def requestsForCluster_def split: prod.splits sum.splits)

text \<open>
  The objects a bootstrap of a cluster depends on: the cluster, its machines, the machine configs it
  alone owns, and the networks that refer to it.
\<close>

definition clusterOwners :: "Unstructured \<Rightarrow> string set" where
  "clusterOwners u = {or_Name o' | o'. o' \<in> set (om_OwnerReferences (u_Meta u)) \<and>
     or_APIVersion o' = clusterAPIVersion \<and> or_Kind o' = clusterKind}"

definition concernsCluster :: "Unstructured \<Rightarrow> object \<Rightarrow> bool" where
  "concernsCluster cluster object =
     (case object of
        NetworkEvent n \<Rightarrow> clusterRef n = \<lparr>nr_Name = u_name cluster, nr_Namespace = u_namespace cluster\<rparr>
      | UnstructuredEvent kind u \<Rightarrow>
          u_namespace u = u_namespace cluster \<and>
          (kind = provisioningClusterGVK \<and> u_name u = u_name cluster \<or>
           kind = tcloudMachineGVK \<and> om_Labels (u_Meta u) clusterNameLabel = Some (u_name cluster) \<or>
           kind = tcloudMachineConfigGVK \<and> ownedByCluster u cluster \<and> clusterOwners u \<subseteq> {u_name cluster}))"

lemma ownedByCluster_owner: "ownedByCluster u cluster \<Longrightarrow> u_name cluster \<in> clusterOwners u"
proof -
  have "ownedByClusterLoop os cluster \<Longrightarrow>
      \<exists>o'\<in>set os. or_APIVersion o' = clusterAPIVersion \<and> or_Kind o' = clusterKind \<and> or_Name o' = u_name cluster" for os
    by (induction os) (auto split: if_splits)
  then show "ownedByCluster u cluster \<Longrightarrow> u_name cluster \<in> clusterOwners u"
    unfolding ownedByCluster_def clusterOwners_def mem_Collect_eq by metis
qed

lemma requestForOwners_first:
  assumes "\<exists>o'\<in>set os. or_APIVersion o' = clusterAPIVersion \<and> or_Kind o' = clusterKind"
    and "\<forall>o'\<in>set os. or_APIVersion o' = clusterAPIVersion \<and> or_Kind o' = clusterKind \<longrightarrow> or_Name o' = name"
  shows "requestForOwners namespace os = [(namespace, name)]"
  using assms by (induction os) auto

text \<open>
  C22: The same for bootstraps: an event on a cluster, on one of its machines, on a machine config that
  no other cluster owns, or on a network that refers to it requests a bootstrap of the cluster.
\<close>

theorem cluster_woken:
  assumes "concernsCluster cluster object" "u_name cluster \<noteq> ''''"
  shows "(u_namespace cluster, u_name cluster) \<in> set (fst (enqueued (bootstrapController r) object w))"
proof (cases object)
  case (NetworkEvent n)
  with assms show ?thesis
    by (auto simp: concernsCluster_def enqueued_def bootstrapController_def requestForNetwork_def)
next
  case (UnstructuredEvent kind u)
  have "requestForMachineConfig \<lparr>u_Meta = u_Meta u, u_Object = VMap []\<rparr> = [(u_namespace u, u_name cluster)]"
    if "ownedByCluster u cluster" "clusterOwners u \<subseteq> {u_name cluster}"
    using that(2) ownedByCluster_owner[OF that(1)] requestForOwners_first[of "om_OwnerReferences (u_Meta u)" "u_name cluster"]
    by (auto simp: clusterOwners_def requestForMachineConfig_def)
  with UnstructuredEvent assms show ?thesis
    by (auto simp: concernsCluster_def enqueued_def bootstrapController_def Bootstrap_requestsForMachine_def mget_def Let_def)
qed

text \<open>A machine wakes the network under deletion that waits for it, and a config wakes its cluster.\<close>

theorem network_woken_witness:
  "(''fleet'', ''n'') \<in> set (fst (enqueued (networkController memReconciler)
     (UnstructuredEvent tcloudMachineGVK (sampleMachine ''m'' 0 None)) deletingWorld))"
proof -
  have n: "net_namespace deletingNetwork = ''fleet''" "net_name deletingNetwork = ''n''"
    "clusterRef deletingNetwork = \<lparr>nr_Name = ''c'', nr_Namespace = ''fleet''\<rparr>"
    by (simp_all add: deletingNetwork_def sampleNetwork_def sampleSpec_def)
  have "concernsNetwork deletingNetwork (UnstructuredEvent tcloudMachineGVK (sampleMachine ''m'' 0 None))"
    by (simp add: concernsNetwork_def n sampleMachine_def Let_def)
  moreover have "ListNetworks (Client memReconciler) ''fleet'' deletingWorld = (Inr [deletingNetwork], deletingWorld)"
    by (simp add: memReconciler_def memKube_def deletingWorld_def n)
  ultimately show ?thesis
    using network_woken[of deletingNetwork "UnstructuredEvent tcloudMachineGVK (sampleMachine ''m'' 0 None)" memReconciler
        deletingWorld "[deletingNetwork]" deletingWorld] by (simp add: n)
qed

theorem cluster_woken_witness:
  "(''fleet'', ''c'') \<in> set (fst (enqueued (bootstrapController sampleBootstrap)
     (UnstructuredEvent tcloudMachineConfigGVK (sampleConfig ''a'' [clusterRefTo\<lparr>or_Kind := ''Machine''\<rparr>, clusterRefTo] [])) emptyWorld))"
proof -
  have c: "u_namespace (sampleCluster []) = ''fleet''" "u_name (sampleCluster []) = ''c''" "u_uid (sampleCluster []) = ''''"
    by (simp_all add: sampleCluster_def zeroMeta_def)
  have "concernsCluster (sampleCluster []) (UnstructuredEvent tcloudMachineConfigGVK (sampleConfig ''a'' [clusterRefTo\<lparr>or_Kind := ''Machine''\<rparr>, clusterRefTo] []))"
    by (auto simp: concernsCluster_def c clusterOwners_def ownedByCluster_def sampleConfig_def clusterRefTo_def zeroMeta_def clusterKind_def)
  from cluster_woken[OF this, of sampleBootstrap emptyWorld] show ?thesis by (simp add: c)
qed

end
