(* ===== verification/Spec2Isabelle.thy ===== *)
theory Spec2Isabelle
  imports Writes Validation AdoptConvergence Propagation DeepCopy Manager
begin

text \<open>
  \<^bold>\<open>Verification of the T-Cloud cluster network controller for Rancher.\<close>

  \<^bold>\<open>The program.\<close> Two controllers run in Rancher's management cluster. The network reconciler
  (\<^verbatim>\<open>src/internal/controller/tcloudclusternetwork_controller.go\<close>) gives every
  \<open>TCloudClusterNetwork\<close> object a VPC, a subnet and a security group in the T-Cloud and removes them
  with the object, guarded by a finalizer. The bootstrap reconciler
  (\<^verbatim>\<open>src/internal/controller/cluster_network_bootstrap_controller.go\<close>) watches Rancher's
  provisioning clusters, creates an \<open>Adopt\<close> object for a legacy cluster, and copies the identifiers
  of a Ready network into the cluster's machine configs. Both call the Kubernetes API; the network
  reconciler reads machine state for adoption (\<^verbatim>\<open>src/internal/controller/adoption.go\<close>), turns a
  cloud-credential Secret into credentials (\<^verbatim>\<open>src/internal/cloud/credentials.go\<close>) and calls the
  cloud through the \<open>Service\<close> interface (\<^verbatim>\<open>src/internal/cloud/interfaces.go\<close>), which
  \<^verbatim>\<open>src/internal/cloud/tcloud.go\<close> implements over the cloud SDK. The process,
  \<^verbatim>\<open>src/cmd/main.go\<close>, registers both controllers with their watches and starts them.

  \<^bold>\<open>How it is modelled.\<close> An effectful function is a state transformer \<open>('w, 'a) io\<close> over an
  arbitrary world \<open>'w\<close>. The Kubernetes client (record \<open>Kube\<close>), the SDK (\<open>Sdk\<close>), the helper library
  (\<open>lib\<close>), the unstructured accessors (\<open>unstructured\<close>), the archive decoders (\<open>codec\<close>) and the
  clock are parameters; what a theorem needs of them is a locale. Errors are values of the datatype
  \<open>error\<close> with the program's formats and wrapping; a reconcile returns \<open>Ret result err\<close> or \<open>GoPanic\<close>.
  Go strings are byte lists, and \<open>int64\<close> sums are 64-bit words. Optional struct fields are empty
  strings as in Go. All loops are structural recursions, so no fuel is needed; the only bound in the
  development is that of \<open>workqueue\<close>, four reconciles, which \<open>deletion_completes\<close> shows to be enough.
  Objects are values, and a pointer that a method mutates is threaded through; that this agrees with
  the pointers and deep copies of the source is proved on a heap in theory \<open>DeepCopy\<close>.

  \<^bold>\<open>Theories.\<close>
  \<^item> \<open>Prelude\<close>, \<open>GoStrings\<close>: named collections, shared lemmas, and the parts of Go's \<open>strings\<close>,
    \<open>unicode/utf8\<close> and \<open>path/filepath\<close> packages the program uses.
  \<^item> \<open>Api\<close>: the custom resource of \<^verbatim>\<open>src/api/v1alpha1/tcloudclusternetwork_types.go\<close>.
    \<open>Validation\<close>: the checks its kubebuilder markers ask of the API server.
  \<^item> \<open>Names\<close>: \<open>managedName\<close>, \<open>shortToken\<close>, \<open>networkObjectName\<close>, \<open>namespacedReference\<close>,
    \<open>splitNonEmpty\<close>. A slice expression that may panic returns an option; the guards keep all of them
    in range. Names are DNS labels; a comma-separated list yields its trimmed non-empty entries.
  \<^item> \<open>CloudApi\<close>, \<open>Rules\<close>, \<open>CredentialSecrets\<close>, \<open>CloudService\<close>: the \<open>internal/cloud\<close> package, one
    definition per function and method. \<open>CloudContracts\<close>: the locales \<open>secgroup_sdk\<close> and \<open>vpc_sdk\<close>
    say what the SDK promises; in them \<open>EnsureSecurityGroup\<close> brings a group's rules in line and
    \<open>EnsureVPC\<close> is idempotent. They are interpreted on an in-memory cloud.
  \<^item> \<open>Kube\<close>: the client interface and the status helpers; \<open>KubeMem\<close>: an in-memory cluster.
  \<^item> \<open>Adoption\<close>: the discovery of adoptable resources in machine state.
  \<^item> \<open>Reconciler\<close>: every method of the network reconciler, from \<open>Reconcile\<close> down. A long method is
    split at its early returns; the object mutated through a pointer is threaded through.
  \<^item> \<open>Unstr\<close>, \<open>Bootstrap\<close>: the unstructured objects and every method of the bootstrap reconciler.
  \<^item> \<open>Trace\<close>: a reconciler over any world becomes one that logs its calls with their answers.
    \<open>Frames\<close>: locales for relations that every call keeps; each method is shown once to keep them,
    and the interpretations on the traced reconciler give: what deletes, what changes, what writes.
    \<open>LogLogic\<close>: a small logic of logs, for the order of calls.
  \<^item> \<open>Safety\<close>, \<open>Writes\<close>, \<open>Managed\<close>, \<open>BootstrapProps\<close>: properties of logs under arbitrary
    environments, hence under failures, stale reads and concurrent edits. At most one deletion per
    reconcile, and only a justified one; the finalizer is kept until nothing is left; orphans go only
    when expired; Observe with an observed group only reads, and Observe and Adopt never touch a VPC
    or a subnet; only the reconciler's own fields are written and, with a client that answers with the
    object asked for (locale \<open>identity_client\<close>), only the object of the request; every created
    resource is recorded at once; failures are published; machine configs are patched only from a
    settled network; objects are created only to adopt; nothing panics.
  \<^item> \<open>Lifecycle\<close>, \<open>Convergence\<close>, \<open>ConvergenceMem\<close>, \<open>AdoptConvergence\<close>: environments in which calls
    succeed. Deletion refines an abstract machine and ends within four reconciles; a new managed
    network is settled from its third reconcile on and stays so, an adopted one from its fourth,
    with the resources the machine state names and the VPCs, subnets and groups of the cloud as they
    were. The locale \<open>live_env\<close> has what the policies share; \<open>steady_env\<close>, \<open>creation_env\<close> and \<open>adoption_env\<close> extend it. They and
    \<open>deletion_env\<close> are realised by the T-Cloud service on the in-memory cloud and cluster.
  \<^item> \<open>Propagation\<close>: the locale \<open>propagation_env\<close>, in which the bootstrap of a cluster with a settled
    network gives every machine config of the cluster the network's fields, gives the cluster the
    network's annotations, and writes nothing when it runs again.
  \<^item> \<open>GoHeap\<close>, \<open>DeepCopy\<close>: Go memory with slices and pointers, and every generated method of
    \<^verbatim>\<open>src/api/v1alpha1/zz_generated.deepcopy.go\<close>. The locale \<open>deep_copy\<close> says what a copy is: a new
    object of the same value that shares no memory with the old one. It holds of every method, and
    so \<open>patchStatus\<close> with pointers does what it does on values.
  \<^item> \<open>Manager\<close>: kinds and registered types, the \<open>SetupWithManager\<close> methods and the start-up. Nothing
    is started before everything is registered, and the watches wake an object when something it
    depends on changes.
  \<^item> This theory composes convergence and propagation: the machine configs get the identifiers of
    resources that exist in the cloud.

  \<^bold>\<open>Not modelled.\<close> The parsing of the command line (the flags' values are an argument of \<open>main\<close>), the
  logger and its flags, and the controller-runtime manager behind the calls of \<open>main\<close>. Contexts,
  logging and the transition times of conditions are left out, since no decision of the program
  depends on them. Import clauses, RBAC and print-column markers have no counterpart. Convergence is
  shown for the Managed and Adopt policies; Observe publishes in its first bound reconcile.
\<close>

section \<open>From a new network to the machines\<close>

lemma served_ids:
  assumes "served configOf net names w" "c \<in> set names"
  shows "\<exists>config. configOf w c = Some config \<and> topField (u_Object config) ''vpcId'' = Some (VString (rs_ID (vpcStatus net))) \<and>
    topField (u_Object config) ''subnetId'' = Some (VString (rs_ID (subnetStatus net)))"
  using assms by (auto simp: served_def hasFields_def desiredFields_def)

text \<open>
  C13: The two controllers compose: where calls succeed, once a new managed network has been reconciled
  three times, a bootstrap of its cluster gives every machine config of the cluster the identifiers
  of a VPC and a subnet that exist in the cloud.
\<close>

theorem managed_network_reaches_machines:
  assumes create: "creation_env r ns n service cluster netOf present good" and w: "good w" and k: "3 \<le> k"
    and hand: "propagation_env b ns' cn uid (netOf (reconciles r ns n k w)) refs metas clusterOf configOf good'"
    and w': "good' (reconciles r ns n k w)" and lib: "BLib b = Lib r"
  shows "\<exists>w'. Bootstrap_Reconcile b ns' cn (reconciles r ns n k w) = (Ret (requeueAfter (10 * Minute)) None, w') \<and>
    (\<forall>c\<in>set (targets ns' cn uid refs metas). \<exists>config v s. configOf w' c = Some config \<and>
       topField (u_Object config) ''vpcId'' = Some (VString v) \<and> (VPCKind, v) \<in> present (reconciles r ns n k w) \<and>
       topField (u_Object config) ''subnetId'' = Some (VString s) \<and> (SubnetKind, s) \<in> present (reconciles r ns n k w))"
proof -
  let ?w = "reconciles r ns n k w"
  let ?net = "netOf ?w"
  have three: "k = Suc (Suc (Suc (k - 3)))" using k by simp
  have s: "settled (Lib r) ?net"
    using creation_env.reconciles_settled[OF create w, of "k - 3"] unfolding three[symmetric] .
  have "consistent ?net (present ?w)" by (rule creation_env.reconciles_consistent[OF create w])
  with recorded_kinds[OF settled_recorded[OF s]]
  have p: "(VPCKind, rs_ID (vpcStatus ?net)) \<in> present ?w" "(SubnetKind, rs_ID (subnetStatus ?net)) \<in> present ?w"
    unfolding consistent_def by (metis entry.simps)+
  from s lib have "settled (BLib b) ?net" by simp
  from propagation_env.Bootstrap_ok[OF hand this w'] obtain w2 where
    run: "Bootstrap_Reconcile b ns' cn ?w = (Ret (requeueAfter (10 * Minute)) None, w2)" and
    sv: "served configOf ?net (targets ns' cn uid refs metas) w2" by blast
  show ?thesis
  proof (intro exI[of _ w2] conjI ballI)
    show "Bootstrap_Reconcile b ns' cn ?w = (Ret (requeueAfter (10 * Minute)) None, w2)" by (rule run)
  next
    fix c assume "c \<in> set (targets ns' cn uid refs metas)"
    from served_ids[OF sv this] p
    show "\<exists>config v s. configOf w2 c = Some config \<and>
       topField (u_Object config) ''vpcId'' = Some (VString v) \<and> (VPCKind, v) \<in> present ?w \<and>
       topField (u_Object config) ''subnetId'' = Some (VString s) \<and> (SubnetKind, s) \<in> present ?w" by blast
  qed
qed

abbreviation "teamWorld \<equiv> freshWorld ''c-network'' (sampleCluster samplePools) sampleConfigs"
abbreviation "teamRun \<equiv> reconciles memReconciler ''fleet'' ''c-network'' 3 teamWorld"

theorem managed_network_reaches_machines_witness:
  "\<exists>w' config v. Bootstrap_Reconcile sampleBootstrap ''fleet'' ''c'' teamRun = (Ret (requeueAfter (10 * Minute)) None, w') \<and>
     memConfig w' ''z'' = Some config \<and> topField (u_Object config) ''vpcId'' = Some (VString v) \<and> (VPCKind, v) \<in> memPresent teamRun"
proof -
  have c: "isObj ''fleet'' ''c'' (sampleCluster samplePools)" by (simp add: isObj_def sampleCluster_def zeroMeta_def)
  note live = memLive_freshWorld[OF c, of "''c-network''" sampleConfigs]
  from mem_creation.reconciles_good[OF live, of 3] have g: "memLive ''c-network'' (sampleCluster samplePools) sampleConfigs teamRun" .
  have "bootstrapName refLib (sampleCluster samplePools) = ''c-network''" by code_simp
  with g have h: "memHandover (memNet teamRun) teamRun"
    by (auto simp: memHandover_def memState_def memCluster_def sampleCluster_def sampleConfig_def zeroMeta_def intro!: exI[of _ Map.empty])
  have t: "targets ''fleet'' ''c'' '''' [''a''] (map u_Meta sampleConfigs) = [''a'', ''z'']" by code_simp
  have l: "BLib sampleBootstrap = Lib memReconciler" by (simp add: sampleBootstrap_simps memReconciler_simps)
  from managed_network_reaches_machines[OF mem_creation.creation_env_axioms live order.refl mem_handover.propagation_env_axioms h l]
  show ?thesis unfolding t by auto
qed

end
